(* ===== verification/Irl_Prelude.thy ===== *)
theory Irl_Prelude
  imports
    Main
    "HOL-Library.Word"
    "HOL-Library.Char_ord"
    "HOL-Library.List_Lexorder"
begin

text \<open>
  Shared vocabulary of the development: the machine types of the Rust sources
  as HOL types, casts between them, byte views of strings and words, the
  generic run of a step function over a list of events with the locale that
  lifts a one-step invariant to runs, and the collections of simplification
  rules the component theories extend.
\<close>

named_theorems io_simps \<open>equations of the request monad and its primitives\<close>
named_theorems demo_simps \<open>components of the concrete instances\<close>
named_theorems text_simps \<open>equations of the string functions\<close>

section \<open>Machine types\<close>

type_synonym byte = "8 word"
type_synonym u8 = "8 word"
type_synonym u32 = "32 word"
type_synonym u64 = "64 word"
type_synonym uuid = "128 word"

text \<open>
  An \<open>i64\<close> is an \<open>int\<close>; every operation of the sources that can leave the range
  is written with \<open>i64_wrap\<close> (release builds wrap), and the \<open>as\<close> casts are the
  two's-complement readings.
\<close>

definition i64_wrap :: "int \<Rightarrow> int" where
  "i64_wrap i = sint (word_of_int i :: u64)"

definition u64_as_i64 :: "u64 \<Rightarrow> int" where
  "u64_as_i64 w = sint w"

definition i64_as_u64 :: "int \<Rightarrow> u64" where
  "i64_as_u64 i = word_of_int i"

definition i64_min :: int where "i64_min = - (2 ^ 63)"
definition i64_max :: int where "i64_max = 2 ^ 63 - 1"

lemma i64_wrap_id: "i64_min \<le> i \<Longrightarrow> i \<le> i64_max \<Longrightarrow> i64_wrap i = i"
  by (simp add: i64_wrap_def i64_min_def i64_max_def int_word_sint)

lemma i64_wrap_range: "i64_min \<le> i64_wrap i \<and> i64_wrap i \<le> i64_max"
proof -
  have "sint (word_of_int i :: u64) < 2 ^ 63"
    using sint_less [of "word_of_int i :: u64"] by simp
  moreover have "- (2 ^ 63) \<le> sint (word_of_int i :: u64)"
    using sint_ge [of "word_of_int i :: u64"] by simp
  ultimately show ?thesis
    by (simp add: i64_wrap_def i64_min_def i64_max_def)
qed

lemma i64_as_u64_as_i64 [simp]: "i64_as_u64 (u64_as_i64 w) = w"
  by (simp add: i64_as_u64_def u64_as_i64_def)

lemma sint_u64_small: "uint (w :: u64) < 2 ^ 63 \<Longrightarrow> sint w = uint w"
proof -
  assume small: "uint w < 2 ^ 63"
  have "sint w = signed_take_bit 63 (uint w)" by (simp add: sint_uint)
  also have "\<dots> = uint w"
    by (rule signed_take_bit_int_eq_self) (use small in \<open>auto intro: order_trans [of _ 0]\<close>)
  finally show ?thesis .
qed

lemma uint_less_if_unat_less: "unat (w :: u64) < 2 ^ 63 \<Longrightarrow> uint w < 2 ^ 63"
  by (metis of_nat_less_iff of_nat_numeral of_nat_power uint_nat)

lemma u64_as_i64_small: "unat w < 2 ^ 63 \<Longrightarrow> u64_as_i64 w = int (unat w)"
  using sint_u64_small [OF uint_less_if_unat_less, of w] by (simp add: u64_as_i64_def)

section \<open>Bytes of strings and words\<close>

text \<open>A Rust \<open>String\<close> is its UTF-8 bytes; a HOL \<open>char\<close> is one of them.\<close>

definition as_bytes :: "string \<Rightarrow> byte list" where
  "as_bytes s = map of_char s"

lemma as_bytes_append [simp]: "as_bytes (s @ t) = as_bytes s @ as_bytes t"
  by (simp add: as_bytes_def)

lemma length_as_bytes [simp]: "length (as_bytes s) = length s"
  by (simp add: as_bytes_def)

lemma of_char_byte_inj: "inj (of_char :: char \<Rightarrow> byte)"
proof (rule injI)
  fix c d :: char
  assume "(of_char c :: byte) = of_char d"
  then have "unat (of_char c :: byte) = unat (of_char d :: byte)" by simp
  moreover have "unat (of_char e :: byte) = of_char e" for e :: char
  proof -
    have "(of_char e :: byte) = word_of_nat (of_char e)"
      by (rule of_nat_of_char [symmetric])
    moreover have "(of_char e :: nat) < 256" by simp
    ultimately show ?thesis
      by (simp only: unat_of_nat) (simp add: take_bit_nat_eq_self)
  qed
  ultimately have "(of_char c :: nat) = of_char d" by simp
  then show "c = d" by simp
qed

lemma as_bytes_inj [simp]: "as_bytes s = as_bytes t \<longleftrightarrow> s = t"
  unfolding as_bytes_def by (rule inj_map_eq_map [OF of_char_byte_inj])

text \<open>\<open>to_be_bytes\<close> and \<open>to_le_bytes\<close> of a \<open>u64\<close>.\<close>

definition u64_to_be_bytes :: "u64 \<Rightarrow> byte list" where
  "u64_to_be_bytes w =
     [ucast (drop_bit 56 w), ucast (drop_bit 48 w), ucast (drop_bit 40 w), ucast (drop_bit 32 w),
      ucast (drop_bit 24 w), ucast (drop_bit 16 w), ucast (drop_bit 8 w), ucast w]"

definition u64_to_le_bytes :: "u64 \<Rightarrow> byte list" where
  "u64_to_le_bytes w = rev (u64_to_be_bytes w)"

lemma ucast_drop_bit_eq_bits:
  fixes v w :: u64
  assumes "(ucast (drop_bit k v) :: byte) = ucast (drop_bit k w)" and "k \<le> n" and "n < k + 8"
    and "n < 64"
  shows "bit v n = bit w n"
proof -
  have "bit (ucast (drop_bit k v) :: byte) (n - k) = bit (ucast (drop_bit k w) :: byte) (n - k)"
    using assms(1) by simp
  moreover have "n - k < 8" using assms(2,3) by simp
  ultimately show ?thesis using assms(2,4) by (simp add: bit_ucast_iff bit_drop_bit_eq)
qed

lemma u64_to_be_bytes_inj [simp]: "u64_to_be_bytes v = u64_to_be_bytes w \<longleftrightarrow> v = w"
proof
  assume eq: "u64_to_be_bytes v = u64_to_be_bytes w"
  show "v = w"
  proof (rule bit_word_eqI)
    fix n assume n: "n < LENGTH(64)"
    then have "n div 8 < 8" by (simp add: div_less_iff_less_mult)
    then have "n div 8 \<in> {0, 1, 2, 3, 4, 5, 6, 7}" by auto
    then have "(ucast (drop_bit (8 * (n div 8)) v) :: byte) = ucast (drop_bit (8 * (n div 8)) w)"
      using eq by (auto simp: u64_to_be_bytes_def)
    then show "bit v n = bit w n"
    proof (rule ucast_drop_bit_eq_bits)
      show "8 * (n div 8) \<le> n" by simp
      show "n < 8 * (n div 8) + 8"
        using mult_div_mod_eq [of 8 n] mod_less_divisor [of 8 n] by linarith
      show "n < 64" using n by simp
    qed
  qed
qed simp

lemma length_u64_to_be_bytes [simp]: "length (u64_to_be_bytes w) = 8"
  by (simp add: u64_to_be_bytes_def)

section \<open>Results\<close>

text \<open>
  \<open>Result<T, E>\<close> is a sum, \<open>Inl\<close> the error. \<open>res_bind\<close> is the \<open>?\<close> operator,
  \<open>res_map_err\<close> is \<open>map_err\<close>, \<open>collect_res\<close> the \<open>collect\<close> of an iterator of results
  into a result of a vector, which stops at the first error.
\<close>

fun res_bind :: "'e + 'a \<Rightarrow> ('a \<Rightarrow> 'e + 'b) \<Rightarrow> 'e + 'b" where
  "res_bind (Inl e) f = Inl e"
| "res_bind (Inr x) f = f x"

fun res_map_err :: "('e \<Rightarrow> 'f) \<Rightarrow> 'e + 'a \<Rightarrow> 'f + 'a" where
  "res_map_err f (Inl e) = Inl (f e)"
| "res_map_err f (Inr x) = Inr x"

fun is_ok :: "'e + 'a \<Rightarrow> bool" where
  "is_ok (Inl _) = False"
| "is_ok (Inr _) = True"

lemma is_ok_iff: "is_ok r \<longleftrightarrow> (\<exists>x. r = Inr x)"
  by (cases r) auto

fun ok_or :: "'e \<Rightarrow> 'a option \<Rightarrow> 'e + 'a" where
  "ok_or e None = Inl e"
| "ok_or e (Some x) = Inr x"

fun collect_res :: "('e + 'a) list \<Rightarrow> 'e + 'a list" where
  "collect_res [] = Inr []"
| "collect_res (x # xs) = res_bind x (\<lambda>y. res_bind (collect_res xs) (\<lambda>ys. Inr (y # ys)))"

lemma res_bind_cong [fundef_cong]:
  "x = y \<Longrightarrow> (\<And>z. y = Inr z \<Longrightarrow> f z = g z) \<Longrightarrow> res_bind x f = res_bind y g"
  by (cases y) auto

lemma res_bind_Inr_iff: "res_bind x f = Inr y \<longleftrightarrow> (\<exists>z. x = Inr z \<and> f z = Inr y)"
  by (cases x) auto

lemma res_map_err_Inr_iff [simp]: "res_map_err f x = Inr y \<longleftrightarrow> x = Inr y"
  by (cases x) auto

lemma ok_or_Inr_iff [simp]: "ok_or e x = Inr y \<longleftrightarrow> x = Some y"
  by (cases x) auto

lemma collect_res_Inr_iff: "collect_res xs = Inr ys \<longleftrightarrow> xs = map Inr ys"
  by (induction xs arbitrary: ys) (auto simp: res_bind_Inr_iff)

lemma collect_res_total:
  "(\<And>x. x \<in> set xs \<Longrightarrow> \<exists>y. f x = Inr y) \<Longrightarrow> \<exists>ys. collect_res (map f xs) = Inr ys"
  by (induction xs) (force simp: res_bind_Inr_iff)+

section \<open>Runs of a step function\<close>

text \<open>
  A component driven by a list of requests: \<open>run_log\<close> threads the state through
  the requests and keeps every output, so a property of the whole history can be
  stated over the pairs of request and output.
\<close>

fun run_log :: "('e \<Rightarrow> 's \<Rightarrow> 'o \<times> 's) \<Rightarrow> 'e list \<Rightarrow> 's \<Rightarrow> ('e \<times> 'o) list \<times> 's" where
  "run_log step [] s = ([], s)"
| "run_log step (e # es) s =
     (let (out, s') = step e s; (log, s'') = run_log step es s' in ((e, out) # log, s''))"

locale step_invariant =
  fixes step :: "'e \<Rightarrow> 's \<Rightarrow> 'o \<times> 's"
    and inv :: "'s \<Rightarrow> bool"
  assumes step_inv: "inv s \<Longrightarrow> inv (snd (step e s))"
begin

lemma run_inv: "inv s \<Longrightarrow> inv (snd (run_log step es s))"
proof (induction es arbitrary: s)
  case Nil
  then show ?case by simp
next
  case (Cons e es)
  then have "inv (snd (run_log step es (snd (step e s))))" by (simp add: step_inv)
  then show ?case by (simp add: split_beta)
qed

end

text \<open>
  The accepted keys of a component that admits a request only above a per-client
  watermark and then raises the watermark to the accepted key: in every history
  the keys accepted for one client are strictly increasing.
\<close>

locale watermark =
  fixes step :: "'e \<Rightarrow> 's \<Rightarrow> 'o \<times> 's"
    and accepted :: "'o \<Rightarrow> bool"
    and client :: "'e \<Rightarrow> 'c"
    and key :: "'e \<Rightarrow> 'k :: linorder"
    and mark :: "'s \<Rightarrow> 'c \<Rightarrow> 'k"
  assumes accept_above: "accepted (fst (step e s)) \<Longrightarrow> mark s (client e) < key e"
    and accept_mark: "accepted (fst (step e s)) \<Longrightarrow>
          mark (snd (step e s)) = (mark s)(client e := key e)"
    and reject_mark: "\<not> accepted (fst (step e s)) \<Longrightarrow> mark (snd (step e s)) = mark s"
begin

lemma log_above_mark:
  assumes "(e, out) \<in> set (fst (run_log step es s))" and "accepted out" and "client e = c"
  shows "mark s c < key e"
  using assms(1)
proof (induction es arbitrary: s)
  case Nil
  then show ?case by simp
next
  case (Cons e' es)
  have le: "mark s c \<le> mark (snd (step e' s)) c"
    using accept_above [of e' s] accept_mark [of e' s] reject_mark [of e' s]
    by (cases "accepted (fst (step e' s))") auto
  from Cons.prems consider "e = e'" "out = fst (step e' s)"
    | "(e, out) \<in> set (fst (run_log step es (snd (step e' s))))"
    by (auto simp: split_beta)
  then show ?case
  proof cases
    case 1
    then show ?thesis using accept_above [of e' s] assms(2,3) by simp
  next
    case 2
    then have "mark (snd (step e' s)) c < key e" by (rule Cons.IH)
    with le show ?thesis by simp
  qed
qed

lemma accepted_increasing:
  "sorted_wrt (<) (map (\<lambda>(e, out). key e)
     (filter (\<lambda>(e, out). client e = c \<and> accepted out) (fst (run_log step es s))))"
proof (induction es arbitrary: s)
  case Nil
  then show ?case by simp
next
  case (Cons e es)
  have "key e < key e'"
    if "client e = c" "accepted (fst (step e s))"
      "(e', out) \<in> set (fst (run_log step es (snd (step e s))))" "client e' = c" "accepted out"
    for e' out
    using log_above_mark [OF that(3) that(5) that(4)] accept_mark [OF that(2)] that(1) by simp
  with Cons.IH [of "snd (step e s)"] show ?case by (auto simp: split_beta)
qed

end

section \<open>Tables that only grow\<close>

text \<open>What happened to the stored rows: \<open>P\<close> relates an old row to its present form; rows are only added.\<close>

definition rows_evolve :: "('r \<Rightarrow> 'r \<Rightarrow> bool) \<Rightarrow> 'r list \<Rightarrow> 'r list \<Rightarrow> bool" where
  "rows_evolve P rows rows' \<longleftrightarrow> (\<exists>old new. rows' = old @ new \<and> list_all2 P rows old)"

locale row_evolution =
  fixes P :: "'r \<Rightarrow> 'r \<Rightarrow> bool"
  assumes P_refl: "P r r"
    and P_trans: "P x y \<Longrightarrow> P y z \<Longrightarrow> P x z"
begin

lemma evolve_append: "rows_evolve P rows (rows @ new)"
  unfolding rows_evolve_def by (rule exI [of _ rows]) (simp add: list_all2_refl P_refl)

lemma evolve_refl: "rows_evolve P rows rows"
  using evolve_append [of rows "[]"] by simp

lemma evolve_map: "(\<And>r. r \<in> set rows \<Longrightarrow> P r (f r)) \<Longrightarrow> rows_evolve P rows (map f rows)"
  unfolding rows_evolve_def
  by (rule exI [of _ "map f rows"]) (simp add: list_all2_map2 list.rel_refl_strong)

lemma evolve_trans:
  assumes "rows_evolve P r1 r2" and "rows_evolve P r2 r3"
  shows "rows_evolve P r1 r3"
proof -
  obtain o1 n1 where 1: "r2 = o1 @ n1" "list_all2 P r1 o1"
    using assms(1) by (auto simp: rows_evolve_def)
  obtain o2 n2 where 2: "r3 = o2 @ n2" "list_all2 P (o1 @ n1) o2"
    using assms(2) 1(1) by (auto simp: rows_evolve_def)
  obtain a b where ab: "o2 = a @ b" "list_all2 P o1 a" using 2(2) by (auto simp: list_all2_append1)
  have "list_all2 P r1 a" by (rule list_all2_trans [OF P_trans 1(2) ab(2)])
  then show ?thesis using 2 ab by (auto simp: rows_evolve_def)
qed

text \<open>Every old row is still there, related to its old form.\<close>

lemma evolve_nth:
  "rows_evolve P rows rows' \<Longrightarrow> k < length rows \<Longrightarrow> k < length rows' \<and> P (rows ! k) (rows' ! k)"
  by (auto simp: rows_evolve_def list_all2_conv_all_nth nth_append)

end

end
