(* ===== verification/Irl_Float.thy ===== *)
theory Irl_Float
  imports Complex_Main Irl_Prelude
begin

text \<open>
  The \<open>f64\<close> of the sources: IEEE 754 binary64 with its special values, over
  exact rationals rounded to nearest, ties to even. Only the operations the
  sources use are here: sum, difference, product, quotient, absolute value,
  negation, comparison and \<open>to_bits\<close>.
\<close>

datatype f64 = Finite rat | NegZero | Infinite bool | NaN

text \<open>\<open>Infinite True\<close> is minus infinity. \<open>Finite 0\<close> is the positive zero.\<close>

definition pow2 :: "int \<Rightarrow> rat" where
  "pow2 e = (if 0 \<le> e then 2 ^ nat e else 1 / 2 ^ nat (- e))"

function int_bitlen :: "int \<Rightarrow> int" where
  "int_bitlen n = (if n \<le> 0 then 0 else 1 + int_bitlen (n div 2))"
  by pat_completeness auto
termination
  by (relation "measure nat") auto

declare int_bitlen.simps [simp del]

definition rat_ilog2 :: "rat \<Rightarrow> int" where
  "rat_ilog2 x =
     (let (p, q) = quotient_of x;
          e = int_bitlen p - int_bitlen q
      in if pow2 e \<le> x then e else e - 1)"

definition round_half_even :: "rat \<Rightarrow> int" where
  "round_half_even x =
     (let f = \<lfloor>x\<rfloor>; d = x - of_int f
      in if d < 1 / 2 then f else if 1 / 2 < d then f + 1 else if even f then f else f + 1)"

definition f64_ulp_exp :: "rat \<Rightarrow> int" where
  "f64_ulp_exp q = max (rat_ilog2 \<bar>q\<bar> - 52) (- 1074)"

definition f64_zero :: "bool \<Rightarrow> f64" where
  "f64_zero s = (if s then NegZero else Finite 0)"

text \<open>The sign argument decides the sign of a zero result (exact or by underflow).\<close>

definition f64_round :: "bool \<Rightarrow> rat \<Rightarrow> f64" where
  "f64_round s q =
     (if q = 0 then f64_zero s
      else let e = f64_ulp_exp q; m = round_half_even (q / pow2 e); r = of_int m * pow2 e
           in if 1024 \<le> rat_ilog2 \<bar>r\<bar> then Infinite (q < 0)
              else if m = 0 then f64_zero s else Finite r)"

fun f64_val :: "f64 \<Rightarrow> rat" where
  "f64_val (Finite q) = q"
| "f64_val _ = 0"

fun f64_sign :: "f64 \<Rightarrow> bool" where
  "f64_sign (Finite q) = (q < 0)"
| "f64_sign NegZero = True"
| "f64_sign (Infinite s) = s"
| "f64_sign NaN = False"

fun f64_finite :: "f64 \<Rightarrow> bool" where
  "f64_finite (Finite q) = True"
| "f64_finite NegZero = True"
| "f64_finite _ = False"

fun f64_neg :: "f64 \<Rightarrow> f64" where
  "f64_neg (Finite q) = (if q = 0 then NegZero else Finite (- q))"
| "f64_neg NegZero = Finite 0"
| "f64_neg (Infinite s) = Infinite (\<not> s)"
| "f64_neg NaN = NaN"

fun f64_abs :: "f64 \<Rightarrow> f64" where
  "f64_abs (Finite q) = Finite \<bar>q\<bar>"
| "f64_abs NegZero = Finite 0"
| "f64_abs (Infinite s) = Infinite False"
| "f64_abs NaN = NaN"

fun f64_add :: "f64 \<Rightarrow> f64 \<Rightarrow> f64" where
  "f64_add NaN _ = NaN"
| "f64_add _ NaN = NaN"
| "f64_add (Infinite s) (Infinite t) = (if s = t then Infinite s else NaN)"
| "f64_add (Infinite s) _ = Infinite s"
| "f64_add _ (Infinite t) = Infinite t"
| "f64_add a b =
     (let q = f64_val a + f64_val b
      in if q = 0 then f64_zero (f64_sign a \<and> f64_sign b) else f64_round (q < 0) q)"

definition f64_sub :: "f64 \<Rightarrow> f64 \<Rightarrow> f64" where
  "f64_sub a b = f64_add a (f64_neg b)"

fun f64_mul :: "f64 \<Rightarrow> f64 \<Rightarrow> f64" where
  "f64_mul NaN _ = NaN"
| "f64_mul _ NaN = NaN"
| "f64_mul (Infinite s) b =
     (if f64_finite b \<and> f64_val b = 0 then NaN else Infinite (s \<noteq> f64_sign b))"
| "f64_mul a (Infinite t) =
     (if f64_val a = 0 then NaN else Infinite (f64_sign a \<noteq> t))"
| "f64_mul a b = f64_round (f64_sign a \<noteq> f64_sign b) (f64_val a * f64_val b)"

fun f64_div :: "f64 \<Rightarrow> f64 \<Rightarrow> f64" where
  "f64_div NaN _ = NaN"
| "f64_div _ NaN = NaN"
| "f64_div (Infinite s) (Infinite t) = NaN"
| "f64_div (Infinite s) b = Infinite (s \<noteq> f64_sign b)"
| "f64_div a (Infinite t) = f64_zero (f64_sign a \<noteq> t)"
| "f64_div a b =
     (if f64_val b = 0 then (if f64_val a = 0 then NaN else Infinite (f64_sign a \<noteq> f64_sign b))
      else f64_round (f64_sign a \<noteq> f64_sign b) (f64_val a / f64_val b))"

fun f64_less :: "f64 \<Rightarrow> f64 \<Rightarrow> bool" where
  "f64_less NaN _ = False"
| "f64_less _ NaN = False"
| "f64_less (Infinite s) (Infinite t) = (s \<and> \<not> t)"
| "f64_less (Infinite s) _ = s"
| "f64_less _ (Infinite t) = (\<not> t)"
| "f64_less a b = (f64_val a < f64_val b)"

fun f64_is_zero :: "f64 \<Rightarrow> bool" where
  "f64_is_zero (Finite q) = (q = 0)"
| "f64_is_zero NegZero = True"
| "f64_is_zero _ = False"

definition f64_of_int :: "int \<Rightarrow> f64" where
  "f64_of_int n = f64_round False (of_int n)"

definition f64_to_bits :: "f64 \<Rightarrow> u64" where
  "f64_to_bits x =
     (case x of
        NaN \<Rightarrow> 0x7FF8000000000000
      | NegZero \<Rightarrow> 0x8000000000000000
      | Infinite s \<Rightarrow> if s then 0xFFF0000000000000 else 0x7FF0000000000000
      | Finite q \<Rightarrow>
          if q = 0 then 0
          else let a = \<bar>q\<bar>; e = rat_ilog2 a; s = (if q < 0 then 2 ^ 63 else 0)
               in if e < - 1022 then word_of_int (s + \<lfloor>a / pow2 (- 1074)\<rfloor>)
                  else word_of_int (s + (e + 1023) * 2 ^ 52 + (\<lfloor>a / pow2 (e - 52)\<rfloor> - 2 ^ 52)))"

section \<open>Powers of two and rounding\<close>

lemma pow2_pos [simp]: "0 < pow2 e"
  by (simp add: pow2_def)

lemma pow2_nonneg [simp]: "0 \<le> pow2 e"
  using pow2_pos [of e] by linarith

lemma pow2_ne_0 [simp]: "pow2 e \<noteq> 0"
  using pow2_pos [of e] by linarith

lemma pow2_eq_powi: "pow2 e = 2 powi e"
  by (simp add: pow2_def power_int_def inverse_eq_divide power_one_over)

lemma pow2_add: "pow2 (a + b) = pow2 a * pow2 b"
  by (simp add: pow2_eq_powi power_int_add)

lemma pow2_diff: "pow2 (a - b) = pow2 a / pow2 b"
  by (simp add: pow2_eq_powi power_int_diff)

lemma pow2_Suc: "pow2 (1 + e) = 2 * pow2 e"
  by (simp add: pow2_add) (simp add: pow2_def)

lemma int_bitlen_nonneg: "0 \<le> int_bitlen n"
proof (induction n rule: int_bitlen.induct)
  case (1 n)
  then show ?case by (subst int_bitlen.simps) auto
qed

lemma int_le_pow2_if_less:
  assumes "of_int n < pow2 e" and "0 \<le> e"
  shows "of_int (n + 1) \<le> pow2 e"
proof -
  have "pow2 e = of_int (2 ^ nat e)" using assms(2) by (simp add: pow2_def)
  with assms(1) have "n < 2 ^ nat e" by (simp only: of_int_less_iff)
  then have "n + 1 \<le> 2 ^ nat e" by simp
  with \<open>pow2 e = of_int (2 ^ nat e)\<close> show ?thesis by (simp only: of_int_le_iff)
qed

lemma int_bitlen_upper: "of_int n < pow2 (int_bitlen n)"
proof (induction n rule: int_bitlen.induct)
  case (1 n)
  show ?case
  proof (cases "n \<le> 0")
    case True
    then show ?thesis
      by (simp add: int_bitlen.simps [of n] pow2_def)
  next
    case False
    then have len: "int_bitlen n = 1 + int_bitlen (n div 2)" by (simp add: int_bitlen.simps [of n])
    from 1 False have "of_int (n div 2) < pow2 (int_bitlen (n div 2))" by simp
    then have "of_int (n div 2 + 1) \<le> pow2 (int_bitlen (n div 2))"
      by (rule int_le_pow2_if_less) (simp add: int_bitlen_nonneg)
    then have "of_int (2 * (n div 2 + 1)) \<le> pow2 (int_bitlen n)"
      by (simp only: len pow2_Suc of_int_mult) simp
    moreover have "n < 2 * (n div 2 + 1)" by presburger
    ultimately show ?thesis by (metis of_int_less_iff order_less_le_trans)
  qed
qed

lemma int_bitlen_lower: "0 < n \<Longrightarrow> pow2 (int_bitlen n - 1) \<le> of_int n"
proof (induction n rule: int_bitlen.induct)
  case (1 n)
  then have len: "int_bitlen n = 1 + int_bitlen (n div 2)" by (simp add: int_bitlen.simps [of n])
  show ?case
  proof (cases "n = 1")
    case True
    then show ?thesis by (simp add: len int_bitlen.simps pow2_def)
  next
    case False
    with 1 have "pow2 (int_bitlen (n div 2) - 1) \<le> of_int (n div 2)" by simp
    then have "2 * pow2 (int_bitlen (n div 2) - 1) \<le> of_int (2 * (n div 2))" by simp
    moreover have "pow2 (int_bitlen n - 1) = 2 * pow2 (int_bitlen (n div 2) - 1)"
      using pow2_Suc [of "int_bitlen (n div 2) - 1"] by (simp add: len)
    moreover have "2 * (n div 2) \<le> n" by simp
    ultimately show ?thesis by (metis of_int_le_iff order_trans)
  qed
qed

lemma pow2_rat_ilog2_le:
  assumes "0 < x"
  shows "pow2 (rat_ilog2 x) \<le> x"
proof -
  obtain p q where pq: "quotient_of x = (p, q)" by force
  have q: "0 < q" using pq by (rule quotient_of_denom_pos)
  have x: "x = of_int p / of_int q" using pq by (rule quotient_of_div)
  have p: "0 < p" using assms q x by (simp add: zero_less_divide_iff)
  have "pow2 (int_bitlen p - 1) / pow2 (int_bitlen q) \<le> of_int p / of_int q"
    using p q int_bitlen_lower [OF p] int_bitlen_upper [of q] by (intro frac_le) auto
  moreover have "int_bitlen p - int_bitlen q - 1 = (int_bitlen p - 1) - int_bitlen q" by simp
  ultimately have "pow2 (int_bitlen p - int_bitlen q - 1) \<le> x"
    unfolding x by (simp only: pow2_diff)
  then show ?thesis by (simp add: rat_ilog2_def pq Let_def)
qed

lemma round_half_even_error: "\<bar>of_int (round_half_even x) - x\<bar> \<le> 1 / 2"
  unfolding round_half_even_def Let_def
  using of_int_floor_le [of x] floor_correct [of x]
  by (auto simp: abs_if not_less simp del: of_int_floor_le)

text \<open>The rounding error of a finite result is at most half a unit in the last place.\<close>

lemma f64_round_error_ulp:
  assumes "f64_round s q = Finite r" and "q \<noteq> 0" and "r \<noteq> 0"
  shows "\<bar>r - q\<bar> \<le> pow2 (f64_ulp_exp q) / 2"
proof -
  let ?u = "pow2 (f64_ulp_exp q)" and ?m = "round_half_even (q / pow2 (f64_ulp_exp q))"
  have r: "r = of_int ?m * ?u"
    using assms by (auto simp: f64_round_def f64_zero_def Let_def split: if_splits)
  have "r - q = (of_int ?m - q / ?u) * ?u"
    by (simp add: r algebra_simps)
  then have "\<bar>r - q\<bar> = \<bar>of_int ?m - q / ?u\<bar> * ?u"
    by (simp only: abs_mult abs_of_pos [OF pow2_pos])
  also have "\<dots> \<le> 1 / 2 * ?u"
    by (rule mult_right_mono [OF round_half_even_error]) (simp add: less_imp_le)
  finally show ?thesis by simp
qed

lemma f64_round_relative_error:
  assumes "f64_round s q = Finite r" and "r \<noteq> 0" and "pow2 (- 1022) \<le> \<bar>q\<bar>"
  shows "\<bar>r - q\<bar> \<le> \<bar>q\<bar> * pow2 (- 53)"
proof -
  have "0 < \<bar>q\<bar>" using assms(3) pow2_pos [of "- 1022"] by linarith
  then have q: "q \<noteq> 0" by simp
  have "pow2 (f64_ulp_exp q) \<le> \<bar>q\<bar> * pow2 (- 52)"
  proof (cases "- 1074 \<le> rat_ilog2 \<bar>q\<bar> - 52")
    case True
    then have "f64_ulp_exp q = rat_ilog2 \<bar>q\<bar> - 52" by (simp add: f64_ulp_exp_def)
    then have "pow2 (f64_ulp_exp q) = pow2 (rat_ilog2 \<bar>q\<bar>) * pow2 (- 52)"
      using pow2_add [of "rat_ilog2 \<bar>q\<bar>" "- 52"] by simp
    then show ?thesis using pow2_rat_ilog2_le [of "\<bar>q\<bar>"] q by (simp add: mult_right_mono less_imp_le)
  next
    case False
    then have "pow2 (f64_ulp_exp q) = pow2 (- 1022) * pow2 (- 52)"
      using pow2_add [of "- 1022" "- 52"] by (simp add: f64_ulp_exp_def)
    then show ?thesis using assms(3) by (simp add: mult_right_mono less_imp_le)
  qed
  moreover have "\<bar>q\<bar> * pow2 (- 52) = 2 * (\<bar>q\<bar> * pow2 (- 53))" by (simp add: pow2_def)
  ultimately have "pow2 (f64_ulp_exp q) / 2 \<le> \<bar>q\<bar> * pow2 (- 53)" by linarith
  with f64_round_error_ulp [OF assms(1) q assms(2)] show ?thesis by (rule order_trans)
qed

section \<open>Comparison\<close>

lemma f64_less_finite [simp]:
  "f64_finite a \<Longrightarrow> f64_finite b \<Longrightarrow> f64_less a b \<longleftrightarrow> f64_val a < f64_val b"
  by (cases a; cases b) auto

lemma f64_less_irrefl [simp]: "\<not> f64_less a a"
  by (cases a) auto

lemma f64_round_0 [simp]: "f64_round s 0 = f64_zero s"
  by (simp add: f64_round_def)

lemma f64_val_zero [simp]: "f64_val (f64_zero s) = 0"
  and f64_finite_zero [simp]: "f64_finite (f64_zero s)"
  by (simp_all add: f64_zero_def)

lemma f64_mul_zero:
  "f64_finite a \<Longrightarrow> f64_is_zero b \<Longrightarrow> \<exists>s. f64_mul a b = f64_zero s"
  by (cases a; cases b) auto

section \<open>Rounding stays below a representable bound\<close>

lemma pow2_mono: "a \<le> b \<Longrightarrow> pow2 a \<le> pow2 b"
  by (simp add: pow2_eq_powi power_int_increasing)

lemma pow2_less_imp: "pow2 a < pow2 b \<Longrightarrow> a < b"
  using pow2_mono [of b a] by linarith

lemma rat_ilog2_upper:
  assumes "0 < x"
  shows "x < pow2 (rat_ilog2 x + 1)"
proof -
  obtain p q where pq: "quotient_of x = (p, q)" by force
  have q: "0 < q" using pq by (rule quotient_of_denom_pos)
  have x: "x = of_int p / of_int q" using pq by (rule quotient_of_div)
  have "of_int p / of_int q < pow2 (int_bitlen p) / pow2 (int_bitlen q - 1)"
    using assms q x int_bitlen_lower [OF q] int_bitlen_upper [of p]
    by (intro frac_less) (auto simp: zero_less_divide_iff less_imp_le)
  moreover have "int_bitlen p - int_bitlen q + 1 = int_bitlen p - (int_bitlen q - 1)" by simp
  ultimately have "x < pow2 (int_bitlen p - int_bitlen q + 1)"
    unfolding x by (simp only: pow2_diff)
  then show ?thesis by (simp add: rat_ilog2_def pq Let_def)
qed

lemma rat_ilog2_mono:
  assumes "0 < x" and "x \<le> y"
  shows "rat_ilog2 x \<le> rat_ilog2 y"
proof -
  have "pow2 (rat_ilog2 x) \<le> x" using assms(1) by (rule pow2_rat_ilog2_le)
  also have "x \<le> y" by fact
  also have "y < pow2 (rat_ilog2 y + 1)" using assms by (intro rat_ilog2_upper) simp
  finally show ?thesis using pow2_less_imp by fastforce
qed

lemma round_half_even_le: "x \<le> of_int n \<Longrightarrow> round_half_even x \<le> n"
proof -
  assume x: "x \<le> of_int n"
  show ?thesis
  proof (cases "\<lfloor>x\<rfloor> = n")
    case True
    then have "x = of_int n" using x of_int_floor_le [of x] by simp
    then show ?thesis by (simp add: round_half_even_def)
  next
    case False
    moreover have "\<lfloor>x\<rfloor> \<le> n" using x by (simp add: floor_le_iff)
    ultimately show ?thesis by (simp add: round_half_even_def Let_def)
  qed
qed

lemma round_half_even_nonneg: "0 \<le> x \<Longrightarrow> 0 \<le> round_half_even x"
  by (simp add: round_half_even_def Let_def)

text \<open>A bound that is itself a value of the format is not crossed by rounding.\<close>

lemma f64_round_le_representable:
  assumes r: "f64_round False r = Finite r" and q: "0 \<le> q" "q \<le> r"
  shows "f64_finite (f64_round s q) \<and> 0 \<le> f64_val (f64_round s q) \<and> f64_val (f64_round s q) \<le> r"
proof (cases "q = 0")
  case True
  then show ?thesis using q by simp
next
  case False
  with q have q0: "0 < q" and r0: "0 < r" by auto
  define e e' where "e = f64_ulp_exp q" and "e' = f64_ulp_exp r"
  define m m' where "m = round_half_even (q / pow2 e)" and "m' = round_half_even (r / pow2 e')"
  have e: "e \<le> e'"
    using rat_ilog2_mono [OF q0 q(2)] q0 r0 by (simp add: e_def e'_def f64_ulp_exp_def)
  have r_eq: "r = of_int m' * pow2 e'" and r_lt: "rat_ilog2 r < 1024"
    using r r0 by (auto simp: f64_round_def f64_zero_def Let_def e'_def m'_def split: if_splits)
  have "pow2 e' = of_int (2 ^ nat (e' - e)) * pow2 e"
    using pow2_add [of "e' - e" e] e by (simp add: pow2_def)
  then have N: "r = of_int (m' * 2 ^ nat (e' - e)) * pow2 e" using r_eq by simp
  have "q / pow2 e \<le> of_int (m' * 2 ^ nat (e' - e))"
    using q(2) N by (simp only: pos_divide_le_eq [OF pow2_pos])
  then have "m \<le> m' * 2 ^ nat (e' - e)" unfolding m_def by (rule round_half_even_le)
  then have le: "of_int m * pow2 e \<le> r"
    unfolding N by (intro mult_right_mono) (simp_all only: of_int_le_iff pow2_nonneg)
  have m0: "0 \<le> m" unfolding m_def by (rule round_half_even_nonneg) (use q0 in simp)
  then have "m = 0 \<or> 0 < of_int m * pow2 e"
    by (metis mult_pos_pos of_int_0_less_iff order_le_less pow2_pos)
  then have "m = 0 \<or> rat_ilog2 \<bar>of_int m * pow2 e\<bar> < 1024"
    using rat_ilog2_mono [OF _ le] r_lt by force
  moreover have "rat_ilog2 0 < 1024" by code_simp
  ultimately show ?thesis using False le m0 q0 r0
    by (auto simp: f64_round_def Let_def e_def [symmetric] m_def [symmetric])
qed
end
