(* ===== verification/Irl_Text.thy ===== *)
theory Irl_Text
  imports Irl_Prelude "HOL-Library.Sublist"
begin

text \<open>
  The functions of Rust's \<open>str\<close> the sources call, on UTF-8 bytes: ASCII case
  folding, \<open>trim\<close> over the Unicode white space, \<open>contains\<close>, \<open>starts_with\<close>,
  \<open>strip_prefix\<close>, \<open>split\<close>, \<open>splitn(2)\<close> and \<open>join\<close>.
\<close>

definition ascii_lower :: "char \<Rightarrow> char" where
  "ascii_lower c = (if CHR ''A'' \<le> c \<and> c \<le> CHR ''Z'' then char_of (of_char c + (32 :: nat)) else c)"

definition to_ascii_lowercase :: "string \<Rightarrow> string" where
  "to_ascii_lowercase s = map ascii_lower s"

definition eq_ignore_ascii_case :: "string \<Rightarrow> string \<Rightarrow> bool" where
  "eq_ignore_ascii_case s t \<longleftrightarrow> to_ascii_lowercase s = to_ascii_lowercase t"

definition starts_with :: "string \<Rightarrow> string \<Rightarrow> bool" where
  "starts_with s pat \<longleftrightarrow> take (length pat) s = pat"

fun str_contains :: "string \<Rightarrow> string \<Rightarrow> bool" where
  "str_contains [] pat = (pat = [])"
| "str_contains (c # s) pat = (starts_with (c # s) pat \<or> str_contains s pat)"

definition strip_prefix :: "string \<Rightarrow> string \<Rightarrow> string option" where
  "strip_prefix s pat = (if starts_with s pat then Some (drop (length pat) s) else None)"

text \<open>The UTF-8 encodings of the code points with the Unicode property White\_Space.\<close>

definition white_space :: "string list" where
  "white_space =
     [[CHR 0x20], [CHR 0x09], [CHR 0x0A], [CHR 0x0B], [CHR 0x0C], [CHR 0x0D],
      [CHR 0xC2, CHR 0x85], [CHR 0xC2, CHR 0xA0], [CHR 0xE1, CHR 0x9A, CHR 0x80]]
     @ [[CHR 0xE2, CHR 0x80, CHR 0x80], [CHR 0xE2, CHR 0x80, CHR 0x81], [CHR 0xE2, CHR 0x80, CHR 0x82],
      [CHR 0xE2, CHR 0x80, CHR 0x83], [CHR 0xE2, CHR 0x80, CHR 0x84], [CHR 0xE2, CHR 0x80, CHR 0x85],
      [CHR 0xE2, CHR 0x80, CHR 0x86], [CHR 0xE2, CHR 0x80, CHR 0x87], [CHR 0xE2, CHR 0x80, CHR 0x88],
      [CHR 0xE2, CHR 0x80, CHR 0x89], [CHR 0xE2, CHR 0x80, CHR 0x8A],
        [CHR 0xE2, CHR 0x80, CHR 0xA8], [CHR 0xE2, CHR 0x80, CHR 0xA9], [CHR 0xE2, CHR 0x80, CHR 0xAF],
        [CHR 0xE2, CHR 0x81, CHR 0x9F], [CHR 0xE3, CHR 0x80, CHR 0x80]]"

text \<open>One pass over at most \<open>length s\<close> leading patterns; the fuel is the length of the string.\<close>

fun strip_leading :: "string list \<Rightarrow> nat \<Rightarrow> string \<Rightarrow> string" where
  "strip_leading pats 0 s = s"
| "strip_leading pats (Suc n) s =
     (case find (starts_with s) pats of
        None \<Rightarrow> s
      | Some w \<Rightarrow> strip_leading pats n (drop (length w) s))"

definition trim_start :: "string \<Rightarrow> string" where
  "trim_start s = strip_leading white_space (length s) s"

definition trim_end :: "string \<Rightarrow> string" where
  "trim_end s = rev (strip_leading (map rev white_space) (length s) (rev s))"

definition str_trim :: "string \<Rightarrow> string" where
  "str_trim s = trim_end (trim_start s)"

fun str_split :: "char \<Rightarrow> string \<Rightarrow> string list" where
  "str_split d [] = [[]]"
| "str_split d (c # s) =
     (if c = d then [] # str_split d s
      else (case str_split d s of [] \<Rightarrow> [[c]] | p # ps \<Rightarrow> (c # p) # ps))"

definition splitn2 :: "char \<Rightarrow> string \<Rightarrow> string list" where
  "splitn2 d s =
     (let h = takeWhile (\<lambda>c. c \<noteq> d) s
      in if length h = length s then [s] else [h, drop (Suc (length h)) s])"

fun str_join :: "string \<Rightarrow> string list \<Rightarrow> string" where
  "str_join sep [] = []"
| "str_join sep [x] = x"
| "str_join sep (x # y # ys) = x @ sep @ str_join sep (y # ys)"

text \<open>\<open>std::str::from_utf8\<close>: the well-formed byte sequences of the Unicode standard.\<close>

definition utf8_tail :: "byte \<Rightarrow> bool" where
  "utf8_tail b \<longleftrightarrow> 0x80 \<le> b \<and> b \<le> 0xBF"

fun utf8_valid :: "byte list \<Rightarrow> bool" where
  "utf8_valid [] = True"
| "utf8_valid (a # bs) =
     (if a < 0x80 then utf8_valid bs
      else (case bs of
        [] \<Rightarrow> False
      | b # bs1 \<Rightarrow>
          if 0xC2 \<le> a \<and> a \<le> 0xDF then utf8_tail b \<and> utf8_valid bs1
          else (case bs1 of
            [] \<Rightarrow> False
          | c # bs2 \<Rightarrow>
              if 0xE0 \<le> a \<and> a \<le> 0xEF
              then (if a = 0xE0 then 0xA0 \<le> b \<and> b \<le> 0xBF
                    else if a = 0xED then 0x80 \<le> b \<and> b \<le> 0x9F else utf8_tail b)
                   \<and> utf8_tail c \<and> utf8_valid bs2
              else (case bs2 of
                [] \<Rightarrow> False
              | d # bs3 \<Rightarrow>
                  0xF0 \<le> a \<and> a \<le> 0xF4
                  \<and> (if a = 0xF0 then 0x90 \<le> b \<and> b \<le> 0xBF
                     else if a = 0xF4 then 0x80 \<le> b \<and> b \<le> 0x8F else utf8_tail b)
                  \<and> utf8_tail c \<and> utf8_tail d \<and> utf8_valid bs3))))"

definition string_of_bytes :: "byte list \<Rightarrow> string" where
  "string_of_bytes bs = map (\<lambda>b. char_of (unat b)) bs"

section \<open>Facts\<close>

lemma unat_of_char_byte: "unat (of_char e :: byte) = of_char e"
proof -
  have "(of_char e :: byte) = word_of_nat (of_char e)" by (rule of_nat_of_char [symmetric])
  moreover have "(of_char e :: nat) < 256" by simp
  ultimately show ?thesis by (simp only: unat_of_nat) (simp add: take_bit_nat_eq_self)
qed

lemma string_of_as_bytes [simp]: "string_of_bytes (as_bytes s) = s"
  by (simp add: string_of_bytes_def as_bytes_def unat_of_char_byte o_def)

lemma to_ascii_lowercase_append [text_simps]:
  "to_ascii_lowercase (s @ t) = to_ascii_lowercase s @ to_ascii_lowercase t"
  by (simp add: to_ascii_lowercase_def)

lemma length_to_ascii_lowercase [simp]: "length (to_ascii_lowercase s) = length s"
  by (simp add: to_ascii_lowercase_def)

lemma starts_with_append_self [simp]: "starts_with (p @ s) p"
  by (simp add: starts_with_def)

lemma starts_with_iff_prefix: "starts_with s p \<longleftrightarrow> prefix p s"
  by (metis append_eq_conv_conj prefixE prefixI starts_with_def append_take_drop_id)

lemma starts_with_append: "length p \<le> length s \<Longrightarrow> starts_with (s @ t) p = starts_with s p"
  by (simp add: starts_with_def)

lemma str_contains_starts_with: "starts_with s p \<Longrightarrow> str_contains s p"
  by (cases s) (auto simp: starts_with_def)

lemma str_contains_appendI: "str_contains t p \<Longrightarrow> str_contains (s @ t) p"
  by (induction s) auto

lemma eq_ignore_ascii_case_refl [simp]: "eq_ignore_ascii_case s s"
  by (simp add: eq_ignore_ascii_case_def)

lemma white_space_leads:
  "map hd white_space =
     [CHR 0x20, CHR 0x09, CHR 0x0A, CHR 0x0B, CHR 0x0C, CHR 0x0D, CHR 0xC2, CHR 0xC2, CHR 0xE1]
     @ replicate 11 (CHR 0xE2) @ [CHR 0xE2, CHR 0xE2, CHR 0xE2, CHR 0xE2, CHR 0xE3]"
  by code_simp

lemma white_space_lasts:
  "list_all (\<lambda>w. w \<noteq> [] \<and> last w \<notin> set ''abcdefghijklmnopqrstuvwxyz()_'') white_space
   \<and> list_all (\<lambda>w. w \<noteq> [] \<and> hd w \<notin> set ''abcdefghijklmnopqrstuvwxyz()_'') white_space"
  by code_simp

lemma find_none_first:
  assumes "list_all (\<lambda>w. w \<noteq> [] \<and> hd w \<noteq> c) pats"
  shows "find (starts_with (c # s)) pats = None"
proof -
  have "\<not> starts_with (c # s) w" if "w \<in> set pats" for w
    using assms that by (cases w) (auto simp: starts_with_def list_all_iff)
  then show ?thesis by (simp add: find_None_iff)
qed

text \<open>A string that starts and ends in a lower-case letter or a bracket is its own trim.\<close>

lemma trim_start_plain:
  assumes "c \<in> set ''abcdefghijklmnopqrstuvwxyz()_''"
  shows "trim_start (c # s) = c # s"
proof -
  have "list_all (\<lambda>w. w \<noteq> [] \<and> hd w \<noteq> c) white_space"
    using white_space_lasts assms by (auto simp: list_all_iff)
  then show ?thesis by (simp add: trim_start_def find_none_first)
qed

lemma trim_end_plain:
  assumes "c \<in> set ''abcdefghijklmnopqrstuvwxyz()_''"
  shows "trim_end (s @ [c]) = s @ [c]"
proof -
  have "list_all (\<lambda>w. w \<noteq> [] \<and> hd w \<noteq> c) (map rev white_space)"
    using white_space_lasts assms by (auto simp: list_all_iff hd_rev)
  then show ?thesis by (simp add: trim_end_def find_none_first)
qed

lemma str_trim_plain:
  assumes "c \<in> set ''abcdefghijklmnopqrstuvwxyz()_''" and "d \<in> set ''abcdefghijklmnopqrstuvwxyz()_''"
  shows "str_trim (c # s @ [d]) = c # s @ [d]"
  using trim_start_plain [OF assms(1), of "s @ [d]"] trim_end_plain [OF assms(2), of "c # s"]
  by (simp add: str_trim_def)

end
