(* ===== verification/Irl_Externals.thy ===== *)
theory Irl_Externals
  imports Irl_Float Irl_Text
begin

text \<open>
  JSON values (\<open>serde_json::Value\<close>, whose objects are maps ordered by key), and
  the functions of third-party crates and of PostgreSQL the sources call, as
  one record that is an argument of every definition that uses them.
\<close>

section \<open>JSON values\<close>

datatype json =
    JNull
  | JBool bool
  | JInt int
  | JFloat f64
  | JStr string
  | JArr "json list"
  | JObj "(string \<times> json) list"

text \<open>\<open>Map::insert\<close> of the ordered map: replaces the value of a present key.\<close>

fun obj_insert :: "string \<Rightarrow> 'v \<Rightarrow> (string \<times> 'v) list \<Rightarrow> (string \<times> 'v) list" where
  "obj_insert k v [] = [(k, v)]"
| "obj_insert k v ((k', v') # m) =
     (if k = k' then (k, v) # m
      else if k < k' then (k, v) # (k', v') # m
      else (k', v') # obj_insert k v m)"

definition json_obj :: "(string \<times> json) list \<Rightarrow> json" where
  "json_obj kvs = JObj (fold (\<lambda>(k, v). obj_insert k v) kvs [])"

definition obj_remove :: "string \<Rightarrow> (string \<times> 'v) list \<Rightarrow> (string \<times> 'v) list" where
  "obj_remove k m = filter (\<lambda>(k', v). k' \<noteq> k) m"

fun json_get :: "json \<Rightarrow> string \<Rightarrow> json option" where
  "json_get (JObj m) k = map_of m k"
| "json_get _ k = None"

fun json_opt_str :: "string option \<Rightarrow> json" where
  "json_opt_str None = JNull"
| "json_opt_str (Some s) = JStr s"

fun json_opt_float :: "f64 option \<Rightarrow> json" where
  "json_opt_float None = JNull"
| "json_opt_float (Some x) = JFloat x"

lemma map_of_obj_insert [simp]: "map_of (obj_insert k v m) = (map_of m)(k \<mapsto> v)"
  by (induction k v m rule: obj_insert.induct) auto

lemma set_keys_obj_insert: "fst ` set (obj_insert k v m) = insert k (fst ` set m)"
  by (induction k v m rule: obj_insert.induct) auto

lemma sorted_obj_insert:
  "sorted_wrt (<) (map fst m) \<Longrightarrow> sorted_wrt (<) (map fst (obj_insert k v m))"
proof (induction k v m rule: obj_insert.induct)
  case (1 k v)
  then show ?case by simp
next
  case (2 k v k' v' m)
  have "fst ` set (obj_insert k v m) = insert k (fst ` set m)" by (rule set_keys_obj_insert)
  with 2 show ?case by (auto simp: set_keys_obj_insert)
qed

lemma map_of_fold_obj_insert:
  "map_of (fold (\<lambda>(k, v). obj_insert k v) kvs m) = map_of m ++ map_of (rev kvs)"
  by (induction kvs arbitrary: m) (auto simp: fun_eq_iff map_add_def split: option.splits)

lemma json_get_obj: "json_get (json_obj kvs) k = map_of (rev kvs) k"
  by (simp add: json_obj_def map_of_fold_obj_insert)

lemma json_obj_eqD: "json_obj kvs = json_obj kvs' \<Longrightarrow> map_of (rev kvs) k = map_of (rev kvs') k"
  by (metis json_get_obj)

lemma set_obj_insert: "set (obj_insert k v m) \<subseteq> insert (k, v) (set m)"
  by (induction k v m rule: obj_insert.induct) auto

lemma set_fold_obj_insert:
  "set (fold (\<lambda>(k, v). obj_insert k v) kvs m) \<subseteq> set m \<union> set kvs"
proof (induction kvs arbitrary: m)
  case Nil
  then show ?case by simp
next
  case (Cons kv kvs)
  then show ?case using set_obj_insert [of "fst kv" "snd kv" m] by (auto simp: split_beta)
qed

lemma sorted_fold_obj_insert:
  "sorted_wrt (<) (map fst m) \<Longrightarrow>
     sorted_wrt (<) (map fst (fold (\<lambda>(k, v). obj_insert k v) kvs m))"
  by (induction kvs arbitrary: m) (auto simp: sorted_obj_insert)

section \<open>External functions\<close>

text \<open>
  \<^item> \<open>sha256\<close>, \<open>hex_encode\<close>, \<open>hex_decode\<close>, \<open>b64_encode\<close>, \<open>b64_decode\<close>: crates \<open>sha2\<close>, \<open>hex\<close>, \<open>base64\<close>;
  \<^item> \<open>ed25519_verify key message signature\<close>: crate \<open>ed25519-dalek\<close>;
  \<^item> \<open>json_to_string\<close>, \<open>json_to_vec\<close>, \<open>json_from_slice\<close>: crate \<open>serde_json\<close> (\<open>Inl\<close> its error text);
  \<^item> \<open>serde_error field\<close>: the text of the error a derived deserializer gives for a field that is
    missing or of the wrong type; \<open>serde_duplicate text fields\<close>: whether one of the fields occurs
    twice in the object the text holds, which a derived deserializer rejects;
  \<^item> \<open>aes_encrypt key nonce plaintext\<close>, \<open>aes_decrypt key nonce ciphertext\<close>: crate \<open>aes-gcm\<close>;
  \<^item> \<open>uuid_to_string\<close>: crate \<open>uuid\<close>; \<open>millis_in_range\<close>, \<open>show_datetime\<close>: crate \<open>chrono\<close>
    (whether \<open>timestamp_millis_opt\<close> has a single result, and the RFC 3339 text);
  \<^item> \<open>show_f64\<close>, \<open>show_f64_prec\<close>: the decimal rendering of a float, plain and to n places;
  \<^item> \<open>pg_numeric p s\<close>, \<open>pg_float8\<close>: PostgreSQL's casts from \<open>float8\<close> to \<open>NUMERIC(p, s)\<close>
    (\<open>None\<close>: value out of range) and from \<open>NUMERIC\<close> to \<open>float8\<close>, \<open>pg_interval_us\<close>: \<open>make_interval(secs => x)\<close> in microseconds,
    \<open>pg_inet_text\<close>, \<open>pg_timestamptz_text\<close>: its casts of an address and of a time to text.
\<close>

record crates =
  sha256 :: "byte list \<Rightarrow> byte list"
  hex_encode :: "byte list \<Rightarrow> string"
  hex_decode :: "string \<Rightarrow> byte list option"
  b64_encode :: "byte list \<Rightarrow> string"
  b64_decode :: "string \<Rightarrow> byte list option"
  ed25519_verify :: "byte list \<Rightarrow> byte list \<Rightarrow> byte list \<Rightarrow> bool"
  json_to_string :: "json \<Rightarrow> string + string"
  json_to_vec :: "json \<Rightarrow> string + byte list"
  json_from_slice :: "byte list \<Rightarrow> string + json"
  serde_error :: "string \<Rightarrow> string"
  serde_duplicate :: "byte list \<Rightarrow> string list \<Rightarrow> bool"
  aes_encrypt :: "byte list \<Rightarrow> byte list \<Rightarrow> byte list \<Rightarrow> byte list option"
  aes_decrypt :: "byte list \<Rightarrow> byte list \<Rightarrow> byte list \<Rightarrow> byte list option"
  uuid_to_string :: "uuid \<Rightarrow> string"
  millis_in_range :: "int \<Rightarrow> bool"
  show_datetime :: "int \<Rightarrow> string"
  show_f64 :: "f64 \<Rightarrow> string"
  show_f64_prec :: "nat \<Rightarrow> f64 \<Rightarrow> string"
  pg_numeric :: "nat \<Rightarrow> nat \<Rightarrow> f64 \<Rightarrow> rat option"
  pg_float8 :: "rat \<Rightarrow> f64"
  pg_interval_us :: "f64 \<Rightarrow> int"
  pg_inet_text :: "string \<Rightarrow> string"
  pg_timestamptz_text :: "int \<Rightarrow> string"

text \<open>SHA-256 of a sequence of \<open>update\<close> calls, hex encoded.\<close>

definition sha256_hex_of :: "crates \<Rightarrow> byte list list \<Rightarrow> string" where
  "sha256_hex_of c parts = hex_encode c (sha256 c (concat parts))"

text \<open>\<open>Utc.timestamp_millis_opt(ms).single()\<close>; instants are microseconds since the epoch.\<close>

definition timestamp_millis :: "crates \<Rightarrow> int \<Rightarrow> int option" where
  "timestamp_millis c ms = (if millis_in_range c ms then Some (ms * 1000) else None)"

section \<open>Decimal rendering of integers\<close>

fun show_digits :: "nat \<Rightarrow> string" where
  "show_digits n =
     (if n < 10 then [char_of (48 + n)] else show_digits (n div 10) @ [char_of (48 + n mod 10)])"

declare show_digits.simps [simp del]

definition show_int :: "int \<Rightarrow> string" where
  "show_int i = (if i < 0 then CHR ''-'' # show_digits (nat (- i)) else show_digits (nat i))"

fun read_digits :: "string \<Rightarrow> nat \<Rightarrow> nat" where
  "read_digits [] n = n"
| "read_digits (d # ds) n = read_digits ds (10 * n + (of_char d - 48))"

lemma read_digits_append: "read_digits (s @ t) n = read_digits t (read_digits s n)"
  by (induction s n rule: read_digits.induct) auto

lemma of_char_digit: "n < 10 \<Longrightarrow> (of_char (char_of (48 + n)) :: nat) = 48 + n"
  by simp

lemma read_show_digits: "read_digits (show_digits n) 0 = n"
proof (induction n rule: show_digits.induct)
  case (1 n)
  show ?case
  proof (cases "n < 10")
    case True
    then show ?thesis by (subst show_digits.simps) (simp add: of_char_digit)
  next
    case False
    have "48 + n mod 10 < 256" using mod_less_divisor [of 10 n] by linarith
    then show ?thesis using False 1 by (subst show_digits.simps) (simp add: read_digits_append)
  qed
qed

lemma set_show_digits: "set (show_digits n) \<subseteq> set ''0123456789''"
proof (induction n rule: show_digits.induct)
  case (1 n)
  have digit: "char_of (48 + d) \<in> set ''0123456789''" if "d < 10" for d :: nat
  proof -
    from that have "d \<in> {0, 1, 2, 3, 4, 5, 6, 7, 8, 9}" by auto
    then show ?thesis by (elim insertE emptyE; hypsubst; code_simp)
  qed
  show ?case
    by (subst show_digits.simps) (use 1 digit [of n] digit [of "n mod 10"] in auto)
qed

lemma show_digits_inj: "show_digits m = show_digits n \<longleftrightarrow> m = n"
  by (metis read_show_digits)

lemma show_digits_not_minus: "show_digits n \<noteq> CHR ''-'' # s"
proof
  assume "show_digits n = CHR ''-'' # s"
  then have "CHR ''-'' \<in> set (show_digits n)" by simp
  then show False using set_show_digits [of n] by auto
qed

lemma show_int_inj [simp]: "show_int i = show_int j \<longleftrightarrow> i = j"
proof
  assume eq: "show_int i = show_int j"
  have sign: "(i < 0) = (j < 0)"
    using eq show_digits_not_minus [of "nat i"] not_sym [OF show_digits_not_minus [of "nat j"]]
    by (cases "i < 0"; cases "j < 0") (simp_all add: show_int_def)
  with eq show "i = j" by (cases "i < 0") (simp_all add: show_int_def show_digits_inj eq_nat_nat_iff)
qed simp

lemma set_show_int: "set (show_int i) \<subseteq> insert (CHR ''-'') (set ''0123456789'')"
proof -
  have "set (show_int i) \<subseteq> insert (CHR ''-'') (set (show_digits (nat \<bar>i\<bar>)))"
    by (auto simp: show_int_def abs_if)
  also have "\<dots> \<subseteq> insert (CHR ''-'') (set ''0123456789'')"
    by (rule insert_mono, rule set_show_digits)
  finally show ?thesis .
qed

section \<open>A concrete instance\<close>

text \<open>
  An instance used by the examples: encodings that keep their input readable,
  a digest that is its input cut or padded to 32 bytes, a cipher that prefixes
  the key and a 16-byte tag, and exact casts.
\<close>

definition nibble_char :: "nat \<Rightarrow> char" where
  "nibble_char n = ''0123456789abcdef'' ! n"

definition char_nibble :: "char \<Rightarrow> nat option" where
  "char_nibble = map_of
     [(CHR ''0'', 0), (CHR ''1'', 1), (CHR ''2'', 2), (CHR ''3'', 3), (CHR ''4'', 4), (CHR ''5'', 5),
      (CHR ''6'', 6), (CHR ''7'', 7), (CHR ''8'', 8), (CHR ''9'', 9), (CHR ''a'', 10), (CHR ''b'', 11),
      (CHR ''c'', 12), (CHR ''d'', 13), (CHR ''e'', 14), (CHR ''f'', 15), (CHR ''A'', 10), (CHR ''B'', 11),
      (CHR ''C'', 12), (CHR ''D'', 13), (CHR ''E'', 14), (CHR ''F'', 15)]"

definition demo_hex_encode :: "byte list \<Rightarrow> string" where
  "demo_hex_encode bs =
     concat (map (\<lambda>b. [nibble_char (unat b div 16), nibble_char (unat b mod 16)]) bs)"

fun demo_hex_decode :: "string \<Rightarrow> byte list option" where
  "demo_hex_decode [] = Some []"
| "demo_hex_decode [_] = None"
| "demo_hex_decode (h # l # s) =
     (case (char_nibble h, char_nibble l, demo_hex_decode s) of
        (Some a, Some b, Some bs) \<Rightarrow> Some (word_of_nat (16 * a + b) # bs)
      | _ \<Rightarrow> None)"

text \<open>The text of a scalar: a tag and a payload without brackets or separators.\<close>

fun demo_scalar_text :: "json \<Rightarrow> string" where
  "demo_scalar_text JNull = ''null''"
| "demo_scalar_text (JBool b) = (if b then ''true'' else ''false'')"
| "demo_scalar_text (JInt i) = ''i'' @ show_int i"
| "demo_scalar_text (JStr s) = ''s'' @ demo_hex_encode (as_bytes s)"
| "demo_scalar_text (JFloat (Finite q)) =
     ''q'' @ show_int (fst (quotient_of q)) @ ''/'' @ show_int (snd (quotient_of q))"
| "demo_scalar_text (JFloat NegZero) = ''z''"
| "demo_scalar_text _ = ''x''"

definition demo_digest :: "byte list \<Rightarrow> byte list" where
  "demo_digest bs = take 32 (bs @ replicate 32 0)"

definition demo_crates :: crates where
  "demo_crates =
     \<lparr>sha256 = demo_digest,
      hex_encode = demo_hex_encode,
      hex_decode = demo_hex_decode,
      b64_encode = demo_hex_encode,
      b64_decode = demo_hex_decode,
      ed25519_verify = (\<lambda>key msg sig. take 8 sig = take 8 msg),
      json_to_string = (\<lambda>v. Inr (demo_scalar_text v)),
      json_to_vec = (\<lambda>v. Inr []),
      json_from_slice = (\<lambda>bs. Inr JNull),
      serde_error = (\<lambda>field. ''bad field '' @ field),
      serde_duplicate = (\<lambda>bs fields. False),
      aes_encrypt = (\<lambda>key nonce pt. Some (pt @ take 16 key)),
      aes_decrypt = (\<lambda>key nonce ct.
        if 16 \<le> length ct \<and> drop (length ct - 16) ct = take 16 key
        then Some (take (length ct - 16) ct) else None),
      uuid_to_string = (\<lambda>u. show_int (uint u)),
      millis_in_range = (\<lambda>ms. \<bar>ms\<bar> < 8210266876799999),
      show_datetime = show_int,
      show_f64 = (\<lambda>x. show_int \<lfloor>f64_val x\<rfloor>),
      show_f64_prec = (\<lambda>n x. show_int \<lfloor>f64_val x\<rfloor>),
      pg_numeric = (\<lambda>p s x. if f64_finite x then Some (f64_val x) else None),
      pg_float8 = (\<lambda>q. f64_round False q),
      pg_interval_us = (\<lambda>x. \<lfloor>f64_val x * 1000000\<rfloor>),
      pg_inet_text = (\<lambda>ip. ip @ ''/32''),
      pg_timestamptz_text = show_int\<rparr>"

lemma unat_byte_nibbles: "unat (b :: byte) div 16 < 16 \<and> unat b mod 16 < 16"
  using unsigned_less [of b, where ?'a = nat] by (simp add: div_less_iff_less_mult)

lemma char_nibble_char: "n < 16 \<Longrightarrow> char_nibble (nibble_char n) = Some n"
  by (simp add: nibble_char_def char_nibble_def nth_Cons' less_Suc_eq numeral_eq_Suc) force

lemma demo_hex_roundtrip: "demo_hex_decode (demo_hex_encode bs) = Some bs"
proof (induction bs)
  case Nil
  then show ?case by (simp add: demo_hex_encode_def)
next
  case (Cons b bs)
  then show ?case
    using unat_byte_nibbles [of b]
    by (simp add: demo_hex_encode_def char_nibble_char word_unat_eq_iff unat_of_nat take_bit_nat_eq_self)
qed

lemma demo_hex_inj: "inj demo_hex_encode"
  by (rule injI) (metis demo_hex_roundtrip option.inject)

lemma set_demo_hex: "set (demo_hex_encode bs) \<subseteq> set ''0123456789abcdef''"
proof -
  have "nibble_char n \<in> set ''0123456789abcdef''" if "n < 16" for n
    unfolding nibble_char_def by (rule nth_mem) (use that in simp)
  then have "set [nibble_char (unat b div 16), nibble_char (unat b mod 16)] \<subseteq> set ''0123456789abcdef''"
    for b :: byte
    using unat_byte_nibbles [of b] by simp
  then show ?thesis unfolding demo_hex_encode_def set_concat set_map by (intro UN_least) blast
qed

end
