(* ===== verification/Irl_Errors.thy ===== *)
theory Irl_Errors
  imports Irl_Externals
begin

text \<open>
  \<open>src/errors.rs\<close>: the error enums, the machine-readable code of an error, its
  message, and the HTTP response the server makes of it.
\<close>

datatype heartbeat_error =
    StaleSequence u64 u64
  | LatencyThresholdExceeded u64 u64
  | InvalidSignature
  | Missing
  | MtaRefMismatch string string

datatype policy_error =
    RegimeViolation string string string string
  | NotionalExceedsLimit f64 f64 string string
  | AgentNotFound
  | ModelHashMismatch
  | RegimeUnauthorized u8
  | AgentNotActive
  | MtaPubkeyUnauthorized string

datatype app_error =
    BiTemporalViolation
  | MtaSignatureInvalid
  | MtaFetchFailed string
  | Heartbeat heartbeat_error
  | Policy policy_error
  | Database string
  | Serialization string
  | TraceNotFound string
  | Unauthorized
  | RateLimitExceeded
  | TraceAlreadyBound string string
  | Encryption string
  | Forbidden

type_synonym 'a res = "app_error + 'a"

fun error_code :: "app_error \<Rightarrow> string" where
  "error_code BiTemporalViolation = ''BITEMPORAL_VIOLATION''"
| "error_code MtaSignatureInvalid = ''MTA_SIGNATURE_INVALID''"
| "error_code (MtaFetchFailed _) = ''MTA_FETCH_FAILED''"
| "error_code (Heartbeat Missing) = ''HEARTBEAT_MISSING''"
| "error_code (Heartbeat (StaleSequence _ _)) = ''HEARTBEAT_STALE_SEQUENCE''"
| "error_code (Heartbeat (LatencyThresholdExceeded _ _)) = ''HEARTBEAT_DRIFT_EXCEEDED''"
| "error_code (Heartbeat InvalidSignature) = ''HEARTBEAT_SIGNATURE_INVALID''"
| "error_code (Heartbeat (MtaRefMismatch _ _)) = ''HEARTBEAT_MTA_REF_MISMATCH''"
| "error_code (Policy (RegimeViolation _ _ _ _)) = ''REGIME_VIOLATION''"
| "error_code (Policy (NotionalExceedsLimit _ _ _ _)) = ''NOTIONAL_EXCEEDS_LIMIT''"
| "error_code (Policy AgentNotFound) = ''AGENT_NOT_FOUND''"
| "error_code (Policy ModelHashMismatch) = ''MODEL_HASH_MISMATCH''"
| "error_code (Policy (RegimeUnauthorized _)) = ''REGIME_UNAUTHORIZED''"
| "error_code (Policy AgentNotActive) = ''AGENT_NOT_ACTIVE''"
| "error_code (Policy (MtaPubkeyUnauthorized _)) = ''MTA_PUBKEY_UNAUTHORIZED''"
| "error_code (Database _) = ''DATABASE_ERROR''"
| "error_code (Serialization _) = ''SERIALIZATION_ERROR''"
| "error_code (TraceNotFound _) = ''TRACE_NOT_FOUND''"
| "error_code Unauthorized = ''UNAUTHORIZED''"
| "error_code RateLimitExceeded = ''RATE_LIMIT_EXCEEDED''"
| "error_code (TraceAlreadyBound _ _) = ''TRACE_ALREADY_BOUND''"
| "error_code (Encryption _) = ''ENCRYPTION_ERROR''"
| "error_code Forbidden = ''FORBIDDEN''"

text \<open>The \<open>Display\<close> texts of the two inner enums and of the errors shown verbatim.\<close>

definition apostrophe :: string where "apostrophe = [CHR 0x27]"

definition quoted :: "string \<Rightarrow> string" where "quoted s = apostrophe @ s @ apostrophe"

fun heartbeat_error_text :: "heartbeat_error \<Rightarrow> string" where
  "heartbeat_error_text (StaleSequence received lst) =
     ''Stale sequence: received '' @ show_int (uint received) @ '', last accepted '' @ show_int (uint lst)"
| "heartbeat_error_text (LatencyThresholdExceeded drift mx) =
     ''Heartbeat too old: drift '' @ show_int (uint drift) @ ''ms exceeds maximum '' @ show_int (uint mx) @ ''ms''"
| "heartbeat_error_text InvalidSignature = ''Heartbeat signature invalid''"
| "heartbeat_error_text Missing = ''Heartbeat required but not provided (LAYER2_ENABLED=true)''"
| "heartbeat_error_text (MtaRefMismatch got expected) =
     ''Heartbeat mta_ref '' @ quoted got @ '' does not match current MTA hash '' @ quoted expected"

fun policy_error_text :: "crates \<Rightarrow> policy_error \<Rightarrow> string" where
  "policy_error_text c (RegimeViolation action regime pol version) =
     ''Regime violation: action '' @ quoted action @ '' is prohibited in regime '' @ quoted regime @
     '' by policy '' @ quoted pol @ '' v'' @ version"
| "policy_error_text c (NotionalExceedsLimit notional limit regime pol) =
     ''Notional '' @ show_f64_prec c 2 notional @ '' exceeds regime '' @ quoted regime @
     '' limit '' @ show_f64_prec c 2 limit @ '' (policy '' @ quoted pol @ '')''"
| "policy_error_text c AgentNotFound = ''Agent not found in registry''"
| "policy_error_text c ModelHashMismatch =
     ''Model hash mismatch: running agent does not match registered model hash''"
| "policy_error_text c (RegimeUnauthorized regime_id) =
     ''Agent is not permitted to trade in regime '' @ show_int (uint regime_id)"
| "policy_error_text c AgentNotActive = ''Agent status is not Active''"
| "policy_error_text c (MtaPubkeyUnauthorized pubkey) =
     ''MTA operator pubkey '' @ quoted pubkey @ '' is not in agent'' @ apostrophe @
     ''s allowed_mta_pubkeys''"

fun app_error_text :: "crates \<Rightarrow> app_error \<Rightarrow> string" where
  "app_error_text c BiTemporalViolation =
     ''Bitemporal violation: valid_time must be strictly before txn_time''"
| "app_error_text c MtaSignatureInvalid =
     ''MTA signature invalid: operator response cannot be trusted''"
| "app_error_text c (MtaFetchFailed m) = ''MTA fetch failed: '' @ m"
| "app_error_text c (Heartbeat e) = ''Heartbeat error: '' @ heartbeat_error_text e"
| "app_error_text c (Policy e) = ''Policy violation: '' @ policy_error_text c e"
| "app_error_text c (Database m) = ''Database error: '' @ m"
| "app_error_text c (Serialization m) = ''Serialization error: '' @ m"
| "app_error_text c (TraceNotFound i) = ''Trace not found: '' @ i"
| "app_error_text c Unauthorized = ''Unauthorized''"
| "app_error_text c RateLimitExceeded = ''Rate limit exceeded''"
| "app_error_text c (TraceAlreadyBound i st) =
     ''Trace '' @ i @ '' is already bound (status: '' @ st @ '')''"
| "app_error_text c (Encryption m) = ''Encryption error''"
| "app_error_text c Forbidden = ''Forbidden''"

text \<open>
  \<open>into_response\<close>: the HTTP status, the error code and the message of the JSON
  body. The match of the source has one arm per error; those of the heartbeat
  and policy enums are grouped in two helpers.
\<close>

fun heartbeat_status :: "heartbeat_error \<Rightarrow> nat" where
  "heartbeat_status Missing = 400"
| "heartbeat_status (StaleSequence _ _) = 400"
| "heartbeat_status (LatencyThresholdExceeded _ _) = 400"
| "heartbeat_status InvalidSignature = 403"
| "heartbeat_status (MtaRefMismatch _ _) = 403"

fun policy_status :: "policy_error \<Rightarrow> nat" where
  "policy_status (RegimeViolation _ _ _ _) = 403"
| "policy_status (NotionalExceedsLimit _ _ _ _) = 403"
| "policy_status AgentNotFound = 404"
| "policy_status ModelHashMismatch = 403"
| "policy_status (RegimeUnauthorized _) = 403"
| "policy_status AgentNotActive = 403"
| "policy_status (MtaPubkeyUnauthorized _) = 403"

fun response_parts :: "crates \<Rightarrow> app_error \<Rightarrow> nat \<times> string \<times> string" where
  "response_parts c BiTemporalViolation =
     (400, ''BITEMPORAL_VIOLATION'', app_error_text c BiTemporalViolation)"
| "response_parts c MtaSignatureInvalid =
     (403, ''MTA_SIGNATURE_INVALID'', app_error_text c MtaSignatureInvalid)"
| "response_parts c (MtaFetchFailed m) =
     (502, ''MTA_FETCH_FAILED'', app_error_text c (MtaFetchFailed m))"
| "response_parts c (Heartbeat e) =
     (heartbeat_status e, error_code (Heartbeat e), app_error_text c (Heartbeat e))"
| "response_parts c (Policy e) =
     (policy_status e, error_code (Policy e), app_error_text c (Policy e))"
| "response_parts c (Database _) = (500, ''DATABASE_ERROR'', ''Internal storage error'')"
| "response_parts c (Serialization _) =
     (500, ''SERIALIZATION_ERROR'', ''Internal serialization error'')"
| "response_parts c (TraceNotFound i) = (404, ''TRACE_NOT_FOUND'', ''Trace not found: '' @ i)"
| "response_parts c Unauthorized = (401, ''UNAUTHORIZED'', ''Invalid or missing bearer token'')"
| "response_parts c RateLimitExceeded = (429, ''RATE_LIMIT_EXCEEDED'', ''Rate limit exceeded'')"
| "response_parts c (TraceAlreadyBound i st) =
     (409, ''TRACE_ALREADY_BOUND'',
      ''Trace '' @ i @ '' is already bound (status: '' @ st @ '')'')"
| "response_parts c (Encryption _) = (500, ''ENCRYPTION_ERROR'', ''Internal encryption error'')"
| "response_parts c Forbidden = (403, ''FORBIDDEN'', ''Forbidden: insufficient permissions'')"

definition into_response :: "crates \<Rightarrow> app_error \<Rightarrow> nat \<times> json" where
  "into_response c e =
     (case response_parts c e of
        (status, code, message) \<Rightarrow>
          (status, json_obj [(''error'', JStr code), (''message'', JStr message)]))"

lemma response_parts_code: "fst (snd (response_parts c e)) = error_code e"
  by (cases e) simp_all

lemma into_response_eq:
  "into_response c e =
     (fst (response_parts c e),
      JObj [(''error'', JStr (error_code e)), (''message'', JStr (snd (snd (response_parts c e))))])"
  using response_parts_code [of c e] by (simp add: into_response_def json_obj_def split_beta)

section \<open>Properties of the error responses\<close>

text \<open>
  The errors whose payload is internal to the server: storage, serialization and
  encryption failures.
\<close>

fun internal_error :: "app_error \<Rightarrow> bool" where
  "internal_error (Database _) = True"
| "internal_error (Serialization _) = True"
| "internal_error (Encryption _) = True"
| "internal_error _ = False"

lemma heartbeat_status_ne_500: "heartbeat_status e \<noteq> 500"
  by (cases e) simp_all

lemma policy_status_ne_500: "policy_status e \<noteq> 500"
  by (cases e) simp_all

lemma internal_error_iff_500: "internal_error e \<longleftrightarrow> fst (response_parts c e) = 500"
  by (cases e) (simp_all add: heartbeat_status_ne_500 policy_status_ne_500)

lemma internal_error_message:
  "internal_error e \<Longrightarrow> internal_error e' \<Longrightarrow> error_code e = error_code e' \<Longrightarrow>
     response_parts c e = response_parts c' e'"
  by (cases e; cases e') simp_all

end
