(* ===== verification/Irl_Snapshot.thy ===== *)
theory Irl_Snapshot
  imports Irl_Errors
begin

text \<open>
  \<open>src/snapshot.rs\<close> and the heartbeat message of \<open>src/heartbeat.rs\<close>: the data an
  agent submits, the snapshot that is sealed, the trace that is stored, their
  JSON values as \<open>serde\<close> derives them, the canonical direction of an action and
  the latent fingerprint.
\<close>

section \<open>Actions and order types\<close>

datatype trade_action = Long f64 | Short f64 | Neutral | Custom string

definition resolve_custom_direction :: "string \<Rightarrow> string" where
  "resolve_custom_direction s =
     (let lower = str_trim (to_ascii_lowercase s)
      in if str_contains lower ''long'' \<or> starts_with lower ''buy'' \<or> lower = ''open''
            \<or> str_contains lower ''open_long''
         then ''long''
         else if str_contains lower ''short'' \<or> starts_with lower ''sell'' \<or> lower = ''close''
                 \<or> lower = ''exit'' \<or> lower = ''reverse'' \<or> str_contains lower ''close_short''
         then ''short''
         else if lower = ''neutral'' \<or> lower = ''flat'' \<or> lower = ''cancel'' \<or> lower = ''hold''
         then ''neutral''
         else ''unknown'')"

fun direction :: "trade_action \<Rightarrow> string" where
  "direction (Long _) = ''long''"
| "direction (Short _) = ''short''"
| "direction Neutral = ''neutral''"
| "direction (Custom s) = resolve_custom_direction s"

fun show_trade_action :: "crates \<Rightarrow> trade_action \<Rightarrow> string" where
  "show_trade_action c (Long s) = ''Long('' @ show_f64 c s @ '')''"
| "show_trade_action c (Short s) = ''Short('' @ show_f64 c s @ '')''"
| "show_trade_action c Neutral = ''Neutral''"
| "show_trade_action c (Custom s) = s"

datatype order_type =
    Market | Limit | Stop | StopLimit | Twap | Vwap | Ioc | Fok | PostOnly | Pegged
  | TrailingStop | Iceberg | CustomOrder string

fun show_order_type :: "order_type \<Rightarrow> string" where
  "show_order_type Market = ''MARKET''"
| "show_order_type Limit = ''LIMIT''"
| "show_order_type Stop = ''STOP''"
| "show_order_type StopLimit = ''STOP_LIMIT''"
| "show_order_type Twap = ''TWAP''"
| "show_order_type Vwap = ''VWAP''"
| "show_order_type Ioc = ''IOC''"
| "show_order_type Fok = ''FOK''"
| "show_order_type PostOnly = ''POST_ONLY''"
| "show_order_type Pegged = ''PEGGED''"
| "show_order_type TrailingStop = ''TRAILING_STOP''"
| "show_order_type Iceberg = ''ICEBERG''"
| "show_order_type (CustomOrder s) = s"

section \<open>Requests and snapshots\<close>

record signed_heartbeat =
  hb_sequence_id :: u64
  hb_timestamp_ms :: u64
  hb_regime_id :: u8
  hb_mta_ref :: string
  hb_signature :: "byte list"

record execution_intent =
  ei_action :: trade_action
  ei_asset :: string
  ei_order_type :: order_type
  ei_venue_id :: string
  ei_quantity :: f64
  ei_notional :: f64
  ei_notional_currency :: string
  ei_multiplier :: f64
  ei_limit_price :: "f64 option"
  ei_stop_price :: "f64 option"
  ei_client_order_id :: string

record cognitive_snapshot =
  cs_trace_id :: uuid
  cs_mta_regime_id :: u8
  cs_mta_version :: string
  cs_mta_hash :: string
  cs_latent_fingerprint :: string
  cs_feature_schema_id :: string
  cs_execution :: execution_intent
  cs_valid_time :: int
  cs_txn_time :: int
  cs_heartbeat :: signed_heartbeat

record regulatory_block =
  rb_mifid_algo_id :: "string option"
  rb_mifid_decision_maker :: "string option"
  rb_cftc_cti_code :: "string option"
  rb_cftc_account_type :: "string option"
  rb_cat_order_id :: "string option"
  rb_jurisdiction :: "string option"

record authorize_request =
  ar_agent_id :: uuid
  ar_model_hash_hex :: string
  ar_model_id :: string
  ar_prompt_version :: string
  ar_feature_schema_id :: string
  ar_hyperparameter_checksum :: string
  ar_action :: trade_action
  ar_asset :: string
  ar_order_type :: order_type
  ar_venue_id :: string
  ar_quantity :: f64
  ar_notional :: f64
  ar_notional_currency :: string
  ar_multiplier :: f64
  ar_limit_price :: "f64 option"
  ar_stop_price :: "f64 option"
  ar_client_order_id :: string
  ar_agent_valid_time :: int
  ar_heartbeat :: "signed_heartbeat option"
  ar_reduce_only :: bool
  ar_regulatory :: "regulatory_block option"

definition default_usd :: string where "default_usd = ''USD''"

definition default_multiplier :: f64 where "default_multiplier = Finite 1"

definition compute_latent_fingerprint ::
  "crates \<Rightarrow> string \<Rightarrow> string \<Rightarrow> string \<Rightarrow> string \<Rightarrow> string"
where
  "compute_latent_fingerprint c model_id prompt_version feature_schema_id hyperparameter_checksum =
     sha256_hex_of c
       [as_bytes model_id, as_bytes ''||'', as_bytes prompt_version, as_bytes ''||'',
        as_bytes feature_schema_id, as_bytes ''||'', as_bytes hyperparameter_checksum]"

section \<open>The stored trace\<close>

record bitemporal_block =
  bt_valid_time :: int
  bt_txn_time :: int
  bt_time_source :: string

record mta_block =
  mb_regime_id :: u8
  mb_regime_label :: string
  mb_risk_level :: f64
  mb_max_notional_scale :: f64
  mb_allowed_sides :: "string list"
  mb_version :: string
  mb_hash :: string
  mb_signature_valid :: bool

record agent_block =
  ab_agent_id :: uuid
  ab_latent_fingerprint :: string
  ab_feature_schema_id :: string

record execution_block =
  eb_action :: string
  eb_asset :: string
  eb_order_type :: string
  eb_venue_id :: string
  eb_quantity :: f64
  eb_notional :: f64
  eb_notional_currency :: string
  eb_multiplier :: f64
  eb_limit_price :: "f64 option"
  eb_stop_price :: "f64 option"
  eb_client_order_id :: string

record heartbeat_block =
  hbb_sequence_id :: u64
  hbb_signature_valid :: bool
  hbb_drift_ms :: int

record policy_block =
  pb_id :: string
  pb_version :: string
  pb_hash :: string
  pb_result :: string

record integrity_block =
  ib_reasoning_hash :: string
  ib_final_proof :: "string option"
  ib_verification_status :: string
  ib_execution_status :: "string option"

record reasoning_trace =
  rt_trace_id :: uuid
  rt_version :: string
  rt_bitemporal :: bitemporal_block
  rt_mta :: mta_block
  rt_agent :: agent_block
  rt_execution :: execution_block
  rt_heartbeat :: heartbeat_block
  rt_policy :: policy_block
  rt_integrity :: integrity_block
  rt_regulatory :: "regulatory_block option"

section \<open>JSON values of the data\<close>

text \<open>\<open>serde\<close>: a non-finite float becomes \<open>null\<close>; an enum variant is externally tagged.\<close>

definition json_f64 :: "f64 \<Rightarrow> json" where
  "json_f64 x = (if f64_finite x then JFloat x else JNull)"

fun json_f64_opt :: "f64 option \<Rightarrow> json" where
  "json_f64_opt None = JNull"
| "json_f64_opt (Some x) = json_f64 x"

definition json_str_arr :: "string list \<Rightarrow> json" where
  "json_str_arr xs = JArr (map JStr xs)"

fun trade_action_value :: "trade_action \<Rightarrow> json" where
  "trade_action_value (Long s) = json_obj [(''Long'', json_f64 s)]"
| "trade_action_value (Short s) = json_obj [(''Short'', json_f64 s)]"
| "trade_action_value Neutral = JStr ''Neutral''"
| "trade_action_value (Custom s) = json_obj [(''Custom'', JStr s)]"

fun order_type_value :: "order_type \<Rightarrow> json" where
  "order_type_value (CustomOrder s) = json_obj [(''CUSTOM'', JStr s)]"
| "order_type_value t = JStr (show_order_type t)"

definition execution_intent_value :: "execution_intent \<Rightarrow> json" where
  "execution_intent_value e = json_obj
     [(''action'', trade_action_value (ei_action e)),
      (''asset'', JStr (ei_asset e)),
      (''order_type'', order_type_value (ei_order_type e)),
      (''venue_id'', JStr (ei_venue_id e)),
      (''quantity'', json_f64 (ei_quantity e)),
      (''notional'', json_f64 (ei_notional e)),
      (''notional_currency'', JStr (ei_notional_currency e)),
      (''multiplier'', json_f64 (ei_multiplier e)),
      (''limit_price'', json_f64_opt (ei_limit_price e)),
      (''stop_price'', json_f64_opt (ei_stop_price e)),
      (''client_order_id'', JStr (ei_client_order_id e))]"

definition base64_bytes_serialize :: "crates \<Rightarrow> byte list \<Rightarrow> json" where
  "base64_bytes_serialize c bs = JStr (b64_encode c bs)"

definition base64_bytes_deserialize :: "crates \<Rightarrow> json \<Rightarrow> byte list option" where
  "base64_bytes_deserialize c v = (case v of JStr s \<Rightarrow> b64_decode c s | _ \<Rightarrow> None)"

definition heartbeat_value :: "crates \<Rightarrow> signed_heartbeat \<Rightarrow> json" where
  "heartbeat_value c h = json_obj
     [(''sequence_id'', JInt (uint (hb_sequence_id h))),
      (''timestamp_ms'', JInt (uint (hb_timestamp_ms h))),
      (''regime_id'', JInt (uint (hb_regime_id h))),
      (''mta_ref'', JStr (hb_mta_ref h)),
      (''signature'', base64_bytes_serialize c (hb_signature h))]"

definition snapshot_value :: "crates \<Rightarrow> cognitive_snapshot \<Rightarrow> json" where
  "snapshot_value c s = json_obj
     [(''trace_id'', JStr (uuid_to_string c (cs_trace_id s))),
      (''mta_regime_id'', JInt (uint (cs_mta_regime_id s))),
      (''mta_version'', JStr (cs_mta_version s)),
      (''mta_hash'', JStr (cs_mta_hash s)),
      (''latent_fingerprint'', JStr (cs_latent_fingerprint s)),
      (''feature_schema_id'', JStr (cs_feature_schema_id s)),
      (''execution'', execution_intent_value (cs_execution s)),
      (''valid_time'', JInt (cs_valid_time s)),
      (''txn_time'', JInt (cs_txn_time s)),
      (''heartbeat'', heartbeat_value c (cs_heartbeat s))]"

text \<open>\<open>skip_serializing_if = "Option::is_none"\<close>.\<close>

fun opt_field :: "string \<Rightarrow> json option \<Rightarrow> (string \<times> json) list" where
  "opt_field k None = []"
| "opt_field k (Some v) = [(k, v)]"

definition regulatory_value :: "regulatory_block \<Rightarrow> json" where
  "regulatory_value r = json_obj
     (opt_field ''mifid_algo_id'' (map_option JStr (rb_mifid_algo_id r))
      @ opt_field ''mifid_decision_maker'' (map_option JStr (rb_mifid_decision_maker r))
      @ opt_field ''cftc_cti_code'' (map_option JStr (rb_cftc_cti_code r))
      @ opt_field ''cftc_account_type'' (map_option JStr (rb_cftc_account_type r))
      @ opt_field ''cat_order_id'' (map_option JStr (rb_cat_order_id r))
      @ opt_field ''jurisdiction'' (map_option JStr (rb_jurisdiction r)))"

definition bitemporal_value :: "crates \<Rightarrow> bitemporal_block \<Rightarrow> json" where
  "bitemporal_value c b = json_obj
     [(''valid_time'', JStr (show_datetime c (bt_valid_time b))),
      (''txn_time'', JStr (show_datetime c (bt_txn_time b))),
      (''time_source'', JStr (bt_time_source b))]"

definition mta_block_value :: "mta_block \<Rightarrow> json" where
  "mta_block_value m = json_obj
     [(''regime_id'', JInt (uint (mb_regime_id m))),
      (''regime_label'', JStr (mb_regime_label m)),
      (''risk_level'', json_f64 (mb_risk_level m)),
      (''max_notional_scale'', json_f64 (mb_max_notional_scale m)),
      (''allowed_sides'', json_str_arr (mb_allowed_sides m)),
      (''version'', JStr (mb_version m)),
      (''hash'', JStr (mb_hash m)),
      (''signature_valid'', JBool (mb_signature_valid m))]"

definition agent_block_value :: "crates \<Rightarrow> agent_block \<Rightarrow> json" where
  "agent_block_value c a = json_obj
     [(''agent_id'', JStr (uuid_to_string c (ab_agent_id a))),
      (''latent_fingerprint'', JStr (ab_latent_fingerprint a)),
      (''feature_schema_id'', JStr (ab_feature_schema_id a))]"

definition execution_block_value :: "execution_block \<Rightarrow> json" where
  "execution_block_value e = json_obj
     [(''action'', JStr (eb_action e)),
      (''asset'', JStr (eb_asset e)),
      (''order_type'', JStr (eb_order_type e)),
      (''venue_id'', JStr (eb_venue_id e)),
      (''quantity'', json_f64 (eb_quantity e)),
      (''notional'', json_f64 (eb_notional e)),
      (''notional_currency'', JStr (eb_notional_currency e)),
      (''multiplier'', json_f64 (eb_multiplier e)),
      (''limit_price'', json_f64_opt (eb_limit_price e)),
      (''stop_price'', json_f64_opt (eb_stop_price e)),
      (''client_order_id'', JStr (eb_client_order_id e))]"

definition heartbeat_block_value :: "heartbeat_block \<Rightarrow> json" where
  "heartbeat_block_value h = json_obj
     [(''sequence_id'', JInt (uint (hbb_sequence_id h))),
      (''signature_valid'', JBool (hbb_signature_valid h)),
      (''drift_ms'', JInt (hbb_drift_ms h))]"

definition policy_block_value :: "policy_block \<Rightarrow> json" where
  "policy_block_value p = json_obj
     [(''id'', JStr (pb_id p)), (''version'', JStr (pb_version p)),
      (''hash'', JStr (pb_hash p)), (''result'', JStr (pb_result p))]"

definition integrity_value :: "integrity_block \<Rightarrow> json" where
  "integrity_value i = json_obj
     [(''reasoning_hash'', JStr (ib_reasoning_hash i)),
      (''final_proof'', json_opt_str (ib_final_proof i)),
      (''verification_status'', JStr (ib_verification_status i)),
      (''execution_status'', json_opt_str (ib_execution_status i))]"

definition trace_value :: "crates \<Rightarrow> reasoning_trace \<Rightarrow> json" where
  "trace_value c t = json_obj
     ([(''trace_id'', JStr (uuid_to_string c (rt_trace_id t))),
       (''version'', JStr (rt_version t)),
       (''bitemporal'', bitemporal_value c (rt_bitemporal t)),
       (''mta'', mta_block_value (rt_mta t)),
       (''agent'', agent_block_value c (rt_agent t)),
       (''execution'', execution_block_value (rt_execution t)),
       (''heartbeat'', heartbeat_block_value (rt_heartbeat t)),
       (''policy'', policy_block_value (rt_policy t)),
       (''integrity'', integrity_value (rt_integrity t))]
      @ opt_field ''regulatory'' (map_option regulatory_value (rt_regulatory t)))"

end
