(* ===== verification/Irl_Seal.thy ===== *)
theory Irl_Seal
  imports Irl_Snapshot "HOL-Library.Multiset"
begin

text \<open>
  \<open>src/seal.rs\<close>: the bitemporal check, the canonical JSON text of a value, the
  seal of a snapshot and the final proof, with the facts that make the seal a
  commitment: the canonical text does not depend on the order in which an
  object was built and determines the value it renders.
\<close>

definition verify_bitemporal :: "cognitive_snapshot \<Rightarrow> unit res" where
  "verify_bitemporal s =
     (if cs_txn_time s \<le> cs_valid_time s then Inl BiTemporalViolation else Inr ())"

section \<open>Canonical JSON\<close>

lemma size_member_obj [termination_simp]:
  "(k, v) \<in> set m \<Longrightarrow> size v < Suc (size_list (size_prod size size) m)"
  by (induction m) auto

function (sequential) canonicalize_json :: "crates \<Rightarrow> json \<Rightarrow> string res" where
  "canonicalize_json c (JObj m) =
     res_bind
       (collect_res (map (\<lambda>(k, v).
          res_bind (res_map_err Serialization (json_to_string c (JStr k))) (\<lambda>key.
          res_bind (canonicalize_json c v) (\<lambda>val. Inr (key @ '':'' @ val))))
        (sort_key fst m)))
       (\<lambda>inner. Inr (''{'' @ str_join '','' inner @ ''}''))"
| "canonicalize_json c (JArr xs) =
     res_bind (collect_res (map (canonicalize_json c) xs))
       (\<lambda>inner. Inr (''['' @ str_join '','' inner @ '']''))"
| "canonicalize_json c v = res_map_err Serialization (json_to_string c v)"
  by pat_completeness auto
termination
  by (relation "measure (size \<circ> snd)")
    (auto simp: size_member_obj less_Suc_eq_le size_list_estimation')

definition seal :: "crates \<Rightarrow> cognitive_snapshot \<Rightarrow> string res" where
  "seal c s =
     res_bind (canonicalize_json c (snapshot_value c s)) (\<lambda>canonical.
       Inr (hex_encode c (sha256 c (as_bytes canonical))))"

definition compute_final_proof :: "crates \<Rightarrow> string \<Rightarrow> string \<Rightarrow> string" where
  "compute_final_proof c reasoning_hash exchange_tx_id =
     sha256_hex_of c [as_bytes reasoning_hash, as_bytes ''||'', as_bytes exchange_tx_id]"

section \<open>Unique readability\<close>

text \<open>
  What the theorems rely on of \<open>serde_json::to_string\<close>: the text of a scalar is a
  JSON token. It is not empty, does not start with a bracket or a separator, and
  two tokens followed by separators (or nothing) read alike only if they render
  the same scalar.
\<close>

definition separators :: string where "separators = '',:]}''"

definition at_separator :: "string \<Rightarrow> bool" where
  "at_separator r \<longleftrightarrow> r = [] \<or> hd r \<in> set separators"

fun json_scalar :: "json \<Rightarrow> bool" where
  "json_scalar (JObj _) = False"
| "json_scalar (JArr _) = False"
| "json_scalar _ = True"

text \<open>A well-formed value: finite representable floats, object keys strictly increasing.\<close>

fun f64_wf :: "f64 \<Rightarrow> bool" where
  "f64_wf (Finite q) \<longleftrightarrow> f64_round (q < 0) q = Finite q"
| "f64_wf _ = True"

fun json_wf :: "json \<Rightarrow> bool" where
  "json_wf (JObj m) \<longleftrightarrow> sorted_wrt (<) (map fst m) \<and> list_all (\<lambda>(k, v). json_wf v) m"
| "json_wf (JArr xs) \<longleftrightarrow> list_all json_wf xs"
| "json_wf (JFloat x) \<longleftrightarrow> f64_finite x \<and> f64_wf x"
| "json_wf _ = True"

definition json_tokens :: "crates \<Rightarrow> bool" where
  "json_tokens c \<longleftrightarrow>
     (\<forall>v s. json_scalar v \<and> json_wf v \<and> json_to_string c v = Inr s \<longrightarrow>
        s \<noteq> [] \<and> hd s \<notin> set (''{['' @ separators))
     \<and> (\<forall>v w s t r r'. json_scalar v \<and> json_wf v \<and> json_scalar w \<and> json_wf w
          \<and> json_to_string c v = Inr s \<and> json_to_string c w = Inr t
          \<and> s @ r = t @ r' \<and> at_separator r \<and> at_separator r' \<longrightarrow> v = w \<and> r = r')"

lemma json_tokens_head:
  "json_tokens c \<Longrightarrow> json_scalar v \<Longrightarrow> json_wf v \<Longrightarrow> json_to_string c v = Inr s \<Longrightarrow>
     s \<noteq> [] \<and> hd s \<notin> set (''{['' @ separators)"
  unfolding json_tokens_def by blast

lemma json_tokens_unique:
  "json_tokens c \<Longrightarrow> json_scalar v \<Longrightarrow> json_wf v \<Longrightarrow> json_scalar w \<Longrightarrow> json_wf w \<Longrightarrow>
     json_to_string c v = Inr s \<Longrightarrow> json_to_string c w = Inr t \<Longrightarrow>
     s @ r = t @ r' \<Longrightarrow> at_separator r \<Longrightarrow> at_separator r' \<Longrightarrow> v = w \<and> r = r'"
  unfolding json_tokens_def by blast

fun comma_tail :: "string list \<Rightarrow> string" where
  "comma_tail [] = []"
| "comma_tail (s # ss) = CHR '','' # s @ comma_tail ss"

lemma str_join_Cons: "str_join '','' (x # xs) = x @ comma_tail xs"
  by (induction xs arbitrary: x) auto

lemma sort_key_of_sorted: "sorted_wrt (<) (map fst m) \<Longrightarrow> sort_key fst m = m"
  by (metis sort_key_id_if_sorted sorted_wrt_mono_rel order.strict_implies_order)

text \<open>Lists of self-delimiting items, separated by commas and closed by a bracket.\<close>

lemma joined_tail_unique:
  fixes ss ts :: "string list"
  assumes "list_all2 (\<lambda>x s. enc x = Inr s) xs ss" and "list_all2 (\<lambda>y t. enc y = Inr t) ys ts"
    and item: "\<And>x y s t r r'. x \<in> set xs \<Longrightarrow> y \<in> set ys \<Longrightarrow> enc x = Inr s \<Longrightarrow> enc y = Inr t \<Longrightarrow>
      s @ r = t @ r' \<Longrightarrow> at_separator r \<Longrightarrow> at_separator r' \<Longrightarrow> x = y \<and> r = r'"
    and cl: "cl \<in> set '']}''"
    and "comma_tail ss @ cl # r = comma_tail ts @ cl # r'"
  shows "xs = ys \<and> r = r'"
proof -
  have comma: "cl \<noteq> CHR '',''" using cl by auto
  show ?thesis using assms(1,2,3,5)
  proof (induction xs ss arbitrary: ys ts rule: list_all2_induct)
    case Nil
    then have "ts = []" using comma by (cases ts) auto
    with Nil show ?case by simp
  next
    case (Cons x xs s ss)
    from Cons.prems(3) comma obtain t ts' where ts: "ts = t # ts'" by (cases ts) auto
    with Cons.prems(1) obtain y ys' where ys: "ys = y # ys'" "enc y = Inr t"
      "list_all2 (\<lambda>y t. enc y = Inr t) ys' ts'" by (auto simp: list_all2_Cons2)
    have sep: "at_separator (comma_tail us @ cl # q)" for us q
      using cl by (cases us) (auto simp: at_separator_def separators_def)
    have "s @ (comma_tail ss @ cl # r)
        = t @ (comma_tail ts' @ cl # r')"
      using Cons.prems(3) ts by simp
    then have "x = y" and rest: "comma_tail ss @ cl # r
        = comma_tail ts' @ cl # r'"
      using Cons.prems(2) [of x y s t] Cons.hyps(1) ys sep by auto
    moreover have "xs = ys' \<and> r = r'"
    proof (rule Cons.IH [OF ys(3) _ rest])
      show "x' = y' \<and> q = q'" if "x' \<in> set xs" "y' \<in> set ys'" "enc x' = Inr s'" "enc y' = Inr t'"
        "s' @ q = t' @ q'" "at_separator q" "at_separator q'" for x' y' s' t' q q'
        by (rule Cons.prems(2) [of x' y' s' t']) (use that ys in auto)
    qed
    ultimately show ?case using ys by simp
  qed
qed

lemma joined_unique:
  assumes enc: "list_all2 (\<lambda>x s. enc x = Inr s) xs ss" "list_all2 (\<lambda>y t. enc y = Inr t) ys ts"
    and item: "\<And>x y s t r r'. x \<in> set xs \<Longrightarrow> y \<in> set ys \<Longrightarrow> enc x = Inr s \<Longrightarrow> enc y = Inr t \<Longrightarrow>
      s @ r = t @ r' \<Longrightarrow> at_separator r \<Longrightarrow> at_separator r' \<Longrightarrow> x = y \<and> r = r'"
    and head: "\<And>x s. x \<in> set xs \<union> set ys \<Longrightarrow> enc x = Inr s \<Longrightarrow> s \<noteq> [] \<and> hd s \<notin> set '']}''"
    and cl: "cl \<in> set '']}''"
    and eq: "str_join '','' ss @ cl # r = str_join '','' ts @ cl # r'"
  shows "xs = ys \<and> r = r'"
proof (cases "ss = [] \<or> ts = []")
  case True
  have nonempty: False
    if "list_all2 (\<lambda>x s. enc x = Inr s) (z # zs) (u # us)" "cl # q = str_join '','' (u # us) @ q'"
      "z \<in> set xs \<union> set ys" for z zs u us q q'
  proof -
    have "u \<noteq> [] \<and> hd u \<notin> set '']}''" using that by (intro head [of z]) auto
    moreover have "cl = hd u" using that(2) calculation by (cases u) (auto simp: str_join_Cons)
    ultimately show False using cl by simp
  qed
  from True show ?thesis
  proof (cases "ss = [] \<and> ts = []")
    case True
    then show ?thesis using enc eq by auto
  next
    case False
    with \<open>ss = [] \<or> ts = []\<close> consider t ts' where "ss = []" "ts = t # ts'"
      | s ss' where "ts = []" "ss = s # ss'" by (cases ss; cases ts) auto
    then show ?thesis
    proof cases
      case 1
      then obtain y ys' where "ys = y # ys'" using enc(2) by (auto simp: list_all2_Cons2)
      then show ?thesis using 1 enc eq nonempty [of y ys' t ts' r "cl # r'"] by simp
    next
      case 2
      then obtain x xs' where "xs = x # xs'" using enc(1) by (auto simp: list_all2_Cons2)
      then show ?thesis using 2 enc eq nonempty [of x xs' s ss' r' "cl # r"] by simp
    qed
  qed
next
  case False
  then have "comma_tail ss @ cl # r = comma_tail ts @ cl # r'"
    using eq by (cases ss; cases ts) (auto simp: str_join_Cons)
  then show ?thesis
    by (intro joined_tail_unique [OF enc _ cl, of r r'] item) assumption+
qed

text \<open>One member of an object, and the canonical text of an object in terms of its members.\<close>

definition canon_member :: "crates \<Rightarrow> string \<times> json \<Rightarrow> string res" where
  "canon_member c kv =
     res_bind (res_map_err Serialization (json_to_string c (JStr (fst kv)))) (\<lambda>key.
     res_bind (canonicalize_json c (snd kv)) (\<lambda>val. Inr (key @ '':'' @ val)))"

lemma canon_obj_eq:
  "canonicalize_json c (JObj m) =
     res_bind (collect_res (map (canon_member c) (sort_key fst m)))
       (\<lambda>inner. Inr (''{'' @ str_join '','' inner @ ''}''))"
proof -
  have "(\<lambda>(k, v). res_bind (res_map_err Serialization (json_to_string c (JStr k))) (\<lambda>key.
       res_bind (canonicalize_json c v) (\<lambda>val. Inr (key @ '':'' @ val)))) = canon_member c"
    by (auto simp: canon_member_def fun_eq_iff)
  then show ?thesis by simp
qed

lemma canon_obj_Inr:
  assumes "canonicalize_json c (JObj m) = Inr s"
  obtains ss where "list_all2 (\<lambda>kv t. canon_member c kv = Inr t) (sort_key fst m) ss"
    and "s = ''{'' @ str_join '','' ss @ ''}''"
proof -
  from assms obtain ss where "map (canon_member c) (sort_key fst m) = map Inr ss"
    and "s = ''{'' @ str_join '','' ss @ ''}''"
    unfolding canon_obj_eq by (auto simp: res_bind_Inr_iff collect_res_Inr_iff)
  moreover from this(1) have "list_all2 (\<lambda>kv t. canon_member c kv = Inr t) (sort_key fst m) ss"
    by (metis list_all2_map2 list_all2_map1 list_all2_refl list_all2_eq)
  ultimately show thesis by (intro that)
qed

lemma canon_arr_Inr:
  assumes "canonicalize_json c (JArr xs) = Inr s"
  obtains ss where "list_all2 (\<lambda>x t. canonicalize_json c x = Inr t) xs ss"
    and "s = ''['' @ str_join '','' ss @ '']''"
proof -
  from assms obtain ss where "map (canonicalize_json c) xs = map Inr ss"
    and "s = ''['' @ str_join '','' ss @ '']''"
    by (auto simp: res_bind_Inr_iff collect_res_Inr_iff)
  moreover from this(1) have "list_all2 (\<lambda>x t. canonicalize_json c x = Inr t) xs ss"
    by (metis list_all2_map2 list_all2_map1 list_all2_refl list_all2_eq)
  ultimately show thesis by (intro that)
qed

lemma canon_scalar: "json_scalar v \<Longrightarrow> canonicalize_json c v = res_map_err Serialization (json_to_string c v)"
  by (cases v) auto

lemma canon_head:
  assumes "json_tokens c" and "json_wf v" and "canonicalize_json c v = Inr s"
  shows "s \<noteq> [] \<and> hd s \<notin> set separators
    \<and> (hd s = CHR ''{'' \<longleftrightarrow> (\<exists>m. v = JObj m)) \<and> (hd s = CHR ''['' \<longleftrightarrow> (\<exists>xs. v = JArr xs))"
proof (cases "json_scalar v")
  case True
  then have "json_to_string c v = Inr s" using assms(3) by (simp add: canon_scalar)
  then show ?thesis using json_tokens_head [OF assms(1) True assms(2)] True by (cases v) auto
next
  case False
  then consider m where "v = JObj m" | xs where "v = JArr xs" by (cases v) auto
  then show ?thesis
  proof cases
    case 1
    with assms(3) obtain ss where "s = ''{'' @ str_join '','' ss @ ''}''" by (metis canon_obj_Inr)
    then show ?thesis using 1 by (auto simp: separators_def)
  next
    case 2
    with assms(3) obtain ss where "s = ''['' @ str_join '','' ss @ '']''" by (metis canon_arr_Inr)
    then show ?thesis using 2 by (auto simp: separators_def)
  qed
qed

lemma at_separator_Cons [simp]: "at_separator (x # r) \<longleftrightarrow> x \<in> set separators"
  by (simp add: at_separator_def)

lemma canon_member_unique:
  assumes c: "json_tokens c"
    and val: "\<And>s t r r'. canonicalize_json c v = Inr s \<Longrightarrow> canonicalize_json c w = Inr t \<Longrightarrow>
      s @ r = t @ r' \<Longrightarrow> at_separator r \<Longrightarrow> at_separator r' \<Longrightarrow> v = w \<and> r = r'"
    and "canon_member c (k, v) = Inr s" and "canon_member c (l, w) = Inr t"
    and "s @ r = t @ r'" and "at_separator r" and "at_separator r'"
  shows "(k, v) = (l, w) \<and> r = r'"
proof -
  from assms(3,4) obtain ks vs lt wt where
    k: "json_to_string c (JStr k) = Inr ks" "canonicalize_json c v = Inr vs" "s = ks @ '':'' @ vs"
    and l: "json_to_string c (JStr l) = Inr lt" "canonicalize_json c w = Inr wt" "t = lt @ '':'' @ wt"
    by (auto simp: canon_member_def res_bind_Inr_iff)
  have "JStr k = JStr l \<and> '':'' @ vs @ r = '':'' @ wt @ r'"
    by (rule json_tokens_unique [OF c _ _ _ _ k(1) l(1)])
      (use assms(5) k(3) l(3) in \<open>auto simp: separators_def\<close>)
  then show ?thesis using val [OF k(2) l(2)] assms(6,7) by auto
qed

lemma canon_member_head:
  "json_tokens c \<Longrightarrow> canon_member c kv = Inr s \<Longrightarrow> s \<noteq> [] \<and> hd s \<notin> set '']}''"
  using json_tokens_head [of c "JStr (fst kv)"]
  by (auto simp: canon_member_def res_bind_Inr_iff separators_def)

lemma canon_scalar_unique:
  assumes c: "json_tokens c" and "json_scalar v" and "json_wf v" and "json_wf w"
    and "canonicalize_json c v = Inr s" and "canonicalize_json c w = Inr t"
    and "s @ r = t @ r'" and "at_separator r" and "at_separator r'"
  shows "v = w \<and> r = r'"
proof -
  have "hd s = hd t"
    using canon_head [OF c assms(3,5)] canon_head [OF c assms(4,6)] assms(7) by (metis hd_append2)
  then have "hd t \<notin> set ''{[''" using canon_head [OF c assms(3,5)] assms(2) by (cases v) auto
  then have w: "json_scalar w" using canon_head [OF c assms(4,6)] by (cases w) auto
  show ?thesis
    by (rule json_tokens_unique [OF c assms(2,3) w assms(4) _ _ assms(7-9)])
      (use assms(2,5,6) w in \<open>auto simp: canon_scalar\<close>)
qed

lemma canonicalize_unique:
  assumes "json_tokens c"
  shows "json_wf v \<Longrightarrow> json_wf w \<Longrightarrow> canonicalize_json c v = Inr s \<Longrightarrow>
    canonicalize_json c w = Inr t \<Longrightarrow> s @ r = t @ r' \<Longrightarrow> at_separator r \<Longrightarrow> at_separator r' \<Longrightarrow>
    v = w \<and> r = r'"
proof (induction v arbitrary: w s t r r')
  case (JObj m)
  have "hd t = CHR ''{''"
    using canon_head [OF assms JObj.prems(1,3)] canon_head [OF assms JObj.prems(2,4)] JObj.prems(5)
    by (metis hd_append2)
  then obtain m' where w: "w = JObj m'" using canon_head [OF assms JObj.prems(2,4)] by auto
  have srt: "sort_key fst m = m" "sort_key fst m' = m'"
    using JObj.prems(1,2) w by (auto intro: sort_key_of_sorted)
  from JObj.prems(3,4) srt w obtain ss ts where
    ss: "list_all2 (\<lambda>kv t. canon_member c kv = Inr t) m ss" "s = ''{'' @ str_join '','' ss @ ''}''"
    and ts: "list_all2 (\<lambda>kv t. canon_member c kv = Inr t) m' ts" "t = ''{'' @ str_join '','' ts @ ''}''"
    by (metis canon_obj_Inr)
  have "m = m' \<and> r = r'"
  proof (rule joined_unique [OF ss(1) ts(1)])
    show "x = y \<and> q = q'" if "x \<in> set m" "y \<in> set m'" "canon_member c x = Inr s'"
      "canon_member c y = Inr t'" "s' @ q = t' @ q'" "at_separator q" "at_separator q'"
      for x y s' t' q q'
    proof -
      have "json_wf (snd x)" "json_wf (snd y)"
        using JObj.prems(1,2) w that(1,2) by (auto simp: list_all_iff split_beta)
      then have "(fst x, snd x) = (fst y, snd y) \<and> q = q'"
        by (intro canon_member_unique [OF assms _ _ _ that(5,6,7)] JObj.IH [of x "snd x"])
          (use that in \<open>auto simp: snds.simps\<close>)
      then show ?thesis by (simp add: prod_eq_iff)
    qed
    show "s' \<noteq> [] \<and> hd s' \<notin> set '']}''" if "canon_member c x = Inr s'" for x s'
      using canon_member_head [OF assms that] .
    show "CHR ''}'' \<in> set '']}''" by simp
    show "str_join '','' ss @ CHR ''}'' # r = str_join '','' ts @ CHR ''}'' # r'"
      using JObj.prems(5) ss(2) ts(2) by simp
  qed
  then show ?case using w by simp
next
  case (JArr xs)
  have "hd t = CHR ''[''"
    using canon_head [OF assms JArr.prems(1,3)] canon_head [OF assms JArr.prems(2,4)] JArr.prems(5)
    by (metis hd_append2)
  then obtain ys where w: "w = JArr ys" using canon_head [OF assms JArr.prems(2,4)] by auto
  from JArr.prems(3,4) w obtain ss ts where
    ss: "list_all2 (\<lambda>x t. canonicalize_json c x = Inr t) xs ss" "s = ''['' @ str_join '','' ss @ '']''"
    and ts: "list_all2 (\<lambda>x t. canonicalize_json c x = Inr t) ys ts" "t = ''['' @ str_join '','' ts @ '']''"
    by (metis canon_arr_Inr)
  have wf: "json_wf x" if "x \<in> set xs \<union> set ys" for x
    using that JArr.prems(1,2) w by (auto simp: list_all_iff)
  have "xs = ys \<and> r = r'"
  proof (rule joined_unique [OF ss(1) ts(1)])
    show "x = y \<and> q = q'" if "x \<in> set xs" "y \<in> set ys" "canonicalize_json c x = Inr s'"
      "canonicalize_json c y = Inr t'" "s' @ q = t' @ q'" "at_separator q" "at_separator q'"
      for x y s' t' q q'
      using JArr.IH [OF that(1) wf wf that(3-7)] that(1,2) by simp
    show "s' \<noteq> [] \<and> hd s' \<notin> set '']}''"
      if "x \<in> set xs \<union> set ys" "canonicalize_json c x = Inr s'" for x s'
      using canon_head [OF assms wf [OF that(1)] that(2)] by (auto simp: separators_def)
    show "CHR '']'' \<in> set '']}''" by simp
    show "str_join '','' ss @ CHR '']'' # r = str_join '','' ts @ CHR '']'' # r'"
      using JArr.prems(5) ss(2) ts(2) by simp
  qed
  then show ?case using w by simp
next
  case JNull
  then show ?case using assms canon_scalar_unique by (metis json_scalar.simps(3))
next
  case (JBool x)
  then show ?case using assms canon_scalar_unique by (metis json_scalar.simps(4))
next
  case (JInt x)
  then show ?case using assms canon_scalar_unique by (metis json_scalar.simps(5))
next
  case (JFloat x)
  then show ?case using assms canon_scalar_unique by (metis json_scalar.simps(6))
next
  case (JStr x)
  then show ?case using assms canon_scalar_unique by (metis json_scalar.simps(7))
qed

section \<open>The value of a snapshot\<close>

lemma json_wf_obj: "list_all (\<lambda>(k, v). json_wf v) kvs \<Longrightarrow> json_wf (json_obj kvs)"
  using set_fold_obj_insert [of kvs "[]"] sorted_fold_obj_insert [of "[]" kvs]
  by (auto simp: json_obj_def list_all_iff)

lemma json_obj_single: "json_obj [(k, v)] = JObj [(k, v)]"
  by (simp add: json_obj_def)

text \<open>The floats of an intent that JSON can carry: finite, and of the format.\<close>

definition f64_ok :: "f64 \<Rightarrow> bool" where
  "f64_ok x \<longleftrightarrow> f64_finite x \<and> f64_wf x"

fun action_ok :: "trade_action \<Rightarrow> bool" where
  "action_ok (Long s) = f64_ok s"
| "action_ok (Short s) = f64_ok s"
| "action_ok _ = True"

definition intent_ok :: "execution_intent \<Rightarrow> bool" where
  "intent_ok e \<longleftrightarrow> action_ok (ei_action e) \<and> f64_ok (ei_quantity e) \<and> f64_ok (ei_notional e)
     \<and> f64_ok (ei_multiplier e) \<and> pred_option f64_ok (ei_limit_price e)
     \<and> pred_option f64_ok (ei_stop_price e)"

lemma json_f64_inj: "f64_ok x \<Longrightarrow> f64_ok y \<Longrightarrow> json_f64 x = json_f64 y \<Longrightarrow> x = y"
  by (simp add: json_f64_def f64_ok_def)

lemma json_f64_opt_inj:
  "pred_option f64_ok x \<Longrightarrow> pred_option f64_ok y \<Longrightarrow> json_f64_opt x = json_f64_opt y \<Longrightarrow> x = y"
  by (cases x; cases y) (auto simp: json_f64_def f64_ok_def)

lemma json_f64_wf: "f64_ok x \<Longrightarrow> json_wf (json_f64 x)"
  by (simp add: json_f64_def f64_ok_def)

lemma json_f64_opt_wf: "pred_option f64_ok x \<Longrightarrow> json_wf (json_f64_opt x)"
  by (cases x) (simp_all add: json_f64_wf)

lemma trade_action_value_inj:
  "action_ok a \<Longrightarrow> action_ok b \<Longrightarrow> trade_action_value a = trade_action_value b \<Longrightarrow> a = b"
  by (cases a; cases b) (auto simp: json_obj_single dest: json_f64_inj)

lemma order_type_value_inj: "order_type_value a = order_type_value b \<Longrightarrow> a = b"
  by (cases a; cases b) (simp_all add: json_obj_single)

lemma intent_value_wf: "intent_ok e \<Longrightarrow> json_wf (execution_intent_value e)"
proof -
  assume e: "intent_ok e"
  then have "json_wf (trade_action_value (ei_action e))"
    by (cases "ei_action e") (auto simp: intent_ok_def json_obj_single json_f64_wf)
  moreover have "json_wf (order_type_value (ei_order_type e))"
    by (cases "ei_order_type e") (simp_all add: json_obj_single)
  ultimately show ?thesis using e unfolding execution_intent_value_def intent_ok_def
    by (intro json_wf_obj) (simp add: json_f64_wf json_f64_opt_wf)
qed

lemma execution_intent_value_inj:
  assumes "execution_intent_value a = execution_intent_value b" and "intent_ok a" and "intent_ok b"
  shows "a = b"
proof (rule execution_intent.equality)
  note get = json_obj_eqD [OF assms(1) [unfolded execution_intent_value_def]]
  show "ei_action a = ei_action b"
    using get [of "''action''"] assms(2,3) by (simp add: intent_ok_def trade_action_value_inj)
  show "ei_asset a = ei_asset b" using get [of "''asset''"] by simp
  show "ei_order_type a = ei_order_type b"
    using get [of "''order_type''"] by (simp add: order_type_value_inj)
  show "ei_venue_id a = ei_venue_id b" using get [of "''venue_id''"] by simp
  show "ei_quantity a = ei_quantity b"
    using get [of "''quantity''"] assms(2,3) by (simp add: intent_ok_def json_f64_inj)
  show "ei_notional a = ei_notional b"
    using get [of "''notional''"] assms(2,3) by (simp add: intent_ok_def json_f64_inj)
  show "ei_notional_currency a = ei_notional_currency b"
    using get [of "''notional_currency''"] by simp
  show "ei_multiplier a = ei_multiplier b"
    using get [of "''multiplier''"] assms(2,3) by (simp add: intent_ok_def json_f64_inj)
  show "ei_limit_price a = ei_limit_price b"
    using get [of "''limit_price''"] assms(2,3) by (simp add: intent_ok_def json_f64_opt_inj)
  show "ei_stop_price a = ei_stop_price b"
    using get [of "''stop_price''"] assms(2,3) by (simp add: intent_ok_def json_f64_opt_inj)
  show "ei_client_order_id a = ei_client_order_id b"
    using get [of "''client_order_id''"] by simp
qed simp

lemma heartbeat_value_inj:
  assumes "heartbeat_value c a = heartbeat_value c b" and "inj (b64_encode c)"
  shows "a = b"
proof (rule signed_heartbeat.equality)
  note get = json_obj_eqD [OF assms(1) [unfolded heartbeat_value_def]]
  show "hb_sequence_id a = hb_sequence_id b" using get [of "''sequence_id''"] by (simp add: word_uint_eq_iff)
  show "hb_timestamp_ms a = hb_timestamp_ms b" using get [of "''timestamp_ms''"] by (simp add: word_uint_eq_iff)
  show "hb_regime_id a = hb_regime_id b" using get [of "''regime_id''"] by (simp add: word_uint_eq_iff)
  show "hb_mta_ref a = hb_mta_ref b" using get [of "''mta_ref''"] by simp
  show "hb_signature a = hb_signature b"
    using get [of "''signature''"] assms(2) by (simp add: base64_bytes_serialize_def inj_eq)
qed simp

lemma snapshot_value_inj:
  assumes "snapshot_value c a = snapshot_value c b" and "inj (b64_encode c)"
    and "inj (uuid_to_string c)" and "intent_ok (cs_execution a)" and "intent_ok (cs_execution b)"
  shows "a = b"
proof (rule cognitive_snapshot.equality)
  note get = json_obj_eqD [OF assms(1) [unfolded snapshot_value_def]]
  show "cs_trace_id a = cs_trace_id b" using get [of "''trace_id''"] assms(3) by (simp add: inj_eq)
  show "cs_mta_regime_id a = cs_mta_regime_id b" using get [of "''mta_regime_id''"] by (simp add: word_uint_eq_iff)
  show "cs_mta_version a = cs_mta_version b" using get [of "''mta_version''"] by simp
  show "cs_mta_hash a = cs_mta_hash b" using get [of "''mta_hash''"] by simp
  show "cs_latent_fingerprint a = cs_latent_fingerprint b"
    using get [of "''latent_fingerprint''"] by simp
  show "cs_feature_schema_id a = cs_feature_schema_id b"
    using get [of "''feature_schema_id''"] by simp
  show "cs_execution a = cs_execution b"
    using get [of "''execution''"] assms(4,5) by (simp add: execution_intent_value_inj)
  show "cs_valid_time a = cs_valid_time b" using get [of "''valid_time''"] by simp
  show "cs_txn_time a = cs_txn_time b" using get [of "''txn_time''"] by simp
  show "cs_heartbeat a = cs_heartbeat b"
    using get [of "''heartbeat''"] assms(2) by (simp add: heartbeat_value_inj)
qed simp

lemma snapshot_value_wf: "intent_ok (cs_execution s) \<Longrightarrow> json_wf (snapshot_value c s)"
proof -
  assume "intent_ok (cs_execution s)"
  then have "json_wf (execution_intent_value (cs_execution s))" by (rule intent_value_wf)
  moreover have "json_wf (heartbeat_value c (cs_heartbeat s))"
    unfolding heartbeat_value_def by (rule json_wf_obj) (simp add: base64_bytes_serialize_def)
  ultimately show ?thesis unfolding snapshot_value_def by (intro json_wf_obj) simp
qed

section \<open>An instance with token texts\<close>

lemma plain_texts_unique:
  assumes "set s \<inter> set separators = {}" and "set t \<inter> set separators = {}"
    and "s @ r = t @ r'" and "at_separator r" and "at_separator r'"
  shows "s = t \<and> r = r'"
proof -
  have tw: "takeWhile (\<lambda>x. x \<notin> set separators) (u @ q) = u"
    if "set u \<inter> set separators = {}" "at_separator q" for u q
  proof (cases q)
    case Nil
    then show ?thesis using that(1) by (auto simp: takeWhile_eq_all_conv)
  next
    case (Cons x q')
    then show ?thesis using that by (simp add: takeWhile_append2 disjoint_iff)
  qed
  have "s = t" using tw [OF assms(1,4)] tw [OF assms(2,5)] assms(3) by simp
  then show ?thesis using assms(3) by simp
qed

lemma digits_plain: "set (show_int i) \<inter> set separators = {} \<and> CHR ''/'' \<notin> set (show_int i)"
proof -
  have "insert (CHR ''-'') (set ''0123456789'') \<inter> insert (CHR ''/'') (set separators) = {}"
    by (simp add: separators_def)
  then show ?thesis using set_show_int [of i] by blast
qed

lemma hex_plain: "set (demo_hex_encode bs) \<inter> set separators = {}"
proof -
  have "set ''0123456789abcdef'' \<inter> set separators = {}" by (simp add: separators_def)
  then show ?thesis using set_demo_hex [of bs] by blast
qed

lemma demo_scalar_plain:
  "json_scalar v \<Longrightarrow> set (demo_scalar_text v) \<inter> set separators = {}
     \<and> demo_scalar_text v \<noteq> [] \<and> hd (demo_scalar_text v) \<notin> set (''{['' @ separators)"
  using digits_plain hex_plain
  by (cases v rule: demo_scalar_text.cases) (auto simp: separators_def)

lemma show_pair_inj:
  "show_int a @ CHR ''/'' # show_int b = show_int a' @ CHR ''/'' # show_int b' \<Longrightarrow> a = a' \<and> b = b'"
  using append_Cons_eq_iff [of "CHR ''/''" "show_int a" "show_int b" "show_int a'" "show_int b'"]
    digits_plain by auto

lemma quotient_of_inj: "quotient_of p = quotient_of q \<Longrightarrow> p = q"
  by (metis quotient_of_div prod.exhaust_sel)

lemma demo_scalar_inj:
  assumes "json_scalar v" "json_wf v" "json_scalar w" "json_wf w"
    and "demo_scalar_text v = demo_scalar_text w"
  shows "v = w"
  using assms
  by (cases v rule: demo_scalar_text.cases; cases w rule: demo_scalar_text.cases)
    (auto dest!: show_pair_inj intro!: quotient_of_inj prod_eqI
      simp: inj_eq [OF demo_hex_inj] split: if_splits)

lemma demo_json_tokens: "json_to_string c = json_to_string demo_crates \<Longrightarrow> json_tokens c"
  unfolding json_tokens_def
proof (intro conjI allI impI)
  assume c: "json_to_string c = json_to_string demo_crates"
  show "s \<noteq> []" "hd s \<notin> set (''{['' @ separators)"
    if "json_scalar v \<and> json_wf v \<and> json_to_string c v = Inr s" for v s
    using that demo_scalar_plain [of v] c by (auto simp: demo_crates_def)
  fix v w s t r r'
  assume a: "json_scalar v \<and> json_wf v \<and> json_scalar w \<and> json_wf w
    \<and> json_to_string c v = Inr s \<and> json_to_string c w = Inr t
    \<and> s @ r = t @ r' \<and> at_separator r \<and> at_separator r'"
  then have texts: "s = demo_scalar_text v" "t = demo_scalar_text w"
    using c by (simp_all add: demo_crates_def)
  have "s = t \<and> r = r'"
    by (rule plain_texts_unique) (use a texts demo_scalar_plain in auto)
  then show "v = w" "r = r'" using a texts demo_scalar_inj by auto
qed

lemma canonicalize_total:
  assumes "\<And>v. \<exists>s. json_to_string c v = Inr s"
  shows "\<exists>s. canonicalize_json c v = Inr s"
proof (induction v)
  case (JObj m)
  have "\<exists>t. canon_member c kv = Inr t" if kv: "kv \<in> set (sort_key fst m)" for kv
  proof -
    obtain key where "json_to_string c (JStr (fst kv)) = Inr key" using assms by blast
    moreover obtain val where "canonicalize_json c (snd kv) = Inr val"
      using JObj [of kv "snd kv"] kv by (auto simp: snds.simps)
    ultimately show ?thesis by (simp add: canon_member_def)
  qed
  then obtain ss where "collect_res (map (canon_member c) (sort_key fst m)) = Inr ss"
    using collect_res_total by blast
  then show ?case by (simp add: canon_obj_eq del: canonicalize_json.simps)
next
  case (JArr xs)
  then show ?case using collect_res_total [of xs "canonicalize_json c"] by (force simp: res_bind_Inr_iff)
qed (use assms in \<open>auto simp: canon_scalar\<close>)

section \<open>Properties\<close>

text \<open>the bitemporal check accepts a snapshot exactly when its valid time is
  strictly before its transaction time, and otherwise fails with that error.\<close>

theorem verify_bitemporal_iff:
  "verify_bitemporal s =
     (if cs_valid_time s < cs_txn_time s then Inr () else Inl BiTemporalViolation)"
  by (auto simp: verify_bitemporal_def)

text \<open>The canonical text of an object does not depend on the order in which its
  members were inserted.\<close>

theorem canonicalize_order_independent:
  assumes "distinct (map fst kvs)" and "mset kvs = mset kvs'"
  shows "canonicalize_json c (JObj kvs) = canonicalize_json c (JObj kvs')"
proof -
  have "inj_on fst (set kvs)" using assms(1) by (simp add: distinct_map)
  moreover have "set kvs = set kvs'" using assms(2) by (metis set_mset_mset)
  ultimately have "sort_key fst kvs = sort_key fst kvs'"
    using assms(2) by (intro sort_key_inj_key_eq) auto
  then show ?thesis by simp
qed

theorem canonicalize_order_independent_witness:
  "canonicalize_json demo_crates (JObj [(''b'', JInt 1), (''a'', JNull)])
     = canonicalize_json demo_crates (JObj [(''a'', JNull), (''b'', JInt 1)])"
  by (rule canonicalize_order_independent) simp_all

text \<open>C9: the seal commits to the whole snapshot. Two different snapshots (with floats
  that JSON can carry) hash different canonical texts, so equal seals of different
  snapshots exhibit a collision of the digest. Relies on JSON tokens being uniquely
  readable and on the base64 and UUID renderings being injective.\<close>

theorem seal_commits:
  assumes "json_tokens c" and "inj (b64_encode c)" and "inj (uuid_to_string c)"
    and "intent_ok (cs_execution s1)" and "intent_ok (cs_execution s2)"
    and "seal c s1 = Inr h1" and "seal c s2 = Inr h2" and "s1 \<noteq> s2"
  shows "\<exists>t1 t2. as_bytes t1 \<noteq> as_bytes t2
    \<and> h1 = hex_encode c (sha256 c (as_bytes t1)) \<and> h2 = hex_encode c (sha256 c (as_bytes t2))
    \<and> canonicalize_json c (snapshot_value c s1) = Inr t1
    \<and> canonicalize_json c (snapshot_value c s2) = Inr t2"
proof -
  obtain u1 u2 where u1: "canonicalize_json c (snapshot_value c s1) = Inr u1"
      "h1 = hex_encode c (sha256 c (as_bytes u1))"
    and u2: "canonicalize_json c (snapshot_value c s2) = Inr u2"
      "h2 = hex_encode c (sha256 c (as_bytes u2))"
    using assms(6,7) by (auto simp: seal_def res_bind_Inr_iff)
  have "u1 \<noteq> u2"
  proof
    assume "u1 = u2"
    then have "snapshot_value c s1 = snapshot_value c s2"
      using canonicalize_unique [OF assms(1) snapshot_value_wf snapshot_value_wf u1(1) u2(1), of "[]" "[]"]
        assms(4,5) by (simp add: at_separator_def)
    then show False using snapshot_value_inj [OF _ assms(2,3,4,5)] assms(8) by simp
  qed
  then show ?thesis using u1 u2 by (intro exI [of _ u1] exI [of _ u2]) simp
qed

definition demo_snapshot :: "u8 \<Rightarrow> cognitive_snapshot" where
  "demo_snapshot regime =
     \<lparr>cs_trace_id = 7, cs_mta_regime_id = regime, cs_mta_version = ''hmm-v3.1'',
      cs_mta_hash = ''0xabc'', cs_latent_fingerprint = ''0xdef'',
      cs_feature_schema_id = ''schema-test'',
      cs_execution =
        \<lparr>ei_action = Short (Finite (3 / 2)), ei_asset = ''BTC-PERP'', ei_order_type = Market,
         ei_venue_id = ''XNAS'', ei_quantity = Finite (3 / 2), ei_notional = Finite 100000,
         ei_notional_currency = ''USD'', ei_multiplier = Finite 1, ei_limit_price = None,
         ei_stop_price = None, ei_client_order_id = ''order-1''\<rparr>,
      cs_valid_time = 1000, cs_txn_time = 1001,
      cs_heartbeat =
        \<lparr>hb_sequence_id = 1, hb_timestamp_ms = 1000, hb_regime_id = 2,
         hb_mta_ref = ''0xmockref'', hb_signature = []\<rparr>\<rparr>"

lemma demo_seal_total: "\<exists>h. seal demo_crates s = Inr h"
proof -
  have "\<exists>u. canonicalize_json demo_crates (snapshot_value demo_crates s) = Inr u"
    by (rule canonicalize_total) (simp add: demo_crates_def)
  then show ?thesis by (auto simp: seal_def res_bind_Inr_iff)
qed

lemma demo_snapshot_ok: "intent_ok (cs_execution (demo_snapshot r))"
proof -
  have "f64_ok (Finite (3 / 2))" "f64_ok (Finite 100000)" "f64_ok (Finite 1)" by code_simp+
  then show ?thesis by (simp add: demo_snapshot_def intent_ok_def)
qed

theorem seal_commits_witness:
  "\<exists>t1 t2. as_bytes t1 \<noteq> as_bytes t2
    \<and> canonicalize_json demo_crates (snapshot_value demo_crates (demo_snapshot 2)) = Inr t1
    \<and> canonicalize_json demo_crates (snapshot_value demo_crates (demo_snapshot 3)) = Inr t2"
proof -
  obtain h1 h2 where h: "seal demo_crates (demo_snapshot 2) = Inr h1" "seal demo_crates (demo_snapshot 3) = Inr h2"
    using demo_seal_total by blast
  have "inj (b64_encode demo_crates)" by (simp add: demo_crates_def demo_hex_inj)
  moreover have "inj (uuid_to_string demo_crates)"
    by (simp add: demo_crates_def inj_def word_uint_eq_iff)
  moreover have "demo_snapshot 2 \<noteq> demo_snapshot 3" by (simp add: demo_snapshot_def)
  ultimately show ?thesis
    using seal_commits [OF demo_json_tokens [OF refl] _ _ demo_snapshot_ok demo_snapshot_ok h] by blast
qed

text \<open>The final proof binds the reasoning hash to the exchange transaction: for
  reasoning hashes of one length (a hex digest has 64 characters) two proofs are equal only
  if both components are, unless the two hashed byte strings collide.\<close>

theorem final_proof_binding:
  assumes "length h1 = length h2" and "inj (hex_encode c)"
    and "inj_on (sha256 c) {as_bytes (h1 @ ''||'' @ x1), as_bytes (h2 @ ''||'' @ x2)}"
  shows "compute_final_proof c h1 x1 = compute_final_proof c h2 x2 \<longleftrightarrow> h1 = h2 \<and> x1 = x2"
proof
  assume "compute_final_proof c h1 x1 = compute_final_proof c h2 x2"
  then have "sha256 c (as_bytes (h1 @ ''||'' @ x1)) = sha256 c (as_bytes (h2 @ ''||'' @ x2))"
    using assms(2) by (simp add: compute_final_proof_def sha256_hex_of_def inj_eq as_bytes_def)
  then have "as_bytes (h1 @ ''||'' @ x1) = as_bytes (h2 @ ''||'' @ x2)"
    by (rule inj_onD [OF assms(3)]) blast+
  then have "h1 @ ''||'' @ x1 = h2 @ ''||'' @ x2" by (simp only: as_bytes_inj)
  then show "h1 = h2 \<and> x1 = x2" using assms(1) by simp
qed simp

theorem final_proof_binding_witness:
  "compute_final_proof demo_crates ''0abc'' ''exch-123'' \<noteq> compute_final_proof demo_crates ''0abc'' ''exch-456''"
proof -
  have "inj_on (sha256 demo_crates) {as_bytes (''0abc'' @ ''||'' @ ''exch-123''), as_bytes (''0abc'' @ ''||'' @ ''exch-456'')}"
    by (simp add: demo_crates_def demo_digest_def as_bytes_def inj_on_def)
  moreover have "inj (hex_encode demo_crates)" by (simp add: demo_crates_def demo_hex_inj)
  ultimately show ?thesis
    using final_proof_binding [of "''0abc''" "''0abc''" demo_crates "''exch-123''" "''exch-456''"] by simp
qed

end
