(* ===== verification/Irl_Policy.thy ===== *)
theory Irl_Policy
  imports Irl_Seal
begin

text \<open>
  The regime state of \<open>src/mta.rs\<close> and the constraint policy of \<open>src/policy.rs\<close>:
  the direction and notional checks an order passes, with what an accepted order
  is known to satisfy.
\<close>

section \<open>The anchored regime state\<close>

record mta_state =
  ms_regime_id :: u8
  ms_regime_label :: string
  ms_risk_level :: f64
  ms_max_notional_scale :: f64
  ms_allowed_sides :: "string list"
  ms_version :: string
  ms_hash :: string
  ms_broadcast_time :: int
  ms_pubkey_fingerprint :: string
  ms_signal_mode :: string

section \<open>Decisions\<close>

datatype policy_result = Allowed | Halted | ShadowHalted

fun show_policy_result :: "policy_result \<Rightarrow> string" where
  "show_policy_result Allowed = ''ALLOWED''"
| "show_policy_result Halted = ''HALTED''"
| "show_policy_result ShadowHalted = ''SHADOW_HALTED''"

record policy_decision =
  pd_result :: policy_result
  pd_policy_id :: string
  pd_policy_version :: string
  pd_policy_hash :: string

definition POLICY_ID :: string where "POLICY_ID = ''IrlConstraintPolicy''"
definition POLICY_VERSION :: string where "POLICY_VERSION = ''1.0.0''"

definition action_side :: "trade_action \<Rightarrow> string" where
  "action_side a = direction a"

definition constraint_hash :: "crates \<Rightarrow> mta_state \<Rightarrow> string" where
  "constraint_hash c mta = sha256_hex_of c
     ([[ms_regime_id mta], as_bytes ''|'', as_bytes (ms_version mta), as_bytes ''|'',
       u64_to_le_bytes (f64_to_bits (ms_risk_level mta)), as_bytes ''|'',
       u64_to_le_bytes (f64_to_bits (ms_max_notional_scale mta)), as_bytes ''|'']
      @ concat (map (\<lambda>side. [as_bytes side, as_bytes '','']) (ms_allowed_sides mta)))"

definition check_constraints ::
  "crates \<Rightarrow> mta_state \<Rightarrow> trade_action \<Rightarrow> f64 \<Rightarrow> f64 \<Rightarrow> bool \<Rightarrow> unit res"
where
  "check_constraints c mta action notional agent_notional_cap reduce_only =
     (if \<not> reduce_only
         \<and> \<not> list_ex (\<lambda>s. eq_ignore_ascii_case s (action_side action)) (ms_allowed_sides mta)
      then Inl (Policy (RegimeViolation (show_trade_action c action) (ms_regime_label mta)
                          POLICY_ID POLICY_VERSION))
      else let effective_cap = f64_mul agent_notional_cap (ms_max_notional_scale mta)
           in if f64_less effective_cap notional
              then Inl (Policy (NotionalExceedsLimit notional effective_cap (ms_regime_label mta)
                                  POLICY_ID))
              else Inr ())"

definition evaluate ::
  "crates \<Rightarrow> mta_state \<Rightarrow> trade_action \<Rightarrow> f64 \<Rightarrow> f64 \<Rightarrow> bool \<Rightarrow> policy_decision"
where
  "evaluate c mta action notional agent_notional_cap reduce_only =
     (let base = \<lparr>pd_result = Allowed, pd_policy_id = POLICY_ID, pd_policy_version = POLICY_VERSION,
                  pd_policy_hash = constraint_hash c mta\<rparr>
      in case check_constraints c mta action notional agent_notional_cap reduce_only of
           Inr _ \<Rightarrow> base
         | Inl _ \<Rightarrow> base\<lparr>pd_result := Halted\<rparr>)"

definition enforce ::
  "crates \<Rightarrow> mta_state \<Rightarrow> trade_action \<Rightarrow> f64 \<Rightarrow> f64 \<Rightarrow> bool \<Rightarrow> policy_decision res"
where
  "enforce c mta action notional agent_notional_cap reduce_only =
     res_bind (check_constraints c mta action notional agent_notional_cap reduce_only) (\<lambda>_.
       Inr \<lparr>pd_result = Allowed, pd_policy_id = POLICY_ID, pd_policy_version = POLICY_VERSION,
            pd_policy_hash = constraint_hash c mta\<rparr>)"

section \<open>The direction of displayed actions\<close>

definition side_open :: "mta_state \<Rightarrow> trade_action \<Rightarrow> bool" where
  "side_open mta a \<longleftrightarrow>
     (\<exists>s \<in> set (ms_allowed_sides mta). to_ascii_lowercase s = to_ascii_lowercase (direction a))"

lemma list_ex_side_open:
  "list_ex (\<lambda>s. eq_ignore_ascii_case s (action_side a)) (ms_allowed_sides mta) = side_open mta a"
  by (simp add: side_open_def list_ex_iff eq_ignore_ascii_case_def action_side_def)

lemma check_constraints_eq:
  "check_constraints c mta a n cap ro =
     (if \<not> ro \<and> \<not> side_open mta a
      then Inl (Policy (RegimeViolation (show_trade_action c a) (ms_regime_label mta)
                          POLICY_ID POLICY_VERSION))
      else if f64_less (f64_mul cap (ms_max_notional_scale mta)) n
      then Inl (Policy (NotionalExceedsLimit n (f64_mul cap (ms_max_notional_scale mta))
                          (ms_regime_label mta) POLICY_ID))
      else Inr ())"
  by (simp add: check_constraints_def list_ex_side_open Let_def)

lemma check_constraints_ok_iff:
  "check_constraints c mta a n cap ro = Inr () \<longleftrightarrow>
     (ro \<or> side_open mta a) \<and> \<not> f64_less (f64_mul cap (ms_max_notional_scale mta)) n"
  by (simp add: check_constraints_eq)

lemma f64_less_zero_left: "f64_less (f64_zero s) n \<longleftrightarrow> f64_less (Finite 0) n"
  by (cases n) (auto simp: f64_zero_def)

lemma enforce_ok_iff:
  "enforce c mta a n cap ro = Inr d \<longleftrightarrow>
     (ro \<or> side_open mta a) \<and> \<not> f64_less (f64_mul cap (ms_max_notional_scale mta)) n
     \<and> d = \<lparr>pd_result = Allowed, pd_policy_id = POLICY_ID, pd_policy_version = POLICY_VERSION,
            pd_policy_hash = constraint_hash c mta\<rparr>"
  by (auto simp: enforce_def res_bind_Inr_iff check_constraints_ok_iff)

section \<open>Properties\<close>

text \<open>C8: an order passes the policy exactly when its direction is open in the regime (or it
  is reduce-only) and its notional does not exceed the agent's cap scaled by the regime;
  the decision of a passing order is ALLOWED with the hash of the constraints in force.\<close>

theorem enforce_iff:
  "enforce c mta a n cap ro = Inr d \<longleftrightarrow>
     (ro \<or> side_open mta a) \<and> \<not> f64_less (f64_mul cap (ms_max_notional_scale mta)) n
     \<and> d = \<lparr>pd_result = Allowed, pd_policy_id = POLICY_ID, pd_policy_version = POLICY_VERSION,
            pd_policy_hash = constraint_hash c mta\<rparr>"
  by (rule enforce_ok_iff)

text \<open>The errors of the policy, in the order of the checks: a closed direction is reported
  before an exceeded notional, with the regime and the limit that was applied.\<close>

theorem enforce_error_iff:
  "enforce c mta a n cap ro = Inl e \<longleftrightarrow>
     (\<not> ro \<and> \<not> side_open mta a
        \<and> e = Policy (RegimeViolation (show_trade_action c a) (ms_regime_label mta)
                       POLICY_ID POLICY_VERSION))
     \<or> ((ro \<or> side_open mta a) \<and> f64_less (f64_mul cap (ms_max_notional_scale mta)) n
        \<and> e = Policy (NotionalExceedsLimit n (f64_mul cap (ms_max_notional_scale mta))
                       (ms_regime_label mta) POLICY_ID))"
  by (auto simp: enforce_def check_constraints_eq)

text \<open>The non-failing evaluation used for the audit log agrees with enforcement: it records
  ALLOWED exactly when enforcement accepts, and then the same decision.\<close>

theorem evaluate_agrees_with_enforce:
  "(pd_result (evaluate c mta a n cap ro) = Allowed
      \<longleftrightarrow> enforce c mta a n cap ro = Inr (evaluate c mta a n cap ro))
   \<and> pd_result (evaluate c mta a n cap ro) \<in> {Allowed, Halted}"
  by (auto simp: evaluate_def enforce_def Let_def split: sum.splits)

text \<open>C27: the regime can only tighten an agent's cap. When the cap is a non-negative finite
  float and the regime scale lies between 0 and 1, the notional of every accepted order
  with a finite notional is at most the cap, with no allowance for rounding.\<close>

theorem enforce_within_agent_cap:
  assumes "enforce c mta a n cap ro = Inr d" and "f64_finite n"
    and "cap = Finite r" and "0 \<le> r" and "f64_wf cap"
    and "ms_max_notional_scale mta = Finite t" and "0 \<le> t" and "t \<le> 1"
  shows "f64_val n \<le> f64_val cap"
proof -
  have "r * t \<le> r" using assms(4,7,8) by (simp add: mult_left_le)
  moreover have "f64_round False r = Finite r" using assms(3-5) by (auto split: if_splits)
  ultimately have round: "f64_finite (f64_mul cap (Finite t)) \<and> f64_val (f64_mul cap (Finite t)) \<le> r"
    using f64_round_le_representable [of r "r * t"] assms(3,4,7) by simp
  moreover have "\<not> f64_less (f64_mul cap (Finite t)) n"
    using assms(1,6) by (simp add: enforce_ok_iff)
  ultimately show ?thesis using assms(2,3) by auto
qed

definition demo_mta :: "f64 \<Rightarrow> string list \<Rightarrow> mta_state" where
  "demo_mta scale sides =
     \<lparr>ms_regime_id = 2, ms_regime_label = ''tightening'', ms_risk_level = Finite (1 / 4),
      ms_max_notional_scale = scale, ms_allowed_sides = sides, ms_version = ''v1'',
      ms_hash = ''0xmta'', ms_broadcast_time = 1000, ms_pubkey_fingerprint = ''00'',
      ms_signal_mode = ''live''\<rparr>"

theorem enforce_within_agent_cap_witness:
  "(\<exists>d. enforce demo_crates (demo_mta (Finite (1 / 4)) [''SHORT'']) (Short (Finite 1)) (Finite 250000)
      (Finite 1000000) False = Inr d)
   \<and> f64_val (Finite 250000) \<le> f64_val (Finite 1000000)"
proof -
  have "side_open (demo_mta (Finite (1 / 4)) [''SHORT'']) (Short (Finite 1))"
    unfolding side_open_def demo_mta_def by (simp add: to_ascii_lowercase_def ascii_lower_def) code_simp
  moreover have "f64_mul (Finite 1000000) (Finite (1 / 4)) = Finite 250000" by code_simp
  ultimately obtain d where d: "enforce demo_crates (demo_mta (Finite (1 / 4)) [''SHORT''])
      (Short (Finite 1)) (Finite 250000) (Finite 1000000) False = Inr d"
    by (simp add: enforce_ok_iff demo_mta_def)
  have "f64_wf (Finite 1000000)" by code_simp
  with enforce_within_agent_cap [OF d, of 1000000 "1 / 4"] d show ?thesis
    by (auto simp: demo_mta_def)
qed

text \<open>A regime with scale zero blocks every order with a positive notional, reduce-only or
  not, whatever finite cap the agent has.\<close>

theorem zero_scale_blocks:
  assumes "f64_is_zero (ms_max_notional_scale mta)" and "f64_finite cap" and "f64_less (Finite 0) n"
  shows "\<exists>e. enforce c mta a n cap ro = Inl (Policy e)"
proof -
  obtain s where "f64_mul cap (ms_max_notional_scale mta) = f64_zero s"
    using f64_mul_zero assms(1,2) by blast
  then have "f64_less (f64_mul cap (ms_max_notional_scale mta)) n"
    using assms(3) by (simp add: f64_less_zero_left)
  then show ?thesis by (auto simp: enforce_def check_constraints_eq)
qed

theorem zero_scale_blocks_witness:
  "\<exists>e. enforce demo_crates (demo_mta (Finite 0) [''neutral'']) (Long (Finite 1)) (Finite 1)
      (Finite 1000000) True = Inl (Policy e)"
  by (rule zero_scale_blocks) (simp_all add: demo_mta_def)

end
