(* ===== verification/Irl_Metrics.thy ===== *)
theory Irl_Metrics
  imports Irl_Prelude
begin

text \<open>
  \<open>src/metrics.rs\<close>: the Prometheus metrics of the process. A counter family is a
  function from its label values to the count reached; the latency histogram is
  represented by the number of its samples, the samples being wall-clock readings
  nothing else depends on. The text encoder is a parameter.
\<close>

record irl_metrics =
  authorize_total :: "string \<Rightarrow> nat"
  authorize_duration_ms :: nat
  bind_total :: "string \<Rightarrow> nat"
  policy_blocked_total :: "string \<times> string \<Rightarrow> nat"
  agent_count :: "string \<Rightarrow> int"

text \<open>\<open>get_or_init\<close>: the families are registered empty when they are first used.\<close>

definition metrics_init :: irl_metrics where
  "metrics_init =
     \<lparr>authorize_total = (\<lambda>_. 0), authorize_duration_ms = 0, bind_total = (\<lambda>_. 0),
      policy_blocked_total = (\<lambda>_. 0), agent_count = (\<lambda>_. 0)\<rparr>"

definition counter_inc :: "'l \<Rightarrow> ('l \<Rightarrow> nat) \<Rightarrow> 'l \<Rightarrow> nat" where
  "counter_inc label family = family(label := Suc (family label))"

text \<open>The updates of the handlers; an outcome of \<open>authorize\<close> is counted with its latency.\<close>

definition count_authorize :: "string \<Rightarrow> irl_metrics \<Rightarrow> irl_metrics" where
  "count_authorize result m =
     m\<lparr>authorize_total := counter_inc result (authorize_total m),
       authorize_duration_ms := Suc (authorize_duration_ms m)\<rparr>"

definition count_blocked :: "string \<Rightarrow> string \<Rightarrow> irl_metrics \<Rightarrow> irl_metrics" where
  "count_blocked regime code m = m\<lparr>policy_blocked_total := counter_inc (regime, code) (policy_blocked_total m)\<rparr>"

definition count_bind :: "string \<Rightarrow> irl_metrics \<Rightarrow> irl_metrics" where
  "count_bind status m = m\<lparr>bind_total := counter_inc status (bind_total m)\<rparr>"

lemma counter_inc_apply [simp]: "counter_inc l f k = (if k = l then Suc (f k) else f k)"
  by (simp add: counter_inc_def)

lemma count_selects [simp]:
  "authorize_total (count_authorize r m) = counter_inc r (authorize_total m)"
  "authorize_duration_ms (count_authorize r m) = Suc (authorize_duration_ms m)"
  "bind_total (count_authorize r m) = bind_total m"
  "policy_blocked_total (count_authorize r m) = policy_blocked_total m"
  "authorize_total (count_blocked g k m) = authorize_total m"
  "authorize_duration_ms (count_blocked g k m) = authorize_duration_ms m"
  "bind_total (count_blocked g k m) = bind_total m"
  "policy_blocked_total (count_blocked g k m) = counter_inc (g, k) (policy_blocked_total m)"
  "authorize_total (count_bind s m) = authorize_total m"
  "authorize_duration_ms (count_bind s m) = authorize_duration_ms m"
  "bind_total (count_bind s m) = counter_inc s (bind_total m)"
  "policy_blocked_total (count_bind s m) = policy_blocked_total m"
  "agent_count (count_authorize r m) = agent_count m"
  "agent_count (count_blocked g k m) = agent_count m"
  "agent_count (count_bind s m) = agent_count m"
  by (simp_all add: count_authorize_def count_blocked_def count_bind_def)

section \<open>The text endpoints\<close>

record text_response =
  tx_status :: nat
  tx_content_type :: string
  tx_body :: string

text \<open>\<open>GET /metrics\<close>: the encoded families, or the encoder's error with its default text type.\<close>

definition metrics_handler :: "(irl_metrics \<Rightarrow> string + string) \<Rightarrow> irl_metrics \<Rightarrow> text_response" where
  "metrics_handler render m =
     (case render m of
        Inr body \<Rightarrow> \<lparr>tx_status = 200, tx_content_type = ''text/plain; version=0.0.4; charset=utf-8'', tx_body = body\<rparr>
      | Inl e \<Rightarrow> \<lparr>tx_status = 500, tx_content_type = ''text/plain; charset=utf-8'', tx_body = e\<rparr>)"

text \<open>
  \<open>GET /\<close>: the page at \<open>IRL_LANDING_PATH\<close>, or the page compiled into the binary when
  the file cannot be read.
\<close>

definition landing ::
  "(string \<Rightarrow> string option) \<Rightarrow> (string \<Rightarrow> string option) \<Rightarrow> string \<Rightarrow> text_response"
where
  "landing var read_to_string landing_html =
     (let path = (case var ''IRL_LANDING_PATH'' of Some p \<Rightarrow> p | None \<Rightarrow> ''/app/static/landing.html'');
          page = (case read_to_string path of Some html \<Rightarrow> html | None \<Rightarrow> landing_html)
      in \<lparr>tx_status = 200, tx_content_type = ''text/html; charset=utf-8'', tx_body = page\<rparr>)"

end
