(* ===== verification/Irl_World.thy ===== *)
theory Irl_World
  imports Irl_Policy Irl_Metrics
begin

text \<open>
  The state the handlers share and the effects they have: the configuration
  types of \<open>src/config.rs\<close>, the tables of the database after the migrations, the
  in-memory caches of \<open>AppState\<close> (\<open>src/lib.rs\<close>), the outside world (clock, entropy,
  network, key services, database faults) as functions of a counter of effects,
  and the request monad. Also the clocks of \<open>src/time.rs\<close>.
\<close>

section \<open>Configuration\<close>

datatype time_source = System | NtpSynced

datatype kms_provider = KmsNone | KmsLocal | KmsAws | KmsVault

datatype mta_mode = ModeMacroPulse | ModeMock | ModeNone

record config =
  cfg_database_url :: string
  cfg_mta_mode :: mta_mode
  cfg_mta_url :: string
  cfg_mta_pubkey :: "byte list"
  cfg_irl_api_tokens :: "string list"
  cfg_time_source :: time_source
  cfg_max_heartbeat_drift_ms :: u64
  cfg_layer2_enabled :: bool
  cfg_bind_size_tolerance :: f64
  cfg_trace_expiry_ms :: u64
  cfg_port :: "16 word"
  cfg_shadow_mode :: bool
  cfg_metrics_enabled :: bool
  cfg_rate_limit_per_second :: u32
  cfg_max_body_bytes :: u64
  cfg_kms_provider :: kms_provider
  cfg_kms_key_id :: "string option"
  cfg_kms_key_version :: int
  cfg_mtls_enabled :: bool
  cfg_mtls_required :: bool
  cfg_tls_cert_path :: "string option"
  cfg_tls_key_path :: "string option"
  cfg_tls_ca_cert_path :: "string option"
  cfg_mtls_dev_certs :: bool

section \<open>Tables\<close>

text \<open>
  \<open>irl.reasoning_traces\<close> as the migrations leave it: primary key
  \<open>(trace_id, txn_time)\<close>, check constraints on the times, the policy result and the
  verification status. Times are microseconds, \<open>NUMERIC\<close> columns rationals.
\<close>

record trace_row =
  tr_trace_id :: uuid
  tr_valid_time :: int
  tr_txn_time :: int
  tr_mta_regime_id :: int
  tr_mta_version :: string
  tr_mta_hash :: string
  tr_latent_fingerprint :: string
  tr_feature_schema_id :: string
  tr_execution_action :: string
  tr_execution_asset :: string
  tr_client_order_id :: string
  tr_execution_order_type :: "string option"
  tr_execution_venue_id :: "string option"
  tr_execution_quantity :: "rat option"
  tr_execution_notional :: "rat option"
  tr_execution_limit_price :: "rat option"
  tr_execution_notional_currency :: string
  tr_execution_multiplier :: rat
  tr_execution_stop_price :: "rat option"
  tr_heartbeat_seq :: int
  tr_policy_id :: string
  tr_policy_version :: string
  tr_policy_hash :: string
  tr_policy_result :: string
  tr_reasoning_hash :: string
  tr_trace_json :: json
  tr_agent_id :: "uuid option"
  tr_trace_nonce :: "byte list option"
  tr_encrypted_dek :: "byte list option"
  tr_key_version :: "int option"
  tr_encryption_version :: int
  tr_mta_pubkey_used :: "string option"
  tr_exchange_tx_id :: "string option"
  tr_verification_status :: string
  tr_execution_status :: "string option"
  tr_execution_price :: "rat option"
  tr_execution_time :: "int option"
  tr_final_proof :: "string option"
  tr_gdpr_erased_at :: "int option"
  tr_gdpr_request_id :: "uuid option"

record agent_row =
  ag_agent_id :: uuid
  ag_name :: string
  ag_model_hash_hex :: string
  ag_policy_module_id :: string
  ag_allowed_regimes :: "int list option"
  ag_max_notional :: rat
  ag_max_leverage :: rat
  ag_allowed_venues :: "string list option"
  ag_status :: string
  ag_allowed_mta_pubkeys :: "string list option"
  ag_registered_at :: int
  ag_updated_at :: int

record position_row =
  po_agent_id :: uuid
  po_asset :: string
  po_venue_id :: string
  po_currency :: string
  po_net_quantity :: rat
  po_notional :: rat
  po_average_price :: "rat option"
  po_multiplier :: rat
  po_last_trace_id :: "uuid option"
  po_updated_at :: int

record token_row =
  to_token_id :: uuid
  to_token_hash :: string
  to_client_name :: string
  to_created_at :: int
  to_last_used_at :: "int option"
  to_status :: string
  to_source :: string
  to_role :: string

record audit_row =
  au_id :: uuid
  au_operator_id :: string
  au_action :: string
  au_target_type :: string
  au_target_id :: "string option"
  au_details_json :: "json option"
  au_ip_address :: "string option"
  au_created_at :: int

record anchor_row =
  an_id :: int
  an_period_start :: int
  an_period_end :: int
  an_leaf_count :: int
  an_merkle_root :: string
  an_ots_receipt :: "byte list option"
  an_ots_error :: "string option"
  an_ots_upgraded_at :: "int option"

record kms_key_row =
  kk_key_version :: int
  kk_provider :: string
  kk_key_arn_or_path :: string
  kk_status :: string
  kk_created_at :: int
  kk_retired_at :: "int option"

text \<open>A row of \<open>irl.system_config\<close>: key, boolean value, when and by whom it was written last.\<close>

record config_row =
  sc_key :: string
  sc_value_bool :: "bool option"
  sc_updated_at :: int
  sc_updated_by :: string

text \<open>The tables, and the retention of the trace partitions in the configuration of \<open>pg_partman\<close>.\<close>

record database =
  d_traces :: "trace_row list"
  d_agents :: "agent_row list"
  d_positions :: "position_row list"
  d_tokens :: "token_row list"
  d_audit :: "audit_row list"
  d_config :: "config_row list"
  d_anchors :: "anchor_row list"
  d_heartbeats :: "(uuid \<times> int) list"
  d_kms_keys :: "kms_key_row list"
  d_retention_months :: int

section \<open>The outside world and the shared state\<close>

text \<open>
  Every effect reads the counter \<open>w_tick\<close> and advances it; the outside world
  answers as a function of the counter, so any sequence of answers is covered.
  \<open>env_instant\<close> is the monotonic clock, \<open>env_clock\<close> the wall clock, both in
  microseconds. \<open>env_db_fault\<close> is the error a statement fails with, if it fails.
  \<open>env_scan\<close> is the rank the server gives to the rows of a table when it scans it: SQL
  leaves the order of rows that compare equal to the server, for each statement anew.
\<close>

record env =
  env_crates :: crates
  env_clock :: "nat \<Rightarrow> int"
  env_instant :: "nat \<Rightarrow> int"
  env_db_fault :: "nat \<Rightarrow> string option"
  env_scan :: "nat \<Rightarrow> nat \<Rightarrow> nat"
  env_uuid :: "nat \<Rightarrow> uuid"
  env_entropy :: "nat \<Rightarrow> nat \<Rightarrow> byte list"
  env_http_get :: "nat \<Rightarrow> string \<Rightarrow> string + byte list"
  env_ots_post :: "nat \<Rightarrow> string \<Rightarrow> byte list \<Rightarrow> string + nat \<times> (string + byte list)"
  env_aws_generate :: "nat \<Rightarrow> string \<Rightarrow> string + byte list option \<times> byte list option"
  env_aws_decrypt :: "nat \<Rightarrow> string \<Rightarrow> byte list \<Rightarrow> string + byte list option"
  env_vault_encrypt :: "nat \<Rightarrow> string \<Rightarrow> string \<Rightarrow> string \<Rightarrow> string + string"
  env_vault_decrypt :: "nat \<Rightarrow> string \<Rightarrow> string \<Rightarrow> string \<Rightarrow> string + string"

record world =
  w_tick :: nat
  w_db :: database
  w_sequences :: "uuid \<Rightarrow> u64 option"
  w_mta_cache :: "(mta_state \<times> int) option"
  w_token_cache :: "string list"
  w_last_bumped :: "string \<Rightarrow> int option"
  w_counters :: "string \<Rightarrow> (u64 \<times> u32) option"
  w_shadow :: bool
  w_metrics :: irl_metrics

section \<open>The request monad\<close>

text \<open>
  A computation fails with an error value or panics (an assertion of the source
  does not hold); both keep the state reached so far.
\<close>

datatype 'e failure = App 'e | Panic string

type_synonym 'a io = "world \<Rightarrow> (app_error failure + 'a) \<times> world"

text \<open>An \<open>anyhow::Result\<close> computation: the error is a text.\<close>

type_synonym 'a anyio = "world \<Rightarrow> (string failure + 'a) \<times> world"

definition ret :: "'a \<Rightarrow> world \<Rightarrow> ('e failure + 'a) \<times> world" where
  "ret x w = (Inr x, w)"

definition fail :: "'e \<Rightarrow> world \<Rightarrow> ('e failure + 'a) \<times> world" where
  "fail e w = (Inl (App e), w)"

definition panic :: "string \<Rightarrow> world \<Rightarrow> ('e failure + 'a) \<times> world" where
  "panic msg w = (Inl (Panic msg), w)"

definition bindE ::
  "(world \<Rightarrow> ('e failure + 'a) \<times> world) \<Rightarrow> ('a \<Rightarrow> world \<Rightarrow> ('e failure + 'b) \<times> world)
     \<Rightarrow> world \<Rightarrow> ('e failure + 'b) \<times> world"
where
  "bindE m f w = (case m w of (Inl e, w') \<Rightarrow> (Inl e, w') | (Inr x, w') \<Rightarrow> f x w')"

definition liftE :: "'e + 'a \<Rightarrow> world \<Rightarrow> ('e failure + 'a) \<times> world" where
  "liftE r w = (case r of Inl e \<Rightarrow> (Inl (App e), w) | Inr x \<Rightarrow> (Inr x, w))"

definition map_errE ::
  "('e \<Rightarrow> 'f) \<Rightarrow> (world \<Rightarrow> ('e failure + 'a) \<times> world) \<Rightarrow> world \<Rightarrow> ('f failure + 'a) \<times> world"
where
  "map_errE f m w =
     (case m w of
        (Inl (App e), w') \<Rightarrow> (Inl (App (f e)), w')
      | (Inl (Panic p), w') \<Rightarrow> (Inl (Panic p), w')
      | (Inr x, w') \<Rightarrow> (Inr x, w'))"

text \<open>The result of a call as a value, for \<open>if let Err(e) = ...\<close> and \<open>let _ = ...\<close>.\<close>

definition attempt ::
  "(world \<Rightarrow> ('e failure + 'a) \<times> world) \<Rightarrow> world \<Rightarrow> ('f failure + ('e + 'a)) \<times> world"
where
  "attempt m w =
     (case m w of
        (Inl (App e), w') \<Rightarrow> (Inr (Inl e), w')
      | (Inl (Panic p), w') \<Rightarrow> (Inl (Panic p), w')
      | (Inr x, w') \<Rightarrow> (Inr (Inr x), w'))"

definition gets :: "(world \<Rightarrow> 'a) \<Rightarrow> world \<Rightarrow> ('e failure + 'a) \<times> world" where
  "gets f w = (Inr (f w), w)"

definition modify :: "(world \<Rightarrow> world) \<Rightarrow> world \<Rightarrow> ('e failure + unit) \<times> world" where
  "modify f w = (Inr (), f w)"

definition count_metric :: "(irl_metrics \<Rightarrow> irl_metrics) \<Rightarrow> world \<Rightarrow> ('e failure + unit) \<times> world" where
  "count_metric g = modify (\<lambda>w. w\<lparr>w_metrics := g (w_metrics w)\<rparr>)"

definition whenE ::
  "bool \<Rightarrow> (world \<Rightarrow> ('e failure + unit) \<times> world) \<Rightarrow> world \<Rightarrow> ('e failure + unit) \<times> world"
where
  "whenE b m = (if b then m else ret ())"

fun mapM ::
  "('a \<Rightarrow> world \<Rightarrow> ('e failure + 'b) \<times> world) \<Rightarrow> 'a list \<Rightarrow> world \<Rightarrow> ('e failure + 'b list) \<times> world"
where
  "mapM f [] = ret []"
| "mapM f (x # xs) = bindE (f x) (\<lambda>y. bindE (mapM f xs) (\<lambda>ys. ret (y # ys)))"

text \<open>An effect: the answer of the outside world at the current count.\<close>

definition effect :: "(nat \<Rightarrow> 'a) \<Rightarrow> world \<Rightarrow> ('e failure + 'a) \<times> world" where
  "effect f w = (Inr (f (w_tick w)), w\<lparr>w_tick := Suc (w_tick w)\<rparr>)"

text \<open>
  A statement sees the transaction time and the tables, and gives its result
  with the new tables or an error that leaves them as they were.
\<close>

type_synonym 'a stmt = "int \<Rightarrow> database \<Rightarrow> string + ('a \<times> database)"

definition sql :: "env \<Rightarrow> 'a stmt \<Rightarrow> 'a io" where
  "sql E q w =
     (let w' = w\<lparr>w_tick := Suc (w_tick w)\<rparr>
      in case env_db_fault E (w_tick w) of
           Some msg \<Rightarrow> (Inl (App (Database msg)), w')
         | None \<Rightarrow>
             (case q (env_clock E (w_tick w)) (w_db w) of
                Inl msg \<Rightarrow> (Inl (App (Database msg)), w')
              | Inr (x, d) \<Rightarrow> (Inr x, w'\<lparr>w_db := d\<rparr>)))"

definition sql_read :: "env \<Rightarrow> (int \<Rightarrow> database \<Rightarrow> 'a) \<Rightarrow> 'a io" where
  "sql_read E q = sql E (\<lambda>now d. Inr (q now d, d))"

text \<open>The rows of a table in the order the statement at effect \<open>t\<close> scans them.\<close>

definition scan_order :: "env \<Rightarrow> nat \<Rightarrow> 'a list \<Rightarrow> 'a list" where
  "scan_order E t rows = map snd (sort_key (\<lambda>(i, r). env_scan E t i) (enumerate 0 rows))"

lemma mset_scan_order: "mset (scan_order E t rows) = mset rows"
proof -
  have "mset (scan_order E t rows) = image_mset snd (mset (enumerate 0 rows))"
    by (simp add: scan_order_def)
  also have "\<dots> = mset (map snd (enumerate 0 rows))" by (simp only: mset_map)
  finally show ?thesis by (simp add: enumerate_eq_zip)
qed

lemma set_scan_order [simp]: "set (scan_order E t rows) = set rows"
  by (metis mset_scan_order set_mset_mset)

lemma length_scan_order [simp]: "length (scan_order E t rows) = length rows"
  by (metis mset_scan_order size_mset)

section \<open>Clocks\<close>

definition utc_now_ms :: "env \<Rightarrow> int io" where
  "utc_now_ms E = effect (\<lambda>t. env_clock E t div 1000)"

definition utc_now_us :: "env \<Rightarrow> int io" where
  "utc_now_us E = effect (env_clock E)"

definition ntp_attested_ms :: "env \<Rightarrow> int io" where
  "ntp_attested_ms E = utc_now_ms E"

definition ntp_attested_us :: "env \<Rightarrow> int io" where
  "ntp_attested_us E = utc_now_us E"

definition now_ms :: "env \<Rightarrow> config \<Rightarrow> int io" where
  "now_ms E cfg =
     (case cfg_time_source cfg of
        System \<Rightarrow> utc_now_ms E
      | NtpSynced \<Rightarrow> ntp_attested_ms E)"

definition now_us :: "env \<Rightarrow> config \<Rightarrow> int io" where
  "now_us E cfg =
     (case cfg_time_source cfg of
        System \<Rightarrow> utc_now_us E
      | NtpSynced \<Rightarrow> ntp_attested_us E)"

section \<open>Equations of the monad\<close>

lemma ret_eq [io_simps]: "ret x w = (Inr x, w)"
  and fail_eq [io_simps]: "fail e w = (Inl (App e), w)"
  and panic_eq [io_simps]: "panic p w = (Inl (Panic p), w)"
  and gets_eq [io_simps]: "gets f w = (Inr (f w), w)"
  and modify_eq [io_simps]: "modify g w = (Inr (), g w)"
  and effect_eq [io_simps]: "effect h w = (Inr (h (w_tick w)), w\<lparr>w_tick := Suc (w_tick w)\<rparr>)"
  and count_metric_eq [io_simps]: "count_metric c w = (Inr (), w\<lparr>w_metrics := c (w_metrics w)\<rparr>)"
  by (simp_all add: ret_def fail_def panic_def gets_def modify_def effect_def count_metric_def)

lemma liftE_Inl [io_simps]: "liftE (Inl e) w = (Inl (App e), w)"
  and liftE_Inr [io_simps]: "liftE (Inr x) w = (Inr x, w)"
  by (simp_all add: liftE_def)

lemma bindE_Inr: "m w = (Inr x, w') \<Longrightarrow> bindE m f w = f x w'"
  and bindE_Inl: "m w = (Inl e, w') \<Longrightarrow> bindE m f w = (Inl e, w')"
  by (simp_all add: bindE_def)

lemma bindE_ret [io_simps]: "bindE (ret x) f = f x"
  by (simp add: bindE_def ret_def fun_eq_iff)

lemma whenE_True [io_simps]: "whenE True m = m"
  and whenE_False [io_simps]: "whenE False m = ret ()"
  by (simp_all add: whenE_def)

lemma bindE_Inr_iff:
  "bindE m f w = (Inr y, w'') \<longleftrightarrow> (\<exists>x w'. m w = (Inr x, w') \<and> f x w' = (Inr y, w''))"
  by (auto simp: bindE_def split: prod.splits sum.splits)

lemma bindE_InrE:
  assumes "bindE m f w = (Inr y, w'')"
  obtains x w' where "m w = (Inr x, w')" and "f x w' = (Inr y, w'')"
  using assms by (auto simp: bindE_Inr_iff)

lemma bindE_InlE:
  assumes "bindE m f w = (Inl e, w'')"
  obtains "m w = (Inl e, w'')" | x w' where "m w = (Inr x, w')" and "f x w' = (Inl e, w'')"
  using assms by (auto simp: bindE_def split: prod.splits sum.splits)

lemma map_errE_Inr_iff: "map_errE f m w = (Inr x, w') \<longleftrightarrow> m w = (Inr x, w')"
  by (auto simp: map_errE_def split: prod.splits sum.splits failure.splits)

lemma liftE_Inr_iff: "liftE r w = (Inr x, w') \<longleftrightarrow> r = Inr x \<and> w' = w"
  by (auto simp: liftE_def split: sum.splits)

lemma liftE_world: "snd (liftE r w) = w"
  by (simp add: liftE_def split: sum.splits)

lemma sql_ok_iff:
  "sql E q w = (Inr x, w') \<longleftrightarrow>
     env_db_fault E (w_tick w) = None
     \<and> (\<exists>d. q (env_clock E (w_tick w)) (w_db w) = Inr (x, d)
           \<and> w' = w\<lparr>w_tick := Suc (w_tick w), w_db := d\<rparr>)"
  by (auto simp: sql_def Let_def split: option.splits sum.splits)

lemma sql_error_db: "sql E q w = (Inl e, w') \<Longrightarrow> w' = w\<lparr>w_tick := Suc (w_tick w)\<rparr>"
  by (auto simp: sql_def Let_def split: option.splits sum.splits)

lemma sql_read_ok_iff:
  "sql_read E q w = (Inr x, w') \<longleftrightarrow>
     env_db_fault E (w_tick w) = None \<and> x = q (env_clock E (w_tick w)) (w_db w)
     \<and> w' = w\<lparr>w_tick := Suc (w_tick w)\<rparr>"
  by (auto simp: sql_read_def sql_ok_iff)

lemma sql_read_world: "snd (sql_read E q w) = w\<lparr>w_tick := Suc (w_tick w)\<rparr>"
  by (simp add: sql_read_def sql_def Let_def split: option.splits)

lemma now_ms_eq [io_simps]:
  "now_ms E cfg w = (Inr (env_clock E (w_tick w) div 1000), w\<lparr>w_tick := Suc (w_tick w)\<rparr>)"
  by (cases "cfg_time_source cfg") (simp_all add: now_ms_def utc_now_ms_def ntp_attested_ms_def effect_eq)

section \<open>What a computation leaves unchanged\<close>

text \<open>
  A computation keeps a relation between the worlds before and after it. For a
  preorder that ignores the effect counter the property is compositional, so
  the frame of a handler follows from the frames of its calls.
\<close>

definition keeps :: "(world \<Rightarrow> world \<Rightarrow> bool) \<Rightarrow> (world \<Rightarrow> 'r \<times> world) \<Rightarrow> bool" where
  "keeps R m \<longleftrightarrow> (\<forall>w. R w (snd (m w)))"

lemma keepsD: "keeps R m \<Longrightarrow> m w = (r, w') \<Longrightarrow> R w w'"
  unfolding keeps_def by (metis snd_conv)

locale frame =
  fixes R :: "world \<Rightarrow> world \<Rightarrow> bool"
  assumes R_trans: "R u v \<Longrightarrow> R v w \<Longrightarrow> R u w"
    and R_tick: "R w (w\<lparr>w_tick := n\<rparr>)"
begin

lemma R_refl: "R w w"
  using R_tick [of w "w_tick w"] by simp

lemma keeps_ret: "keeps R (ret x)"
  and keeps_fail: "keeps R (fail e)"
  and keeps_panic: "keeps R (panic p)"
  and keeps_gets: "keeps R (gets f)"
  and keeps_liftE: "keeps R (liftE r)"
  and keeps_effect: "keeps R (effect h)"
  and keeps_sql_read: "keeps R (sql_read E q)"
  by (simp_all add: keeps_def io_simps liftE_world R_refl R_tick sql_read_world)

lemma keeps_modify: "(\<And>w. R w (g w)) \<Longrightarrow> keeps R (modify g)"
  by (simp add: keeps_def io_simps)

lemma keeps_count: "(\<And>w m. R w (w\<lparr>w_metrics := m\<rparr>)) \<Longrightarrow> keeps R (count_metric g)"
  by (simp add: count_metric_def keeps_modify)

lemma keeps_bindE: "keeps R m \<Longrightarrow> (\<And>x. keeps R (f x)) \<Longrightarrow> keeps R (bindE m f)"
  unfolding keeps_def
proof
  fix w
  assume m: "\<forall>w. R w (snd (m w))" and f: "\<And>x. \<forall>w. R w (snd (f x w))"
  obtain r w' where run: "m w = (r, w')" by force
  then have "R w w'" using m by (metis snd_conv)
  then show "R w (snd (bindE m f w))"
    using run f R_trans by (cases r) (auto simp: bindE_def)
qed

lemma keeps_attempt: "keeps R m \<Longrightarrow> keeps R (attempt m)"
  unfolding keeps_def attempt_def
  by (auto split: prod.splits sum.splits failure.splits) (metis snd_conv)+

lemma keeps_map_errE: "keeps R m \<Longrightarrow> keeps R (map_errE f m)"
  unfolding keeps_def map_errE_def
  by (auto split: prod.splits sum.splits failure.splits) (metis snd_conv)+

lemma keeps_if: "(b \<Longrightarrow> keeps R m) \<Longrightarrow> (\<not> b \<Longrightarrow> keeps R n) \<Longrightarrow> keeps R (if b then m else n)"
  by simp

lemma keeps_option:
  "(x = None \<Longrightarrow> keeps R m) \<Longrightarrow> (\<And>y. x = Some y \<Longrightarrow> keeps R (f y)) \<Longrightarrow>
     keeps R (case x of None \<Rightarrow> m | Some y \<Rightarrow> f y)"
  by (cases x) auto

lemma keeps_sum:
  "(\<And>e. x = Inl e \<Longrightarrow> keeps R (f e)) \<Longrightarrow> (\<And>y. x = Inr y \<Longrightarrow> keeps R (g y)) \<Longrightarrow>
     keeps R (case x of Inl e \<Rightarrow> f e | Inr y \<Rightarrow> g y)"
  by (cases x) auto

lemma keeps_prod: "(\<And>a b. x = (a, b) \<Longrightarrow> keeps R (f a b)) \<Longrightarrow> keeps R (case x of (a, b) \<Rightarrow> f a b)"
  by (cases x) auto

lemma keeps_whenE: "(b \<Longrightarrow> keeps R m) \<Longrightarrow> keeps R (whenE b m)"
  by (auto simp: whenE_def intro: keeps_ret)

lemma keeps_mapM: "(\<And>x. keeps R (f x)) \<Longrightarrow> keeps R (mapM f xs)"
  by (induction xs) (auto intro: keeps_ret keeps_bindE)

lemma keeps_sql:
  assumes "\<And>w x d. q (env_clock E (w_tick w)) (w_db w) = Inr (x, d) \<Longrightarrow> R w (w\<lparr>w_db := d\<rparr>)"
  shows "keeps R (sql E q)"
  unfolding keeps_def
proof
  fix w
  obtain r w' where run: "sql E q w = (r, w')" by force
  show "R w (snd (sql E q w))"
  proof (cases r)
    case (Inl e)
    then have "w' = w\<lparr>w_tick := Suc (w_tick w)\<rparr>" using run sql_error_db by blast
    then show ?thesis using run R_tick by simp
  next
    case (Inr x)
    then obtain d where d: "q (env_clock E (w_tick w)) (w_db w) = Inr (x, d)"
      and w': "w' = w\<lparr>w_tick := Suc (w_tick w), w_db := d\<rparr>"
      using run by (auto simp: sql_ok_iff)
    have "w' = (w\<lparr>w_db := d\<rparr>)\<lparr>w_tick := Suc (w_tick w)\<rparr>" using w' by simp
    then show ?thesis using assms [OF d] R_tick R_trans run by (metis snd_conv)
  qed
qed

lemmas keeps_intros = keeps_ret keeps_fail keeps_panic keeps_gets keeps_liftE keeps_effect keeps_sql_read
  keeps_bindE keeps_attempt keeps_map_errE keeps_if keeps_option keeps_sum keeps_prod keeps_whenE keeps_mapM

end

text \<open>Four frames: nothing but the counter, the database, the trace table, the metrics.\<close>

definition only_tick :: "world \<Rightarrow> world \<Rightarrow> bool" where
  "only_tick w w' \<longleftrightarrow> (\<exists>n. w' = w\<lparr>w_tick := n\<rparr>)"

definition same_db :: "world \<Rightarrow> world \<Rightarrow> bool" where
  "same_db w w' \<longleftrightarrow> w_db w' = w_db w"

definition same_traces :: "world \<Rightarrow> world \<Rightarrow> bool" where
  "same_traces w w' \<longleftrightarrow> d_traces (w_db w') = d_traces (w_db w)"

definition same_metrics :: "world \<Rightarrow> world \<Rightarrow> bool" where
  "same_metrics w w' \<longleftrightarrow> w_metrics w' = w_metrics w"

interpretation ot: frame only_tick
proof
  fix u v w :: world
  show "only_tick u v \<Longrightarrow> only_tick v w \<Longrightarrow> only_tick u w" by (auto simp: only_tick_def)
  show "only_tick w (w\<lparr>w_tick := n\<rparr>)" for n by (auto simp: only_tick_def)
qed

interpretation sd: frame same_db
  by unfold_locales (auto simp: same_db_def)

interpretation st: frame same_traces
  by unfold_locales (auto simp: same_traces_def)

interpretation sm: frame same_metrics
  by unfold_locales (auto simp: same_metrics_def)

lemma only_tick_same_metrics: "keeps only_tick m \<Longrightarrow> keeps same_metrics m"
  unfolding keeps_def
proof
  fix w
  assume "\<forall>w. only_tick w (snd (m w))"
  then obtain n where "snd (m w) = w\<lparr>w_tick := n\<rparr>" by (auto simp: only_tick_def)
  then show "same_metrics w (snd (m w))" by (simp add: same_metrics_def)
qed

lemma only_tick_same_db: "keeps only_tick m \<Longrightarrow> keeps same_db m"
  by (auto simp: keeps_def only_tick_def same_db_def) (metis world.select_convs(2) world.ext_inject world.surjective world.update_convs(1))

lemma same_db_same_traces: "keeps same_db m \<Longrightarrow> keeps same_traces m"
  by (simp add: keeps_def same_db_def same_traces_def)

section \<open>A concrete world\<close>

text \<open>A clock that advances a millisecond per effect, no faults, empty tables.\<close>

definition demo_env :: env where
  "demo_env =
     \<lparr>env_crates = demo_crates,
      env_clock = (\<lambda>t. 1000000000 + 1000 * int t),
      env_instant = (\<lambda>t. 1000 * int t),
      env_db_fault = (\<lambda>t. None),
      env_scan = (\<lambda>t i. i),
      env_uuid = (\<lambda>t. word_of_nat (100 + t)),
      env_entropy = (\<lambda>t n. replicate n (word_of_nat t)),
      env_http_get = (\<lambda>t url. Inl ''unreachable''),
      env_ots_post = (\<lambda>t url body. Inl ''unreachable''),
      env_aws_generate = (\<lambda>t key. Inl ''unreachable''),
      env_aws_decrypt = (\<lambda>t key bs. Inl ''unreachable''),
      env_vault_encrypt = (\<lambda>t mount key s. Inl ''unreachable''),
      env_vault_decrypt = (\<lambda>t mount key s. Inl ''unreachable'')\<rparr>"

lemma demo_env_simps [demo_simps]:
  "env_crates demo_env = demo_crates" "env_clock demo_env t = 1000000000 + 1000 * int t"
  "env_instant demo_env t = 1000 * int t" "env_db_fault demo_env t = None"
  "env_uuid demo_env t = word_of_nat (100 + t)" "env_entropy demo_env t n = replicate n (word_of_nat t)"
  by (simp_all add: demo_env_def)

lemma demo_crates_simps [demo_simps]:
  "sha256 demo_crates = demo_digest" "hex_encode demo_crates = demo_hex_encode"
  "hex_decode demo_crates = demo_hex_decode"
  "json_to_string demo_crates v = Inr (demo_scalar_text v)" "json_to_vec demo_crates v = Inr []"
  "uuid_to_string demo_crates u = show_int (uint u)"
  "millis_in_range demo_crates ms \<longleftrightarrow> \<bar>ms\<bar> < 8210266876799999"
  "pg_numeric demo_crates p n x = (if f64_finite x then Some (f64_val x) else None)"
  "pg_float8 demo_crates q = f64_round False q" "pg_interval_us demo_crates x = \<lfloor>f64_val x * 1000000\<rfloor>"
  by (simp_all add: demo_crates_def)

definition demo_db :: database where
  "demo_db =
     \<lparr>d_traces = [], d_agents = [], d_positions = [], d_tokens = [], d_audit = [],
      d_config = [\<lparr>sc_key = ''shadow_mode'', sc_value_bool = Some False, sc_updated_at = 0, sc_updated_by = ''system''\<rparr>],
      d_anchors = [], d_heartbeats = [], d_kms_keys = [], d_retention_months = 36\<rparr>"

definition demo_world :: world where
  "demo_world =
     \<lparr>w_tick = 0, w_db = demo_db, w_sequences = (\<lambda>_. None), w_mta_cache = None,
      w_token_cache = [], w_last_bumped = (\<lambda>_. None), w_counters = (\<lambda>_. None), w_shadow = False,
      w_metrics = metrics_init\<rparr>"

definition demo_config :: config where
  "demo_config =
     \<lparr>cfg_database_url = ''postgres://irl'', cfg_mta_mode = ModeMock, cfg_mta_url = [],
      cfg_mta_pubkey = replicate 32 0, cfg_irl_api_tokens = [''token-1''], cfg_time_source = System,
      cfg_max_heartbeat_drift_ms = 200, cfg_layer2_enabled = False,
      cfg_bind_size_tolerance = Finite (1 / 8192), cfg_trace_expiry_ms = 3600000, cfg_port = 4000,
      cfg_shadow_mode = False, cfg_metrics_enabled = True, cfg_rate_limit_per_second = 100,
      cfg_max_body_bytes = 1048576, cfg_kms_provider = KmsNone, cfg_kms_key_id = None,
      cfg_kms_key_version = 1, cfg_mtls_enabled = False, cfg_mtls_required = False,
      cfg_tls_cert_path = None, cfg_tls_key_path = None, cfg_tls_ca_cert_path = None,
      cfg_mtls_dev_certs = False\<rparr>"

end
