(* ===== verification/Irl_Encryption.thy ===== *)
theory Irl_Encryption
  imports Irl_World
begin

text \<open>
  \<open>src/encryption.rs\<close> and \<open>src/kms.rs\<close>: authenticated encryption of a trace under a data
  key, the JSON envelope of the ciphertext, and the providers that wrap data keys.
\<close>

section \<open>Encryption of a trace\<close>

record encrypted_blob =
  bl_ciphertext :: "byte list"
  bl_nonce :: "byte list"

definition encrypt_trace :: "env \<Rightarrow> byte list \<Rightarrow> byte list \<Rightarrow> encrypted_blob anyio" where
  "encrypt_trace E plaintext dek =
     (if length dek \<noteq> 32 then panic ''DEK must be exactly 32 bytes for AES-256-GCM''
      else
      bindE (effect (\<lambda>t. env_entropy E t 12)) (\<lambda>nonce.
      bindE (liftE (ok_or ''AES-GCM encryption failed: aead::Error''
               (aes_encrypt (env_crates E) dek nonce plaintext))) (\<lambda>ciphertext.
      ret \<lparr>bl_ciphertext = ciphertext, bl_nonce = nonce\<rparr>)))"

definition decrypt_trace :: "env \<Rightarrow> byte list \<Rightarrow> byte list \<Rightarrow> byte list \<Rightarrow> byte list anyio" where
  "decrypt_trace E ciphertext nonce dek =
     (if length dek \<noteq> 32 then panic ''DEK must be exactly 32 bytes for AES-256-GCM''
      else if length nonce \<noteq> 12
      then fail (''Nonce must be exactly 12 bytes, got '' @ show_int (int (length nonce)))
      else liftE (ok_or ''AES-GCM decryption failed: authentication tag mismatch''
              (aes_decrypt (env_crates E) dek nonce ciphertext)))"

definition wrap_ciphertext_for_jsonb :: "crates \<Rightarrow> byte list \<Rightarrow> json" where
  "wrap_ciphertext_for_jsonb c ciphertext =
     json_obj [(''v'', JInt 1), (''data'', JStr (b64_encode c ciphertext))]"

definition extract_ciphertext_from_jsonb :: "crates \<Rightarrow> json \<Rightarrow> string + byte list" where
  "extract_ciphertext_from_jsonb c value =
     res_bind (case json_get value ''v'' of
                 Some (JInt v) \<Rightarrow> if i64_min \<le> v \<and> v \<le> i64_max then Inr v
                                  else Inl (''JSONB wrapper missing '' @ quoted ''v'' @ '' field'')
               | _ \<Rightarrow> Inl (''JSONB wrapper missing '' @ quoted ''v'' @ '' field'')) (\<lambda>v.
     if v \<noteq> 1 then Inl (''Unsupported JSONB wrapper version: '' @ show_int v)
     else
     res_bind (case json_get value ''data'' of
                 Some (JStr s) \<Rightarrow> Inr s
               | _ \<Rightarrow> Inl (''JSONB wrapper missing '' @ quoted ''data'' @ '' string field'')) (\<lambda>data.
     ok_or (''JSONB wrapper '' @ quoted ''data'' @ '' is not valid base64'') (b64_decode c data)))"

section \<open>Key providers\<close>

datatype key_provider =
    LocalDev "byte list" int
  | AwsKms string int
  | VaultTransit string string int

text \<open>\<open>context\<close> replaces the text an error shows.\<close>

definition with_context :: "string \<Rightarrow> 'a anyio \<Rightarrow> 'a anyio" where
  "with_context msg m = map_errE (\<lambda>_. msg) m"

definition aws_generate_dek :: "env \<Rightarrow> string \<Rightarrow> int \<Rightarrow> (byte list \<times> byte list \<times> int) anyio" where
  "aws_generate_dek E key_id version =
     bindE (effect (\<lambda>t. env_aws_generate E t key_id)) (\<lambda>r.
     bindE (liftE (res_map_err (\<lambda>_. ''AWS KMS GenerateDataKey failed'') r)) (\<lambda>(plaintext, ciphertext).
     bindE (liftE (ok_or ''AWS KMS: GenerateDataKey returned no plaintext'' plaintext)) (\<lambda>dek.
     bindE (liftE (ok_or ''AWS KMS: GenerateDataKey returned no ciphertext_blob'' ciphertext)) (\<lambda>encrypted.
     ret (dek, encrypted, version)))))"

definition aws_decrypt_dek :: "env \<Rightarrow> string \<Rightarrow> byte list \<Rightarrow> byte list anyio" where
  "aws_decrypt_dek E key_id encrypted_dek =
     bindE (effect (\<lambda>t. env_aws_decrypt E t key_id encrypted_dek)) (\<lambda>r.
     bindE (liftE (res_map_err (\<lambda>_. ''AWS KMS Decrypt failed'') r)) (\<lambda>plaintext.
     liftE (ok_or ''AWS KMS: Decrypt returned no plaintext'' plaintext)))"

definition vault_generate_dek ::
  "env \<Rightarrow> string \<Rightarrow> string \<Rightarrow> int \<Rightarrow> (byte list \<times> byte list \<times> int) anyio"
where
  "vault_generate_dek E mount key_name version =
     bindE (effect (\<lambda>t. env_entropy E t 32)) (\<lambda>dek.
     bindE (effect (\<lambda>t. env_vault_encrypt E t mount key_name (b64_encode (env_crates E) dek))) (\<lambda>r.
     bindE (liftE (res_map_err (\<lambda>_. ''Vault transit encrypt failed'') r)) (\<lambda>ciphertext.
     ret (dek, as_bytes ciphertext, version))))"

definition vault_decrypt_dek :: "env \<Rightarrow> string \<Rightarrow> string \<Rightarrow> byte list \<Rightarrow> byte list anyio" where
  "vault_decrypt_dek E mount key_name encrypted_dek =
     (if \<not> utf8_valid encrypted_dek
      then fail ''Vault ciphertext stored in BYTEA is not valid UTF-8''
      else
      bindE (effect (\<lambda>t. env_vault_decrypt E t mount key_name (string_of_bytes encrypted_dek))) (\<lambda>r.
      bindE (liftE (res_map_err (\<lambda>_. ''Vault transit decrypt failed'') r)) (\<lambda>plaintext.
      liftE (ok_or ''Vault response plaintext is not valid base64''
               (b64_decode (env_crates E) plaintext)))))"

definition local_generate_dek :: "env \<Rightarrow> byte list \<Rightarrow> int \<Rightarrow> (byte list \<times> byte list \<times> int) anyio" where
  "local_generate_dek E wrapping_key version =
     bindE (effect (\<lambda>t. env_entropy E t 32)) (\<lambda>dek.
     bindE (with_context ''LocalDevProvider: DEK wrapping failed'' (encrypt_trace E dek wrapping_key)) (\<lambda>blob.
     ret (dek, bl_nonce blob @ bl_ciphertext blob, version)))"

definition local_decrypt_dek :: "env \<Rightarrow> byte list \<Rightarrow> byte list \<Rightarrow> byte list anyio" where
  "local_decrypt_dek E wrapping_key encrypted_dek =
     (if length encrypted_dek < 12
      then fail ''LocalDevProvider: encrypted_dek too short to contain nonce''
      else with_context ''LocalDevProvider: DEK unwrapping failed''
             (decrypt_trace E (drop 12 encrypted_dek) (take 12 encrypted_dek) wrapping_key))"

fun generate_dek :: "env \<Rightarrow> key_provider \<Rightarrow> (byte list \<times> byte list \<times> int) anyio" where
  "generate_dek E (LocalDev k v) = local_generate_dek E k v"
| "generate_dek E (AwsKms k v) = aws_generate_dek E k v"
| "generate_dek E (VaultTransit m k v) = vault_generate_dek E m k v"

fun decrypt_dek :: "env \<Rightarrow> key_provider \<Rightarrow> byte list \<Rightarrow> int \<Rightarrow> byte list anyio" where
  "decrypt_dek E (LocalDev k _) encrypted_dek key_version = local_decrypt_dek E k encrypted_dek"
| "decrypt_dek E (AwsKms k _) encrypted_dek key_version = aws_decrypt_dek E k encrypted_dek"
| "decrypt_dek E (VaultTransit m k _) encrypted_dek key_version = vault_decrypt_dek E m k encrypted_dek"

section \<open>Construction from the configuration\<close>

text \<open>The process environment is a partial function from variable names to values.\<close>

type_synonym env_vars = "string \<Rightarrow> string option"

definition local_dev_new :: "crates \<Rightarrow> env_vars \<Rightarrow> int \<Rightarrow> string + key_provider" where
  "local_dev_new c vars key_version =
     (if to_ascii_lowercase (case vars ''ENVIRONMENT'' of None \<Rightarrow> [] | Some e \<Rightarrow> e) = ''production''
      then Inl ''LocalDevProvider cannot be used in ENVIRONMENT=production''
      else
      res_bind (ok_or ''LOCAL_KMS_KEY must be set when KMS_PROVIDER=local'' (vars ''LOCAL_KMS_KEY'')) (\<lambda>key_hex.
      res_bind (ok_or ''LOCAL_KMS_KEY is not valid hex'' (hex_decode c key_hex)) (\<lambda>key.
      if length key \<noteq> 32
      then Inl (''LOCAL_KMS_KEY must be exactly 32 bytes (64 hex chars), got '' @ show_int (int (length key)))
      else Inr (LocalDev key key_version))))"

text \<open>The client settings are accepted or not by the \<open>vaultrs\<close> crate: \<open>settings_ok address\<close>.\<close>

definition vault_new :: "(string \<Rightarrow> bool) \<Rightarrow> env_vars \<Rightarrow> int \<Rightarrow> string + key_provider" where
  "vault_new settings_ok vars key_version =
     res_bind (ok_or ''VAULT_ADDR missing'' (vars ''VAULT_ADDR'')) (\<lambda>addr.
     res_bind (ok_or ''VAULT_TOKEN missing'' (vars ''VAULT_TOKEN'')) (\<lambda>tok.
     let mount = (case vars ''VAULT_TRANSIT_MOUNT'' of None \<Rightarrow> ''transit'' | Some m \<Rightarrow> m) in
     res_bind (ok_or ''VAULT_TRANSIT_KEY missing'' (vars ''VAULT_TRANSIT_KEY'')) (\<lambda>key_name.
     if \<not> settings_ok addr then Inl ''Failed to build Vault client settings''
     else Inr (VaultTransit mount key_name key_version))))"

definition build_key_provider ::
  "crates \<Rightarrow> (string \<Rightarrow> bool) \<Rightarrow> env_vars \<Rightarrow> config \<Rightarrow> string + key_provider option"
where
  "build_key_provider c settings_ok vars cfg =
     (case cfg_kms_provider cfg of
        KmsNone \<Rightarrow> Inr None
      | KmsLocal \<Rightarrow> res_bind (local_dev_new c vars (cfg_kms_key_version cfg)) (\<lambda>p. Inr (Some p))
      | KmsAws \<Rightarrow>
          res_bind (ok_or ''KMS_KEY_ID is required when KMS_PROVIDER=aws'' (cfg_kms_key_id cfg)) (\<lambda>key_id.
          Inr (Some (AwsKms key_id (cfg_kms_key_version cfg))))
      | KmsVault \<Rightarrow> res_bind (vault_new settings_ok vars (cfg_kms_key_version cfg)) (\<lambda>p. Inr (Some p)))"

section \<open>What the key services promise\<close>

text \<open>
  AES-GCM decrypts what it encrypted; the entropy source returns the bytes asked
  for; base64 decodes what it encoded.
\<close>

definition crypto_ok :: "env \<Rightarrow> bool" where
  "crypto_ok E \<longleftrightarrow>
     (\<forall>key nonce pt ct. length key = 32 \<and> length nonce = 12
        \<and> aes_encrypt (env_crates E) key nonce pt = Some ct
        \<longrightarrow> aes_decrypt (env_crates E) key nonce ct = Some pt)
     \<and> (\<forall>t n. length (env_entropy E t n) = n)
     \<and> (\<forall>bs. b64_decode (env_crates E) (b64_encode (env_crates E) bs) = Some bs)"

text \<open>
  A provider is sound when its own key has the right length, or the service it
  calls returns 32-byte keys and never decrypts a wrapped key to another one.
\<close>

fun provider_ok :: "env \<Rightarrow> key_provider \<Rightarrow> bool" where
  "provider_ok E (LocalDev k _) \<longleftrightarrow> length k = 32"
| "provider_ok E (AwsKms key _) \<longleftrightarrow>
     (\<forall>t dek enc. env_aws_generate E t key = Inr (Some dek, Some enc) \<longrightarrow>
        length dek = 32 \<and> (\<forall>t' d. env_aws_decrypt E t' key enc = Inr (Some d) \<longrightarrow> d = dek))"
| "provider_ok E (VaultTransit mount key _) \<longleftrightarrow>
     (\<forall>t s ct. env_vault_encrypt E t mount key s = Inr ct \<longrightarrow>
        (\<forall>t' s'. env_vault_decrypt E t' mount key ct = Inr s' \<longrightarrow> s' = s))"

locale envelope_keys =
  fixes ok :: bool
    and gen :: "(byte list \<times> byte list \<times> int) anyio"
    and dec :: "byte list \<Rightarrow> int \<Rightarrow> byte list anyio"
  assumes gen_length: "ok \<Longrightarrow> gen w = (Inr (dek, enc, kv), w') \<Longrightarrow> length dek = 32"
    and dec_gen: "ok \<Longrightarrow> gen w = (Inr (dek, enc, kv), w') \<Longrightarrow> dec enc kv' v = (Inr d, v') \<Longrightarrow> d = dek"
    and gen_db: "\<exists>n. snd (gen w) = w\<lparr>w_tick := n\<rparr>"
    and dec_db: "\<exists>n. snd (dec enc kv w) = w\<lparr>w_tick := n\<rparr>"

lemma encrypt_trace_ok:
  "encrypt_trace E pt dek w = (Inr blob, w') \<longleftrightarrow>
     length dek = 32 \<and> bl_nonce blob = env_entropy E (w_tick w) 12
     \<and> aes_encrypt (env_crates E) dek (bl_nonce blob) pt = Some (bl_ciphertext blob)
     \<and> w' = w\<lparr>w_tick := Suc (w_tick w)\<rparr>"
  by (cases blob)
    (auto simp: encrypt_trace_def bindE_Inr_iff io_simps liftE_Inr_iff)

lemma decrypt_trace_ok:
  "decrypt_trace E ct nonce dek w = (Inr pt, w') \<longleftrightarrow>
     length dek = 32 \<and> length nonce = 12 \<and> aes_decrypt (env_crates E) dek nonce ct = Some pt \<and> w' = w"
  by (auto simp: decrypt_trace_def io_simps liftE_Inr_iff)

lemma decrypt_encrypt_trace:
  assumes "crypto_ok E" and "encrypt_trace E pt dek w = (Inr blob, w')"
  shows "decrypt_trace E (bl_ciphertext blob) (bl_nonce blob) dek v = (Inr pt, v)"
  using assms by (auto simp: decrypt_trace_ok encrypt_trace_ok crypto_ok_def)

lemma extract_wrap:
  "crypto_ok E \<Longrightarrow>
     extract_ciphertext_from_jsonb (env_crates E) (wrap_ciphertext_for_jsonb (env_crates E) ct) = Inr ct"
  by (simp add: crypto_ok_def extract_ciphertext_from_jsonb_def wrap_ciphertext_for_jsonb_def json_get_obj
      i64_min_def i64_max_def)

lemma with_context_Inr: "with_context msg m w = (Inr x, w') \<longleftrightarrow> m w = (Inr x, w')"
  by (simp add: with_context_def map_errE_Inr_iff)

lemma local_decrypt_generate:
  assumes "crypto_ok E" and "local_generate_dek E k v w = (Inr (dek, enc, kv), w')"
  shows "length dek = 32 \<and> local_decrypt_dek E k enc x = (Inr dek, x)"
proof -
  obtain t blob w1 where dek: "dek = env_entropy E t 32"
    and enc: "encrypt_trace E dek k w1 = (Inr blob, w')" and eq: "enc = bl_nonce blob @ bl_ciphertext blob"
    using assms(2) by (auto simp: local_generate_dek_def bindE_Inr_iff io_simps with_context_Inr)
  have nonce: "length (bl_nonce blob) = 12"
    using enc assms(1) by (auto simp: encrypt_trace_ok crypto_ok_def)
  have "decrypt_trace E (bl_ciphertext blob) (bl_nonce blob) k x = (Inr dek, x)"
    using decrypt_encrypt_trace [OF assms(1) enc] .
  then show ?thesis using assms(1) nonce
    by (simp add: local_decrypt_dek_def eq with_context_Inr dek crypto_ok_def)
qed

lemma keeps_encrypt_trace: "keeps only_tick (encrypt_trace E pt dek)"
  unfolding encrypt_trace_def by (intro ot.keeps_intros)

lemma keeps_decrypt_trace: "keeps only_tick (decrypt_trace E ct nonce dek)"
  unfolding decrypt_trace_def by (intro ot.keeps_intros)

lemma keeps_generate_dek: "keeps only_tick (generate_dek E kp)"
proof (cases kp)
  case (LocalDev k v)
  then show ?thesis unfolding LocalDev generate_dek.simps local_generate_dek_def with_context_def
    by (intro ot.keeps_intros keeps_encrypt_trace)
next
  case (AwsKms k v)
  then show ?thesis unfolding AwsKms generate_dek.simps aws_generate_dek_def by (intro ot.keeps_intros)
next
  case (VaultTransit m k v)
  then show ?thesis unfolding VaultTransit generate_dek.simps vault_generate_dek_def
    by (intro ot.keeps_intros)
qed

lemma keeps_decrypt_dek: "keeps only_tick (decrypt_dek E kp enc kv)"
proof (cases kp)
  case (LocalDev k v)
  then show ?thesis unfolding LocalDev decrypt_dek.simps local_decrypt_dek_def with_context_def
    by (intro ot.keeps_intros keeps_decrypt_trace)
next
  case (AwsKms k v)
  then show ?thesis unfolding AwsKms decrypt_dek.simps aws_decrypt_dek_def by (intro ot.keeps_intros)
next
  case (VaultTransit m k v)
  then show ?thesis unfolding VaultTransit decrypt_dek.simps vault_decrypt_dek_def
    by (intro ot.keeps_intros)
qed

lemma aws_generate_ok:
  "aws_generate_dek E key v w = (Inr (dek, enc, kv), w') \<Longrightarrow>
     \<exists>t. env_aws_generate E t key = Inr (Some dek, Some enc)"
  by (auto simp: aws_generate_dek_def bindE_Inr_iff io_simps liftE_Inr_iff)

lemma aws_decrypt_ok:
  "aws_decrypt_dek E key enc w = (Inr d, w') \<Longrightarrow> \<exists>t. env_aws_decrypt E t key enc = Inr (Some d)"
  by (auto simp: aws_decrypt_dek_def bindE_Inr_iff io_simps liftE_Inr_iff)

lemma vault_generate_ok:
  "vault_generate_dek E mount key v w = (Inr (dek, enc, kv), w') \<Longrightarrow>
     \<exists>t t' ct. dek = env_entropy E t 32 \<and> enc = as_bytes ct
       \<and> env_vault_encrypt E t' mount key (b64_encode (env_crates E) dek) = Inr ct"
  by (auto simp: vault_generate_dek_def bindE_Inr_iff io_simps liftE_Inr_iff)

lemma vault_decrypt_ok:
  "vault_decrypt_dek E mount key enc w = (Inr d, w') \<Longrightarrow>
     \<exists>t s. env_vault_decrypt E t mount key (string_of_bytes enc) = Inr s
       \<and> b64_decode (env_crates E) s = Some d"
  by (auto simp: vault_decrypt_dek_def bindE_Inr_iff io_simps liftE_Inr_iff split: if_splits)

interpretation kms: envelope_keys "crypto_ok E \<and> provider_ok E kp" "generate_dek E kp" "decrypt_dek E kp"
  for E kp
proof
  fix w dek enc kv w'
  assume ok: "crypto_ok E \<and> provider_ok E kp" and gen: "generate_dek E kp w = (Inr (dek, enc, kv), w')"
  show "length dek = 32"
  proof (cases kp)
    case (LocalDev k n)
    then show ?thesis using local_decrypt_generate [of E k n w] ok gen by simp
  next
    case (AwsKms k n)
    then show ?thesis using aws_generate_ok [of E k n w] ok gen by auto
  next
    case (VaultTransit m k n)
    then show ?thesis using vault_generate_ok [of E m k n w] ok gen by (auto simp: crypto_ok_def)
  qed
  fix kv' v d v'
  assume dec: "decrypt_dek E kp enc kv' v = (Inr d, v')"
  show "d = dek"
  proof (cases kp)
    case (LocalDev k n)
    then show ?thesis using local_decrypt_generate [of E k n w dek enc kv w' v] ok gen dec by simp
  next
    case (AwsKms k n)
    then show ?thesis using aws_generate_ok [of E k n w] aws_decrypt_ok [of E k enc v] ok gen dec
      by (metis decrypt_dek.simps(2) generate_dek.simps(2) provider_ok.simps(2))
  next
    case (VaultTransit m k n)
    then obtain t t' ct where ct: "enc = as_bytes ct"
        "env_vault_encrypt E t' m k (b64_encode (env_crates E) dek) = Inr ct"
      using vault_generate_ok [of E m k n w] gen by auto
    obtain t2 s where "env_vault_decrypt E t2 m k (string_of_bytes enc) = Inr s"
        "b64_decode (env_crates E) s = Some d"
      using vault_decrypt_ok [of E m k enc v] dec VaultTransit by auto
    moreover from this(1) have "s = b64_encode (env_crates E) dek" using ok ct VaultTransit by auto
    ultimately show ?thesis using ok by (auto simp: crypto_ok_def)
  qed
next
  show "\<exists>n. snd (generate_dek E kp w) = w\<lparr>w_tick := n\<rparr>" for w
    using keeps_generate_dek by (auto simp: keeps_def only_tick_def)
  show "\<exists>n. snd (decrypt_dek E kp enc kv w) = w\<lparr>w_tick := n\<rparr>" for enc kv w
    using keeps_decrypt_dek by (auto simp: keeps_def only_tick_def)
qed

end
