(* ===== verification/Irl_Binding.thy ===== *)
theory Irl_Binding
  imports Irl_World
begin

text \<open>
  \<open>src/asset.rs\<close> and \<open>src/binding.rs\<close>: asset aliases, the direction of a stored
  action, and the reconciliation of an execution report with the authorized
  intent.
\<close>

section \<open>Asset aliases\<close>

text \<open>The alias map set once at start-up; a later pair for the same alias wins.\<close>

type_synonym alias_map = "string \<Rightarrow> string option"

definition asset_init :: "string \<Rightarrow> alias_map" where
  "asset_init raw =
     fold (\<lambda>pair m.
       (case splitn2 (CHR ''|'') pair of
          [alias, canonical] \<Rightarrow> m(str_trim alias \<mapsto> str_trim canonical)
        | _ \<Rightarrow> m)) (str_split (CHR '','') raw) (\<lambda>_. None)"

definition canonicalize :: "alias_map \<Rightarrow> string \<Rightarrow> string" where
  "canonicalize m asset = (case m asset of None \<Rightarrow> asset | Some canonical \<Rightarrow> canonical)"

definition assets_match :: "alias_map \<Rightarrow> string \<Rightarrow> string \<Rightarrow> bool" where
  "assets_match m a b \<longleftrightarrow> a = b \<or> canonicalize m a = canonicalize m b"

section \<open>Reports and results\<close>

datatype verification_status = Pending | Matched | Divergent | Orphan | Expired | Mismatch

fun show_verification_status :: "verification_status \<Rightarrow> string" where
  "show_verification_status Pending = ''PENDING''"
| "show_verification_status Matched = ''MATCHED''"
| "show_verification_status Divergent = ''DIVERGENT''"
| "show_verification_status Orphan = ''ORPHAN''"
| "show_verification_status Expired = ''EXPIRED''"
| "show_verification_status Mismatch = ''MISMATCH''"

datatype execution_status = Filled | Rejected | Partial

fun show_execution_status :: "execution_status \<Rightarrow> string" where
  "show_execution_status Filled = ''FILLED''"
| "show_execution_status Rejected = ''REJECTED''"
| "show_execution_status Partial = ''PARTIAL''"

record bind_execution_request =
  be_trace_id :: uuid
  be_exchange_tx_id :: string
  be_execution_status :: execution_status
  be_asset :: "string option"
  be_executed_quantity :: "f64 option"
  be_execution_price :: "f64 option"
  be_executed_side :: "string option"
  be_execution_time_ms :: "int option"

record bind_execution_result =
  br_trace_id :: uuid
  br_final_proof :: string
  br_verification_status :: verification_status
  br_execution_status :: string
  br_execution_time :: int
  br_divergence_reason :: "string option"

definition resolve_direction :: "string \<Rightarrow> string" where
  "resolve_direction action =
     (let lower = str_trim (to_ascii_lowercase action)
      in if starts_with lower ''long'' \<or> starts_with lower ''buy'' \<or> str_contains lower ''open_long''
            \<or> lower = ''open''
         then ''long''
         else if starts_with lower ''short'' \<or> starts_with lower ''sell''
                 \<or> str_contains lower ''close_short'' \<or> lower = ''close'' \<or> lower = ''exit''
                 \<or> lower = ''reverse''
         then ''short''
         else ''neutral'')"

text \<open>The three checks of \<open>reconcile\<close>, each giving the reason of a divergence.\<close>

definition asset_divergence :: "alias_map \<Rightarrow> bind_execution_request \<Rightarrow> string \<Rightarrow> string option" where
  "asset_divergence m req intent_asset =
     (case be_asset req of
        None \<Rightarrow> None
      | Some exec_asset \<Rightarrow>
          if assets_match m exec_asset intent_asset then None
          else Some (''Asset mismatch: authorized '' @ intent_asset @ '', executed '' @ exec_asset))"

definition side_divergence :: "bind_execution_request \<Rightarrow> string \<Rightarrow> string option" where
  "side_divergence req intent_action =
     (case be_executed_side req of
        None \<Rightarrow> None
      | Some exec_side \<Rightarrow>
          if eq_ignore_ascii_case exec_side (resolve_direction intent_action) then None
          else Some (''Side mismatch: authorized '' @ resolve_direction intent_action @
                     '', executed '' @ exec_side))"

definition quantity_divergence ::
  "crates \<Rightarrow> bind_execution_request \<Rightarrow> f64 \<Rightarrow> f64 \<Rightarrow> string option"
where
  "quantity_divergence c req intent_quantity size_tolerance =
     (case be_executed_quantity req of
        None \<Rightarrow> None
      | Some executed_qty \<Rightarrow>
          if f64_less (Finite 0) intent_quantity
          then let delta = f64_abs (f64_sub intent_quantity executed_qty)
               in if f64_less (f64_mul intent_quantity size_tolerance) delta
                  then Some (''Quantity outside tolerance: authorized '' @ show_f64_prec c 4 intent_quantity
                             @ '', executed '' @ show_f64_prec c 4 executed_qty
                             @ '', delta '' @ show_f64_prec c 4 delta)
                  else None
          else None)"

definition reconcile ::
  "env \<Rightarrow> alias_map \<Rightarrow> uuid \<Rightarrow> string \<Rightarrow> bind_execution_request \<Rightarrow> string \<Rightarrow> string \<Rightarrow> f64 \<Rightarrow> f64
     \<Rightarrow> bind_execution_result io"
where
  "reconcile E m trace_id reasoning_hash req intent_asset intent_action intent_quantity size_tolerance =
     (let c = env_crates E;
          final_proof = compute_final_proof c reasoning_hash (be_exchange_tx_id req);
          result = (\<lambda>time status reason.
            \<lparr>br_trace_id = trace_id, br_final_proof = final_proof, br_verification_status = status,
             br_execution_status = show_execution_status (be_execution_status req),
             br_execution_time = time, br_divergence_reason = reason\<rparr>)
      in bindE (case Option.bind (be_execution_time_ms req) (timestamp_millis c) of
                  Some time \<Rightarrow> ret time
                | None \<Rightarrow> utc_now_us E) (\<lambda>time.
         case asset_divergence m req intent_asset of
           Some reason \<Rightarrow> ret (result time Divergent (Some reason))
         | None \<Rightarrow>
             (case side_divergence req intent_action of
                Some reason \<Rightarrow> ret (result time Divergent (Some reason))
              | None \<Rightarrow>
                  (case quantity_divergence c req intent_quantity size_tolerance of
                     Some reason \<Rightarrow> ret (result time Divergent (Some reason))
                   | None \<Rightarrow> ret (result time Matched None)))))"

section \<open>Facts\<close>

definition report_agrees ::
  "alias_map \<Rightarrow> bind_execution_request \<Rightarrow> string \<Rightarrow> string \<Rightarrow> f64 \<Rightarrow> f64 \<Rightarrow> bool"
where
  "report_agrees m req asset action qty tol \<longleftrightarrow>
     (case be_asset req of None \<Rightarrow> True | Some a \<Rightarrow> assets_match m a asset)
     \<and> (case be_executed_side req of None \<Rightarrow> True
        | Some s \<Rightarrow> to_ascii_lowercase s = to_ascii_lowercase (resolve_direction action))
     \<and> (case be_executed_quantity req of None \<Rightarrow> True
        | Some q \<Rightarrow> f64_less (Finite 0) qty \<longrightarrow>
            \<not> f64_less (f64_mul qty tol) (f64_abs (f64_sub qty q)))"

lemma reconcile_result:
  obtains time w' where
    "reconcile E m trace_id h req asset action qty tol w =
       (Inr \<lparr>br_trace_id = trace_id,
             br_final_proof = compute_final_proof (env_crates E) h (be_exchange_tx_id req),
             br_verification_status = (if report_agrees m req asset action qty tol then Matched else Divergent),
             br_execution_status = show_execution_status (be_execution_status req),
             br_execution_time = time,
             br_divergence_reason =
               (case asset_divergence m req asset of Some r \<Rightarrow> Some r
                | None \<Rightarrow> (case side_divergence req action of Some r \<Rightarrow> Some r
                | None \<Rightarrow> quantity_divergence (env_crates E) req qty tol))\<rparr>, w')"
    and "w' = w \<or> w' = w\<lparr>w_tick := Suc (w_tick w)\<rparr>"
proof -
  define t where "t = Option.bind (be_execution_time_ms req) (timestamp_millis (env_crates E))"
  define time where "time = (case t of Some x \<Rightarrow> x | None \<Rightarrow> env_clock E (w_tick w))"
  define w' where "w' = (case t of Some _ \<Rightarrow> w | None \<Rightarrow> w\<lparr>w_tick := Suc (w_tick w)\<rparr>)"
  have clock: "(case t of Some x \<Rightarrow> ret x | None \<Rightarrow> utc_now_us E) w = (Inr time, w')"
    by (simp add: time_def w'_def utc_now_us_def io_simps split: option.splits)
  have agrees: "report_agrees m req asset action qty tol \<longleftrightarrow>
      asset_divergence m req asset = None \<and> side_divergence req action = None
      \<and> quantity_divergence (env_crates E) req qty tol = None"
    by (auto simp: report_agrees_def asset_divergence_def side_divergence_def quantity_divergence_def
        eq_ignore_ascii_case_def Let_def split: option.splits)
  show thesis
  proof (rule that [of time w'])
    show "w' = w \<or> w' = w\<lparr>w_tick := Suc (w_tick w)\<rparr>" by (simp add: w'_def split: option.splits)
  qed (auto simp: reconcile_def Let_def t_def [symmetric] bindE_def clock agrees io_simps
      split: option.splits)
qed

section \<open>Directions of stored actions\<close>

lemma lowercase_display:
  "to_ascii_lowercase (''Long('' @ s @ '')'') = ''long('' @ to_ascii_lowercase s @ '')''"
  "to_ascii_lowercase (''Short('' @ s @ '')'') = ''short('' @ to_ascii_lowercase s @ '')''"
  by (simp_all add: to_ascii_lowercase_def) (code_simp | (intro conjI; code_simp))+

lemma trim_display:
  "str_trim (''long('' @ s @ '')'') = ''long('' @ s @ '')''"
  "str_trim (''short('' @ s @ '')'') = ''short('' @ s @ '')''"
  using str_trim_plain [of "CHR ''l''" "CHR '')''" "''ong('' @ s"]
    str_trim_plain [of "CHR ''s''" "CHR '')''" "''hort('' @ s"] by simp_all

lemma resolve_direction_long: "resolve_direction (''Long('' @ s @ '')'') = ''long''"
  unfolding resolve_direction_def lowercase_display trim_display Let_def
  by (simp add: starts_with_def)

lemma str_contains_chars: "str_contains s p \<Longrightarrow> set p \<subseteq> set s"
proof (induction s)
  case (Cons x s)
  then show ?case by (auto simp: starts_with_def dest: in_set_takeD) (metis in_set_takeD set_ConsD)+
qed simp

text \<open>What is used of the rendering of floats: it has no underscore.\<close>

definition float_text_plain :: "crates \<Rightarrow> bool" where
  "float_text_plain c \<longleftrightarrow> (\<forall>x. CHR ''_'' \<notin> set (show_f64 c x))"

lemma ascii_lower_underscore: "ascii_lower x = CHR ''_'' \<longleftrightarrow> x = CHR ''_''"
proof
  assume eq: "ascii_lower x = CHR ''_''"
  show "x = CHR ''_''"
  proof (cases "CHR ''A'' \<le> x \<and> x \<le> CHR ''Z''")
    case True
    then have bounds: "65 \<le> (of_char x :: nat)" "(of_char x :: nat) \<le> 90"
      by (simp_all add: less_eq_char_def)
    have "of_char (ascii_lower x) = (of_char x + 32 :: nat)"
      using True bounds by (simp add: ascii_lower_def)
    then show ?thesis using eq bounds by simp
  next
    case False
    then have "ascii_lower x = x" unfolding ascii_lower_def by (rule if_not_P)
    then show ?thesis using eq by simp
  qed
next
  show "x = CHR ''_'' \<Longrightarrow> ascii_lower x = CHR ''_''" by (simp add: ascii_lower_def less_eq_char_def)
qed

lemma resolve_direction_short:
  assumes "CHR ''_'' \<notin> set s"
  shows "resolve_direction (''Short('' @ s @ '')'') = ''short''"
proof -
  have "CHR ''_'' \<notin> set (to_ascii_lowercase s)"
    using assms unfolding to_ascii_lowercase_def set_map by (metis imageE ascii_lower_underscore)
  then have "\<not> str_contains (''short('' @ to_ascii_lowercase s @ '')'') ''open_long''"
    using str_contains_chars [of "''short('' @ to_ascii_lowercase s @ '')''" "''open_long''"] by auto
  then show ?thesis
    unfolding resolve_direction_def lowercase_display trim_display Let_def
    by (simp add: starts_with_def)
qed

lemma resolve_direction_neutral: "resolve_direction ''Neutral'' = ''neutral''"
  by code_simp

section \<open>Properties\<close>

text \<open>An execution is MATCHED exactly when every reported item agrees with the intent: the
  asset up to aliases, the side up to letter case, the quantity within the tolerance; the
  result carries the final proof of the trace and the reported transaction either way.\<close>

theorem reconcile_matched_iff:
  "\<exists>r w'. reconcile E m trace_id h req asset action qty tol w = (Inr r, w')
     \<and> br_trace_id r = trace_id
     \<and> br_final_proof r = compute_final_proof (env_crates E) h (be_exchange_tx_id req)
     \<and> br_verification_status r = (if report_agrees m req asset action qty tol then Matched else Divergent)
     \<and> w_db w' = w_db w"
proof -
  obtain time w' where
    run: "reconcile E m trace_id h req asset action qty tol w =
       (Inr \<lparr>br_trace_id = trace_id,
             br_final_proof = compute_final_proof (env_crates E) h (be_exchange_tx_id req),
             br_verification_status = (if report_agrees m req asset action qty tol then Matched else Divergent),
             br_execution_status = show_execution_status (be_execution_status req),
             br_execution_time = time,
             br_divergence_reason =
               (case asset_divergence m req asset of Some r \<Rightarrow> Some r
                | None \<Rightarrow> (case side_divergence req action of Some r \<Rightarrow> Some r
                | None \<Rightarrow> quantity_divergence (env_crates E) req qty tol))\<rparr>, w')"
    and "w' = w \<or> w' = w\<lparr>w_tick := Suc (w_tick w)\<rparr>"
    by (rule reconcile_result)
  then show ?thesis by auto
qed

text \<open>For the standard actions the direction read back from the stored text at bind time
  is the direction the policy used (the rendering of a float has no underscore).\<close>

theorem stored_direction_agrees:
  assumes "float_text_plain c" and "\<And>s. a \<noteq> Custom s"
  shows "resolve_direction (show_trade_action c a) = direction a"
proof (cases a)
  case (Short x)
  then show ?thesis using assms(1) resolve_direction_short [of "show_f64 c x"]
    by (simp add: float_text_plain_def)
next
  case (Long x)
  then show ?thesis using resolve_direction_long [of "show_f64 c x"] by simp
qed (use assms(2) resolve_direction_neutral in auto)

theorem stored_direction_agrees_witness:
  "resolve_direction (show_trade_action demo_crates (Short (Finite 2))) = direction (Short (Finite 2))"
proof (rule stored_direction_agrees)
  have "CHR ''_'' \<notin> set (show_int i)" for i
  proof -
    have "CHR ''_'' \<notin> insert (CHR ''-'') (set ''0123456789'')" by simp
    then show ?thesis using set_show_int [of i] by blast
  qed
  then show "float_text_plain demo_crates" by (simp add: float_text_plain_def demo_crates_def)
qed simp

text \<open>A report of an executed quantity of zero, as for a rejected or cancelled order, is not
  MATCHED: whatever its status, the missing quantity is outside the tolerance.\<close>

theorem zero_quantity_diverges:
  assumes "be_executed_quantity req = Some (Finite 0)"
  shows "\<not> report_agrees m req asset action (Finite 1) (Finite (1 / 8192))"
proof -
  have "f64_less (Finite 0) (Finite 1)
      \<and> f64_less (f64_mul (Finite 1) (Finite (1 / 8192))) (f64_abs (f64_sub (Finite 1) (Finite 0)))"
    by code_simp
  then show ?thesis using assms by (simp add: report_agrees_def)
qed

text \<open>for venue-specific actions the two direction resolvers disagree. The documented
  futures action "Open Long" is long for the policy and neutral at bind time; "Sell Long" is
  long for the policy and short at bind time, so a position moves the other way.\<close>

theorem custom_direction_diverges:
  "direction (Custom ''Open Long'') = ''long'' \<and> resolve_direction ''Open Long'' = ''neutral''
   \<and> direction (Custom ''Sell Long'') = ''long'' \<and> resolve_direction ''Sell Long'' = ''short''"
  by code_simp

end
