(* ===== verification/Irl_Db.thy ===== *)
theory Irl_Db
  imports Irl_Encryption Irl_Binding
begin

text \<open>
  \<open>src/db.rs\<close>: the statements on traces, key metadata and positions. A statement is
  a function on the tables; a transaction is a sequence of statements whose
  writes are applied by its commit.
\<close>

section \<open>Inserting traces\<close>

definition opt_numeric :: "crates \<Rightarrow> f64 option \<Rightarrow> rat option option" where
  "opt_numeric c x =
     (case x of None \<Rightarrow> Some None | Some v \<Rightarrow> map_option Some (pg_numeric c 20 8 v))"

text \<open>
  The new row, with the column defaults, or the reason a value does not fit its
  column.
\<close>

definition new_trace_row ::
  "crates \<Rightarrow> cognitive_snapshot \<Rightarrow> int \<Rightarrow> int \<Rightarrow> string \<Rightarrow> policy_decision
     \<Rightarrow> json \<times> byte list option \<times> byte list option \<times> int option \<times> int
     \<Rightarrow> uuid option \<Rightarrow> string option \<Rightarrow> trace_row option"
where
  "new_trace_row c snap valid_time txn_time reasoning_hash decision stored agent_id mta_pubkey_used =
     (let ex = cs_execution snap in
      case (pg_numeric c 20 8 (ei_quantity ex), pg_numeric c 20 8 (ei_notional ex),
            pg_numeric c 10 6 (ei_multiplier ex), opt_numeric c (ei_limit_price ex),
            opt_numeric c (ei_stop_price ex)) of
        (Some qty, Some notional, Some mlt, Some limit, Some stop) \<Rightarrow>
          Some \<lparr>tr_trace_id = cs_trace_id snap, tr_valid_time = valid_time, tr_txn_time = txn_time,
            tr_mta_regime_id = uint (cs_mta_regime_id snap), tr_mta_version = cs_mta_version snap,
            tr_mta_hash = cs_mta_hash snap, tr_latent_fingerprint = cs_latent_fingerprint snap,
            tr_feature_schema_id = cs_feature_schema_id snap,
            tr_execution_action = show_trade_action c (ei_action ex),
            tr_execution_asset = ei_asset ex, tr_client_order_id = ei_client_order_id ex,
            tr_execution_order_type = Some (show_order_type (ei_order_type ex)),
            tr_execution_venue_id = Some (ei_venue_id ex),
            tr_execution_quantity = Some qty, tr_execution_notional = Some notional,
            tr_execution_limit_price = limit,
            tr_execution_notional_currency = ei_notional_currency ex,
            tr_execution_multiplier = mlt, tr_execution_stop_price = stop,
            tr_heartbeat_seq = u64_as_i64 (hb_sequence_id (cs_heartbeat snap)),
            tr_policy_id = pd_policy_id decision, tr_policy_version = pd_policy_version decision,
            tr_policy_hash = pd_policy_hash decision,
            tr_policy_result = show_policy_result (pd_result decision),
            tr_reasoning_hash = reasoning_hash, tr_trace_json = fst stored, tr_agent_id = agent_id,
            tr_trace_nonce = fst (snd stored), tr_encrypted_dek = fst (snd (snd stored)),
            tr_key_version = fst (snd (snd (snd stored))),
            tr_encryption_version = snd (snd (snd (snd stored))),
            tr_mta_pubkey_used = mta_pubkey_used, tr_exchange_tx_id = None,
            tr_verification_status = ''PENDING'', tr_execution_status = None,
            tr_execution_price = None, tr_execution_time = None, tr_final_proof = None,
            tr_gdpr_erased_at = None, tr_gdpr_request_id = None\<rparr>
      | _ \<Rightarrow> None)"

text \<open>The constraints of the table: primary key, bitemporal check, policy result.\<close>

definition insert_trace_row :: "trace_row option \<Rightarrow> database \<Rightarrow> string + database" where
  "insert_trace_row row d =
     (case row of
        None \<Rightarrow> Inl ''numeric field overflow''
      | Some r \<Rightarrow>
          if list_ex (\<lambda>s. tr_trace_id s = tr_trace_id r \<and> tr_txn_time s = tr_txn_time r) (d_traces d)
          then Inl ''pk_reasoning_traces''
          else if \<not> tr_valid_time r < tr_txn_time r then Inl ''chk_bitemporal''
          else if tr_policy_result r \<notin> {''ALLOWED'', ''HALTED'', ''SHADOW_HALTED''}
          then Inl ''chk_policy_result''
          else Inr (d\<lparr>d_traces := d_traces d @ [r]\<rparr>))"

text \<open>The stored form of the trace: plain, or encrypted under a fresh data key.\<close>

definition encrypt_stored ::
  "env \<Rightarrow> key_provider option \<Rightarrow> json
     \<Rightarrow> (json \<times> byte list option \<times> byte list option \<times> int option \<times> int) io"
where
  "encrypt_stored E kp trace_json =
     (case kp of
        None \<Rightarrow> ret (trace_json, None, None, None, 0)
      | Some kms \<Rightarrow>
          bindE (liftE (res_map_err Serialization (json_to_vec (env_crates E) trace_json))) (\<lambda>plaintext.
          bindE (map_errE Encryption (generate_dek E kms)) (\<lambda>(dek, enc_dek, kv).
          bindE (map_errE Encryption (encrypt_trace E plaintext dek)) (\<lambda>blob.
          ret (wrap_ciphertext_for_jsonb (env_crates E) (bl_ciphertext blob),
               Some (bl_nonce blob), Some enc_dek, Some kv, 1)))))"

definition snapshot_times :: "crates \<Rightarrow> cognitive_snapshot \<Rightarrow> (int \<times> int) res" where
  "snapshot_times c snap =
     res_bind (ok_or (Serialization ''invalid valid_time timestamp'')
                (timestamp_millis c (cs_valid_time snap))) (\<lambda>valid_time.
     res_bind (ok_or (Serialization ''invalid txn_time timestamp'')
                (timestamp_millis c (cs_txn_time snap))) (\<lambda>txn_time.
     Inr (valid_time, txn_time)))"

definition insert_trace ::
  "env \<Rightarrow> cognitive_snapshot \<Rightarrow> string \<Rightarrow> policy_decision \<Rightarrow> reasoning_trace \<Rightarrow> uuid option
     \<Rightarrow> key_provider option \<Rightarrow> string option \<Rightarrow> unit io"
where
  "insert_trace E snap reasoning_hash decision trace agent_id kp mta_pubkey_used =
     bindE (encrypt_stored E kp (trace_value (env_crates E) trace)) (\<lambda>stored.
     bindE (liftE (snapshot_times (env_crates E) snap)) (\<lambda>(valid_time, txn_time).
     sql E (\<lambda>now d. res_bind (insert_trace_row (new_trace_row (env_crates E) snap valid_time txn_time
              reasoning_hash decision stored agent_id mta_pubkey_used) d) (\<lambda>d'. Inr ((), d')))))"

section \<open>The portfolio cap\<close>

text \<open>\<open>COALESCE(SUM(execution_notional), 0.0)::float8\<close> over the agent's PENDING rows.\<close>

definition pending_sum :: "uuid \<Rightarrow> trace_row list \<Rightarrow> rat" where
  "pending_sum a rows =
     sum_list (map (\<lambda>r. case tr_execution_notional r of None \<Rightarrow> 0 | Some n \<Rightarrow> n)
       (filter (\<lambda>r. tr_agent_id r = Some a \<and> tr_verification_status r = ''PENDING'') rows))"

definition get_pending_notional :: "env \<Rightarrow> uuid \<Rightarrow> f64 io" where
  "get_pending_notional E a =
     sql_read E (\<lambda>now d. pg_float8 (env_crates E) (pending_sum a (d_traces d)))"

text \<open>\<open>i64::from_le_bytes\<close> of the first eight bytes of the id.\<close>

definition lock_key :: "uuid \<Rightarrow> int" where
  "lock_key a =
     sint (fold (\<lambda>b acc. push_bit 8 acc + ucast b) (u64_to_le_bytes (ucast (drop_bit 64 a))) (0 :: u64))"

text \<open>
  \<open>pg_advisory_xact_lock\<close>: taken at once, as handlers run one after the other here;
  the statement can still fail.
\<close>

definition advisory_lock :: "env \<Rightarrow> int \<Rightarrow> unit io" where
  "advisory_lock E key = sql_read E (\<lambda>now d. ())"

definition portfolio_check :: "env \<Rightarrow> uuid option \<Rightarrow> f64 \<Rightarrow> (f64 \<times> string) option \<Rightarrow> unit io" where
  "portfolio_check E agent_id notional check =
     (case (agent_id, check) of
        (Some aid, Some (cap, regime_label)) \<Rightarrow>
          bindE (get_pending_notional E aid) (\<lambda>pending.
          if f64_less cap (f64_add pending notional)
          then fail (Policy (NotionalExceedsLimit (f64_add pending notional) cap regime_label
                 ''IrlConstraintPolicy''))
          else ret ())
      | _ \<Rightarrow> ret ())"

definition insert_trace_atomic ::
  "env \<Rightarrow> cognitive_snapshot \<Rightarrow> string \<Rightarrow> policy_decision \<Rightarrow> reasoning_trace \<Rightarrow> uuid option
     \<Rightarrow> (f64 \<times> string) option \<Rightarrow> key_provider option \<Rightarrow> string option \<Rightarrow> unit io"
where
  "insert_trace_atomic E snap reasoning_hash decision trace agent_id check kp mta_pubkey_used =
     bindE (sql_read E (\<lambda>now d. ())) (\<lambda>_.
     bindE (case agent_id of None \<Rightarrow> ret () | Some aid \<Rightarrow> advisory_lock E (lock_key aid)) (\<lambda>_.
     bindE (portfolio_check E agent_id (ei_notional (cs_execution snap)) check) (\<lambda>_.
     bindE (encrypt_stored E kp (trace_value (env_crates E) trace)) (\<lambda>stored.
     bindE (liftE (snapshot_times (env_crates E) snap)) (\<lambda>(valid_time, txn_time).
     bindE (sql E (\<lambda>now d. res_bind (insert_trace_row (new_trace_row (env_crates E) snap valid_time
              txn_time reasoning_hash decision stored agent_id mta_pubkey_used) d) (\<lambda>d'. Inr (d', d)))) (\<lambda>d'.
     sql E (\<lambda>now d. Inr ((), d'))))))))"

section \<open>Reading traces\<close>

definition decrypt_if_needed ::
  "env \<Rightarrow> json \<Rightarrow> byte list option \<Rightarrow> byte list option \<Rightarrow> int option \<Rightarrow> int \<Rightarrow> key_provider option \<Rightarrow> json io"
where
  "decrypt_if_needed E trace_json trace_nonce encrypted_dek key_version encryption_version kp =
     (if encryption_version = 0 then ret trace_json
      else if encryption_version = 1 then
        bindE (liftE (ok_or (Encryption ''encryption_version=1 but no key_provider configured'') kp)) (\<lambda>kms.
        bindE (liftE (ok_or (Encryption ''encrypted_dek is NULL for encryption_version=1'') encrypted_dek)) (\<lambda>enc_dek.
        bindE (liftE (ok_or (Encryption ''trace_nonce is NULL for encryption_version=1'') trace_nonce)) (\<lambda>nonce.
        bindE (map_errE Encryption (decrypt_dek E kms enc_dek
                 (case key_version of None \<Rightarrow> 1 | Some kv \<Rightarrow> kv))) (\<lambda>dek.
        bindE (liftE (res_map_err Encryption
                 (extract_ciphertext_from_jsonb (env_crates E) trace_json))) (\<lambda>ciphertext.
        bindE (map_errE Encryption (decrypt_trace E ciphertext nonce dek)) (\<lambda>plaintext.
        liftE (res_map_err Serialization (json_from_slice (env_crates E) plaintext))))))))
      else fail (Encryption (''unknown encryption_version: '' @ show_int encryption_version)))"

text \<open>The overlay of the live binding columns on the \<open>integrity\<close> object, if there is one.\<close>

definition overlay_binding :: "json \<Rightarrow> string option \<Rightarrow> string \<Rightarrow> json" where
  "overlay_binding v final_proof status =
     (case v of
        JObj m \<Rightarrow>
          (case map_of m ''integrity'' of
             Some (JObj i) \<Rightarrow>
               JObj (obj_insert ''integrity''
                 (JObj (obj_insert ''verification_status'' (JStr status)
                    (obj_insert ''final_proof'' (json_opt_str final_proof) i))) m)
           | _ \<Rightarrow> v)
      | _ \<Rightarrow> v)"

definition find_trace :: "uuid \<Rightarrow> database \<Rightarrow> trace_row option" where
  "find_trace t d = find (\<lambda>r. tr_trace_id r = t) (d_traces d)"

definition get_trace_json :: "env \<Rightarrow> uuid \<Rightarrow> key_provider option \<Rightarrow> json io" where
  "get_trace_json E trace_id kp =
     bindE (sql_read E (\<lambda>now d. find_trace trace_id d)) (\<lambda>row.
     case row of
       None \<Rightarrow> fail (TraceNotFound (uuid_to_string (env_crates E) trace_id))
     | Some r \<Rightarrow>
         bindE (decrypt_if_needed E (tr_trace_json r) (tr_trace_nonce r) (tr_encrypted_dek r)
                  (tr_key_version r) (tr_encryption_version r) kp) (\<lambda>trace_json.
         ret (overlay_binding trace_json (tr_final_proof r) (tr_verification_status r))))"

text \<open>The nine columns a binding needs; a NULL quantity is a decoding error.\<close>

record binding_intent =
  bi_reasoning_hash :: string
  bi_asset :: string
  bi_action :: string
  bi_quantity :: f64
  bi_status :: string
  bi_agent_id :: "uuid option"
  bi_venue_id :: string
  bi_currency :: string
  bi_multiplier :: f64

definition intent_of_row :: "crates \<Rightarrow> trace_row \<Rightarrow> string + binding_intent" where
  "intent_of_row c r =
     (case tr_execution_quantity r of
        None \<Rightarrow> Inl ''unexpected null''
      | Some q \<Rightarrow>
          Inr \<lparr>bi_reasoning_hash = tr_reasoning_hash r, bi_asset = tr_execution_asset r,
               bi_action = tr_execution_action r, bi_quantity = pg_float8 c q,
               bi_status = tr_verification_status r, bi_agent_id = tr_agent_id r,
               bi_venue_id = (case tr_execution_venue_id r of None \<Rightarrow> ''UNKNOWN'' | Some v \<Rightarrow> v),
               bi_currency = tr_execution_notional_currency r,
               bi_multiplier = pg_float8 c (tr_execution_multiplier r)\<rparr>)"

definition get_intent_for_binding :: "env \<Rightarrow> uuid \<Rightarrow> binding_intent io" where
  "get_intent_for_binding E trace_id =
     bindE (sql E (\<lambda>now d.
       case find_trace trace_id d of
         None \<Rightarrow> Inr (None, d)
       | Some r \<Rightarrow> res_bind (intent_of_row (env_crates E) r) (\<lambda>i. Inr (Some i, d)))) (\<lambda>row.
     liftE (ok_or (TraceNotFound (uuid_to_string (env_crates E) trace_id)) row))"

text \<open>Rows are decrypted one after the other, the first failure ends the request.\<close>

definition decrypt_rows_concurrent :: "env \<Rightarrow> trace_row list \<Rightarrow> key_provider option \<Rightarrow> json list io" where
  "decrypt_rows_concurrent E rows kp =
     (if rows = [] then ret []
      else mapM (\<lambda>r. decrypt_if_needed E (tr_trace_json r) (tr_trace_nonce r) (tr_encrypted_dek r)
                       (tr_key_version r) (tr_encryption_version r) kp) rows)"

definition older_than :: "crates \<Rightarrow> int \<Rightarrow> f64 \<Rightarrow> trace_row \<Rightarrow> bool" where
  "older_than c now secs r \<longleftrightarrow> tr_txn_time r < now - pg_interval_us c secs"

definition get_pending_traces :: "env \<Rightarrow> int \<Rightarrow> key_provider option \<Rightarrow> json list io" where
  "get_pending_traces E age_seconds kp =
     bindE (sql_read E (\<lambda>now d. sort_key tr_txn_time
       (filter (\<lambda>r. tr_verification_status r = ''PENDING''
                  \<and> older_than (env_crates E) now (f64_of_int age_seconds) r) (d_traces d)))) (\<lambda>rows.
     decrypt_rows_concurrent E rows kp)"

definition get_shadow_violations :: "env \<Rightarrow> key_provider option \<Rightarrow> json list io" where
  "get_shadow_violations E kp =
     bindE (sql_read E (\<lambda>now d. take 500 (sort_key (\<lambda>r. - tr_txn_time r)
       (filter (\<lambda>r. tr_policy_result r = ''SHADOW_HALTED'') (d_traces d))))) (\<lambda>rows.
     decrypt_rows_concurrent E rows kp)"

definition get_orphan_traces :: "env \<Rightarrow> key_provider option \<Rightarrow> json list io" where
  "get_orphan_traces E kp =
     bindE (sql_read E (\<lambda>now d. take 200 (sort_key (\<lambda>r. - tr_txn_time r)
       (filter (\<lambda>r. tr_verification_status r \<in> {''EXPIRED'', ''DIVERGENT''}) (d_traces d))))) (\<lambda>rows.
     decrypt_rows_concurrent E rows kp)"

definition list_trace_value :: "crates \<Rightarrow> trace_row \<Rightarrow> json" where
  "list_trace_value c r = json_obj
     [(''trace_id'', JStr (uuid_to_string c (tr_trace_id r))),
      (''agent_id'', json_opt_str (map_option (uuid_to_string c) (tr_agent_id r))),
      (''txn_time'', JStr (show_datetime c (tr_txn_time r))),
      (''policy_result'', JStr (tr_policy_result r)),
      (''verification_status'', JStr (tr_verification_status r)),
      (''asset'', JStr (tr_execution_asset r)),
      (''notional'', json_f64_opt (map_option (pg_float8 c) (tr_execution_notional r))),
      (''reasoning_hash'', JStr (tr_reasoning_hash r))]"

text \<open>A negative \<open>LIMIT\<close> is an error of the statement; callers clamp it.\<close>

definition list_traces ::
  "env \<Rightarrow> uuid option \<Rightarrow> int option \<Rightarrow> int option \<Rightarrow> string option \<Rightarrow> int \<Rightarrow> json list io"
where
  "list_traces E agent_id from_ms to_ms status limit =
     (let c = env_crates E;
          from_ts = Option.bind from_ms (timestamp_millis c);
          to_ts = Option.bind to_ms (timestamp_millis c)
      in bindE (sql E (\<lambda>now d.
           if limit < 0 then Inl ''LIMIT must not be negative''
           else Inr (take (nat limit) (sort_key (\<lambda>r. - tr_txn_time r) (filter (\<lambda>r.
                (agent_id = None \<or> tr_agent_id r = agent_id)
                \<and> (case from_ts of None \<Rightarrow> True | Some t \<Rightarrow> t \<le> tr_txn_time r)
                \<and> (case to_ts of None \<Rightarrow> True | Some t \<Rightarrow> tr_txn_time r \<le> t)
                \<and> (case status of None \<Rightarrow> True | Some s \<Rightarrow> tr_verification_status r = s))
              (d_traces d))), d))) (\<lambda>rows.
         ret (map (list_trace_value c) rows)))"

section \<open>Updates\<close>

definition bind_row :: "bind_execution_result \<Rightarrow> bind_execution_request \<Rightarrow> rat option \<Rightarrow> trace_row \<Rightarrow> trace_row" where
  "bind_row result req price r =
     r\<lparr>tr_exchange_tx_id := Some (be_exchange_tx_id req),
       tr_verification_status := show_verification_status (br_verification_status result),
       tr_execution_status := Some (br_execution_status result),
       tr_execution_price := price,
       tr_execution_time := Some (br_execution_time result),
       tr_final_proof := Some (br_final_proof result)\<rparr>"

definition valid_statuses :: "string list" where
  "valid_statuses = [''PENDING'', ''MATCHED'', ''DIVERGENT'', ''ORPHAN'', ''EXPIRED'']"

definition update_binding_stmt ::
  "crates \<Rightarrow> bind_execution_result \<Rightarrow> bind_execution_request \<Rightarrow> unit stmt"
where
  "update_binding_stmt c result req now d =
     (case opt_numeric c (be_execution_price req) of
        None \<Rightarrow> Inl ''numeric field overflow''
      | Some price \<Rightarrow>
          if list_ex (\<lambda>r. tr_trace_id r = br_trace_id result) (d_traces d)
             \<and> show_verification_status (br_verification_status result) \<notin> set valid_statuses
          then Inl ''chk_verification_status''
          else Inr ((), d\<lparr>d_traces := map (\<lambda>r. if tr_trace_id r = br_trace_id result
                                           then bind_row result req price r else r) (d_traces d)\<rparr>))"

definition update_binding :: "env \<Rightarrow> bind_execution_result \<Rightarrow> bind_execution_request \<Rightarrow> unit io" where
  "update_binding E result req = sql E (update_binding_stmt (env_crates E) result req)"

definition upsert_kms_key_metadata :: "env \<Rightarrow> int \<Rightarrow> string \<Rightarrow> string \<Rightarrow> unit io" where
  "upsert_kms_key_metadata E key_version provider key_arn_or_path =
     sql E (\<lambda>now d. Inr ((),
       if list_ex (\<lambda>k. kk_key_version k = key_version \<and> kk_provider k = provider) (d_kms_keys d) then d
       else d\<lparr>d_kms_keys := d_kms_keys d @
         [\<lparr>kk_key_version = key_version, kk_provider = provider,
           kk_key_arn_or_path = key_arn_or_path, kk_status = ''active'',
           kk_created_at = now, kk_retired_at = None\<rparr>]\<rparr>))"

text \<open>
  The position upsert. Parameters are \<open>float8\<close>: sums with \<open>NUMERIC\<close> columns are
  \<open>float8\<close> sums, and every result is cast back to the column's type.
\<close>

definition position_key :: "uuid \<Rightarrow> string \<Rightarrow> string \<Rightarrow> string \<Rightarrow> position_row \<Rightarrow> bool" where
  "position_key agent_id asset venue_id currency p \<longleftrightarrow>
     po_agent_id p = agent_id \<and> po_asset p = asset \<and> po_venue_id p = venue_id \<and> po_currency p = currency"

definition new_average_price :: "crates \<Rightarrow> position_row \<Rightarrow> f64 \<Rightarrow> f64 option \<Rightarrow> rat option option" where
  "new_average_price c p delta fill_price =
     (let qty = f64_add (pg_float8 c (po_net_quantity p)) delta in
      case fill_price of
        None \<Rightarrow> Some (po_average_price p)
      | Some price \<Rightarrow>
          if f64_is_zero qty then Some (po_average_price p)
          else map_option Some (pg_numeric c 24 8
            (f64_div
              (f64_add
                (pg_float8 c ((case po_average_price p of None \<Rightarrow> 0 | Some a \<Rightarrow> a) * \<bar>po_net_quantity p\<bar>))
                (f64_mul price (f64_abs delta)))
              (f64_abs qty))))"

definition update_position ::
  "crates \<Rightarrow> int \<Rightarrow> f64 \<Rightarrow> f64 \<Rightarrow> f64 option \<Rightarrow> f64 \<Rightarrow> uuid \<Rightarrow> position_row \<Rightarrow> position_row option"
where
  "update_position c now delta fill_notional fill_price multiplier trace_id p =
     (case (pg_numeric c 20 8 (f64_add (pg_float8 c (po_net_quantity p)) delta),
            pg_numeric c 24 8 (f64_add (pg_float8 c (po_notional p)) fill_notional),
            new_average_price c p delta fill_price, pg_numeric c 10 6 multiplier) of
        (Some qty, Some notional, Some avg, Some mlt) \<Rightarrow>
          Some (p\<lparr>po_net_quantity := qty, po_notional := notional, po_average_price := avg,
                  po_multiplier := mlt, po_last_trace_id := Some trace_id, po_updated_at := now\<rparr>)
      | _ \<Rightarrow> None)"

definition new_position ::
  "crates \<Rightarrow> int \<Rightarrow> uuid \<Rightarrow> string \<Rightarrow> string \<Rightarrow> string \<Rightarrow> f64 \<Rightarrow> f64 \<Rightarrow> f64 option \<Rightarrow> f64 \<Rightarrow> uuid
     \<Rightarrow> position_row option"
where
  "new_position c now agent_id asset venue_id currency delta fill_notional fill_price multiplier trace_id =
     (case (pg_numeric c 20 8 delta, pg_numeric c 24 8 fill_notional,
            (case fill_price of
               None \<Rightarrow> Some None
             | Some price \<Rightarrow> if f64_is_zero delta then Some None
                             else map_option Some (pg_numeric c 24 8 price)),
            pg_numeric c 10 6 multiplier) of
        (Some qty, Some notional, Some avg, Some mlt) \<Rightarrow>
          Some \<lparr>po_agent_id = agent_id, po_asset = asset, po_venue_id = venue_id, po_currency = currency,
                po_net_quantity = qty, po_notional = notional, po_average_price = avg,
                po_multiplier = mlt, po_last_trace_id = Some trace_id, po_updated_at = now\<rparr>
      | _ \<Rightarrow> None)"

definition upsert_position ::
  "env \<Rightarrow> uuid \<Rightarrow> string \<Rightarrow> string \<Rightarrow> string \<Rightarrow> f64 \<Rightarrow> f64 option \<Rightarrow> f64 \<Rightarrow> uuid \<Rightarrow> unit io"
where
  "upsert_position E agent_id asset venue_id currency delta fill_price multiplier trace_id =
     (let c = env_crates E;
          fill_notional = (case fill_price of
            None \<Rightarrow> Finite 0 | Some p \<Rightarrow> f64_mul (f64_mul (f64_abs delta) p) multiplier)
      in sql E (\<lambda>now d.
        case find (position_key agent_id asset venue_id currency) (d_positions d) of
          None \<Rightarrow>
            (case new_position c now agent_id asset venue_id currency delta fill_notional fill_price
                    multiplier trace_id of
               None \<Rightarrow> Inl ''numeric field overflow''
             | Some p \<Rightarrow> Inr ((), d\<lparr>d_positions := d_positions d @ [p]\<rparr>))
        | Some p \<Rightarrow>
            (case update_position c now delta fill_notional fill_price multiplier trace_id p of
               None \<Rightarrow> Inl ''numeric field overflow''
             | Some p' \<Rightarrow> Inr ((), d\<lparr>d_positions := map (\<lambda>q.
                 if position_key agent_id asset venue_id currency q then p' else q) (d_positions d)\<rparr>))))"

section \<open>Frames\<close>

lemma keeps_encrypt_stored: "keeps only_tick (encrypt_stored E kp v)"
  unfolding encrypt_stored_def
  by (intro ot.keeps_intros keeps_generate_dek keeps_encrypt_trace)

lemma keeps_decrypt_if_needed: "keeps only_tick (decrypt_if_needed E v n d kv ev kp)"
  unfolding decrypt_if_needed_def
  by (intro ot.keeps_intros keeps_decrypt_dek keeps_decrypt_trace)

lemma keeps_portfolio_check: "keeps only_tick (portfolio_check E a n ck)"
  unfolding portfolio_check_def get_pending_notional_def
  by (intro ot.keeps_intros)

lemma keeps_decrypt_rows: "keeps only_tick (decrypt_rows_concurrent E rows kp)"
  unfolding decrypt_rows_concurrent_def
  by (intro ot.keeps_intros keeps_decrypt_if_needed)

lemma keeps_get_trace_json: "keeps only_tick (get_trace_json E t kp)"
  unfolding get_trace_json_def
  by (intro ot.keeps_intros keeps_decrypt_if_needed)

lemma keeps_intent: "keeps same_db (get_intent_for_binding E t)"
  unfolding get_intent_for_binding_def
  by (intro sd.keeps_intros sd.keeps_sql)
    (auto simp: same_db_def res_bind_Inr_iff split: option.splits)

section \<open>Inserting\<close>

lemma insert_trace_row_ok:
  "insert_trace_row row d = Inr d' \<longleftrightarrow>
     (\<exists>r. row = Some r \<and> d' = d\<lparr>d_traces := d_traces d @ [r]\<rparr> \<and> tr_valid_time r < tr_txn_time r
        \<and> tr_policy_result r \<in> {''ALLOWED'', ''HALTED'', ''SHADOW_HALTED''}
        \<and> (\<forall>s \<in> set (d_traces d). \<not> (tr_trace_id s = tr_trace_id r \<and> tr_txn_time s = tr_txn_time r)))"
  by (auto simp: insert_trace_row_def list_ex_iff split: option.splits)

lemma insert_trace_ok:
  assumes "insert_trace E snap h dec trace aid kp pk w = (Inr (), w')"
  obtains stored vt tt r w1 w2 where
    "encrypt_stored E kp (trace_value (env_crates E) trace) w1 = (Inr stored, w2)"
    "new_trace_row (env_crates E) snap vt tt h dec stored aid pk = Some r"
    "insert_trace_row (Some r) (w_db w) = Inr (w_db w')"
    "snapshot_times (env_crates E) snap = Inr (vt, tt)"
proof -
  from assms obtain stored w1 vt tt w2 where st: "encrypt_stored E kp (trace_value (env_crates E) trace) w = (Inr stored, w1)"
    and times: "snapshot_times (env_crates E) snap = Inr (vt, tt)"
    and ins: "sql E (\<lambda>now d. res_bind (insert_trace_row (new_trace_row (env_crates E) snap vt tt h dec stored aid pk) d)
        (\<lambda>d'. Inr ((), d'))) w1 = (Inr (), w')"
    unfolding insert_trace_def by (auto simp: bindE_Inr_iff liftE_Inr_iff)
  have "w_db w1 = w_db w" using keepsD [OF keeps_encrypt_stored st] by (auto simp: only_tick_def)
  with ins obtain r where "new_trace_row (env_crates E) snap vt tt h dec stored aid pk = Some r"
      "insert_trace_row (Some r) (w_db w) = Inr (w_db w')"
    by (auto simp: sql_ok_iff res_bind_Inr_iff insert_trace_row_ok)
  then show thesis using st times that by blast
qed

lemma insert_trace_error:
  "insert_trace E snap h dec trace aid kp pk w = (Inl e, w') \<Longrightarrow> w_db w' = w_db w"
  unfolding insert_trace_def
  by (elim bindE_InlE)
    (auto simp: only_tick_def liftE_def dest!: keepsD [OF keeps_encrypt_stored] sql_error_db
      split: sum.splits prod.splits)

lemma insert_trace_atomic_ok:
  assumes "insert_trace_atomic E snap h dec trace aid ck kp pk w = (Inr (), w')"
  obtains stored vt tt r w1 w2 where
    "encrypt_stored E kp (trace_value (env_crates E) trace) w1 = (Inr stored, w2)"
    "new_trace_row (env_crates E) snap vt tt h dec stored aid pk = Some r"
    "insert_trace_row (Some r) (w_db w) = Inr (w_db w')"
    "snapshot_times (env_crates E) snap = Inr (vt, tt)"
    "\<And>a cap label. aid = Some a \<Longrightarrow> ck = Some (cap, label) \<Longrightarrow>
       \<not> f64_less cap (f64_add (pg_float8 (env_crates E) (pending_sum a (d_traces (w_db w))))
          (ei_notional (cs_execution snap)))"
proof -
  let ?c = "env_crates E" and ?n = "ei_notional (cs_execution snap)"
  from assms obtain u1 u2 u3 u4 stored vt tt u5 d' where
    b: "sql_read E (\<lambda>now d. ()) w = (Inr (), u1)"
    and l: "(case aid of None \<Rightarrow> ret () | Some a \<Rightarrow> advisory_lock E (lock_key a)) u1 = (Inr (), u2)"
    and p: "portfolio_check E aid ?n ck u2 = (Inr (), u3)"
    and st: "encrypt_stored E kp (trace_value ?c trace) u3 = (Inr stored, u4)"
    and times: "snapshot_times ?c snap = Inr (vt, tt)"
    and ins: "sql E (\<lambda>now d. res_bind (insert_trace_row (new_trace_row ?c snap vt tt h dec stored aid pk) d)
        (\<lambda>d'. Inr (d', d))) u4 = (Inr d', u5)"
    and com: "sql E (\<lambda>now d. Inr ((), d')) u5 = (Inr (), w')"
    unfolding insert_trace_atomic_def by (auto simp: bindE_Inr_iff liftE_Inr_iff)
  have db: "w_db u1 = w_db w" "w_db u2 = w_db w" "w_db u3 = w_db w" "w_db u4 = w_db w"
  proof -
    show 1: "w_db u1 = w_db w" using b by (auto simp: sql_read_ok_iff)
    show 2: "w_db u2 = w_db w" using l 1
      by (auto simp: advisory_lock_def sql_read_ok_iff io_simps split: option.splits)
    show 3: "w_db u3 = w_db w" using keepsD [OF keeps_portfolio_check p] 2 by (auto simp: only_tick_def)
    show "w_db u4 = w_db w" using keepsD [OF keeps_encrypt_stored st] 3 by (auto simp: only_tick_def)
  qed
  obtain r where "new_trace_row ?c snap vt tt h dec stored aid pk = Some r"
      "insert_trace_row (Some r) (w_db w) = Inr (w_db w')"
    using ins com db by (auto simp: sql_ok_iff res_bind_Inr_iff insert_trace_row_ok)
  moreover have "\<not> f64_less cap (f64_add (pg_float8 ?c (pending_sum a (d_traces (w_db w)))) ?n)"
    if "aid = Some a" "ck = Some (cap, label)" for a cap label
    using p that db
    by (auto simp: portfolio_check_def get_pending_notional_def bindE_Inr_iff sql_read_ok_iff io_simps
        split: if_splits)
  ultimately show thesis using st times that by blast
qed

lemma commit_error:
  "bindE (sql E (\<lambda>now d. res_bind (f d) (\<lambda>d'. Inr (d', d)))) (\<lambda>d'. sql E (\<lambda>now d. Inr ((), d'))) w
     = (Inl e, w') \<Longrightarrow> w_db w' = w_db w"
  by (elim bindE_InlE) (auto simp: sql_ok_iff res_bind_Inr_iff dest!: sql_error_db)

lemma insert_trace_atomic_error:
  "insert_trace_atomic E snap h dec trace aid ck kp pk w = (Inl e, w') \<Longrightarrow> w_db w' = w_db w"
  unfolding insert_trace_atomic_def advisory_lock_def
  by (elim bindE_InlE)
    (auto simp: only_tick_def sql_read_def liftE_def io_simps sql_ok_iff
      dest!: keepsD [OF keeps_encrypt_stored] keepsD [OF keeps_portfolio_check] sql_error_db commit_error
      split: sum.splits prod.splits option.splits)

lemma new_trace_row_fields:
  assumes "new_trace_row c snap vt tt h dec stored aid pk = Some r"
  shows "tr_trace_id r = cs_trace_id snap" "tr_agent_id r = aid" "tr_reasoning_hash r = h"
    "tr_verification_status r = ''PENDING''" "tr_final_proof r = None"
    "tr_policy_result r = show_policy_result (pd_result dec)"
    "tr_valid_time r = vt" "tr_txn_time r = tt" "tr_mta_pubkey_used r = pk"
    "tr_execution_action r = show_trade_action c (ei_action (cs_execution snap))"
    "tr_execution_asset r = ei_asset (cs_execution snap)"
    "pg_numeric c 20 8 (ei_notional (cs_execution snap)) = tr_execution_notional r"
    "tr_execution_notional r \<noteq> None" "tr_execution_quantity r \<noteq> None"
    "(tr_trace_json r, tr_trace_nonce r, tr_encrypted_dek r, tr_key_version r, tr_encryption_version r) = stored"
    "tr_mta_hash r = cs_mta_hash snap"
  using assms by (auto simp: new_trace_row_def Let_def split: option.splits)

lemma pending_sum_append: "pending_sum a (rows @ rows') = pending_sum a rows + pending_sum a rows'"
  by (simp add: pending_sum_def)

section \<open>Stored form round trip\<close>

context envelope_keys
begin

lemma envelope_roundtrip:
  assumes "ok" and "crypto_ok E" and "gen w = (Inr (dek, enc, kv), w1)"
    and "encrypt_trace E pt dek w2 = (Inr blob, w3)" and "dec enc kv' u = (Inr d, u')"
  shows "decrypt_trace E (bl_ciphertext blob) (bl_nonce blob) d x = (Inr pt, x)"
  using dec_gen [OF assms(1,3,5)] decrypt_encrypt_trace [OF assms(2,4)] by simp

end

lemma encrypt_stored_Some:
  assumes "encrypt_stored E (Some kms) v w = (Inr stored, w')"
  obtains pt dek enc kv blob w1 w2 w3 where "json_to_vec (env_crates E) v = Inr pt"
    "generate_dek E kms w1 = (Inr (dek, enc, kv), w2)" "encrypt_trace E pt dek w2 = (Inr blob, w3)"
    "stored = (wrap_ciphertext_for_jsonb (env_crates E) (bl_ciphertext blob), Some (bl_nonce blob),
       Some enc, Some kv, 1)"
  using assms unfolding encrypt_stored_def
  by (auto simp: bindE_Inr_iff liftE_Inr_iff map_errE_Inr_iff io_simps)

text \<open>JSON text parses back to the value it renders.\<close>

definition json_roundtrip :: "crates \<Rightarrow> json \<Rightarrow> bool" where
  "json_roundtrip c v \<longleftrightarrow> (\<forall>bs. json_to_vec c v = Inr bs \<longrightarrow> json_from_slice c bs = Inr v)"

text \<open>Whatever is read back is what was stored; with no key or a local key it is read back.\<close>

lemma stored_form_read:
  assumes "crypto_ok E" and "json_roundtrip (env_crates E) v" and "pred_option (provider_ok E) kp"
    and "encrypt_stored E kp v w = (Inr (j, n, dk, kv, ev), w')"
    and "decrypt_if_needed E j n dk kv ev kp u = (Inr v', u')"
  shows "v' = v"
proof (cases kp)
  case None
  then show ?thesis using assms(4,5) by (auto simp: encrypt_stored_def decrypt_if_needed_def io_simps)
next
  case (Some kms)
  obtain pt dek enc k blob w1 w2 w3 where pt: "json_to_vec (env_crates E) v = Inr pt"
    and gen: "generate_dek E kms w1 = (Inr (dek, enc, k), w2)" and enc: "encrypt_trace E pt dek w2 = (Inr blob, w3)"
    and st: "(j, n, dk, kv, ev) = (wrap_ciphertext_for_jsonb (env_crates E) (bl_ciphertext blob),
       Some (bl_nonce blob), Some enc, Some k, 1)"
    using assms(4) Some by (auto elim: encrypt_stored_Some)
  from assms(5) st Some obtain d u1 u2 ct pt' where dec: "decrypt_dek E kms enc k u1 = (Inr d, u2)"
    and ct: "extract_ciphertext_from_jsonb (env_crates E)
        (wrap_ciphertext_for_jsonb (env_crates E) (bl_ciphertext blob)) = Inr ct"
    and pt': "decrypt_trace E ct (bl_nonce blob) d u2 = (Inr pt', u')"
    and v': "json_from_slice (env_crates E) pt' = Inr v'"
    by (auto simp: decrypt_if_needed_def bindE_Inr_iff liftE_Inr_iff map_errE_Inr_iff)
  have "ct = bl_ciphertext blob" using extract_wrap [OF assms(1)] ct by simp
  moreover have "decrypt_trace E (bl_ciphertext blob) (bl_nonce blob) d u2 = (Inr pt, u2)"
    using kms.envelope_roundtrip [OF _ assms(1) gen enc dec] assms(1,3) Some by simp
  ultimately have "pt' = pt" using pt' by simp
  then show ?thesis using assms(2) pt v' by (simp add: json_roundtrip_def)
qed

lemma stored_form_readable:
  assumes "crypto_ok E" and "json_roundtrip (env_crates E) v" and "kp = None \<or> kp = Some (LocalDev k ver)"
    and "encrypt_stored E kp v w = (Inr (j, n, dk, kv, ev), w')"
  shows "decrypt_if_needed E j n dk kv ev kp u = (Inr v, u)"
proof (cases kp)
  case None
  then show ?thesis using assms(4) by (auto simp: encrypt_stored_def decrypt_if_needed_def io_simps)
next
  case (Some kms)
  then have kms: "kms = LocalDev k ver" using assms(3) by simp
  obtain pt dek enc kk blob w1 w2 w3 where pt: "json_to_vec (env_crates E) v = Inr pt"
    and gen: "generate_dek E kms w1 = (Inr (dek, enc, kk), w2)" and enc: "encrypt_trace E pt dek w2 = (Inr blob, w3)"
    and st: "(j, n, dk, kv, ev) = (wrap_ciphertext_for_jsonb (env_crates E) (bl_ciphertext blob),
       Some (bl_nonce blob), Some enc, Some kk, 1)"
    using assms(4) Some by (auto elim: encrypt_stored_Some)
  have "local_decrypt_dek E k enc u = (Inr dek, u)"
    using local_decrypt_generate [OF assms(1)] gen kms by simp
  moreover have "decrypt_trace E (bl_ciphertext blob) (bl_nonce blob) dek u = (Inr pt, u)"
    by (rule decrypt_encrypt_trace [OF assms(1) enc])
  moreover have "json_from_slice (env_crates E) pt = Inr v" using assms(2) pt by (simp add: json_roundtrip_def)
  ultimately show ?thesis
    using st Some kms extract_wrap [OF assms(1)]
    by (simp add: decrypt_if_needed_def bindE_def io_simps map_errE_def)
qed

lemma obj_insert_same:
  "sorted_wrt (<) (map fst m) \<Longrightarrow> map_of m k = Some v \<Longrightarrow> obj_insert k v m = m"
proof (induction k v m rule: obj_insert.induct)
  case (2 k v k' v' m)
  show ?case
  proof (cases "k = k'")
    case True
    then show ?thesis using 2 by simp
  next
    case False
    then have m: "map_of m k = Some v" using 2 by simp
    then have "k' < k" using 2 by (auto dest!: map_of_SomeD)
    then show ?thesis using 2 False m by auto
  qed
qed simp

lemma json_obj_sorted: "json_obj kvs = JObj m \<Longrightarrow> sorted_wrt (<) (map fst m)"
  unfolding json_obj_def using sorted_fold_obj_insert [of "[]" kvs] by auto

text \<open>A trace that is not bound yet already shows the binding columns of its row.\<close>

lemma overlay_unbound:
  assumes "ib_final_proof (rt_integrity trace) = None"
    and "ib_verification_status (rt_integrity trace) = ''PENDING''"
  shows "overlay_binding (trace_value c trace) None ''PENDING'' = trace_value c trace"
proof -
  define i where "i = fold (\<lambda>(k, v). obj_insert k v)
    [(''reasoning_hash'', JStr (ib_reasoning_hash (rt_integrity trace))),
     (''final_proof'', JNull), (''verification_status'', JStr ''PENDING''),
     (''execution_status'', json_opt_str (ib_execution_status (rt_integrity trace)))] []"
  have i: "integrity_value (rt_integrity trace) = JObj i"
    using assms by (simp add: integrity_value_def json_obj_def i_def)
  have sorted_i: "sorted_wrt (<) (map fst i)" unfolding i_def by (rule sorted_fold_obj_insert) simp
  have "json_get (JObj i) ''final_proof'' = Some JNull"
    "json_get (JObj i) ''verification_status'' = Some (JStr ''PENDING'')"
    using assms unfolding i [symmetric] integrity_value_def json_get_obj by simp_all
  then have same_i: "obj_insert ''verification_status'' (JStr ''PENDING'') (obj_insert ''final_proof'' JNull i) = i"
    using sorted_i by (simp add: obj_insert_same)
  obtain m where m: "trace_value c trace = JObj m" by (simp add: trace_value_def json_obj_def)
  have sorted_m: "sorted_wrt (<) (map fst m)"
    using m unfolding trace_value_def by (rule json_obj_sorted)
  have "json_get (trace_value c trace) ''integrity'' = Some (JObj i)"
    unfolding trace_value_def json_get_obj i [symmetric]
    by (cases "rt_regulatory trace") simp_all
  then have "map_of m ''integrity'' = Some (JObj i)" using m by simp
  then show ?thesis using m sorted_m same_i by (simp add: overlay_binding_def obj_insert_same)
qed

lemma find_trace_append_fresh:
  assumes "find_trace t d = None" and "tr_trace_id r = t"
  shows "find_trace t (d\<lparr>d_traces := d_traces d @ [r]\<rparr>) = Some r"
proof -
  have "find (\<lambda>r. tr_trace_id r = t) (rows @ [r]) = Some r"
    if "find (\<lambda>r. tr_trace_id r = t) rows = None" for rows
    using that assms(2) by (induction rows) (auto split: if_splits)
  then show ?thesis using assms(1) by (simp add: find_trace_def)
qed

section \<open>Examples\<close>

definition demo_trace :: reasoning_trace where
  "demo_trace =
     \<lparr>rt_trace_id = 7, rt_version = ''1.0.0'',
      rt_bitemporal = \<lparr>bt_valid_time = 1000000, bt_txn_time = 1001000, bt_time_source = ''System''\<rparr>,
      rt_mta = \<lparr>mb_regime_id = 2, mb_regime_label = ''tightening'', mb_risk_level = Finite (1 / 4),
        mb_max_notional_scale = Finite (1 / 4), mb_allowed_sides = [''short''], mb_version = ''v1'',
        mb_hash = ''0xmta'', mb_signature_valid = True\<rparr>,
      rt_agent = \<lparr>ab_agent_id = 1, ab_latent_fingerprint = ''0xdef'', ab_feature_schema_id = ''schema-test''\<rparr>,
      rt_execution = \<lparr>eb_action = ''Short(1)'', eb_asset = ''BTC-PERP'', eb_order_type = ''MARKET'',
        eb_venue_id = ''XNAS'', eb_quantity = Finite (3 / 2), eb_notional = Finite 100000,
        eb_notional_currency = ''USD'', eb_multiplier = Finite 1, eb_limit_price = None,
        eb_stop_price = None, eb_client_order_id = ''order-1''\<rparr>,
      rt_heartbeat = \<lparr>hbb_sequence_id = 1, hbb_signature_valid = True, hbb_drift_ms = 0\<rparr>,
      rt_policy = \<lparr>pb_id = POLICY_ID, pb_version = POLICY_VERSION, pb_hash = ''00'', pb_result = ''ALLOWED''\<rparr>,
      rt_integrity = \<lparr>ib_reasoning_hash = ''0xseal'', ib_final_proof = None,
        ib_verification_status = ''PENDING'', ib_execution_status = None\<rparr>,
      rt_regulatory = None\<rparr>"

definition demo_decision :: "policy_result \<Rightarrow> policy_decision" where
  "demo_decision r =
     \<lparr>pd_result = r, pd_policy_id = POLICY_ID, pd_policy_version = POLICY_VERSION, pd_policy_hash = ''00''\<rparr>"

definition demo_kms_env :: env where
  "demo_kms_env = demo_env\<lparr>env_crates := demo_crates\<lparr>
     json_from_slice := (\<lambda>bs. Inr (trace_value demo_crates demo_trace))\<rparr>\<rparr>"

definition demo_key :: key_provider where
  "demo_key = LocalDev (replicate 32 0) 1"

lemma demo_crypto_ok: "crypto_ok demo_kms_env"
  by (auto simp: crypto_ok_def demo_kms_env_def demo_env_def demo_crates_def demo_hex_roundtrip)

lemma demo_insert_atomic:
  "\<exists>w'. insert_trace_atomic demo_kms_env (demo_snapshot 2) ''0xseal'' (demo_decision Allowed) demo_trace
     (Some 1) (Some (Finite 100000, ''tightening'')) (Some demo_key) (Some ''00'') demo_world = (Inr (), w')"
proof -
  have cap: "f64_add (f64_zero False) (Finite 100000) = Finite 100000" by code_simp
  show ?thesis
    by (simp add: insert_trace_atomic_def advisory_lock_def portfolio_check_def get_pending_notional_def
        encrypt_stored_def snapshot_times_def timestamp_millis_def demo_key_def local_generate_dek_def
        encrypt_trace_def with_context_def map_errE_def bindE_def sql_read_def sql_def io_simps
        demo_kms_env_def demo_env_def demo_crates_def demo_world_def demo_db_def pending_sum_def
        demo_snapshot_def new_trace_row_def opt_numeric_def insert_trace_row_def demo_decision_def cap
        Let_def)
qed

lemma demo_insert:
  "\<exists>w'. insert_trace demo_env (demo_snapshot 2) ''0xseal'' (demo_decision Halted) demo_trace
     (Some 1) None (Some ''00'') demo_world = (Inr (), w')"
  by (simp add: insert_trace_def encrypt_stored_def snapshot_times_def timestamp_millis_def bindE_def
      sql_def io_simps demo_env_def demo_crates_def demo_world_def demo_db_def demo_snapshot_def
      new_trace_row_def opt_numeric_def insert_trace_row_def demo_decision_def Let_def)

section \<open>Properties\<close>

text \<open>C3: the insertion of an authorized trace is atomic and respects the portfolio cap. If it
  fails, for whatever reason, the database is as before; if it succeeds with a cap to check, the
  agent's pending sum plus the order's notional does not exceed the cap, and exactly one row is
  added, PENDING and unbound, with the given seal and decision.\<close>

theorem insert_trace_atomic_correct:
  assumes "insert_trace_atomic E snap h dec trace (Some a) ck kp pk w = (out, w')"
  shows "case out of
      Inl _ \<Rightarrow> w_db w' = w_db w
    | Inr _ \<Rightarrow>
        (\<exists>r. w_db w' = (w_db w)\<lparr>d_traces := d_traces (w_db w) @ [r]\<rparr>
            \<and> tr_trace_id r = cs_trace_id snap \<and> tr_agent_id r = Some a \<and> tr_reasoning_hash r = h
            \<and> tr_policy_result r = show_policy_result (pd_result dec)
            \<and> tr_verification_status r = ''PENDING'' \<and> tr_final_proof r = None
            \<and> tr_valid_time r < tr_txn_time r)
        \<and> (case ck of None \<Rightarrow> True
           | Some (cap, label) \<Rightarrow>
               \<not> f64_less cap (f64_add (pg_float8 (env_crates E) (pending_sum a (d_traces (w_db w))))
                    (ei_notional (cs_execution snap))))"
proof (cases out)
  case (Inl e)
  then show ?thesis using insert_trace_atomic_error assms by auto
next
  case (Inr u)
  with assms obtain stored vt tt r w1 w2 where
    "new_trace_row (env_crates E) snap vt tt h dec stored (Some a) pk = Some r"
    "insert_trace_row (Some r) (w_db w) = Inr (w_db w')"
    "\<And>cap label. ck = Some (cap, label) \<Longrightarrow>
       \<not> f64_less cap (f64_add (pg_float8 (env_crates E) (pending_sum a (d_traces (w_db w))))
          (ei_notional (cs_execution snap)))"
    by (auto elim!: insert_trace_atomic_ok)
  then show ?thesis using Inr
    by (auto simp: insert_trace_row_ok new_trace_row_fields split: option.splits)
qed

theorem insert_trace_atomic_correct_witness:
  "\<exists>w'. insert_trace_atomic demo_kms_env (demo_snapshot 2) ''0xseal'' (demo_decision Allowed) demo_trace
       (Some 1) (Some (Finite 100000, ''tightening'')) (Some demo_key) (Some ''00'') demo_world = (Inr (), w')
     \<and> (\<exists>r. d_traces (w_db w') = d_traces (w_db demo_world) @ [r] \<and> tr_verification_status r = ''PENDING'')"
proof -
  obtain w' where run: "insert_trace_atomic demo_kms_env (demo_snapshot 2) ''0xseal'' (demo_decision Allowed)
      demo_trace (Some 1) (Some (Finite 100000, ''tightening'')) (Some demo_key) (Some ''00'') demo_world = (Inr (), w')"
    using demo_insert_atomic by blast
  from insert_trace_atomic_correct [OF run] show ?thesis using run by auto
qed

text \<open>C17: what is stored is what is read. A trace that was inserted under a fresh id and not
  bound yet reads back as exactly the trace that was sealed, whether rows are stored in plain or
  encrypted: with no key provider or the local one the read succeeds, and with any sound provider
  a read that succeeds returns that trace.\<close>

theorem trace_store_roundtrip:
  assumes "insert_trace_atomic E snap h dec trace aid ck kp pk w = (Inr (), w1)"
    and "find_trace (cs_trace_id snap) (w_db w) = None" and "w_db w2 = w_db w1"
    and "ib_final_proof (rt_integrity trace) = None"
    and "ib_verification_status (rt_integrity trace) = ''PENDING''"
    and "crypto_ok E" and "json_roundtrip (env_crates E) (trace_value (env_crates E) trace)"
    and "pred_option (provider_ok E) kp"
  shows "(\<forall>v w3. get_trace_json E (cs_trace_id snap) kp w2 = (Inr v, w3) \<longrightarrow>
            v = trace_value (env_crates E) trace)
    \<and> ((kp = None \<or> (\<exists>k n. kp = Some (LocalDev k n))) \<and> env_db_fault E (w_tick w2) = None \<longrightarrow>
        (\<exists>w3. get_trace_json E (cs_trace_id snap) kp w2 = (Inr (trace_value (env_crates E) trace), w3)))"
proof -
  let ?v = "trace_value (env_crates E) trace"
  obtain stored vt tt r u u' where st: "encrypt_stored E kp ?v u = (Inr stored, u')"
    and r: "new_trace_row (env_crates E) snap vt tt h dec stored aid pk = Some r"
    and ins: "insert_trace_row (Some r) (w_db w) = Inr (w_db w1)"
    using assms(1) by (rule insert_trace_atomic_ok)
  have fields: "encrypt_stored E kp ?v u = (Inr (tr_trace_json r, tr_trace_nonce r, tr_encrypted_dek r,
      tr_key_version r, tr_encryption_version r), u')"
    using st new_trace_row_fields(15) [OF r] by simp
  have row: "find_trace (cs_trace_id snap) (w_db w2) = Some r"
    using ins assms(3) find_trace_append_fresh [OF assms(2) new_trace_row_fields(1) [OF r]]
    by (auto simp: insert_trace_row_ok)
  have bound: "tr_final_proof r = None" "tr_verification_status r = ''PENDING''"
    using new_trace_row_fields [OF r] by simp_all
  have "v = ?v" if "get_trace_json E (cs_trace_id snap) kp w2 = (Inr v, w3)" for v w3
    using that row bound stored_form_read [OF assms(6,7,8) fields] overlay_unbound [OF assms(4,5)]
    by (auto simp: get_trace_json_def bindE_Inr_iff sql_read_ok_iff io_simps)
  moreover have "\<exists>w3. get_trace_json E (cs_trace_id snap) kp w2 = (Inr ?v, w3)"
    if "kp = None \<or> (\<exists>k n. kp = Some (LocalDev k n))" "env_db_fault E (w_tick w2) = None"
    using that row bound stored_form_readable [OF assms(6,7) _ fields] overlay_unbound [OF assms(4,5)]
    by (auto simp: get_trace_json_def bindE_def sql_read_def sql_def io_simps Let_def)
  ultimately show ?thesis by blast
qed

theorem trace_store_roundtrip_witness:
  "\<exists>w1 w3. insert_trace_atomic demo_kms_env (demo_snapshot 2) ''0xseal'' (demo_decision Allowed) demo_trace
       (Some 1) (Some (Finite 100000, ''tightening'')) (Some demo_key) (Some ''00'') demo_world = (Inr (), w1)
     \<and> get_trace_json demo_kms_env 7 (Some demo_key) w1 =
         (Inr (trace_value (env_crates demo_kms_env) demo_trace), w3)"
proof -
  obtain w1 where run: "insert_trace_atomic demo_kms_env (demo_snapshot 2) ''0xseal'' (demo_decision Allowed)
      demo_trace (Some 1) (Some (Finite 100000, ''tightening'')) (Some demo_key) (Some ''00'') demo_world = (Inr (), w1)"
    using demo_insert_atomic by blast
  have id: "cs_trace_id (demo_snapshot 2) = 7" by (simp add: demo_snapshot_def)
  have same: "trace_value (env_crates demo_kms_env) demo_trace = trace_value demo_crates demo_trace"
    by (simp add: demo_kms_env_def trace_value_def bitemporal_value_def agent_block_value_def)
  have fresh: "find_trace (cs_trace_id (demo_snapshot 2)) (w_db demo_world) = None"
    by (simp add: find_trace_def demo_world_def demo_db_def)
  have unbound: "ib_final_proof (rt_integrity demo_trace) = None"
    "ib_verification_status (rt_integrity demo_trace) = ''PENDING''"
    by (simp_all add: demo_trace_def)
  have "json_from_slice (env_crates demo_kms_env) bs = Inr (trace_value demo_crates demo_trace)" for bs
    by (simp add: demo_kms_env_def)
  then have json: "json_roundtrip (env_crates demo_kms_env) (trace_value (env_crates demo_kms_env) demo_trace)"
    unfolding json_roundtrip_def same by simp
  have key: "pred_option (provider_ok demo_kms_env) (Some demo_key)" by (simp add: demo_key_def)
  have "\<exists>w3. get_trace_json demo_kms_env 7 (Some demo_key) w1 =
      (Inr (trace_value (env_crates demo_kms_env) demo_trace), w3)"
    using trace_store_roundtrip [OF run fresh refl unbound demo_crypto_ok json key]
    by (simp add: id demo_key_def demo_kms_env_def demo_env_def)
  then show ?thesis using run by blast
qed

text \<open>every stored trace counts against the cap until it is bound or expires, whatever the
  policy decided: recording a HALTED attempt raises the agent's pending sum by its notional.\<close>

theorem halted_trace_consumes_cap:
  assumes "insert_trace E snap h dec trace (Some a) kp pk w = (Inr (), w')"
  shows "\<exists>n. pg_numeric (env_crates E) 20 8 (ei_notional (cs_execution snap)) = Some n
    \<and> pending_sum a (d_traces (w_db w')) = pending_sum a (d_traces (w_db w)) + n"
proof -
  obtain stored vt tt r where r: "new_trace_row (env_crates E) snap vt tt h dec stored (Some a) pk = Some r"
    and ins: "insert_trace_row (Some r) (w_db w) = Inr (w_db w')"
    using assms by (auto elim!: insert_trace_ok)
  obtain n where n: "tr_execution_notional r = Some n" using new_trace_row_fields [OF r] by auto
  have "pending_sum a [r] = n" using new_trace_row_fields [OF r] n by (simp add: pending_sum_def)
  then show ?thesis using ins n new_trace_row_fields(12) [OF r]
    by (auto simp: insert_trace_row_ok pending_sum_append)
qed

theorem halted_trace_consumes_cap_witness:
  "\<exists>w'. insert_trace demo_env (demo_snapshot 2) ''0xseal'' (demo_decision Halted) demo_trace
       (Some 1) None (Some ''00'') demo_world = (Inr (), w')
     \<and> pending_sum 1 (d_traces (w_db w')) = 100000"
proof -
  obtain w' where run: "insert_trace demo_env (demo_snapshot 2) ''0xseal'' (demo_decision Halted) demo_trace
      (Some 1) None (Some ''00'') demo_world = (Inr (), w')"
    using demo_insert by blast
  from halted_trace_consumes_cap [OF run] show ?thesis using run
    by (auto simp: demo_env_def demo_crates_def demo_snapshot_def demo_world_def demo_db_def pending_sum_def)
qed

definition demo_position :: position_row where
  "demo_position =
     \<lparr>po_agent_id = 1, po_asset = ''ES'', po_venue_id = ''XCME'', po_currency = ''USD'',
      po_net_quantity = 10, po_notional = 1000, po_average_price = Some 100, po_multiplier = 1,
      po_last_trace_id = None, po_updated_at = 0\<rparr>"

text \<open>the average price kept by the position ledger is wrong for a fill that reduces a
  position: the update adds the fill as if it enlarged the position but divides by the reduced
  quantity. Long 10 at 100, then a sale of 5 at 100, leaves an average price of 300.\<close>

theorem reducing_fill_average_price:
  "new_average_price demo_crates demo_position (Finite (- 5)) (Some (Finite 100)) = Some (Some 300)"
  by code_simp

end
