(* ===== verification/Irl_Rewrite.thy ===== *)
theory Irl_Rewrite
  imports Irl_Db
begin

text \<open>
  Jobs that rewrite the stored form of traces row by row (\<open>src/gdpr.rs\<close>,
  \<open>src/backfill.rs\<close>): each row is read in a batch and written back by a statement
  that selects it by its key. The interface below says what one write does and
  gives what a job that stops anywhere leaves behind.
\<close>

section \<open>Sorting commutes with rewriting\<close>

lemma insort_key_map: "insort_key f (g x) (map g xs) = map g (insort_key (f \<circ> g) x xs)"
  by (induction xs) auto

lemma sort_key_map: "sort_key f (map g xs) = map g (sort_key (\<lambda>x. f (g x)) xs)"
  by (induction xs) (simp_all add: insort_key_map comp_def)

lemma sort_key_same: "(\<And>x. x \<in> set xs \<Longrightarrow> f x = g x) \<Longrightarrow> sort_key f xs = sort_key g xs"
proof (induction xs)
  case (Cons x xs)
  have "insort_key f x ys = insort_key g x ys" if "\<And>y. y \<in> insert x (set ys) \<Longrightarrow> f y = g y" for ys
    using that by (induction ys) auto
  from this [of "sort_key g xs"] Cons show ?case by simp
qed simp

lemma filter_map_same:
  assumes "\<And>x. x \<in> set xs \<Longrightarrow> P (g x) \<longleftrightarrow> P x"
  shows "filter P (map g xs) = map g (filter P xs)"
  using assms by (induction xs) auto

section \<open>Rewriting rows by key\<close>

text \<open>The \<open>for\<close> loop over the rows of a batch, with the variables it updates.\<close>

fun foldM ::
  "('a \<Rightarrow> 's \<Rightarrow> world \<Rightarrow> ('e failure + 's) \<times> world) \<Rightarrow> 'a list \<Rightarrow> 's \<Rightarrow> world \<Rightarrow> ('e failure + 's) \<times> world"
where
  "foldM f [] s = ret s"
| "foldM f (x # xs) s = bindE (f x s) (foldM f xs)"

text \<open>
  The table \<open>rows\<close> is \<open>rows0\<close> with exactly the rows whose key is in \<open>K\<close> rewritten.
\<close>

definition rewritten ::
  "(trace_row \<Rightarrow> 'k) \<Rightarrow> (trace_row \<Rightarrow> trace_row \<Rightarrow> bool) \<Rightarrow> 'k set \<Rightarrow> trace_row list \<Rightarrow> trace_row list \<Rightarrow> bool"
where
  "rewritten key fresh K rows0 rows \<longleftrightarrow>
     (\<exists>F. rows = map F rows0
        \<and> (\<forall>r \<in> set rows0. if key r \<in> K then fresh r (F r) else F r = r))"

text \<open>The statement that writes one row: \<open>UPDATE ... WHERE key = k\<close>.\<close>

definition write_row :: "(trace_row \<Rightarrow> 'k) \<Rightarrow> 'k \<Rightarrow> (trace_row \<Rightarrow> trace_row) \<Rightarrow> trace_row list \<Rightarrow> trace_row list" where
  "write_row key k upd rows = map (\<lambda>r. if key r = k then upd r else r) rows"

lemma rewritten_nth:
  assumes "rewritten key fresh K rows0 rows" and "i < length rows0"
  shows "length rows = length rows0
    \<and> (if key (rows0 ! i) \<in> K then fresh (rows0 ! i) (rows ! i) else rows ! i = rows0 ! i)"
  using assms by (auto simp: rewritten_def)

locale keyed_rewrite =
  fixes key :: "trace_row \<Rightarrow> 'k"
    and fresh :: "trace_row \<Rightarrow> trace_row \<Rightarrow> bool"
    and write_one :: "trace_row \<Rightarrow> 's \<Rightarrow> world \<Rightarrow> ('e failure + 's) \<times> world"
  assumes fresh_key: "fresh r r' \<Longrightarrow> key r' = key r"
    and write_ok: "write_one r s w = (Inr s', w') \<Longrightarrow> \<exists>upd. fresh r (upd r)
      \<and> d_traces (w_db w') = write_row key (key r) upd (d_traces (w_db w))"
    and write_error: "write_one r s w = (Inl e, w') \<Longrightarrow> d_traces (w_db w') = d_traces (w_db w)
      \<or> (\<exists>upd. fresh r (upd r) \<and> d_traces (w_db w') = write_row key (key r) upd (d_traces (w_db w)))"
begin

lemma rewritten_refl: "rewritten key fresh {} rows rows"
  by (auto simp: rewritten_def intro: exI [of _ id])

lemma rewritten_length: "rewritten key fresh K rows0 rows \<Longrightarrow> length rows = length rows0"
  by (auto simp: rewritten_def)

text \<open>One more row written: it is the row the batch read, since its key was not written before.\<close>

lemma rewritten_write:
  assumes "rewritten key fresh K rows0 rows" and "distinct (map key rows0)"
    and "r \<in> set rows0" and "key r \<notin> K" and "fresh r (upd r)"
  shows "rewritten key fresh (insert (key r) K) rows0 (write_row key (key r) upd rows)"
proof -
  obtain F where rows: "rows = map F rows0"
    and F: "\<And>s. s \<in> set rows0 \<Longrightarrow> if key s \<in> K then fresh s (F s) else F s = s"
    using assms(1) by (auto simp: rewritten_def)
  let ?G = "\<lambda>s. if key (F s) = key r then upd (F s) else F s"
  have key: "key (F s) = key s" if "s \<in> set rows0" for s
    using F [OF that] fresh_key by (auto split: if_splits)
  have same: "s = r" if "s \<in> set rows0" "key s = key r" for s
    using assms(2,3) that by (auto simp: distinct_map dest: inj_onD)
  have "if key s \<in> insert (key r) K then fresh s (?G s) else ?G s = s" if s: "s \<in> set rows0" for s
    using F [OF s] key [OF s] same [OF s] assms(4,5) by (auto split: if_splits)
  then show ?thesis unfolding rewritten_def rows write_row_def
    by (intro exI [of _ ?G]) auto
qed

text \<open>A batch of rows read from the table, whether all of it is written or not.\<close>

lemma rewritten_foldM:
  assumes "rewritten key fresh K rows0 (d_traces (w_db w))" and "distinct (map key rows0)"
    and "set batch \<subseteq> set rows0" and "distinct (map key batch)" and "key ` set batch \<inter> K = {}"
    and "foldM write_one batch s w = (res, w')"
  shows "\<exists>K'. K \<subseteq> K' \<and> K' \<subseteq> K \<union> key ` set batch \<and> rewritten key fresh K' rows0 (d_traces (w_db w'))
    \<and> (\<forall>s'. res = Inr s' \<longrightarrow> K' = K \<union> key ` set batch)"
  using assms
proof (induction batch arbitrary: K s w)
  case Nil
  then show ?case by (auto simp: io_simps)
next
  case (Cons r batch)
  have r: "r \<in> set rows0" "key r \<notin> K" using Cons.prems by auto
  obtain x w1 where run: "write_one r s w = (x, w1)" by force
  have step: "rewritten key fresh (insert (key r) K) rows0 (d_traces (w_db w1))"
    if "fresh r (upd r)" "d_traces (w_db w1) = write_row key (key r) upd (d_traces (w_db w))" for upd
    using rewritten_write [OF Cons.prems(1,2) r, of upd] that by simp
  show ?case
  proof (cases x)
    case (Inl e)
    with run Cons.prems(6) have res: "res = Inl e" "w' = w1" by (auto simp: bindE_def)
    from write_error [of r s w e w1] run Inl consider "d_traces (w_db w1) = d_traces (w_db w)"
      | upd where "fresh r (upd r)" "d_traces (w_db w1) = write_row key (key r) upd (d_traces (w_db w))"
      by auto
    then show ?thesis
    proof cases
      case 1
      then show ?thesis using Cons.prems(1) res by (intro exI [of _ K]) auto
    next
      case 2
      then show ?thesis using step [OF 2] res by (intro exI [of _ "insert (key r) K"]) auto
    qed
  next
    case (Inr s1)
    then have run2: "foldM write_one batch s1 w1 = (res, w')"
      using Cons.prems(6) run by (simp add: bindE_def)
    obtain upd where "fresh r (upd r)" "d_traces (w_db w1) = write_row key (key r) upd (d_traces (w_db w))"
      using write_ok run Inr by blast
    then have "rewritten key fresh (insert (key r) K) rows0 (d_traces (w_db w1))" by (rule step)
    from Cons.IH [OF this Cons.prems(2) _ _ _ run2] Cons.prems(3-5)
    obtain K' where K': "insert (key r) K \<subseteq> K'" "K' \<subseteq> insert (key r) K \<union> key ` set batch"
      "rewritten key fresh K' rows0 (d_traces (w_db w'))"
      "\<forall>s'. res = Inr s' \<longrightarrow> K' = insert (key r) K \<union> key ` set batch"
      by auto
    then show ?thesis by (intro exI [of _ K']) auto
  qed
qed

end

end
