(* ===== verification/Irl_Mta.thy ===== *)
theory Irl_Mta
  imports Irl_World
begin

text \<open>
  \<open>src/mta.rs\<close>: the three market-truth-anchor clients. The live client fetches a
  regime, verifies its signature, maps it to constraints and caches it; the
  cache serves for 100 ms and, when the anchor cannot be reached, for 60 s.
\<close>

section \<open>Canonical JSON of the signed payload\<close>

function (sequential) canonical_json :: "crates \<Rightarrow> json \<Rightarrow> unit + string" where
  "canonical_json c (JObj m) =
     res_bind
       (collect_res (map (\<lambda>(k, v).
          res_bind (res_map_err (\<lambda>_. ()) (json_to_string c (JStr k))) (\<lambda>key.
          res_bind (canonical_json c v) (\<lambda>val. Inr (key @ '':'' @ val))))
        (sort_key fst m)))
       (\<lambda>inner. Inr (''{'' @ str_join '','' inner @ ''}''))"
| "canonical_json c (JArr xs) =
     res_bind (collect_res (map (canonical_json c) xs))
       (\<lambda>inner. Inr (''['' @ str_join '','' inner @ '']''))"
| "canonical_json c v = res_map_err (\<lambda>_. ()) (json_to_string c v)"
  by pat_completeness auto
termination
  by (relation "measure (size \<circ> snd)")
    (auto simp: size_member_obj less_Suc_eq_le size_list_estimation')

section \<open>The live client\<close>

record raw_mta_response =
  rm_regime_id :: u8
  rm_macro_regime :: string
  rm_version :: "string option"
  rm_broadcast_time :: int
  rm_signature :: string

record macropulse_client =
  mc_mta_url :: string
  mc_pubkey :: "byte list"

definition CACHE_TTL_MS :: int where "CACHE_TTL_MS = 100"
definition FALLBACK_TTL_SECS :: int where "FALLBACK_TTL_SECS = 60"

definition macropulse_new :: "config \<Rightarrow> macropulse_client" where
  "macropulse_new cfg = \<lparr>mc_mta_url = cfg_mta_url cfg, mc_pubkey = cfg_mta_pubkey cfg\<rparr>"

text \<open>
  The derived deserializer of the response: an object with the named fields, or an
  array of the five fields in the order of the struct. \<open>model_version\<close> may be null and,
  in an object, absent.
\<close>

definition raw_fields :: "string list" where
  "raw_fields = [''regime_id'', ''macro_regime'', ''model_version'', ''broadcast_time'', ''signature'']"

definition response_field :: "json \<Rightarrow> nat \<Rightarrow> json option" where
  "response_field v i =
     (case v of
        JArr xs \<Rightarrow> if length xs = length raw_fields then Some (xs ! i) else None
      | _ \<Rightarrow> json_get v (raw_fields ! i))"

definition raw_of_json :: "crates \<Rightarrow> json \<Rightarrow> string + raw_mta_response" where
  "raw_of_json c v =
     res_bind (case response_field v 0 of
                 Some (JInt i) \<Rightarrow> if 0 \<le> i \<and> i < 256 then Inr (word_of_int i)
                                  else Inl (serde_error c ''regime_id'')
               | _ \<Rightarrow> Inl (serde_error c ''regime_id'')) (\<lambda>regime.
     res_bind (case response_field v 1 of
                 Some (JStr s) \<Rightarrow> Inr s | _ \<Rightarrow> Inl (serde_error c ''macro_regime'')) (\<lambda>label.
     res_bind (case response_field v 2 of
                 None \<Rightarrow> Inr None | Some JNull \<Rightarrow> Inr None | Some (JStr s) \<Rightarrow> Inr (Some s)
               | _ \<Rightarrow> Inl (serde_error c ''model_version'')) (\<lambda>version.
     res_bind (case response_field v 3 of
                 Some (JInt i) \<Rightarrow> if i64_min \<le> i \<and> i \<le> i64_max then Inr i
                                  else Inl (serde_error c ''broadcast_time'')
               | _ \<Rightarrow> Inl (serde_error c ''broadcast_time'')) (\<lambda>time.
     res_bind (case response_field v 4 of
                 Some (JStr s) \<Rightarrow> Inr s | _ \<Rightarrow> Inl (serde_error c ''signature'')) (\<lambda>sig.
     Inr \<lparr>rm_regime_id = regime, rm_macro_regime = label, rm_version = version,
          rm_broadcast_time = time, rm_signature = sig\<rparr>)))))"

definition raw_from_slice :: "crates \<Rightarrow> byte list \<Rightarrow> string + raw_mta_response" where
  "raw_from_slice c body =
     res_bind (json_from_slice c body) (\<lambda>v.
       case v of
         JArr xs \<Rightarrow> raw_of_json c v
       | _ \<Rightarrow> if serde_duplicate c body raw_fields then Inl (serde_error c ''duplicate'') else raw_of_json c v)"

definition without_signature :: "json \<Rightarrow> json" where
  "without_signature v = (case v of JObj m \<Rightarrow> JObj (obj_remove ''signature'' m) | _ \<Rightarrow> v)"

definition mta_verify_signature ::
  "crates \<Rightarrow> macropulse_client \<Rightarrow> byte list \<Rightarrow> raw_mta_response \<Rightarrow> unit res"
where
  "mta_verify_signature c cl body raw =
     res_bind (ok_or MtaSignatureInvalid (b64_decode c (rm_signature raw))) (\<lambda>sig.
     if length sig \<noteq> 64 then Inl MtaSignatureInvalid
     else
     res_bind (res_map_err (\<lambda>_. MtaSignatureInvalid) (json_from_slice c body)) (\<lambda>v.
     res_bind (res_map_err (\<lambda>_. MtaSignatureInvalid) (canonical_json c (without_signature v))) (\<lambda>canonical.
     if ed25519_verify c (mc_pubkey cl) (as_bytes canonical) sig then Inr ()
     else Inl MtaSignatureInvalid)))"

definition regime_constraints :: "u8 \<Rightarrow> f64 \<times> f64 \<times> string list" where
  "regime_constraints regime =
     (if regime = 0 then (Finite 1, Finite 1, [''long'', ''short'', ''neutral''])
      else if regime = 1 then (Finite (3 / 4), Finite (3 / 4), [''long'', ''short'', ''neutral''])
      else if regime = 2 then (f64_round False (3 / 10), Finite (1 / 4), [''short'', ''neutral''])
      else if regime = 3 then (Finite 0, Finite 0, [''neutral''])
      else (Finite 0, Finite 0, [''neutral'']))"

definition live_state :: "crates \<Rightarrow> macropulse_client \<Rightarrow> byte list \<Rightarrow> raw_mta_response \<Rightarrow> mta_state" where
  "live_state c cl body raw =
     (case regime_constraints (rm_regime_id raw) of
        (risk, scale, sides) \<Rightarrow>
          \<lparr>ms_regime_id = rm_regime_id raw, ms_regime_label = rm_macro_regime raw,
           ms_risk_level = risk, ms_max_notional_scale = scale, ms_allowed_sides = sides,
           ms_version = (case rm_version raw of None \<Rightarrow> ''unknown'' | Some v \<Rightarrow> v),
           ms_hash = hex_encode c (sha256 c body), ms_broadcast_time = rm_broadcast_time raw,
           ms_pubkey_fingerprint = hex_encode c (mc_pubkey cl), ms_signal_mode = ''live''\<rparr>)"

definition fetch_and_verify :: "env \<Rightarrow> macropulse_client \<Rightarrow> mta_state io" where
  "fetch_and_verify E cl =
     bindE (effect (\<lambda>t. env_http_get E t (mc_mta_url cl @ ''/v1/regime/current''))) (\<lambda>response.
     bindE (liftE (res_map_err MtaFetchFailed response)) (\<lambda>body.
     bindE (liftE (res_map_err (\<lambda>e. MtaFetchFailed (''Invalid MTA JSON: '' @ e))
              (raw_from_slice (env_crates E) body))) (\<lambda>raw.
     bindE (liftE (mta_verify_signature (env_crates E) cl body raw)) (\<lambda>_.
     ret (live_state (env_crates E) cl body raw)))))"

text \<open>\<open>Instant::elapsed\<close>, in microseconds.\<close>

definition elapsed :: "env \<Rightarrow> int \<Rightarrow> int io" where
  "elapsed E since = effect (\<lambda>t. max 0 (env_instant E t - since))"

definition fetch_verified_live :: "env \<Rightarrow> macropulse_client \<Rightarrow> mta_state io" where
  "fetch_verified_live E cl =
     bindE (gets w_mta_cache) (\<lambda>cache.
     bindE (case cache of
              None \<Rightarrow> ret None
            | Some (st, fetched_at) \<Rightarrow>
                bindE (elapsed E fetched_at) (\<lambda>age.
                ret (if age < CACHE_TTL_MS * 1000 then Some st else None))) (\<lambda>fast.
     case fast of
       Some st \<Rightarrow> ret st
     | None \<Rightarrow>
         bindE (attempt (fetch_and_verify E cl)) (\<lambda>r.
         case r of
           Inr st \<Rightarrow>
             bindE (effect (env_instant E)) (\<lambda>now.
             bindE (modify (\<lambda>w. w\<lparr>w_mta_cache := Some (st, now)\<rparr>)) (\<lambda>_.
             ret st))
         | Inl e \<Rightarrow>
             bindE (gets w_mta_cache) (\<lambda>cache'.
             case cache' of
               None \<Rightarrow> fail e
             | Some (st, fetched_at) \<Rightarrow>
                 bindE (elapsed E fetched_at) (\<lambda>age.
                 if age div 1000000 < FALLBACK_TTL_SECS then ret st else fail e)))))"

section \<open>The built-in clients\<close>

definition fetch_verified_mock :: "env \<Rightarrow> mta_state io" where
  "fetch_verified_mock E =
     bindE (utc_now_ms E) (\<lambda>now.
     ret \<lparr>ms_regime_id = 0, ms_regime_label = ''expansion'', ms_risk_level = Finite 1,
          ms_max_notional_scale = Finite 1, ms_allowed_sides = [''long'', ''short'', ''neutral''],
          ms_version = ''mock-v0'', ms_hash = ''mock'' @ replicate 64 (CHR ''0''),
          ms_broadcast_time = now - 50, ms_pubkey_fingerprint = replicate 64 (CHR ''0''),
          ms_signal_mode = ''mock''\<rparr>)"

definition fetch_verified_null :: "env \<Rightarrow> mta_state io" where
  "fetch_verified_null E =
     bindE (utc_now_ms E) (\<lambda>now.
     ret \<lparr>ms_regime_id = 0, ms_regime_label = ''unconstrained'', ms_risk_level = Finite 1,
          ms_max_notional_scale = Finite 1, ms_allowed_sides = [''long'', ''short'', ''neutral''],
          ms_version = ''none'', ms_hash = ''none'' @ replicate 64 (CHR ''0''),
          ms_broadcast_time = now, ms_pubkey_fingerprint = replicate 64 (CHR ''0''),
          ms_signal_mode = ''none''\<rparr>)"

datatype mta_client = MacroPulse macropulse_client | MockMta | NullMta

fun fetch_verified :: "env \<Rightarrow> mta_client \<Rightarrow> mta_state io" where
  "fetch_verified E (MacroPulse cl) = fetch_verified_live E cl"
| "fetch_verified E MockMta = fetch_verified_mock E"
| "fetch_verified E NullMta = fetch_verified_null E"

section \<open>Facts\<close>

lemma collect_res_map_err:
  "collect_res (map (\<lambda>x. res_map_err f (g x)) xs) = res_map_err f (collect_res (map g xs))"
proof (induction xs)
  case (Cons x xs)
  then show ?case by (cases "g x"; cases "collect_res (map g xs)") simp_all
qed simp

lemma res_map_err_comp: "res_map_err f (res_map_err g x) = res_map_err (\<lambda>e. f (g e)) x"
  by (cases x) simp_all

lemma res_map_err_bind:
  "res_map_err f (res_bind x k) = res_bind (res_map_err f x) (\<lambda>y. res_map_err f (k y))"
  by (cases x) simp_all

lemma canonical_json_eq: "canonical_json c v = res_map_err (\<lambda>_. ()) (canonicalize_json c v)"
proof (induction v)
  case (JObj m)
  have "map (\<lambda>(k, v). res_bind (res_map_err (\<lambda>_. ()) (json_to_string c (JStr k))) (\<lambda>key.
          res_bind (canonical_json c v) (\<lambda>val. Inr (key @ '':'' @ val)))) (sort_key fst m)
    = map (\<lambda>kv. res_map_err (\<lambda>_. ()) (canon_member c kv)) (sort_key fst m)"
  proof (rule map_cong [OF refl])
    fix kv
    assume kv: "kv \<in> set (sort_key fst m)"
    then have "canonical_json c (snd kv) = res_map_err (\<lambda>_. ()) (canonicalize_json c (snd kv))"
      using JObj [of kv "snd kv"] by (simp add: snds.simps)
    then show "(case kv of (k, v) \<Rightarrow> res_bind (res_map_err (\<lambda>_. ()) (json_to_string c (JStr k))) (\<lambda>key.
          res_bind (canonical_json c v) (\<lambda>val. Inr (key @ '':'' @ val)))) = res_map_err (\<lambda>_. ()) (canon_member c kv)"
      by (simp add: split_beta canon_member_def res_map_err_bind res_map_err_comp)
  qed
  then show ?case
    by (simp only: canonical_json.simps canon_obj_eq collect_res_map_err res_map_err_bind) simp
next
  case (JArr xs)
  then have "map (canonical_json c) xs = map (\<lambda>x. res_map_err (\<lambda>_. ()) (canonicalize_json c x)) xs"
    by simp
  then show ?case
    by (simp only: canonical_json.simps canonicalize_json.simps collect_res_map_err res_map_err_bind) simp
qed (simp_all add: res_map_err_comp)

lemma fetch_and_verify_ok:
  assumes "fetch_and_verify E cl w = (Inr st, w')"
  obtains body raw where "env_http_get E (w_tick w) (mc_mta_url cl @ ''/v1/regime/current'') = Inr body"
    and "raw_from_slice (env_crates E) body = Inr raw"
    and "mta_verify_signature (env_crates E) cl body raw = Inr ()"
    and "st = live_state (env_crates E) cl body raw"
    and "w' = w\<lparr>w_tick := Suc (w_tick w)\<rparr>"
  using assms unfolding fetch_and_verify_def
  by (auto simp: bindE_Inr_iff io_simps liftE_Inr_iff)

lemma fetch_and_verify_world: "snd (fetch_and_verify E cl w) = w\<lparr>w_tick := Suc (w_tick w)\<rparr>"
  by (auto simp: fetch_and_verify_def bindE_def io_simps liftE_def split: sum.splits)

lemma fetch_and_verify_no_panic: "fst (fetch_and_verify E cl w) \<noteq> Inl (Panic p)"
  by (auto simp: fetch_and_verify_def bindE_def io_simps liftE_def split: sum.splits)

text \<open>
  What every client promises of the states it returns: a scale between zero and
  one that is a value of the float format, and open sides among the three
  canonical directions.
\<close>

definition mta_state_ok :: "mta_state \<Rightarrow> bool" where
  "mta_state_ok st \<longleftrightarrow>
     (case ms_max_notional_scale st of Finite t \<Rightarrow> 0 \<le> t \<and> t \<le> 1 | _ \<Rightarrow> False)
     \<and> set (ms_allowed_sides st) \<subseteq> {''long'', ''short'', ''neutral''}"

definition mta_cache_ok :: "world \<Rightarrow> bool" where
  "mta_cache_ok w \<longleftrightarrow> (case w_mta_cache w of None \<Rightarrow> True | Some (st, t) \<Rightarrow> mta_state_ok st)"

lemma live_state_ok: "mta_state_ok (live_state c cl body raw)"
  by (auto simp: mta_state_ok_def live_state_def regime_constraints_def)

locale mta_client_contract =
  fixes fetch :: "mta_state io"
    and inv :: "world \<Rightarrow> bool"
  assumes fetch_ok: "inv w \<Longrightarrow> fetch w = (Inr st, w') \<Longrightarrow> mta_state_ok st"
    and fetch_inv: "inv w \<Longrightarrow> inv (snd (fetch w))"
    and fetch_db: "w_db (snd (fetch w)) = w_db w"
begin

text \<open>An order a client's state lets through is within the agent's cap.\<close>

lemma order_within_cap:
  assumes "inv w" and "fetch w = (Inr st, w')" and "check_constraints c st a n cap ro = Inr ()"
    and "f64_finite n" and "cap = Finite r" and "0 \<le> r" and "f64_wf cap"
  shows "f64_val n \<le> r"
proof -
  obtain t where t: "ms_max_notional_scale st = Finite t" "0 \<le> t" "t \<le> 1"
    using fetch_ok [OF assms(1,2)] by (auto simp: mta_state_ok_def split: f64.splits)
  have "r * t \<le> r" using t assms(6) by (simp add: mult_left_le)
  moreover have "f64_round False r = Finite r" using assms(5-7) by (auto split: if_splits)
  ultimately have "f64_finite (f64_mul cap (Finite t)) \<and> f64_val (f64_mul cap (Finite t)) \<le> r"
    using f64_round_le_representable [of r "r * t"] assms(5,6) t by simp
  then show ?thesis using assms(3,4) t by (auto simp: check_constraints_ok_iff)
qed

end

text \<open>The outcomes of the live client, one clause per path through the cache and the fetch.\<close>

lemma attempt_fetch:
  "attempt (fetch_and_verify E cl) w =
     (case fst (fetch_and_verify E cl w) of
        Inr st \<Rightarrow> (Inr (Inr st), w\<lparr>w_tick := Suc (w_tick w)\<rparr>)
      | Inl (App e) \<Rightarrow> (Inr (Inl e), w\<lparr>w_tick := Suc (w_tick w)\<rparr>)
      | Inl (Panic p) \<Rightarrow> (Inl (Panic p), w\<lparr>w_tick := Suc (w_tick w)\<rparr>))"
  using fetch_and_verify_world [of E cl w]
  by (auto simp: attempt_def split: prod.splits sum.splits failure.splits)

lemma fetch_verified_live_cases:
  assumes "fetch_verified_live E cl w = (r, w')"
  obtains (fresh_cache) st t0 where "w_mta_cache w = Some (st, t0)" "r = Inr st"
      "max 0 (env_instant E (w_tick w) - t0) < CACHE_TTL_MS * 1000"
      "w' = w\<lparr>w_tick := Suc (w_tick w)\<rparr>"
  | (fetched) w1 st t where "w1 = w \<or> w1 = w\<lparr>w_tick := Suc (w_tick w)\<rparr>"
      "fst (fetch_and_verify E cl w1) = Inr st" "r = Inr st"
      "w' = w1\<lparr>w_tick := Suc (Suc (w_tick w1)), w_mta_cache := Some (st, env_instant E t)\<rparr>"
      "t = Suc (w_tick w1)"
  | (fallback) st t0 t e where "w_mta_cache w = Some (st, t0)" "r = Inr st"
      "t = Suc (Suc (w_tick w))" "fst (fetch_and_verify E cl (w\<lparr>w_tick := Suc (w_tick w)\<rparr>)) = Inl (App e)"
      "max 0 (env_instant E t - t0) div 1000000 < FALLBACK_TTL_SECS" "w' = w\<lparr>w_tick := Suc t\<rparr>"
  | (closed) w1 e n where "w1 = w \<or> w1 = w\<lparr>w_tick := Suc (w_tick w)\<rparr>"
      "fst (fetch_and_verify E cl w1) = Inl (App e)" "r = Inl (App e)" "w' = w\<lparr>w_tick := n\<rparr>"
proof (cases "w_mta_cache w")
  case None
  show thesis
  proof (cases "fst (fetch_and_verify E cl w)")
    case (Inr st)
    then show thesis using assms None
      by (intro fetched [of w st "Suc (w_tick w)"])
        (auto simp: fetch_verified_live_def bindE_def io_simps attempt_fetch)
  next
    case (Inl f)
    then obtain e where "f = App e" using fetch_and_verify_no_panic [of E cl w] by (cases f) auto
    then show thesis using assms None Inl
      by (intro closed [of w e "Suc (w_tick w)"])
        (auto simp: fetch_verified_live_def bindE_def io_simps attempt_fetch)
  qed
next
  case (Some p)
  obtain st t0 where p: "p = (st, t0)" by force
  let ?w1 = "w\<lparr>w_tick := Suc (w_tick w)\<rparr>"
  show thesis
  proof (cases "max 0 (env_instant E (w_tick w) - t0) < CACHE_TTL_MS * 1000")
    case True
    then show thesis using assms Some p
      by (intro fresh_cache) (auto simp: fetch_verified_live_def bindE_def io_simps elapsed_def)
  next
    case stale: False
    show thesis
    proof (cases "fst (fetch_and_verify E cl ?w1)")
      case (Inr st')
      then show thesis using assms Some p stale
        by (intro fetched [of ?w1 st' "Suc (Suc (w_tick w))"])
          (auto simp: fetch_verified_live_def bindE_def io_simps attempt_fetch elapsed_def)
    next
      case (Inl f)
      then obtain e where f: "f = App e" using fetch_and_verify_no_panic [of E cl ?w1] by (cases f) auto
      show thesis
      proof (cases "max 0 (env_instant E (Suc (Suc (w_tick w))) - t0) div 1000000 < FALLBACK_TTL_SECS")
        case True
        then show thesis using assms Some p stale Inl f
          by (intro fallback [of st t0 "Suc (Suc (w_tick w))" e])
            (auto simp: fetch_verified_live_def bindE_def io_simps attempt_fetch elapsed_def)
      next
        case False
        then show thesis using assms Some p stale Inl f
          by (intro closed [of ?w1 e "Suc (Suc (Suc (w_tick w)))"])
            (auto simp: fetch_verified_live_def bindE_def io_simps attempt_fetch elapsed_def)
      qed
    qed
  qed
qed

lemma fetch_and_verify_state_ok: "fst (fetch_and_verify E cl w) = Inr st \<Longrightarrow> mta_state_ok st"
  by (metis fetch_and_verify_ok live_state_ok prod.collapse)

lemma fetch_verified_live_contract:
  assumes "mta_cache_ok w" and "fetch_verified_live E cl w = (r, w')"
  shows "(\<forall>st. r = Inr st \<longrightarrow> mta_state_ok st) \<and> mta_cache_ok w' \<and> w_db w' = w_db w"
  using assms(2)
proof (cases rule: fetch_verified_live_cases)
  case (fetched w1 st t)
  then show ?thesis using fetch_and_verify_state_ok [of E cl w1 st] by (auto simp: mta_cache_ok_def)
qed (use assms(1) in \<open>auto simp: mta_cache_ok_def\<close>)

lemma fetch_verified_db: "w_db (snd (fetch_verified E cl w)) = w_db w"
proof (cases cl)
  case (MacroPulse x)
  obtain r w' where run: "fetch_verified_live E x w = (r, w')" by force
  then have "w_db w' = w_db w" by (cases rule: fetch_verified_live_cases) auto
  then show ?thesis using MacroPulse run by simp
qed (simp_all add: fetch_verified_mock_def fetch_verified_null_def utc_now_ms_def bindE_def io_simps)

interpretation mta: mta_client_contract "fetch_verified E cl" mta_cache_ok for E cl
proof
  fix w st w'
  assume inv: "mta_cache_ok w"
  show "fetch_verified E cl w = (Inr st, w') \<Longrightarrow> mta_state_ok st"
    using fetch_verified_live_contract [OF inv]
    by (cases cl) (auto simp: fetch_verified_mock_def fetch_verified_null_def utc_now_ms_def bindE_def
        io_simps mta_state_ok_def)
  show "mta_cache_ok (snd (fetch_verified E cl w))"
  proof (cases cl)
    case (MacroPulse x)
    obtain r w1 where "fetch_verified_live E x w = (r, w1)" by force
    then show ?thesis using fetch_verified_live_contract [OF inv] MacroPulse by simp
  qed (use inv in \<open>simp_all add: fetch_verified_mock_def fetch_verified_null_def utc_now_ms_def bindE_def
        io_simps mta_cache_ok_def\<close>)
next
  show "w_db (snd (fetch_verified E cl w)) = w_db w" for w by (rule fetch_verified_db)
qed

section \<open>Properties\<close>

text \<open>C39: the live client and the seal use the same canonical JSON: the two implementations
  agree on every value, up to the error payload.\<close>

theorem canonical_json_agrees:
  "canonical_json c v = Inr s \<longleftrightarrow> canonicalize_json c v = Inr s"
  by (simp add: canonical_json_eq)

text \<open>C10: a live regime is authentic and read as published. A state the live client fetched
  comes from one response body: the body's own signature field is the base64 of a 64-byte Ed25519
  signature that verifies, under the operator's key, over the canonical JSON of the body without
  that field. The state has the body's regime, label, broadcast time and version (''unknown'' when
  it names none), the hash of the body and the key's fingerprint, and exactly the constraints of
  its regime: 0 is fully open, 1 is open at three quarters, 2 at a quarter and without longs, and
  every other regime is closed but for neutral orders.\<close>

theorem live_state_authentic:
  assumes "fetch_and_verify E cl w = (Inr st, w')"
  shows "\<exists>body v s sig txt0.
    env_http_get E (w_tick w) (mc_mta_url cl @ ''/v1/regime/current'') = Inr body
    \<and> json_from_slice (env_crates E) body = Inr v
    \<and> response_field v 4 = Some (JStr s) \<and> b64_decode (env_crates E) s = Some sig \<and> length sig = 64
    \<and> canonicalize_json (env_crates E) (without_signature v) = Inr txt0
    \<and> ed25519_verify (env_crates E) (mc_pubkey cl) (as_bytes txt0) sig
    \<and> response_field v 0 = Some (JInt (uint (ms_regime_id st)))
    \<and> response_field v 1 = Some (JStr (ms_regime_label st))
    \<and> response_field v 3 = Some (JInt (ms_broadcast_time st))
    \<and> ms_version st = (case response_field v 2 of Some (JStr version) \<Rightarrow> version | _ \<Rightarrow> ''unknown'')
    \<and> ms_hash st = hex_encode (env_crates E) (sha256 (env_crates E) body)
    \<and> ms_pubkey_fingerprint st = hex_encode (env_crates E) (mc_pubkey cl)
    \<and> ms_signal_mode st = ''live''
    \<and> (if ms_regime_id st = 0 then ms_risk_level st = Finite 1 \<and> ms_max_notional_scale st = Finite 1
         \<and> ms_allowed_sides st = [''long'', ''short'', ''neutral'']
       else if ms_regime_id st = 1 then ms_risk_level st = Finite (3 / 4)
         \<and> ms_max_notional_scale st = Finite (3 / 4) \<and> ms_allowed_sides st = [''long'', ''short'', ''neutral'']
       else if ms_regime_id st = 2 then ms_risk_level st = f64_round False (3 / 10)
         \<and> ms_max_notional_scale st = Finite (1 / 4) \<and> ms_allowed_sides st = [''short'', ''neutral'']
       else ms_risk_level st = Finite 0 \<and> ms_max_notional_scale st = Finite 0
         \<and> ms_allowed_sides st = [''neutral''])"
proof -
  let ?c = "env_crates E"
  obtain body raw where body: "env_http_get E (w_tick w) (mc_mta_url cl @ ''/v1/regime/current'') = Inr body"
    and raw: "raw_from_slice ?c body = Inr raw" and ver: "mta_verify_signature ?c cl body raw = Inr ()"
    and st: "st = live_state ?c cl body raw"
    using assms by (rule fetch_and_verify_ok)
  from ver obtain sig v txt0 where sig: "b64_decode ?c (rm_signature raw) = Some sig" "length sig = 64"
    and v: "json_from_slice ?c body = Inr v"
    and txt0: "canonicalize_json ?c (without_signature v) = Inr txt0"
    and ed: "ed25519_verify ?c (mc_pubkey cl) (as_bytes txt0) sig"
    by (auto simp: mta_verify_signature_def res_bind_Inr_iff canonical_json_eq split: if_splits)
  have "raw_of_json ?c v = Inr raw"
    using raw v by (auto simp: raw_from_slice_def split: if_splits json.splits)
  then have fields: "response_field v 0 = Some (JInt (uint (rm_regime_id raw)))"
      "response_field v 1 = Some (JStr (rm_macro_regime raw))"
      "rm_version raw = (case response_field v 2 of Some (JStr version) \<Rightarrow> Some version | _ \<Rightarrow> None)"
      "response_field v 3 = Some (JInt (rm_broadcast_time raw))"
      "response_field v 4 = Some (JStr (rm_signature raw))"
    by (auto simp: raw_of_json_def res_bind_Inr_iff uint_word_of_int
        split: option.splits json.splits if_splits)
  have state: "ms_regime_id st = rm_regime_id raw" "ms_regime_label st = rm_macro_regime raw"
      "ms_broadcast_time st = rm_broadcast_time raw" "ms_hash st = hex_encode ?c (sha256 ?c body)"
      "ms_version st = (case response_field v 2 of Some (JStr version) \<Rightarrow> version | _ \<Rightarrow> ''unknown'')"
      "ms_pubkey_fingerprint st = hex_encode ?c (mc_pubkey cl)" "ms_signal_mode st = ''live''"
    using st fields(3) by (auto simp: live_state_def split_beta split: option.splits json.splits)
  have constraints: "(ms_risk_level st, ms_max_notional_scale st, ms_allowed_sides st)
      = regime_constraints (ms_regime_id st)"
    using st by (simp add: live_state_def split_beta)
  show ?thesis
    by (rule exI [of _ body], rule exI [of _ v], rule exI [of _ "rm_signature raw"], rule exI [of _ sig],
        rule exI [of _ txt0], intro conjI)
      (use body v txt0 sig ed fields state constraints in
        \<open>auto simp: regime_constraints_def split: if_splits\<close>)
qed

text \<open>C18: the circuit breaker is bounded. A state the live client serves was either verified
  in this call or comes from the cache, where it is less than 60 seconds old on the monotonic
  clock at some point of the call; with an unreachable anchor and an older cache the client
  fails closed.\<close>

theorem served_state_fresh:
  assumes "fetch_verified_live E cl w = (Inr st, w')"
  shows "(\<exists>w1. fst (fetch_and_verify E cl w1) = Inr st \<and> w_tick w \<le> w_tick w1)
    \<or> (\<exists>t0 t. w_mta_cache w = Some (st, t0) \<and> w_tick w \<le> t \<and> env_instant E t - t0 < 60000000)"
  using assms
proof (cases rule: fetch_verified_live_cases)
  case (fresh_cache st' t0)
  then show ?thesis by (intro disjI2 exI [of _ t0] exI [of _ "w_tick w"]) (simp add: CACHE_TTL_MS_def)
next
  case (fetched w1 st' t)
  then show ?thesis by (intro disjI1 exI [of _ w1]) auto
next
  case (fallback st' t0 t e)
  then show ?thesis
    by (intro disjI2 exI [of _ t0] exI [of _ t]) (auto simp: FALLBACK_TTL_SECS_def)
qed auto

text \<open>Whatever client is configured, an order that passes the policy on a state it serves
  is within the agent's registered cap: the regime never enlarges it.\<close>

theorem served_state_within_cap:
  assumes "mta_cache_ok w" and "fetch_verified E cl w = (Inr st, w')"
    and "check_constraints c st a n cap ro = Inr ()"
    and "f64_finite n" and "cap = Finite r" and "0 \<le> r" and "f64_wf cap"
  shows "f64_val n \<le> r"
  using assms by (rule mta.order_within_cap)

definition demo_client :: macropulse_client where
  "demo_client = \<lparr>mc_mta_url = ''http://mta'', mc_pubkey = replicate 32 0\<rparr>"

text \<open>An environment in which the anchor answers with a signed regime 2.\<close>

definition demo_body_json :: json where
  "demo_body_json = json_obj
     [(''regime_id'', JInt 2), (''macro_regime'', JStr ''tightening''),
      (''broadcast_time'', JInt 1000), (''signature'', JStr ''sig'')]"

definition demo_live_env :: env where
  "demo_live_env = demo_env\<lparr>
     env_crates := demo_crates\<lparr>json_from_slice := (\<lambda>bs. Inr demo_body_json),
       b64_decode := (\<lambda>s. Some (replicate 64 0)), ed25519_verify := (\<lambda>key msg sig. True)\<rparr>,
     env_http_get := (\<lambda>t url. Inr (as_bytes ''body''))\<rparr>"

lemma demo_live_raw:
  "raw_from_slice (env_crates demo_live_env) (as_bytes ''body'') =
     Inr \<lparr>rm_regime_id = 2, rm_macro_regime = ''tightening'', rm_version = None,
          rm_broadcast_time = 1000, rm_signature = ''sig''\<rparr>"
  by (simp add: raw_from_slice_def raw_of_json_def response_field_def raw_fields_def demo_live_env_def
      demo_body_json_def demo_crates_def json_obj_def i64_min_def i64_max_def)

lemma demo_live_fetch:
  "\<exists>st w'. fetch_and_verify demo_live_env demo_client w = (Inr st, w')
     \<and> st = live_state (env_crates demo_live_env) demo_client (as_bytes ''body'')
         \<lparr>rm_regime_id = 2, rm_macro_regime = ''tightening'', rm_version = None,
          rm_broadcast_time = 1000, rm_signature = ''sig''\<rparr>"
proof -
  let ?c = "env_crates demo_live_env"
  obtain txt0 where "canonicalize_json ?c (without_signature demo_body_json) = Inr txt0"
    using canonicalize_total [of ?c] by (auto simp: demo_live_env_def demo_crates_def)
  then have "mta_verify_signature ?c demo_client (as_bytes ''body'') raw = Inr ()" for raw
    by (simp add: mta_verify_signature_def canonical_json_eq demo_live_env_def)
  moreover have "env_http_get demo_live_env t url = Inr (as_bytes ''body'')" for t url
    by (simp add: demo_live_env_def)
  ultimately show ?thesis
    by (simp add: fetch_and_verify_def bindE_def io_simps demo_live_raw)
qed

theorem live_state_authentic_witness:
  "\<exists>st w'. fetch_and_verify demo_live_env demo_client demo_world = (Inr st, w')
     \<and> ms_regime_id st = 2 \<and> ms_max_notional_scale st = Finite (1 / 4)
     \<and> ms_allowed_sides st = [''short'', ''neutral''] \<and> ms_version st = ''unknown''"
proof -
  obtain st w' where run: "fetch_and_verify demo_live_env demo_client demo_world = (Inr st, w')"
    using demo_live_fetch by blast
  have fields: "response_field demo_body_json 0 = Some (JInt 2)" "response_field demo_body_json 2 = None"
    by (simp_all add: response_field_def demo_body_json_def json_obj_def raw_fields_def)
  have parse: "json_from_slice (env_crates demo_live_env) bs = Inr demo_body_json" for bs
    by (simp add: demo_live_env_def)
  from live_state_authentic [OF run] have "uint (ms_regime_id st) = 2"
    and version: "ms_version st = ''unknown''"
    by (auto simp: parse fields)
  then have regime: "ms_regime_id st = 2" by (metis word_of_int_numeral word_of_int_uint)
  with live_state_authentic [OF run] version show ?thesis using run by auto
qed

theorem served_state_fresh_witness:
  "\<exists>st w'. fetch_verified_live demo_env demo_client
      (demo_world\<lparr>w_mta_cache := Some (demo_mta (Finite 1) [], 0)\<rparr>) = (Inr st, w')
     \<and> ((\<exists>w1. fst (fetch_and_verify demo_env demo_client w1) = Inr st)
        \<or> st = demo_mta (Finite 1) [])"
proof -
  let ?w = "demo_world\<lparr>w_mta_cache := Some (demo_mta (Finite 1) [], 0)\<rparr>"
  obtain w' where run: "fetch_verified_live demo_env demo_client ?w = (Inr (demo_mta (Finite 1) []), w')"
    by (simp add: fetch_verified_live_def bindE_def io_simps elapsed_def demo_world_def demo_env_def
        CACHE_TTL_MS_def)
  from served_state_fresh [OF run] show ?thesis using run by auto
qed

theorem served_state_within_cap_witness:
  "\<exists>st w'. fetch_verified demo_env MockMta demo_world = (Inr st, w')
     \<and> check_constraints demo_crates st (Long (Finite 1)) (Finite 100) (Finite 1000) True = Inr ()
     \<and> f64_val (Finite 100) \<le> 1000"
proof -
  obtain st w' where run: "fetch_verified demo_env MockMta demo_world = (Inr st, w')"
    and scale: "ms_max_notional_scale st = Finite 1"
    by (simp add: fetch_verified_mock_def utc_now_ms_def bindE_def io_simps)
  have "f64_mul (Finite 1000) (Finite 1) = Finite 1000" by code_simp
  then have ok: "check_constraints demo_crates st (Long (Finite 1)) (Finite 100) (Finite 1000) True = Inr ()"
    using scale by (simp add: check_constraints_ok_iff)
  have "f64_wf (Finite 1000)" by code_simp
  moreover have "mta_cache_ok demo_world" by (simp add: mta_cache_ok_def demo_world_def)
  ultimately have "f64_val (Finite 100) \<le> 1000"
    using served_state_within_cap [OF _ run ok] by simp
  then show ?thesis using run ok by blast
qed

end
