(* ===== verification/Irl_Registry.thy ===== *)
theory Irl_Registry
  imports Irl_World
begin

text \<open>
  \<open>src/registry.rs\<close>: the multi-agent registry. Registration, status changes, the
  profile an authorization reads and the identity checks it makes.
\<close>

record agent_profile =
  ap_agent_id :: uuid
  ap_name :: string
  ap_model_hash_hex :: string
  ap_policy_module_id :: string
  ap_allowed_regimes :: "int list option"
  ap_max_notional :: f64
  ap_max_leverage :: f64
  ap_allowed_venues :: "string list option"
  ap_status :: string
  ap_allowed_mta_pubkeys :: "string list option"

record register_agent_request =
  rr_name :: string
  rr_model_hash_hex :: string
  rr_policy_module_id :: "string option"
  rr_allowed_regimes :: "int list option"
  rr_max_notional :: "f64 option"
  rr_max_leverage :: "f64 option"
  rr_allowed_venues :: "string list option"
  rr_allowed_mta_pubkeys :: "string list option"

record update_status_request =
  us_status :: string

definition profile_of_row :: "crates \<Rightarrow> agent_row \<Rightarrow> agent_profile" where
  "profile_of_row c r =
     \<lparr>ap_agent_id = ag_agent_id r, ap_name = ag_name r, ap_model_hash_hex = ag_model_hash_hex r,
      ap_policy_module_id = ag_policy_module_id r, ap_allowed_regimes = ag_allowed_regimes r,
      ap_max_notional = pg_float8 c (ag_max_notional r),
      ap_max_leverage = pg_float8 c (ag_max_leverage r),
      ap_allowed_venues = ag_allowed_venues r, ap_status = ag_status r,
      ap_allowed_mta_pubkeys = ag_allowed_mta_pubkeys r\<rparr>"

definition find_agent :: "uuid \<Rightarrow> database \<Rightarrow> agent_row option" where
  "find_agent a d = find (\<lambda>r. ag_agent_id r = a) (d_agents d)"

definition fetch_profile :: "env \<Rightarrow> uuid \<Rightarrow> agent_profile io" where
  "fetch_profile E a =
     bindE (sql_read E (\<lambda>now d. map_option (profile_of_row (env_crates E)) (find_agent a d))) (\<lambda>row.
     case row of
       None \<Rightarrow> fail (Policy AgentNotFound)
     | Some p \<Rightarrow> ret p)"

definition check_agent ::
  "crates \<Rightarrow> agent_profile \<Rightarrow> byte list \<Rightarrow> u8 \<Rightarrow> string \<Rightarrow> agent_profile res"
where
  "check_agent c profile observed_model_hash current_regime fingerprint =
     (if ap_status profile \<noteq> ''Active'' then Inl (Policy AgentNotActive)
      else
      res_bind (ok_or (Serialization ''Corrupted model_hash_hex in agent registry'')
                 (hex_decode c (ap_model_hash_hex profile))) (\<lambda>registered_hash.
      if registered_hash \<noteq> observed_model_hash then Inl (Policy ModelHashMismatch)
      else if (case ap_allowed_regimes profile of
                 None \<Rightarrow> False | Some allowed \<Rightarrow> uint current_regime \<notin> set allowed)
      then Inl (Policy (RegimeUnauthorized current_regime))
      else if (case ap_allowed_mta_pubkeys profile of
                 None \<Rightarrow> False | Some keys \<Rightarrow> \<not> list_ex (\<lambda>k. k = fingerprint) keys)
      then Inl (Policy (MtaPubkeyUnauthorized fingerprint))
      else Inr profile))"

definition authorize_agent ::
  "env \<Rightarrow> uuid \<Rightarrow> byte list \<Rightarrow> u8 \<Rightarrow> string \<Rightarrow> agent_profile io"
where
  "authorize_agent E a observed_model_hash current_regime fingerprint =
     bindE (fetch_profile E a) (\<lambda>profile.
     liftE (check_agent (env_crates E) profile observed_model_hash current_regime fingerprint))"

text \<open>\<open>INSERT ... RETURNING agent_id\<close>; the id, the status and the times are column defaults.\<close>

definition insert_agent :: "crates \<Rightarrow> uuid \<Rightarrow> register_agent_request \<Rightarrow> uuid stmt" where
  "insert_agent c a req now d =
     (case (pg_numeric c 20 8 (case rr_max_notional req of None \<Rightarrow> Finite 1000000 | Some n \<Rightarrow> n),
            pg_numeric c 8 4 (case rr_max_leverage req of None \<Rightarrow> Finite 4 | Some l \<Rightarrow> l)) of
        (Some notional, Some leverage) \<Rightarrow>
          if find_agent a d \<noteq> None then Inl ''duplicate key''
          else Inr (a, d\<lparr>d_agents := d_agents d @
            [\<lparr>ag_agent_id = a, ag_name = rr_name req, ag_model_hash_hex = rr_model_hash_hex req,
              ag_policy_module_id =
                (case rr_policy_module_id req of None \<Rightarrow> ''default'' | Some m \<Rightarrow> m),
              ag_allowed_regimes = rr_allowed_regimes req, ag_max_notional = notional,
              ag_max_leverage = leverage, ag_allowed_venues = rr_allowed_venues req,
              ag_status = ''Active'', ag_allowed_mta_pubkeys = rr_allowed_mta_pubkeys req,
              ag_registered_at = now, ag_updated_at = now\<rparr>]\<rparr>)
      | _ \<Rightarrow> Inl ''numeric field overflow'')"

definition register_agent :: "env \<Rightarrow> register_agent_request \<Rightarrow> uuid io" where
  "register_agent E req =
     bindE (effect (env_uuid E)) (\<lambda>a. sql E (insert_agent (env_crates E) a req))"

definition set_agent_status :: "uuid \<Rightarrow> string \<Rightarrow> string option stmt" where
  "set_agent_status a status now d =
     Inr (map_option ag_status (find_agent a d),
          d\<lparr>d_agents := map (\<lambda>r. if ag_agent_id r = a
                               then r\<lparr>ag_status := status, ag_updated_at := now\<rparr> else r) (d_agents d)\<rparr>)"

definition update_status :: "env \<Rightarrow> uuid \<Rightarrow> string \<Rightarrow> string option io" where
  "update_status E a status =
     bindE (sql E (set_agent_status a status)) (\<lambda>row.
     if row = None then fail (Policy AgentNotFound) else ret row)"

definition list_agents :: "env \<Rightarrow> agent_profile list io" where
  "list_agents E =
     sql_read E (\<lambda>now d. map (profile_of_row (env_crates E))
       (sort_key (\<lambda>r. - ag_registered_at r) (d_agents d)))"

section \<open>Facts\<close>

lemma find_agent_map:
  assumes "\<And>r. ag_agent_id (f r) = ag_agent_id r"
  shows "find (\<lambda>r. ag_agent_id r = a) (map f rs) = map_option f (find (\<lambda>r. ag_agent_id r = a) rs)"
  by (induction rs) (auto simp: assms)

lemma find_agent_append:
  "find (\<lambda>r. ag_agent_id r = a) (rs @ ss) =
     (case find (\<lambda>r. ag_agent_id r = a) rs of None \<Rightarrow> find (\<lambda>r. ag_agent_id r = a) ss | Some r \<Rightarrow> Some r)"
  by (induction rs) auto

lemma fetch_profile_ok_iff:
  "fetch_profile E a w = (Inr p, w') \<longleftrightarrow>
     env_db_fault E (w_tick w) = None
     \<and> (\<exists>r. find_agent a (w_db w) = Some r \<and> p = profile_of_row (env_crates E) r)
     \<and> w' = w\<lparr>w_tick := Suc (w_tick w)\<rparr>"
  by (auto simp: fetch_profile_def bindE_Inr_iff sql_read_ok_iff io_simps split: option.splits)

lemma authorize_agent_world: "snd (authorize_agent E a h g f w) = w\<lparr>w_tick := Suc (w_tick w)\<rparr>"
  by (auto simp: authorize_agent_def fetch_profile_def bindE_def sql_read_def sql_def Let_def
      liftE_def io_simps split: option.splits sum.splits)

lemma check_agent_ok_iff:
  "check_agent c p h g f = Inr q \<longleftrightarrow>
     q = p \<and> ap_status p = ''Active'' \<and> hex_decode c (ap_model_hash_hex p) = Some h
     \<and> (case ap_allowed_regimes p of None \<Rightarrow> True | Some allowed \<Rightarrow> uint g \<in> set allowed)
     \<and> (case ap_allowed_mta_pubkeys p of None \<Rightarrow> True | Some keys \<Rightarrow> f \<in> set keys)"
  by (auto simp: check_agent_def res_bind_Inr_iff list_ex_iff split: if_splits option.splits)

lemma authorize_agent_ok_iff:
  "authorize_agent E a h g f w = (Inr p, w') \<longleftrightarrow>
     env_db_fault E (w_tick w) = None
     \<and> (\<exists>r. find_agent a (w_db w) = Some r \<and> p = profile_of_row (env_crates E) r)
     \<and> w' = w\<lparr>w_tick := Suc (w_tick w)\<rparr>
     \<and> check_agent (env_crates E) p h g f = Inr p"
  by (auto simp: authorize_agent_def bindE_Inr_iff fetch_profile_ok_iff liftE_Inr_iff check_agent_ok_iff)

lemma authorize_agent_fst_iff:
  "fst (authorize_agent E a h g f w) = Inr p \<longleftrightarrow>
     env_db_fault E (w_tick w) = None
     \<and> (\<exists>r. find_agent a (w_db w) = Some r \<and> p = profile_of_row (env_crates E) r
          \<and> ag_status r = ''Active'' \<and> hex_decode (env_crates E) (ag_model_hash_hex r) = Some h
          \<and> (case ag_allowed_regimes r of None \<Rightarrow> True | Some gs \<Rightarrow> uint g \<in> set gs)
          \<and> (case ag_allowed_mta_pubkeys r of None \<Rightarrow> True | Some ks \<Rightarrow> f \<in> set ks))"
proof -
  have "fst (authorize_agent E a h g f w) = Inr p \<longleftrightarrow>
      authorize_agent E a h g f w = (Inr p, w\<lparr>w_tick := Suc (w_tick w)\<rparr>)"
    using authorize_agent_world [of E a h g f w] by (auto simp: prod_eq_iff)
  also have "\<dots> \<longleftrightarrow> env_db_fault E (w_tick w) = None
     \<and> (\<exists>r. find_agent a (w_db w) = Some r \<and> p = profile_of_row (env_crates E) r
          \<and> check_agent (env_crates E) (profile_of_row (env_crates E) r) h g f = Inr (profile_of_row (env_crates E) r))"
    unfolding authorize_agent_ok_iff by blast
  finally show ?thesis by (simp add: check_agent_ok_iff profile_of_row_def)
qed

lemma find_agent_id: "find_agent a d = Some r \<Longrightarrow> ag_agent_id r = a"
  by (auto simp: find_agent_def find_Some_iff)

section \<open>Properties\<close>

text \<open>C32: the registry admits an agent exactly when the database answers with a row for it
  that is Active, registers the model hash observed, and does not restrict the agent to other
  regimes or other anchor operators; the profile returned is that row's.\<close>

theorem authorize_agent_iff:
  "fst (authorize_agent E a h g f w) = Inr p \<longleftrightarrow>
     env_db_fault E (w_tick w) = None
     \<and> (\<exists>r. find_agent a (w_db w) = Some r \<and> p = profile_of_row (env_crates E) r
          \<and> ag_status r = ''Active'' \<and> hex_decode (env_crates E) (ag_model_hash_hex r) = Some h
          \<and> (case ag_allowed_regimes r of None \<Rightarrow> True | Some gs \<Rightarrow> uint g \<in> set gs)
          \<and> (case ag_allowed_mta_pubkeys r of None \<Rightarrow> True | Some ks \<Rightarrow> f \<in> set ks))"
  by (rule authorize_agent_fst_iff)

text \<open>Registration round trip. After a successful registration the profile of the new id
  is the requested one, Active, with the documented defaults; the rows of other agents are
  as before.\<close>

theorem register_fetch_roundtrip:
  assumes "register_agent E req w = (Inr a, w1)"
  shows "find_agent a (w_db w) = None
    \<and> (\<exists>r. find_agent a (w_db w1) = Some r \<and> ag_status r = ''Active'' \<and> ag_name r = rr_name req
          \<and> ag_model_hash_hex r = rr_model_hash_hex req
          \<and> ag_allowed_regimes r = rr_allowed_regimes req
          \<and> ag_allowed_mta_pubkeys r = rr_allowed_mta_pubkeys req
          \<and> Some (ag_max_notional r) = pg_numeric (env_crates E) 20 8
               (case rr_max_notional req of None \<Rightarrow> Finite 1000000 | Some n \<Rightarrow> n))
    \<and> (\<forall>b. b \<noteq> a \<longrightarrow> find_agent b (w_db w1) = find_agent b (w_db w))"
  using assms
  by (auto simp: register_agent_def bindE_def io_simps sql_ok_iff insert_agent_def find_agent_def
      find_agent_append split: option.splits if_splits)

text \<open>Suspension takes effect. After an agent's status is set to anything but Active, no
  authorization of that agent passes the registry, whatever it presents; other agents keep
  their rows.\<close>

theorem suspended_agent_refused:
  assumes "update_status E a status w = (Inr old, w1)" and "status \<noteq> ''Active''"
    and "w_db w2 = w_db w1"
  shows "\<not> is_ok (fst (authorize_agent E a h g f w2))
    \<and> (\<forall>b. b \<noteq> a \<longrightarrow> find_agent b (w_db w1) = find_agent b (w_db w))"
proof -
  let ?f = "\<lambda>now r. if ag_agent_id r = a then r\<lparr>ag_status := status, ag_updated_at := now\<rparr> else r"
  define now where "now = env_clock E (w_tick w)"
  have agents: "d_agents (w_db w1) = map (?f now) (d_agents (w_db w))"
    using assms(1) unfolding now_def
    by (auto simp: update_status_def bindE_Inr_iff sql_ok_iff set_agent_status_def io_simps split: if_splits)
  have lookup: "find_agent b (w_db w1) = map_option (?f now) (find_agent b (w_db w))" for b
    unfolding find_agent_def agents by (rule find_agent_map) simp
  have "ag_status r = status" if "find_agent a (w_db w1) = Some r" for r
    using that lookup [of a] by (auto simp: find_agent_id)
  then have "\<not> is_ok (fst (authorize_agent E a h g f w2))"
    using assms(2,3) by (auto simp: is_ok_iff authorize_agent_fst_iff)
  moreover have "find_agent b (w_db w1) = find_agent b (w_db w)" if "b \<noteq> a" for b
    using that lookup [of b] by (cases "find_agent b (w_db w)") (auto simp: find_agent_id)
  ultimately show ?thesis by blast
qed

definition demo_agent_request :: register_agent_request where
  "demo_agent_request =
     \<lparr>rr_name = ''alpha'', rr_model_hash_hex = replicate 64 (CHR ''0''), rr_policy_module_id = None,
      rr_allowed_regimes = None, rr_max_notional = None, rr_max_leverage = None,
      rr_allowed_venues = None, rr_allowed_mta_pubkeys = None\<rparr>"

lemma demo_register:
  "\<exists>w1. register_agent demo_env demo_agent_request demo_world = (Inr 100, w1)
     \<and> find_agent 100 (w_db w1) \<noteq> None"
  by (simp add: register_agent_def bindE_def io_simps sql_def insert_agent_def find_agent_def
      demo_world_def demo_db_def demo_env_def demo_crates_def demo_agent_request_def)

theorem register_fetch_roundtrip_witness:
  "\<exists>w1 r. register_agent demo_env demo_agent_request demo_world = (Inr 100, w1)
     \<and> find_agent 100 (w_db w1) = Some r \<and> ag_status r = ''Active'' \<and> ag_max_notional r = 1000000"
proof -
  obtain w1 where run: "register_agent demo_env demo_agent_request demo_world = (Inr 100, w1)"
    using demo_register by blast
  from register_fetch_roundtrip [OF run] show ?thesis using run
    by (auto simp: demo_agent_request_def demo_env_def demo_crates_def)
qed

theorem suspended_agent_refused_witness:
  "\<exists>w1 w2 old. register_agent demo_env demo_agent_request demo_world = (Inr 100, w1)
     \<and> update_status demo_env 100 ''Suspended'' w1 = (Inr old, w2)
     \<and> \<not> is_ok (fst (authorize_agent demo_env 100 (replicate 32 0) 0 ''00'' w2))"
proof -
  obtain w1 where reg: "register_agent demo_env demo_agent_request demo_world = (Inr 100, w1)"
    and "find_agent 100 (w_db w1) \<noteq> None"
    using demo_register by blast
  then obtain old w2 where upd: "update_status demo_env 100 ''Suspended'' w1 = (Inr old, w2)"
    by (simp add: update_status_def bindE_def io_simps sql_def set_agent_status_def demo_env_def)
  show ?thesis using suspended_agent_refused [OF upd _ refl] reg upd by auto
qed

end
