(* ===== verification/Irl_Heartbeat.thy ===== *)
theory Irl_Heartbeat
  imports Irl_World
begin

text \<open>
  \<open>src/heartbeat.rs\<close>: the signed payload, the validator with its per-agent sequence
  map, and the recovery of that map from the database at start-up.
\<close>

definition signed_payload :: "signed_heartbeat \<Rightarrow> byte list" where
  "signed_payload hb =
     u64_to_be_bytes (hb_sequence_id hb) @ u64_to_be_bytes (hb_timestamp_ms hb)
     @ [hb_regime_id hb] @ as_bytes (hb_mta_ref hb)"

text \<open>The fields of the validator other than the map, which is \<open>w_sequences\<close>.\<close>

record heartbeat_validator =
  hv_max_drift_ms :: u64
  hv_pubkey :: "byte list"

definition heartbeat_verify_signature ::
  "crates \<Rightarrow> heartbeat_validator \<Rightarrow> signed_heartbeat \<Rightarrow> unit res"
where
  "heartbeat_verify_signature c hv hb =
     (if length (hb_signature hb) = 64
         \<and> ed25519_verify c (hv_pubkey hv) (signed_payload hb) (hb_signature hb)
      then Inr () else Inl (Heartbeat InvalidSignature))"

text \<open>The upsert of \<open>irl.heartbeat_sequences\<close>: a present row only grows.\<close>

fun heartbeat_upsert :: "uuid \<Rightarrow> int \<Rightarrow> (uuid \<times> int) list \<Rightarrow> (uuid \<times> int) list" where
  "heartbeat_upsert a s [] = [(a, s)]"
| "heartbeat_upsert a s ((b, t) # rows) =
     (if a = b then (b, if t < s then s else t) # rows else (b, t) # heartbeat_upsert a s rows)"

definition heartbeat_validator_new :: "env \<Rightarrow> config \<Rightarrow> heartbeat_validator io" where
  "heartbeat_validator_new E cfg =
     bindE (attempt (sql_read E (\<lambda>now d. d_heartbeats d))) (\<lambda>r.
     bindE (modify (\<lambda>w. w\<lparr>w_sequences :=
              (case r of
                 Inl _ \<Rightarrow> (\<lambda>_. None)
               | Inr rows \<Rightarrow> fold (\<lambda>(a, s) m. m(a \<mapsto> i64_as_u64 s)) rows (\<lambda>_. None))\<rparr>)) (\<lambda>_.
     ret \<lparr>hv_max_drift_ms = cfg_max_heartbeat_drift_ms cfg, hv_pubkey = cfg_mta_pubkey cfg\<rparr>))"

definition last_sequence :: "world \<Rightarrow> uuid \<Rightarrow> u64" where
  "last_sequence w a = (case w_sequences w a of None \<Rightarrow> 0 | Some s \<Rightarrow> s)"

definition drift_too_large :: "int \<Rightarrow> u64 \<Rightarrow> bool" where
  "drift_too_large drift max_ms \<longleftrightarrow> drift < 0 \<or> max_ms < i64_as_u64 drift"

definition validate ::
  "env \<Rightarrow> heartbeat_validator \<Rightarrow> signed_heartbeat \<Rightarrow> uuid \<Rightarrow> config \<Rightarrow> bool \<Rightarrow> int io"
where
  "validate E hv hb agent cfg with_pool =
     bindE (liftE (heartbeat_verify_signature (env_crates E) hv hb)) (\<lambda>_.
     bindE (gets (\<lambda>w. last_sequence w agent)) (\<lambda>lst.
     if hb_sequence_id hb \<le> lst then fail (Heartbeat (StaleSequence (hb_sequence_id hb) lst))
     else
     bindE (now_ms E cfg) (\<lambda>current_ms.
     let drift = i64_wrap (current_ms - u64_as_i64 (hb_timestamp_ms hb)) in
     if drift_too_large drift (hv_max_drift_ms hv)
     then fail (Heartbeat (LatencyThresholdExceeded (word_of_int \<bar>drift\<bar>) (hv_max_drift_ms hv)))
     else
     bindE (modify (\<lambda>w. w\<lparr>w_sequences := (w_sequences w)(agent \<mapsto> hb_sequence_id hb)\<rparr>)) (\<lambda>_.
     bindE (if with_pool
            then attempt (sql E (\<lambda>now d. Inr ((), d\<lparr>d_heartbeats :=
                    heartbeat_upsert agent (u64_as_i64 (hb_sequence_id hb)) (d_heartbeats d)\<rparr>)))
            else ret (Inr ())) (\<lambda>_.
     ret drift)))))"

section \<open>Facts\<close>

lemma map_of_heartbeat_upsert:
  "map_of (heartbeat_upsert a s rows) b =
     (if b = a then Some (case map_of rows a of None \<Rightarrow> s | Some t \<Rightarrow> max s t) else map_of rows b)"
  by (induction a s rows rule: heartbeat_upsert.induct) (auto simp: max_def)

lemma keys_heartbeat_upsert:
  "distinct (map fst rows) \<Longrightarrow> distinct (map fst (heartbeat_upsert a s rows))"
proof -
  have keys: "set (map fst (heartbeat_upsert a s rows)) = insert a (set (map fst rows))" for a s rows
    by (induction a s rows rule: heartbeat_upsert.induct) auto
  show "distinct (map fst rows) \<Longrightarrow> distinct (map fst (heartbeat_upsert a s rows))"
  proof (induction a s rows rule: heartbeat_upsert.induct)
    case (2 a s b t rows)
    have "set (map fst (heartbeat_upsert a s rows)) = insert a (set (map fst rows))" by (rule keys)
    then show ?case using 2 by auto
  qed simp
qed

lemma fold_sequences:
  "distinct (map fst rows) \<Longrightarrow>
     fold (\<lambda>(a, s) m. m(a \<mapsto> f s)) rows m0 a = (case map_of rows a of None \<Rightarrow> m0 a | Some s \<Rightarrow> Some (f s))"
proof (induction rows arbitrary: m0)
  case Nil
  then show ?case by simp
next
  case (Cons r rows)
  obtain b s where r: "r = (b, s)" by force
  have "b \<notin> set (map fst rows)" using Cons.prems r by simp
  then have "b = a \<Longrightarrow> map_of rows a = None" by (auto simp: map_of_eq_None_iff)
  then show ?case using Cons r by (auto split: option.splits)
qed

text \<open>A run of the validator on a heartbeat, by the outcome of its three checks.\<close>

lemma validate_cases:
  "validate E hv hb a cfg p w =
     (if heartbeat_verify_signature (env_crates E) hv hb \<noteq> Inr ()
      then (Inl (App (Heartbeat InvalidSignature)), w)
      else if hb_sequence_id hb \<le> last_sequence w a
      then (Inl (App (Heartbeat (StaleSequence (hb_sequence_id hb) (last_sequence w a)))), w)
      else
        let drift = i64_wrap (env_clock E (w_tick w) div 1000 - u64_as_i64 (hb_timestamp_ms hb));
            w1 = w\<lparr>w_tick := Suc (w_tick w)\<rparr>;
            w2 = w1\<lparr>w_sequences := (w_sequences w)(a \<mapsto> hb_sequence_id hb)\<rparr>
        in if drift_too_large drift (hv_max_drift_ms hv)
           then (Inl (App (Heartbeat (LatencyThresholdExceeded (word_of_int \<bar>drift\<bar>) (hv_max_drift_ms hv)))), w1)
           else (Inr drift,
             if \<not> p then w2
             else w2\<lparr>w_tick := Suc (Suc (w_tick w)),
                     w_db := (if env_db_fault E (Suc (w_tick w)) = None
                              then (w_db w)\<lparr>d_heartbeats := heartbeat_upsert a
                                     (u64_as_i64 (hb_sequence_id hb)) (d_heartbeats (w_db w))\<rparr>
                              else w_db w)\<rparr>))"
  by (auto simp: validate_def heartbeat_verify_signature_def bindE_def io_simps attempt_def sql_def
      Let_def split: option.splits)

lemma validate_Inr_sequences:
  assumes "is_ok (fst (validate E hv hb a cfg p w))"
  shows "last_sequence w a < hb_sequence_id hb
    \<and> w_sequences (snd (validate E hv hb a cfg p w)) = (w_sequences w)(a \<mapsto> hb_sequence_id hb)"
  using assms by (auto simp: validate_cases Let_def split: if_splits)

lemma validate_Inl_sequences:
  "\<not> is_ok (fst (validate E hv hb a cfg p w)) \<Longrightarrow>
     w_sequences (snd (validate E hv hb a cfg p w)) = w_sequences w"
  by (auto simp: validate_cases Let_def split: if_splits)

text \<open>The validator is a watermark over the sequence numbers of each agent.\<close>

definition heartbeat_step ::
  "env \<Rightarrow> heartbeat_validator \<Rightarrow> config \<Rightarrow> bool \<Rightarrow> signed_heartbeat \<times> uuid \<Rightarrow> world
     \<Rightarrow> (app_error failure + int) \<times> world"
where
  "heartbeat_step E hv cfg p e w = validate E hv (fst e) (snd e) cfg p w"

interpretation hb_mark: watermark
  "heartbeat_step E hv cfg p" is_ok snd "\<lambda>e. hb_sequence_id (fst e)" last_sequence
  for E hv cfg p
proof
  fix e w
  assume acc: "is_ok (fst (heartbeat_step E hv cfg p e w))"
  show "last_sequence w (snd e) < hb_sequence_id (fst e)"
    using acc validate_Inr_sequences by (auto simp: heartbeat_step_def)
  show "last_sequence (snd (heartbeat_step E hv cfg p e w))
      = (last_sequence w)(snd e := hb_sequence_id (fst e))"
    using acc validate_Inr_sequences
    by (auto simp: heartbeat_step_def last_sequence_def fun_eq_iff)
next
  fix e w
  assume "\<not> is_ok (fst (heartbeat_step E hv cfg p e w))"
  then show "last_sequence (snd (heartbeat_step E hv cfg p e w)) = last_sequence w"
    using validate_Inl_sequences by (auto simp: heartbeat_step_def last_sequence_def fun_eq_iff)
qed

section \<open>Properties\<close>


text \<open>C25: a heartbeat is accepted exactly when it carries a 64-byte signature that verifies,
  its sequence number is above the agent's last accepted one, and its age at the server's
  clock is between 0 and the configured maximum; the result is that age.\<close>

theorem validate_accepts_iff:
  "fst (validate E hv hb a cfg p w) = Inr drift \<longleftrightarrow>
     length (hb_signature hb) = 64
     \<and> ed25519_verify (env_crates E) (hv_pubkey hv) (signed_payload hb) (hb_signature hb)
     \<and> last_sequence w a < hb_sequence_id hb
     \<and> drift = i64_wrap (env_clock E (w_tick w) div 1000 - u64_as_i64 (hb_timestamp_ms hb))
     \<and> 0 \<le> drift \<and> i64_as_u64 drift \<le> hv_max_drift_ms hv"
  by (auto simp: validate_cases heartbeat_verify_signature_def drift_too_large_def Let_def not_less
      linorder_not_le)

text \<open>C7: no replay. In every sequence of validations, of any agents, the sequence numbers
  accepted for one agent are strictly increasing.\<close>

theorem accepted_sequences_increase:
  "sorted_wrt (<) (map (\<lambda>(e, out). hb_sequence_id (fst e))
     (filter (\<lambda>(e, out). snd e = a \<and> is_ok out)
        (fst (run_log (heartbeat_step E hv cfg p) es w))))"
  by (rule hb_mark.accepted_increasing)

text \<open>
  The rows of \<open>irl.heartbeat_sequences\<close>: one per agent, each a \<open>BIGINT\<close>. A row that holds
  at least \<open>s\<close> for an agent keeps doing so through every later validation.
\<close>

definition sequence_rows_ok :: "(uuid \<times> int) list \<Rightarrow> bool" where
  "sequence_rows_ok rows \<longleftrightarrow> distinct (map fst rows) \<and> (\<forall>b t. map_of rows b = Some t \<longrightarrow> t \<le> i64_max)"

definition persisted_above :: "uuid \<Rightarrow> int \<Rightarrow> world \<Rightarrow> bool" where
  "persisted_above a s w \<longleftrightarrow> sequence_rows_ok (d_heartbeats (w_db w))
     \<and> (\<exists>t. map_of (d_heartbeats (w_db w)) a = Some t \<and> s \<le> t)"

lemma u64_as_i64_le: "u64_as_i64 s \<le> i64_max"
  using sint_less [of s] by (simp add: u64_as_i64_def i64_max_def)

lemma sequence_rows_upsert:
  "sequence_rows_ok rows \<Longrightarrow> sequence_rows_ok (heartbeat_upsert a (u64_as_i64 s) rows)"
  using u64_as_i64_le [of s]
  by (auto simp: sequence_rows_ok_def keys_heartbeat_upsert map_of_heartbeat_upsert split: option.splits if_splits)

lemma persisted_upsert:
  assumes "persisted_above a s w"
    and "d_heartbeats (w_db w') = heartbeat_upsert b (u64_as_i64 t) (d_heartbeats (w_db w))"
  shows "persisted_above a s w'"
  using assms sequence_rows_upsert
  by (auto simp: persisted_above_def map_of_heartbeat_upsert split: option.splits)

lemma validate_heartbeats:
  "d_heartbeats (w_db (snd (validate E hv hb b cfg p w))) = d_heartbeats (w_db w)
   \<or> d_heartbeats (w_db (snd (validate E hv hb b cfg p w)))
       = heartbeat_upsert b (u64_as_i64 (hb_sequence_id hb)) (d_heartbeats (w_db w))"
  by (auto simp: validate_cases Let_def)

interpretation hb_rows: step_invariant "heartbeat_step E hv cfg p" "persisted_above a s" for E hv cfg p a s
proof
  fix e w
  assume inv: "persisted_above a s w"
  from validate_heartbeats [of E hv "fst e" "snd e" cfg p w]
  show "persisted_above a s (snd (heartbeat_step E hv cfg p e w))"
    unfolding heartbeat_step_def
  proof
    assume "d_heartbeats (w_db (snd (validate E hv (fst e) (snd e) cfg p w))) = d_heartbeats (w_db w)"
    then show "persisted_above a s (snd (validate E hv (fst e) (snd e) cfg p w))"
      using inv by (simp add: persisted_above_def)
  qed (rule persisted_upsert [OF inv])
qed

lemma rows_restore:
  assumes "sequence_rows_ok rows" and "map_of rows a = Some t" and "int (unat s) \<le> t"
  shows "\<exists>u. fold (\<lambda>(b, v) m. m(b \<mapsto> i64_as_u64 v)) rows (\<lambda>_. None) a = Some u \<and> s \<le> u"
proof -
  have "t \<le> i64_max" using assms(1,2) by (auto simp: sequence_rows_ok_def)
  moreover have "0 \<le> t" using assms(3) by linarith
  ultimately have "uint (i64_as_u64 t) = t"
    by (simp add: i64_as_u64_def i64_max_def uint_word_of_int mod_pos_pos_trivial)
  then have "s \<le> i64_as_u64 t"
    using assms(3) by (simp add: word_le_def uint_nat [symmetric] del: of_nat_unat)
  then show ?thesis
    using fold_sequences [where rows = rows and f = i64_as_u64 and ?m0.0 = "\<lambda>_. None"] assms(1,2)
    by (auto simp: sequence_rows_ok_def)
qed

lemma validator_new_sequences:
  assumes "heartbeat_validator_new E cfg w = (Inr hv, w')" and "env_db_fault E (w_tick w) = None"
  shows "w_sequences w' = fold (\<lambda>(b, v) m. m(b \<mapsto> i64_as_u64 v)) (d_heartbeats (w_db w)) (\<lambda>_. None)"
  using assms
  by (auto simp: heartbeat_validator_new_def bindE_def attempt_def io_simps sql_read_def sql_def Let_def)

lemma validate_persists:
  assumes "validate E hv hb a cfg True w = (Inr drift, w')" and "env_db_fault E (Suc (w_tick w)) = None"
  shows "d_heartbeats (w_db w') =
    heartbeat_upsert a (u64_as_i64 (hb_sequence_id hb)) (d_heartbeats (w_db w))"
  using assms by (auto simp: validate_cases Let_def split: if_splits)

definition demo_validator :: heartbeat_validator where
  "demo_validator = \<lparr>hv_max_drift_ms = 200, hv_pubkey = replicate 32 0\<rparr>"

definition demo_heartbeat :: "u64 \<Rightarrow> signed_heartbeat" where
  "demo_heartbeat s =
     \<lparr>hb_sequence_id = s, hb_timestamp_ms = 1000000, hb_regime_id = 0, hb_mta_ref = [],
      hb_signature = u64_to_be_bytes s @ replicate 56 0\<rparr>"

lemma demo_heartbeat_signature:
  "heartbeat_verify_signature (env_crates demo_env) demo_validator (demo_heartbeat s) = Inr ()"
  by (simp add: heartbeat_verify_signature_def demo_heartbeat_def demo_env_def demo_crates_def
      signed_payload_def)

lemma demo_validate:
  assumes "last_sequence w a < s" and "w_tick w = 0"
  shows "validate demo_env demo_validator (demo_heartbeat s) a cfg True w =
    (Inr 0, w\<lparr>w_sequences := (w_sequences w)(a \<mapsto> s), w_tick := 2,
      w_db := (w_db w)\<lparr>d_heartbeats := heartbeat_upsert a (u64_as_i64 s) (d_heartbeats (w_db w))\<rparr>\<rparr>)"
proof -
  have "u64_as_i64 1000000 = 1000000"
    using u64_as_i64_small [of 1000000] by simp
  then have drift: "i64_wrap (env_clock demo_env 0 div 1000 - u64_as_i64 (hb_timestamp_ms (demo_heartbeat s))) = 0"
    by (simp add: demo_env_def demo_heartbeat_def i64_wrap_def)
  have seq: "hb_sequence_id (demo_heartbeat s) = s" by (simp add: demo_heartbeat_def)
  have small: "\<not> drift_too_large 0 (hv_max_drift_ms demo_validator)"
    by (simp add: drift_too_large_def demo_validator_def i64_as_u64_def)
  have fault: "env_db_fault demo_env t = None" for t by (simp add: demo_env_def)
  show ?thesis
    using assms
    by (simp add: validate_cases demo_heartbeat_signature Let_def drift seq small fault not_le numeral_2_eq_2)
qed

lemma validator_new_total: "\<exists>hv w'. heartbeat_validator_new E cfg w = (Inr hv, w')"
  by (auto simp: heartbeat_validator_new_def bindE_def attempt_def io_simps sql_read_def sql_def Let_def
      split: option.splits)

lemma validate_persisted:
  assumes "validate E hv hb a cfg True w = (Inr drift, w')" and "env_db_fault E (Suc (w_tick w)) = None"
    and "sequence_rows_ok (d_heartbeats (w_db w))"
  shows "persisted_above a (u64_as_i64 (hb_sequence_id hb)) w'"
  using validate_persists [OF assms(1,2)] assms(3) sequence_rows_upsert
  by (auto simp: persisted_above_def map_of_heartbeat_upsert split: option.splits)

text \<open>C26: anti-replay survives a restart. Once a heartbeat with a sequence number below
  \<open>2^63\<close> was accepted and its row written, any further heartbeats of any agents may follow,
  persisted or not; a validator started later on the rows they leave, whose load of the rows
  does not fail, rejects that sequence number and every smaller one for the agent.\<close>

theorem restart_rejects_replay:
  assumes "validate E hv hb a cfg True w = (Inr drift, w1)"
    and "env_db_fault E (Suc (w_tick w)) = None" and "unat (hb_sequence_id hb) < 2 ^ 63"
    and "sequence_rows_ok (d_heartbeats (w_db w))"
    and "d_heartbeats (w_db w2) = d_heartbeats (w_db (snd (run_log (heartbeat_step E hv cfg p) es w1)))"
    and "heartbeat_validator_new E cfg' w2 = (Inr hv', w3)" and "env_db_fault E (w_tick w2) = None"
    and "hb_sequence_id hb' \<le> hb_sequence_id hb"
  shows "\<not> is_ok (fst (validate E hv' hb' a cfg'' p' w3))"
proof -
  have "persisted_above a (int (unat (hb_sequence_id hb))) (snd (run_log (heartbeat_step E hv cfg p) es w1))"
    using hb_rows.run_inv [OF validate_persisted [OF assms(1,2,4)]] u64_as_i64_small [OF assms(3)] by simp
  then obtain t where "sequence_rows_ok (d_heartbeats (w_db w2))" "map_of (d_heartbeats (w_db w2)) a = Some t"
      "int (unat (hb_sequence_id hb)) \<le> t"
    using assms(5) by (auto simp: persisted_above_def)
  from rows_restore [OF this] obtain u where "w_sequences w3 a = Some u" "hb_sequence_id hb \<le> u"
    using validator_new_sequences [OF assms(6,7)] by auto
  then have "hb_sequence_id hb' \<le> last_sequence w3 a"
    using assms(8) by (simp add: last_sequence_def)
  then show ?thesis by (simp add: validate_cases)
qed

theorem restart_rejects_replay_witness:
  "\<exists>w1 w2 hv w3. validate demo_env demo_validator (demo_heartbeat 5) 7 demo_config True demo_world = (Inr 0, w1)
     \<and> w2 = snd (run_log (heartbeat_step demo_env demo_validator demo_config True) [(demo_heartbeat 9, 8)] w1)
     \<and> heartbeat_validator_new demo_env demo_config w2 = (Inr hv, w3)
     \<and> \<not> is_ok (fst (validate demo_env hv (demo_heartbeat 5) 7 demo_config True w3))"
proof -
  have seq: "last_sequence demo_world 7 < 5" by (simp add: last_sequence_def demo_world_def)
  obtain w1 where run: "validate demo_env demo_validator (demo_heartbeat 5) 7 demo_config True demo_world = (Inr 0, w1)"
    using demo_validate [OF seq] by (simp add: demo_world_def)
  let ?w2 = "snd (run_log (heartbeat_step demo_env demo_validator demo_config True) [(demo_heartbeat 9, 8)] w1)"
  obtain hv w3 where new: "heartbeat_validator_new demo_env demo_config ?w2 = (Inr hv, w3)"
    using validator_new_total by blast
  have "\<not> is_ok (fst (validate demo_env hv (demo_heartbeat 5) 7 demo_config True w3))"
    by (rule restart_rejects_replay [OF run _ _ _ refl new])
      (simp_all add: demo_env_def demo_heartbeat_def demo_world_def demo_db_def sequence_rows_ok_def)
  then show ?thesis using run new by blast
qed

text \<open>The load of the rows may fail: the validator then starts with an empty map, and a heartbeat
  that was accepted before the restart, and is still fresh, is accepted again.\<close>

theorem failed_load_accepts_replay:
  assumes "heartbeat_validator_new E cfg w2 = (Inr hv, w3)" and "env_db_fault E (w_tick w2) = Some msg"
    and "heartbeat_verify_signature (env_crates E) hv hb = Inr ()" and "0 < hb_sequence_id hb"
    and "\<not> drift_too_large (i64_wrap (env_clock E (w_tick w3) div 1000 - u64_as_i64 (hb_timestamp_ms hb)))
          (hv_max_drift_ms hv)"
  shows "is_ok (fst (validate E hv hb a cfg' p w3))"
proof -
  have "w_sequences w3 = (\<lambda>_. None)"
    using assms(1,2)
    by (auto simp: heartbeat_validator_new_def bindE_def attempt_def io_simps sql_read_def sql_def Let_def)
  then show ?thesis using assms(3-5) by (simp add: validate_cases last_sequence_def Let_def not_le)
qed

text \<open>sequence numbers from \<open>2^63\<close> on are stored as negative numbers, which never
  replace a non-negative row: after a restart the agent's watermark is the old row, below
  the accepted sequence number, so the same heartbeat can be accepted again.\<close>

theorem large_sequence_forgotten:
  assumes "validate E hv hb a cfg True w = (Inr drift, w1)"
    and "env_db_fault E (Suc (w_tick w)) = None" and "2 ^ 63 \<le> unat (hb_sequence_id hb)"
    and "distinct (map fst (d_heartbeats (w_db w)))"
    and "map_of (d_heartbeats (w_db w)) a = Some t" and "0 \<le> t" and "t \<le> i64_max"
    and "heartbeat_validator_new E cfg w1 = (Inr hv', w2)" and "env_db_fault E (w_tick w1) = None"
  shows "last_sequence w2 a = i64_as_u64 t \<and> last_sequence w2 a < hb_sequence_id hb"
proof -
  let ?s = "hb_sequence_id hb"
  have big: "2 ^ 63 \<le> uint ?s"
    using assms(3) by (metis of_nat_le_iff of_nat_numeral of_nat_power uint_nat)
  have "sint ?s < 0"
  proof (rule ccontr)
    assume "\<not> sint ?s < 0"
    moreover have "sint ?s < 2 ^ 63" using sint_less [of ?s] by simp
    ultimately have "uint ?s = sint ?s"
      using uint_sint [of ?s] by (simp add: take_bit_int_eq_self)
    then show False using big \<open>sint ?s < 2 ^ 63\<close> by simp
  qed
  then have "u64_as_i64 ?s < 0" by (simp add: u64_as_i64_def)
  then have "map_of (heartbeat_upsert a (u64_as_i64 ?s) (d_heartbeats (w_db w))) a = Some t"
    using assms(5,6) by (simp add: map_of_heartbeat_upsert)
  then have "w_sequences w2 a = Some (i64_as_u64 t)"
    using validator_new_sequences [OF assms(8,9)] validate_persists [OF assms(1,2)]
      fold_sequences [OF keys_heartbeat_upsert [OF assms(4)], where f = i64_as_u64 and ?m0.0 = "\<lambda>_. None"]
    by simp
  moreover have "uint (i64_as_u64 t) = t"
    using assms(6,7) by (simp add: i64_as_u64_def i64_max_def uint_word_of_int mod_pos_pos_trivial)
  ultimately show ?thesis
    using big assms(7) by (simp add: last_sequence_def word_less_def i64_max_def)
qed

theorem large_sequence_forgotten_witness:
  "\<exists>w1 hv w2. validate demo_env demo_validator (demo_heartbeat (2 ^ 63)) 7 demo_config True
       (demo_world\<lparr>w_db := demo_db\<lparr>d_heartbeats := [(7, 4)]\<rparr>\<rparr>) = (Inr 0, w1)
     \<and> heartbeat_validator_new demo_env demo_config w1 = (Inr hv, w2)
     \<and> last_sequence w2 7 = i64_as_u64 4 \<and> last_sequence w2 7 < hb_sequence_id (demo_heartbeat (2 ^ 63))"
proof -
  let ?w = "demo_world\<lparr>w_db := demo_db\<lparr>d_heartbeats := [(7, 4)]\<rparr>\<rparr>"
  have seq: "last_sequence ?w 7 < 2 ^ 63" by (simp add: last_sequence_def demo_world_def)
  obtain w1 where run: "validate demo_env demo_validator (demo_heartbeat (2 ^ 63)) 7 demo_config True ?w = (Inr 0, w1)"
    using demo_validate [OF seq, of demo_config] by (simp add: demo_world_def)
  obtain hv w2 where new: "heartbeat_validator_new demo_env demo_config w1 = (Inr hv, w2)"
    using validator_new_total by blast
  have "last_sequence w2 7 = i64_as_u64 4 \<and> last_sequence w2 7 < hb_sequence_id (demo_heartbeat (2 ^ 63))"
    by (rule large_sequence_forgotten [OF run _ _ _ _ _ _ new])
      (simp_all add: demo_env_def demo_heartbeat_def demo_world_def i64_max_def)
  then show ?thesis using run new by blast
qed

end
