(* ===== verification/Irl_Authorize.thy ===== *)
theory Irl_Authorize
  imports Irl_Db Irl_Mta Irl_Registry Irl_Heartbeat
begin

text \<open>
  \<open>src/routes/authorize.rs\<close> with the \<open>AppState\<close> of \<open>src/lib.rs\<close>: the authorization
  handler, in the stages of the source, and what it guarantees of the traces it
  stores.
\<close>

text \<open>
  The parts of \<open>AppState\<close> that handlers read: the tables and caches are in the
  world. \<open>st_aliases\<close> is the global alias map of \<open>src/asset.rs\<close>.
\<close>

record app_state =
  st_config :: config
  st_has_readonly :: bool
  st_validator :: heartbeat_validator
  st_mta_client :: mta_client
  st_key_provider :: "key_provider option"
  st_cert_expiry_not_after :: "int option"
  st_aliases :: alias_map

fun show_time_source :: "time_source \<Rightarrow> string" where
  "show_time_source System = ''System''"
| "show_time_source NtpSynced = ''NtpSynced''"

text \<open>\<open>timestamp_millis_opt(ms).single().unwrap_or_default()\<close>: the epoch when out of range.\<close>

definition datetime_or_default :: "crates \<Rightarrow> int \<Rightarrow> int" where
  "datetime_or_default c ms = (case timestamp_millis c ms of None \<Rightarrow> 0 | Some t \<Rightarrow> t)"

definition build_trace ::
  "crates \<Rightarrow> cognitive_snapshot \<Rightarrow> mta_state \<Rightarrow> int \<Rightarrow> policy_decision \<Rightarrow> string \<Rightarrow> config \<Rightarrow> uuid
     \<Rightarrow> regulatory_block option \<Rightarrow> reasoning_trace"
where
  "build_trace c snap mta drift_ms decision reasoning_hash cfg agent_id regulatory =
     \<lparr>rt_trace_id = cs_trace_id snap,
      rt_version = ''1.0.0'',
      rt_bitemporal =
        \<lparr>bt_valid_time = datetime_or_default c (cs_valid_time snap),
         bt_txn_time = datetime_or_default c (cs_txn_time snap),
         bt_time_source = show_time_source (cfg_time_source cfg)\<rparr>,
      rt_mta =
        \<lparr>mb_regime_id = ms_regime_id mta, mb_regime_label = ms_regime_label mta,
         mb_risk_level = ms_risk_level mta, mb_max_notional_scale = ms_max_notional_scale mta,
         mb_allowed_sides = ms_allowed_sides mta, mb_version = ms_version mta,
         mb_hash = ms_hash mta, mb_signature_valid = True\<rparr>,
      rt_agent =
        \<lparr>ab_agent_id = agent_id, ab_latent_fingerprint = cs_latent_fingerprint snap,
         ab_feature_schema_id = cs_feature_schema_id snap\<rparr>,
      rt_execution =
        (let ex = cs_execution snap in
         \<lparr>eb_action = show_trade_action c (ei_action ex), eb_asset = ei_asset ex,
          eb_order_type = show_order_type (ei_order_type ex), eb_venue_id = ei_venue_id ex,
          eb_quantity = ei_quantity ex, eb_notional = ei_notional ex,
          eb_notional_currency = ei_notional_currency ex, eb_multiplier = ei_multiplier ex,
          eb_limit_price = ei_limit_price ex, eb_stop_price = ei_stop_price ex,
          eb_client_order_id = ei_client_order_id ex\<rparr>),
      rt_heartbeat =
        \<lparr>hbb_sequence_id = hb_sequence_id (cs_heartbeat snap), hbb_signature_valid = True,
         hbb_drift_ms = drift_ms\<rparr>,
      rt_policy =
        \<lparr>pb_id = pd_policy_id decision, pb_version = pd_policy_version decision,
         pb_hash = pd_policy_hash decision, pb_result = show_policy_result (pd_result decision)\<rparr>,
      rt_integrity =
        \<lparr>ib_reasoning_hash = reasoning_hash, ib_final_proof = None,
         ib_verification_status = ''PENDING'', ib_execution_status = None\<rparr>,
      rt_regulatory = regulatory\<rparr>"

section \<open>The handler\<close>

text \<open>Stage 0: the client certificate, when one was presented, names the agent.\<close>

definition check_client_cert :: "crates \<Rightarrow> string option \<Rightarrow> authorize_request \<Rightarrow> unit res" where
  "check_client_cert c cert_cn req =
     (case cert_cn of
        None \<Rightarrow> Inr ()
      | Some cn \<Rightarrow> if cn \<noteq> uuid_to_string c (ar_agent_id req) then Inl Forbidden else Inr ())"

text \<open>Stage 1: the heartbeat and its drift.\<close>

definition heartbeat_stage :: "env \<Rightarrow> app_state \<Rightarrow> authorize_request \<Rightarrow> (signed_heartbeat \<times> int) io" where
  "heartbeat_stage E st req =
     (let cfg = st_config st in
      bindE (case ar_heartbeat req of
               Some hb \<Rightarrow> ret hb
             | None \<Rightarrow>
                 if cfg_layer2_enabled cfg then fail (Heartbeat Missing)
                 else ret \<lparr>hb_sequence_id = 0, hb_timestamp_ms = i64_as_u64 (ar_agent_valid_time req),
                           hb_regime_id = 0, hb_mta_ref = [], hb_signature = []\<rparr>) (\<lambda>heartbeat.
      bindE (if cfg_layer2_enabled cfg
             then validate E (st_validator st) heartbeat (ar_agent_id req) cfg True
             else ret 0) (\<lambda>drift_ms.
      ret (heartbeat, drift_ms))))"

text \<open>Stage 2: the regime, and the heartbeat's reference to it.\<close>

definition mta_stage :: "env \<Rightarrow> app_state \<Rightarrow> signed_heartbeat \<Rightarrow> mta_state io" where
  "mta_stage E st heartbeat =
     bindE (fetch_verified E (st_mta_client st)) (\<lambda>mta.
     if cfg_layer2_enabled (st_config st) \<and> hb_mta_ref heartbeat \<noteq> [] \<and> hb_mta_ref heartbeat \<noteq> ms_hash mta
     then fail (Heartbeat (MtaRefMismatch (hb_mta_ref heartbeat) (ms_hash mta)))
     else ret mta)"

text \<open>Stage 3: the intent, and the agent's identity.\<close>

definition request_action :: "authorize_request \<Rightarrow> trade_action" where
  "request_action req =
     (case ar_action req of
        Long _ \<Rightarrow> Long (ar_quantity req)
      | Short _ \<Rightarrow> Short (ar_quantity req)
      | Neutral \<Rightarrow> Neutral
      | Custom s \<Rightarrow> Custom s)"

definition request_intent :: "authorize_request \<Rightarrow> execution_intent" where
  "request_intent req =
     \<lparr>ei_action = request_action req, ei_asset = ar_asset req, ei_order_type = ar_order_type req,
      ei_venue_id = ar_venue_id req, ei_quantity = ar_quantity req, ei_notional = ar_notional req,
      ei_notional_currency = ar_notional_currency req, ei_multiplier = ar_multiplier req,
      ei_limit_price = ar_limit_price req, ei_stop_price = ar_stop_price req,
      ei_client_order_id = ar_client_order_id req\<rparr>"

definition registry_stage :: "env \<Rightarrow> authorize_request \<Rightarrow> mta_state \<Rightarrow> agent_profile io" where
  "registry_stage E req mta =
     bindE (liftE (ok_or (Policy ModelHashMismatch)
              (hex_decode (env_crates E) (ar_model_hash_hex req)))) (\<lambda>model_hash.
     if length model_hash \<noteq> 32 then fail (Policy ModelHashMismatch)
     else authorize_agent E (ar_agent_id req) model_hash (ms_regime_id mta) (ms_pubkey_fingerprint mta))"

text \<open>Stage 4: the snapshot, which must respect bitemporality.\<close>

definition snapshot_stage ::
  "env \<Rightarrow> app_state \<Rightarrow> authorize_request \<Rightarrow> mta_state \<Rightarrow> signed_heartbeat \<Rightarrow> cognitive_snapshot io"
where
  "snapshot_stage E st req mta heartbeat =
     bindE (now_ms E (st_config st)) (\<lambda>txn_time.
     bindE (effect (env_uuid E)) (\<lambda>trace_id.
     let snap = \<lparr>cs_trace_id = trace_id, cs_mta_regime_id = ms_regime_id mta,
                 cs_mta_version = ms_version mta, cs_mta_hash = ms_hash mta,
                 cs_latent_fingerprint = compute_latent_fingerprint (env_crates E) (ar_model_id req)
                   (ar_prompt_version req) (ar_feature_schema_id req) (ar_hyperparameter_checksum req),
                 cs_feature_schema_id = ar_feature_schema_id req, cs_execution = request_intent req,
                 cs_valid_time = ar_agent_valid_time req, cs_txn_time = txn_time,
                 cs_heartbeat = heartbeat\<rparr>
     in bindE (liftE (verify_bitemporal snap)) (\<lambda>_. ret snap)))"

text \<open>
  Stage 5: the policy. A violation is recorded and suspended in shadow mode;
  otherwise the HALTED trace is stored, as far as the database allows, and the
  request fails.
\<close>

definition policy_stage ::
  "env \<Rightarrow> app_state \<Rightarrow> authorize_request \<Rightarrow> mta_state \<Rightarrow> cognitive_snapshot \<Rightarrow> agent_profile \<Rightarrow> int
     \<Rightarrow> (policy_decision \<times> bool) io"
where
  "policy_stage E st req mta snap profile drift_ms =
     (let c = env_crates E; action = request_action req;
          evaluated = evaluate c mta action (ar_notional req) (ap_max_notional profile) (ar_reduce_only req)
      in case enforce c mta action (ar_notional req) (ap_max_notional profile) (ar_reduce_only req) of
           Inr d \<Rightarrow> ret (d, False)
         | Inl e \<Rightarrow>
             bindE (gets w_shadow) (\<lambda>shadow.
             bindE (count_metric (count_blocked (ms_regime_label mta) (error_code e))) (\<lambda>_.
             if shadow then ret (evaluated\<lparr>pd_result := ShadowHalted\<rparr>, True)
             else
               bindE (liftE (seal c snap)) (\<lambda>reasoning_hash.
               bindE (attempt (insert_trace E snap reasoning_hash evaluated
                        (build_trace c snap mta drift_ms evaluated reasoning_hash (st_config st)
                           (ar_agent_id req) (ar_regulatory req))
                        (Some (ar_agent_id req)) (st_key_provider st) (Some (ms_pubkey_fingerprint mta)))) (\<lambda>_.
               bindE (count_metric (count_authorize ''policy_blocked'')) (\<lambda>_.
               fail e))))))"

text \<open>Stage 6: the seal, the portfolio cap and the stored trace.\<close>

definition portfolio_cap ::
  "authorize_request \<Rightarrow> mta_state \<Rightarrow> agent_profile \<Rightarrow> bool \<Rightarrow> (f64 \<times> string) option"
where
  "portfolio_cap req mta profile shadow_blocked =
     (if \<not> ar_reduce_only req \<and> \<not> shadow_blocked
      then Some (f64_mul (ap_max_notional profile) (ms_max_notional_scale mta), ms_regime_label mta)
      else None)"

definition persist_stage ::
  "env \<Rightarrow> app_state \<Rightarrow> authorize_request \<Rightarrow> mta_state \<Rightarrow> cognitive_snapshot \<Rightarrow> agent_profile \<Rightarrow> int
     \<Rightarrow> policy_decision \<Rightarrow> bool \<Rightarrow> json io"
where
  "persist_stage E st req mta snap profile drift_ms decision shadow_blocked =
     (let c = env_crates E in
      bindE (liftE (seal c snap)) (\<lambda>reasoning_hash.
      bindE (insert_trace_atomic E snap reasoning_hash decision
               (build_trace c snap mta drift_ms decision reasoning_hash (st_config st)
                  (ar_agent_id req) (ar_regulatory req))
               (Some (ar_agent_id req)) (portfolio_cap req mta profile shadow_blocked)
               (st_key_provider st) (Some (ms_pubkey_fingerprint mta))) (\<lambda>_.
      bindE (count_metric (count_authorize (if shadow_blocked then ''shadow_blocked'' else ''authorized''))) (\<lambda>_.
      ret (json_obj
        [(''trace_id'', JStr (uuid_to_string c (cs_trace_id snap))),
         (''reasoning_hash'', JStr reasoning_hash),
         (''authorized'', JBool True),
         (''shadow_blocked'', JBool shadow_blocked)])))))"

definition authorize :: "env \<Rightarrow> app_state \<Rightarrow> string option \<Rightarrow> authorize_request \<Rightarrow> json io" where
  "authorize E st cert_cn req =
     bindE (liftE (check_client_cert (env_crates E) cert_cn req)) (\<lambda>_.
     bindE (heartbeat_stage E st req) (\<lambda>(heartbeat, drift_ms).
     bindE (mta_stage E st heartbeat) (\<lambda>mta.
     bindE (registry_stage E req mta) (\<lambda>profile.
     bindE (snapshot_stage E st req mta heartbeat) (\<lambda>snap.
     bindE (policy_stage E st req mta snap profile drift_ms) (\<lambda>(decision, shadow_blocked).
     persist_stage E st req mta snap profile drift_ms decision shadow_blocked))))))"

section \<open>Frames of the stages\<close>

text \<open>Before the policy stage a request changes neither traces nor agents nor shadow flag nor metrics.\<close>

definition same_rows :: "world \<Rightarrow> world \<Rightarrow> bool" where
  "same_rows w w' \<longleftrightarrow> d_traces (w_db w') = d_traces (w_db w) \<and> d_agents (w_db w') = d_agents (w_db w)
     \<and> w_shadow w' = w_shadow w \<and> w_metrics w' = w_metrics w"

interpretation sr: frame same_rows
  by unfold_locales (auto simp: same_rows_def)

lemma only_tick_same_rows: "keeps only_tick m \<Longrightarrow> keeps same_rows m"
  by (auto simp: keeps_def only_tick_def same_rows_def)
    (metis world.select_convs(2,8,9) world.surjective world.update_convs(1))+

lemma keeps_validate: "keeps same_rows (validate E hv hb a cfg p)"
  by (auto simp: keeps_def same_rows_def validate_cases Let_def)

lemma keeps_heartbeat_stage: "keeps same_rows (heartbeat_stage E st req)"
  unfolding heartbeat_stage_def Let_def by (intro sr.keeps_intros keeps_validate)

lemma keeps_fetch_verified: "keeps same_rows (fetch_verified E cl)"
  unfolding keeps_def
proof
  fix w
  show "same_rows w (snd (fetch_verified E cl w))"
  proof (cases cl)
    case (MacroPulse x)
    obtain r w' where run: "fetch_verified_live E x w = (r, w')" by force
    then have "same_rows w w'"
      by (cases rule: fetch_verified_live_cases) (auto simp: same_rows_def)
    then show ?thesis using MacroPulse run by simp
  qed (simp_all add: fetch_verified_mock_def fetch_verified_null_def utc_now_ms_def bindE_def io_simps
      same_rows_def)
qed

lemma keeps_mta_stage: "keeps same_rows (mta_stage E st hb)"
  unfolding mta_stage_def by (intro sr.keeps_intros keeps_fetch_verified)

lemma keeps_authorize_agent: "keeps only_tick (authorize_agent E a h g f)"
  unfolding authorize_agent_def fetch_profile_def by (intro ot.keeps_intros)

lemma keeps_registry_stage: "keeps only_tick (registry_stage E req mta)"
  unfolding registry_stage_def by (intro ot.keeps_intros keeps_authorize_agent)

lemma keeps_now_ms: "keeps only_tick (now_ms E cfg)"
  by (auto simp: keeps_def only_tick_def io_simps)

lemma keeps_snapshot_stage: "keeps only_tick (snapshot_stage E st req mta hb)"
  unfolding snapshot_stage_def Let_def by (intro ot.keeps_intros keeps_now_ms)

lemmas stage_frames = keeps_heartbeat_stage keeps_mta_stage
  only_tick_same_rows [OF keeps_registry_stage] only_tick_same_rows [OF keeps_snapshot_stage]

lemma bindE_liftE_Inr: "bindE (liftE (Inr x)) f = f x"
  by (simp add: bindE_def liftE_def fun_eq_iff)

lemma attempt_then_fail:
  "bindE (attempt m) (\<lambda>_. bindE (count_metric g) (\<lambda>_. fail e)) w = (r, w') \<Longrightarrow> w_db (snd (m w)) = w_db w'"
  by (auto simp: attempt_def bindE_def io_simps split: prod.splits sum.splits failure.splits)

section \<open>Outcomes of the stages\<close>

lemma enforce_Inl_evaluate:
  "enforce c mta a n cap ro = Inl e \<Longrightarrow> pd_result (evaluate c mta a n cap ro) = Halted"
  by (auto simp: enforce_def evaluate_def Let_def split: sum.splits)

lemma heartbeat_stage_ok:
  assumes "heartbeat_stage E st req w = (Inr (hb, drift), w')" and "cfg_layer2_enabled (st_config st)"
  shows "ar_heartbeat req = Some hb"
    and "validate E (st_validator st) hb (ar_agent_id req) (st_config st) True w = (Inr drift, w')"
  using assms by (auto simp: heartbeat_stage_def Let_def bindE_Inr_iff io_simps split: option.splits)

lemma mta_stage_ok:
  assumes "mta_stage E st hb w = (Inr mta, w')"
  shows "fetch_verified E (st_mta_client st) w = (Inr mta, w')"
    and "cfg_layer2_enabled (st_config st) \<Longrightarrow> hb_mta_ref hb = [] \<or> hb_mta_ref hb = ms_hash mta"
  using assms by (auto simp: mta_stage_def bindE_Inr_iff io_simps split: if_splits)

lemma registry_stage_ok:
  assumes "registry_stage E req mta w = (Inr profile, w')"
  shows "\<exists>r. find_agent (ar_agent_id req) (w_db w) = Some r \<and> profile = profile_of_row (env_crates E) r
    \<and> ag_status r = ''Active''"
  using assms
  by (auto simp: registry_stage_def bindE_Inr_iff liftE_Inr_iff authorize_agent_ok_iff check_agent_ok_iff
      io_simps profile_of_row_def split: if_splits)

lemma snapshot_stage_ok:
  assumes "snapshot_stage E st req mta hb w = (Inr snap, w')"
  shows "cs_execution snap = request_intent req \<and> cs_valid_time snap = ar_agent_valid_time req
    \<and> cs_valid_time snap < cs_txn_time snap \<and> cs_mta_hash snap = ms_hash mta
    \<and> cs_mta_regime_id snap = ms_regime_id mta \<and> cs_mta_version snap = ms_version mta
    \<and> cs_heartbeat snap = hb"
  using assms
  by (auto simp: snapshot_stage_def bindE_Inr_iff liftE_Inr_iff io_simps Let_def verify_bitemporal_def
      split: if_splits)

lemma policy_stage_ok:
  assumes "policy_stage E st req mta snap profile drift w = (Inr (d, shadow), w')"
  shows "w_db w' = w_db w \<and> w_shadow w' = w_shadow w \<and> (if shadow then w_shadow w \<and> pd_result d = ShadowHalted
    else enforce (env_crates E) mta (request_action req) (ar_notional req) (ap_max_notional profile)
           (ar_reduce_only req) = Inr d \<and> pd_result d = Allowed)"
  using assms
  by (auto simp: policy_stage_def Let_def io_simps bindE_Inr_iff enforce_ok_iff split: sum.splits if_splits)

lemma policy_stage_error:
  assumes "policy_stage E st req mta snap profile drift w = (Inl e, w')"
  shows "d_traces (w_db w') = d_traces (w_db w)
    \<or> (\<exists>r. d_traces (w_db w') = d_traces (w_db w) @ [r] \<and> tr_policy_result r = ''HALTED''
          \<and> tr_agent_id r = Some (ar_agent_id req) \<and> tr_verification_status r = ''PENDING''
          \<and> \<not> w_shadow w
          \<and> (\<exists>e'. e = App e' \<and> enforce (env_crates E) mta (request_action req) (ar_notional req)
                (ap_max_notional profile) (ar_reduce_only req) = Inl e'))"
proof -
  let ?c = "env_crates E"
  let ?ev = "evaluate ?c mta (request_action req) (ar_notional req) (ap_max_notional profile) (ar_reduce_only req)"
  obtain e' where e': "enforce ?c mta (request_action req) (ar_notional req) (ap_max_notional profile)
      (ar_reduce_only req) = Inl e'"
    using assms by (cases "enforce ?c mta (request_action req) (ar_notional req) (ap_max_notional profile)
      (ar_reduce_only req)") (auto simp: policy_stage_def io_simps)
  have shadow: "\<not> w_shadow w"
    using assms e' by (auto simp: policy_stage_def Let_def bindE_def io_simps)
  show ?thesis
  proof (cases "seal ?c snap")
    case (Inl err)
    then show ?thesis using assms e' shadow by (auto simp: policy_stage_def Let_def bindE_def io_simps)
  next
    case (Inr h)
    let ?ins = "insert_trace E snap h ?ev (build_trace ?c snap mta drift ?ev h (st_config st)
      (ar_agent_id req) (ar_regulatory req)) (Some (ar_agent_id req)) (st_key_provider st)
      (Some (ms_pubkey_fingerprint mta))"
    let ?w1 = "w\<lparr>w_metrics := count_blocked (ms_regime_label mta) (error_code e') (w_metrics w)\<rparr>"
    have "bindE (attempt ?ins) (\<lambda>_. bindE (count_metric (count_authorize ''policy_blocked''))
        (\<lambda>_. fail e' :: (policy_decision \<times> bool) io)) ?w1 = (Inl e, w')"
      using assms e' shadow Inr
      by (simp add: policy_stage_def Let_def bindE_def [of "gets w_shadow"]
          bindE_def [of "count_metric (count_blocked a b)" for a b] bindE_liftE_Inr io_simps)
    note run = this
    have db: "w_db (snd (?ins ?w1)) = w_db w'" using run by (rule attempt_then_fail)
    obtain out w2 where out: "?ins ?w1 = (out, w2)" by force
    show ?thesis
    proof (cases out)
      case (Inl err)
      then show ?thesis using insert_trace_error [of _ _ _ _ _ _ _ _ ?w1] out db by auto
    next
      case (Inr u)
      have e: "e = App e'" using run out Inr by (auto simp: attempt_def bindE_def io_simps)
      from Inr obtain stored vt tt row where row: "new_trace_row ?c snap vt tt h ?ev stored (Some (ar_agent_id req))
          (Some (ms_pubkey_fingerprint mta)) = Some row"
        and "insert_trace_row (Some row) (w_db w) = Inr (w_db w')"
        using out db by (auto elim!: insert_trace_ok)
      then show ?thesis
        using shadow new_trace_row_fields [OF row] enforce_Inl_evaluate [OF e'] e e'
        by (auto simp: insert_trace_row_ok)
    qed
  qed
qed

lemma persist_stage_ok:
  assumes "persist_stage E st req mta snap profile drift d shadow w = (Inr v, w')"
  obtains h r where "seal (env_crates E) snap = Inr h"
    "d_traces (w_db w') = d_traces (w_db w) @ [r]" "tr_trace_id r = cs_trace_id snap"
    "tr_agent_id r = Some (ar_agent_id req)" "tr_reasoning_hash r = h"
    "tr_policy_result r = show_policy_result (pd_result d)" "tr_verification_status r = ''PENDING''"
    "tr_valid_time r < tr_txn_time r"
    "\<And>cap label. portfolio_cap req mta profile shadow = Some (cap, label) \<Longrightarrow>
       \<not> f64_less cap (f64_add (pg_float8 (env_crates E) (pending_sum (ar_agent_id req) (d_traces (w_db w))))
          (ei_notional (cs_execution snap)))"
    "v = json_obj [(''trace_id'', JStr (uuid_to_string (env_crates E) (cs_trace_id snap))),
        (''reasoning_hash'', JStr h), (''authorized'', JBool True), (''shadow_blocked'', JBool shadow)]"
proof -
  from assms obtain h w1 where h: "seal (env_crates E) snap = Inr h"
    and ins: "insert_trace_atomic E snap h d (build_trace (env_crates E) snap mta drift d h (st_config st)
        (ar_agent_id req) (ar_regulatory req)) (Some (ar_agent_id req)) (portfolio_cap req mta profile shadow)
        (st_key_provider st) (Some (ms_pubkey_fingerprint mta)) w = (Inr (), w1)"
    and w1: "w_db w' = w_db w1"
    and v: "v = json_obj [(''trace_id'', JStr (uuid_to_string (env_crates E) (cs_trace_id snap))),
        (''reasoning_hash'', JStr h), (''authorized'', JBool True), (''shadow_blocked'', JBool shadow)]"
    unfolding persist_stage_def Let_def by (auto simp: bindE_Inr_iff liftE_Inr_iff io_simps)
  from ins obtain stored vt tt r where row: "new_trace_row (env_crates E) snap vt tt h d stored
      (Some (ar_agent_id req)) (Some (ms_pubkey_fingerprint mta)) = Some r"
    and row_in: "insert_trace_row (Some r) (w_db w) = Inr (w_db w1)"
    and cap: "\<And>cap label. portfolio_cap req mta profile shadow = Some (cap, label) \<Longrightarrow>
       \<not> f64_less cap (f64_add (pg_float8 (env_crates E) (pending_sum (ar_agent_id req) (d_traces (w_db w))))
          (ei_notional (cs_execution snap)))"
    by (auto elim!: insert_trace_atomic_ok)
  show thesis
    by (rule that [OF h, of r])
      (use row_in w1 new_trace_row_fields [OF row] cap v in \<open>auto simp: insert_trace_row_ok\<close>)
qed

lemma persist_stage_error:
  "persist_stage E st req mta snap profile drift d shadow w = (Inl e, w') \<Longrightarrow> w_db w' = w_db w"
  unfolding persist_stage_def Let_def
  by (elim bindE_InlE) (auto simp: liftE_def io_simps dest!: insert_trace_atomic_error split: sum.splits)

text \<open>
  The regime of a request: the one its client answers, asked in the state the
  heartbeat's validation leaves. With Layer 2 on the request carries that heartbeat,
  and it refers to this regime or to none; with Layer 2 off nothing has happened before.
\<close>

definition regime_of_request :: "env \<Rightarrow> app_state \<Rightarrow> authorize_request \<Rightarrow> world \<Rightarrow> mta_state \<Rightarrow> bool" where
  "regime_of_request E st req w mta \<longleftrightarrow> (\<exists>u u'. fetch_verified E (st_mta_client st) u = (Inr mta, u')
     \<and> (if cfg_layer2_enabled (st_config st)
        then \<exists>hb drift. ar_heartbeat req = Some hb
          \<and> validate E (st_validator st) hb (ar_agent_id req) (st_config st) True w = (Inr drift, u)
          \<and> (hb_mta_ref hb = [] \<or> hb_mta_ref hb = ms_hash mta)
        else u = w))"

lemma heartbeat_stage_off:
  assumes "heartbeat_stage E st req w = (Inr (hb, drift), w')" and "\<not> cfg_layer2_enabled (st_config st)"
  shows "w' = w"
  using assms by (auto simp: heartbeat_stage_def Let_def bindE_Inr_iff io_simps split: option.splits)

lemma regime_of_requestI:
  assumes hb: "heartbeat_stage E st req w = (Inr (hb, drift), u)" and mta: "mta_stage E st hb u = (Inr mta, u')"
  shows "regime_of_request E st req w mta"
proof (cases "cfg_layer2_enabled (st_config st)")
  case True
  then show ?thesis
    using heartbeat_stage_ok [OF hb] mta_stage_ok [OF mta] by (auto simp: regime_of_request_def)
next
  case False
  then show ?thesis
    using heartbeat_stage_off [OF hb] mta_stage_ok(1) [OF mta] by (auto simp: regime_of_request_def)
qed

text \<open>
  A failing request either stops before the policy, with the rows of the start, or in
  the policy stage or after it.
\<close>

lemma rows_bind:
  assumes "bindE m f w = (Inl e, w')" and "keeps same_rows m" and "same_rows w0 w"
  obtains (stop) "d_traces (w_db w') = d_traces (w_db w0)"
    | (continue) x w1 where "m w = (Inr x, w1)" "f x w1 = (Inl e, w')" "same_rows w0 w1"
  using assms(1)
proof (cases rule: bindE_InlE)
  case 1
  then show ?thesis using keepsD [OF assms(2)] assms(3) stop by (auto simp: same_rows_def)
next
  case (2 x w1)
  then show ?thesis using keepsD [OF assms(2) 2(1)] assms(3) continue by (auto simp: same_rows_def)
qed

lemma authorize_fails:
  assumes "authorize E st cert req w = (Inl e, w')"
  obtains (stop) "d_traces (w_db w') = d_traces (w_db w)"
    | (policy) hb drift u1 mta u2 profile u3 snap u4 where
        "heartbeat_stage E st req w = (Inr (hb, drift), u1)" "mta_stage E st hb u1 = (Inr mta, u2)"
        "registry_stage E req mta u2 = (Inr profile, u3)" "same_rows w u2" "same_rows w u4"
        "policy_stage E st req mta snap profile drift u4 = (Inl e, w')"
proof -
  have run: "bindE (liftE (check_client_cert (env_crates E) cert req)) (\<lambda>_.
     bindE (heartbeat_stage E st req) (\<lambda>(heartbeat, drift_ms).
     bindE (mta_stage E st heartbeat) (\<lambda>mta.
     bindE (registry_stage E req mta) (\<lambda>profile.
     bindE (snapshot_stage E st req mta heartbeat) (\<lambda>snap.
     bindE (policy_stage E st req mta snap profile drift_ms) (\<lambda>(decision, shadow_blocked).
     persist_stage E st req mta snap profile drift_ms decision shadow_blocked)))))) w = (Inl e, w')"
    using assms by (simp add: authorize_def)
  have refl: "same_rows w w" by (simp add: same_rows_def)
  from run sr.keeps_liftE refl show thesis
  proof (cases rule: rows_bind)
    case (continue y w1)
    then have "w1 = w" by (auto simp: liftE_def split: sum.splits)
    from continue(2) [unfolded this] stage_frames(1) refl show thesis
    proof (cases rule: rows_bind)
      case (continue x u1)
      obtain hb drift where x: "x = (hb, drift)" by force
      note hb = continue(1) [unfolded x]
      from continue(2) [unfolded x split] stage_frames(2) continue(3) show thesis
      proof (cases rule: rows_bind)
        case (continue mta u2)
        note mta = continue
        from mta(2) stage_frames(3) mta(3) show thesis
        proof (cases rule: rows_bind)
          case (continue profile u3)
          note profile = continue
          from profile(2) stage_frames(4) profile(3) show thesis
          proof (cases rule: rows_bind)
            case (continue snap u4)
            from continue(2) show thesis
            proof (cases rule: bindE_InlE)
              case 1
              show thesis by (rule policy [OF hb mta(1) profile(1) mta(3) continue(3) 1])
            next
              case (2 z u5)
              obtain d shadow where z: "z = (d, shadow)" by force
              have "w_db w' = w_db u4"
                using policy_stage_ok [OF 2(1) [unfolded z]] persist_stage_error 2(2) [unfolded z split] by simp
              then show thesis using continue(3) stop by (simp add: same_rows_def)
            qed
          qed (rule stop)
        qed (rule stop)
      qed (rule stop)
    qed (rule stop)
  qed (rule stop)
qed

section \<open>Properties\<close>

definition demo_agent_row :: agent_row where
  "demo_agent_row =
     \<lparr>ag_agent_id = 1, ag_name = ''alpha'', ag_model_hash_hex = replicate 64 (CHR ''0''),
      ag_policy_module_id = ''default'', ag_allowed_regimes = None, ag_max_notional = 1000000,
      ag_max_leverage = 4, ag_allowed_venues = None, ag_status = ''Active'',
      ag_allowed_mta_pubkeys = None, ag_registered_at = 0, ag_updated_at = 0\<rparr>"

definition demo_auth_world :: world where
  "demo_auth_world = demo_world\<lparr>w_db := demo_db\<lparr>d_agents := [demo_agent_row]\<rparr>\<rparr>"

definition demo_state :: app_state where
  "demo_state =
     \<lparr>st_config = demo_config, st_has_readonly = False, st_validator = demo_validator,
      st_mta_client = MockMta, st_key_provider = None, st_cert_expiry_not_after = None,
      st_aliases = (\<lambda>_. None)\<rparr>"

definition demo_request :: "f64 \<Rightarrow> authorize_request" where
  "demo_request n =
     \<lparr>ar_agent_id = 1, ar_model_hash_hex = replicate 64 (CHR ''0''), ar_model_id = ''m'',
      ar_prompt_version = ''p'', ar_feature_schema_id = ''f'', ar_hyperparameter_checksum = ''h'',
      ar_action = Neutral, ar_asset = ''BTC-PERP'', ar_order_type = Market, ar_venue_id = ''XNAS'',
      ar_quantity = Finite 1, ar_notional = n, ar_notional_currency = default_usd,
      ar_multiplier = default_multiplier, ar_limit_price = None, ar_stop_price = None,
      ar_client_order_id = ''o-1'', ar_agent_valid_time = 1000, ar_heartbeat = None,
      ar_reduce_only = True, ar_regulatory = None\<rparr>"

lemma demo_hash_decode: "demo_hex_decode (replicate 64 (CHR ''0'')) = Some (replicate 32 0)"
  by code_simp

lemma demo_cap: "f64_mul (f64_round False 1000000) (Finite 1) = Finite 1000000"
  by code_simp

lemma demo_seal: "\<exists>H. \<forall>snap. seal demo_crates snap = Inr (H snap)"
  using demo_seal_total by metis

lemmas demo_run_simps = demo_simps io_simps authorize_def check_client_cert_def heartbeat_stage_def
  mta_stage_def registry_stage_def snapshot_stage_def policy_stage_def persist_stage_def bindE_def
  demo_state_def demo_config_def demo_request_def fetch_verified_mock_def utc_now_ms_def
  authorize_agent_def fetch_profile_def sql_read_def sql_def find_agent_def Let_def demo_auth_world_def
  demo_world_def demo_db_def demo_agent_row_def profile_of_row_def check_agent_def demo_hash_decode
  enforce_def check_constraints_eq demo_cap verify_bitemporal_def insert_trace_atomic_def
  advisory_lock_def portfolio_check_def portfolio_cap_def encrypt_stored_def snapshot_times_def
  timestamp_millis_def new_trace_row_def opt_numeric_def insert_trace_row_def request_intent_def
  default_multiplier_def

lemma demo_authorize_ok:
  "\<exists>v w'. authorize demo_env demo_state None (demo_request (Finite 500)) demo_auth_world = (Inr v, w')"
proof -
  obtain H where H: "\<And>snap. seal demo_crates snap = Inr (H snap)" using demo_seal by blast
  show ?thesis by (simp add: demo_run_simps H)
qed

lemma demo_authorize_halted:
  "\<exists>e w'. authorize demo_env demo_state None (demo_request (Finite 5000000)) demo_auth_world
     = (Inl (App (Policy e)), w') \<and> d_traces (w_db w') \<noteq> []"
proof -
  obtain H where H: "\<And>snap. seal demo_crates snap = Inr (H snap)" using demo_seal by blast
  show ?thesis by (simp add: demo_run_simps H attempt_def insert_trace_def evaluate_def)
qed

text \<open>C1: what an authorization certifies. A successful request adds exactly one trace, for the
  requesting agent, PENDING, sealed with the hash of a snapshot that holds the requested intent
  and respects bitemporality; the agent was registered and Active; the regime is the one the
  configured client answers in the state the heartbeat's validation leaves (the state of the
  request itself with Layer 2 off), and the snapshot has its identifier, version and hash; with
  Layer 2 on, the request carried a heartbeat that was
  validated and that refers to this regime or to none; outside shadow mode the trace
  is ALLOWED, the policy accepted the order under that regime, and unless
  the order is reduce-only the agent's pending notional plus the order stays within the cap. The
  response names the trace and its seal.\<close>

theorem authorize_sound:
  assumes "authorize E st cert req w = (Inr v, w')"
  shows "\<exists>r snap mta ag shadow d.
    d_traces (w_db w') = d_traces (w_db w) @ [r]
    \<and> tr_agent_id r = Some (ar_agent_id req) \<and> tr_verification_status r = ''PENDING''
    \<and> tr_trace_id r = cs_trace_id snap \<and> seal (env_crates E) snap = Inr (tr_reasoning_hash r)
    \<and> cs_execution snap = request_intent req \<and> cs_mta_hash snap = ms_hash mta
    \<and> cs_mta_regime_id snap = ms_regime_id mta \<and> cs_mta_version snap = ms_version mta
    \<and> cs_valid_time snap = ar_agent_valid_time req \<and> cs_valid_time snap < cs_txn_time snap
    \<and> find_agent (ar_agent_id req) (w_db w) = Some ag \<and> ag_status ag = ''Active''
    \<and> (\<exists>u u'. fetch_verified E (st_mta_client st) u = (Inr mta, u')
          \<and> (if cfg_layer2_enabled (st_config st)
             then \<exists>hb drift. ar_heartbeat req = Some hb
               \<and> validate E (st_validator st) hb (ar_agent_id req) (st_config st) True w = (Inr drift, u)
               \<and> (hb_mta_ref hb = [] \<or> hb_mta_ref hb = ms_hash mta)
             else u = w))
    \<and> (if shadow then w_shadow w \<and> tr_policy_result r = ''SHADOW_HALTED''
       else tr_policy_result r = ''ALLOWED''
         \<and> enforce (env_crates E) mta (request_action req) (ar_notional req)
             (pg_float8 (env_crates E) (ag_max_notional ag)) (ar_reduce_only req) = Inr d
         \<and> (ar_reduce_only req \<or>
            \<not> f64_less (f64_mul (pg_float8 (env_crates E) (ag_max_notional ag)) (ms_max_notional_scale mta))
               (f64_add (pg_float8 (env_crates E) (pending_sum (ar_agent_id req) (d_traces (w_db w))))
                  (ar_notional req))))
    \<and> v = json_obj [(''trace_id'', JStr (uuid_to_string (env_crates E) (tr_trace_id r))),
        (''reasoning_hash'', JStr (tr_reasoning_hash r)), (''authorized'', JBool True),
        (''shadow_blocked'', JBool shadow)]"
proof -
  from assms obtain hb drift u1 mta u2 profile u3 snap u4 d shadow u5 where
    hb: "heartbeat_stage E st req w = (Inr (hb, drift), u1)"
    and mta: "mta_stage E st hb u1 = (Inr mta, u2)"
    and reg: "registry_stage E req mta u2 = (Inr profile, u3)"
    and snap: "snapshot_stage E st req mta hb u3 = (Inr snap, u4)"
    and pol: "policy_stage E st req mta snap profile drift u4 = (Inr (d, shadow), u5)"
    and per: "persist_stage E st req mta snap profile drift d shadow u5 = (Inr v, w')"
    unfolding authorize_def by (auto simp: bindE_Inr_iff liftE_Inr_iff)
  have rows: "same_rows w u1" "same_rows u1 u2" "same_rows u2 u3" "same_rows u3 u4"
    using keepsD [OF stage_frames(1) hb] keepsD [OF stage_frames(2) mta] keepsD [OF stage_frames(3) reg]
      keepsD [OF stage_frames(4) snap] by blast+
  have u5: "w_db u5 = w_db u4" "w_shadow u5 = w_shadow u4" using policy_stage_ok [OF pol] by simp_all
  have same: "d_traces (w_db u5) = d_traces (w_db w)" "w_shadow u4 = w_shadow w"
    "find_agent (ar_agent_id req) (w_db u2) = find_agent (ar_agent_id req) (w_db w)"
    using rows u5 by (auto simp: same_rows_def find_agent_def)
  obtain ag where ag: "find_agent (ar_agent_id req) (w_db w) = Some ag" "ag_status ag = ''Active''"
    and profile: "profile = profile_of_row (env_crates E) ag"
    using registry_stage_ok [OF reg] same(3) by auto
  have cap: "ap_max_notional profile = pg_float8 (env_crates E) (ag_max_notional ag)"
    using profile by (simp add: profile_of_row_def)
  obtain h r where h: "seal (env_crates E) snap = Inr h"
    and r: "d_traces (w_db w') = d_traces (w_db u5) @ [r]" "tr_trace_id r = cs_trace_id snap"
      "tr_agent_id r = Some (ar_agent_id req)" "tr_reasoning_hash r = h"
      "tr_policy_result r = show_policy_result (pd_result d)" "tr_verification_status r = ''PENDING''"
      "tr_valid_time r < tr_txn_time r"
    and within: "\<And>cap label. portfolio_cap req mta profile shadow = Some (cap, label) \<Longrightarrow>
       \<not> f64_less cap (f64_add (pg_float8 (env_crates E) (pending_sum (ar_agent_id req) (d_traces (w_db u5))))
          (ei_notional (cs_execution snap)))"
    and v: "v = json_obj [(''trace_id'', JStr (uuid_to_string (env_crates E) (cs_trace_id snap))),
        (''reasoning_hash'', JStr h), (''authorized'', JBool True), (''shadow_blocked'', JBool shadow)]"
    by (rule persist_stage_ok [OF per], rule that, assumption+)
  have notional: "ei_notional (cs_execution snap) = ar_notional req"
    using snapshot_stage_ok [OF snap] by (simp add: request_intent_def)
  note served = regime_of_requestI [OF hb mta, unfolded regime_of_request_def]
  show ?thesis
    by (rule exI [of _ r], rule exI [of _ snap], rule exI [of _ mta], rule exI [of _ ag],
        rule exI [of _ shadow], rule exI [of _ d], intro conjI served)
      (use r h v ag same snapshot_stage_ok [OF snap] policy_stage_ok [OF pol] cap notional within in
        \<open>auto simp: portfolio_cap_def\<close>)
qed

theorem authorize_sound_witness:
  "\<exists>v w' r. authorize demo_env demo_state None (demo_request (Finite 500)) demo_auth_world = (Inr v, w')
     \<and> d_traces (w_db w') = d_traces (w_db demo_auth_world) @ [r] \<and> tr_policy_result r = ''ALLOWED''"
proof -
  obtain v w' where run: "authorize demo_env demo_state None (demo_request (Finite 500)) demo_auth_world = (Inr v, w')"
    using demo_authorize_ok by blast
  have "\<not> w_shadow demo_auth_world" by (simp add: demo_auth_world_def demo_world_def)
  with authorize_sound [OF run] show ?thesis using run by (auto split: if_splits)
qed

text \<open>C2: a refused request authorizes nothing. When the handler fails, the trace table is as
  before, or shadow mode is off, the policy refuses the order under the regime of this request
  for the registered agent with the very error the handler returns, and the one new row is the
  PENDING record of that attempt, with the result HALTED.\<close>

theorem authorize_refused:
  assumes "authorize E st cert req w = (Inl e, w')"
  shows "d_traces (w_db w') = d_traces (w_db w)
    \<or> (\<exists>r mta ag e'. d_traces (w_db w') = d_traces (w_db w) @ [r] \<and> tr_policy_result r = ''HALTED''
          \<and> tr_agent_id r = Some (ar_agent_id req) \<and> tr_verification_status r = ''PENDING''
          \<and> \<not> w_shadow w \<and> regime_of_request E st req w mta
          \<and> find_agent (ar_agent_id req) (w_db w) = Some ag
          \<and> enforce (env_crates E) mta (request_action req) (ar_notional req)
              (pg_float8 (env_crates E) (ag_max_notional ag)) (ar_reduce_only req) = Inl e'
          \<and> e = App e')"
  using assms
proof (cases rule: authorize_fails)
  case (policy hb drift u1 mta u2 profile u3 snap u4)
  obtain ag where "find_agent (ar_agent_id req) (w_db w) = Some ag"
      "profile = profile_of_row (env_crates E) ag"
    using registry_stage_ok [OF policy(3)] policy(4) by (auto simp: same_rows_def find_agent_def)
  then show ?thesis
    using policy_stage_error [OF policy(6)] policy(5) regime_of_requestI [OF policy(1,2)]
    by (auto simp: same_rows_def profile_of_row_def)
qed simp

theorem authorize_refused_witness:
  "\<exists>e w' r. authorize demo_env demo_state None (demo_request (Finite 5000000)) demo_auth_world
       = (Inl (App (Policy e)), w')
     \<and> d_traces (w_db w') = d_traces (w_db demo_auth_world) @ [r] \<and> tr_policy_result r = ''HALTED''"
proof -
  obtain e w' where run: "authorize demo_env demo_state None (demo_request (Finite 5000000)) demo_auth_world
      = (Inl (App (Policy e)), w')" and new: "d_traces (w_db w') \<noteq> []"
    using demo_authorize_halted by blast
  have "d_traces (w_db demo_auth_world) = []" by (simp add: demo_auth_world_def demo_db_def)
  with authorize_refused [OF run] new show ?thesis using run by auto
qed

end
