(* ===== verification/Irl_Bind.thy ===== *)
theory Irl_Bind
  imports Irl_Authorize
begin

text \<open>
  \<open>src/routes/bind.rs\<close> and \<open>src/verifier.rs\<close>: binding an execution report to its
  trace, the expiry sweep, and the life cycle of a trace under every interleaving
  of authorizations, bindings and sweeps.
\<close>

section \<open>Binding an execution\<close>

text \<open>The signed change of the position, from the stored action text.\<close>

definition quantity_delta :: "string \<Rightarrow> f64 \<Rightarrow> f64" where
  "quantity_delta intent_action fill_qty =
     (let lower = str_trim (to_ascii_lowercase intent_action)
      in if starts_with lower ''long'' \<or> str_contains lower ''open_long'' \<or> starts_with lower ''buy''
            \<or> lower = ''open''
         then fill_qty
         else if starts_with lower ''short'' \<or> str_contains lower ''close_short''
                 \<or> starts_with lower ''sell'' \<or> lower = ''close'' \<or> lower = ''exit''
                 \<or> lower = ''reverse''
         then f64_neg fill_qty
         else Finite 0)"

text \<open>
  The handler in two parts: the read with the idempotency guard, and the work on
  the intent it returned. Between the two, other requests may run.
\<close>

definition bind_check :: "env \<Rightarrow> bind_execution_request \<Rightarrow> binding_intent io" where
  "bind_check E req =
     bindE (get_intent_for_binding E (be_trace_id req)) (\<lambda>i.
     if bi_status i \<noteq> ''PENDING''
     then fail (TraceAlreadyBound (uuid_to_string (env_crates E) (be_trace_id req)) (bi_status i))
     else ret i)"

definition bind_position :: "env \<Rightarrow> bind_execution_request \<Rightarrow> binding_intent \<Rightarrow> bind_execution_result \<Rightarrow> unit io" where
  "bind_position E req i result =
     (if br_verification_status result = Matched
      then (case bi_agent_id i of
              None \<Rightarrow> ret ()
            | Some aid \<Rightarrow>
                let fill_qty = (case be_executed_quantity req of None \<Rightarrow> Finite 0 | Some q \<Rightarrow> q);
                    delta = quantity_delta (bi_action i) fill_qty
                in if \<not> f64_is_zero delta
                   then upsert_position E aid (bi_asset i) (bi_venue_id i) (bi_currency i) delta
                          (be_execution_price req) (bi_multiplier i) (be_trace_id req)
                   else ret ())
      else ret ())"

definition bind_response :: "crates \<Rightarrow> bind_execution_result \<Rightarrow> json" where
  "bind_response c result =
     json_obj
       ([(''trace_id'', JStr (uuid_to_string c (br_trace_id result))),
         (''final_proof'', JStr (br_final_proof result)),
         (''verification_status'', JStr (show_verification_status (br_verification_status result))),
         (''execution_status'', JStr (br_execution_status result)),
         (''execution_time'', JStr (show_datetime c (br_execution_time result)))]
        @ (case br_divergence_reason result of
             None \<Rightarrow> []
           | Some reason \<Rightarrow> [(''divergence_reason'', JStr reason)]))"

definition bind_label :: "verification_status \<Rightarrow> string" where
  "bind_label s =
     (case s of Matched \<Rightarrow> ''matched'' | Divergent \<Rightarrow> ''divergent'' | Orphan \<Rightarrow> ''orphan'' | _ \<Rightarrow> ''other'')"

definition bind_commit :: "env \<Rightarrow> app_state \<Rightarrow> bind_execution_request \<Rightarrow> binding_intent \<Rightarrow> json io" where
  "bind_commit E st req i =
     bindE (reconcile E (st_aliases st) (be_trace_id req) (bi_reasoning_hash i) req (bi_asset i)
              (bi_action i) (bi_quantity i) (cfg_bind_size_tolerance (st_config st))) (\<lambda>result.
     bindE (update_binding E result req) (\<lambda>_.
     bindE (bind_position E req i result) (\<lambda>_.
     bindE (count_metric (count_bind (bind_label (br_verification_status result)))) (\<lambda>_.
     ret (bind_response (env_crates E) result)))))"

definition bind_execution :: "env \<Rightarrow> app_state \<Rightarrow> bind_execution_request \<Rightarrow> json io" where
  "bind_execution E st req = bindE (bind_check E req) (bind_commit E st req)"

section \<open>The expiry sweep\<close>

definition expire_row :: "crates \<Rightarrow> int \<Rightarrow> f64 \<Rightarrow> trace_row \<Rightarrow> trace_row" where
  "expire_row c now secs r =
     (if tr_verification_status r = ''PENDING'' \<and> older_than c now secs r
      then r\<lparr>tr_verification_status := ''EXPIRED''\<rparr> else r)"

definition expire_pending :: "env \<Rightarrow> f64 \<Rightarrow> nat io" where
  "expire_pending E expiry_secs =
     sql E (\<lambda>now d. Inr
       (length (filter (\<lambda>r. tr_verification_status r = ''PENDING''
                          \<and> older_than (env_crates E) now expiry_secs r) (d_traces d)),
        d\<lparr>d_traces := map (expire_row (env_crates E) now expiry_secs) (d_traces d)\<rparr>))"

text \<open>One round of the worker's loop: a failed sweep is logged and the loop goes on.\<close>

definition expiry_round :: "env \<Rightarrow> u64 \<Rightarrow> (app_error + nat) io" where
  "expiry_round E expiry_ms = attempt (expire_pending E (f64_of_int (uint (expiry_ms div 1000))))"

section \<open>Rows and their life cycle\<close>

text \<open>The columns that are written once, when the trace is inserted.\<close>

definition sealed :: "trace_row \<Rightarrow> trace_row" where
  "sealed r = r\<lparr>tr_exchange_tx_id := None, tr_verification_status := [], tr_execution_status := None,
     tr_execution_price := None, tr_execution_time := None, tr_final_proof := None\<rparr>"

definition terminal :: "string \<Rightarrow> bool" where
  "terminal s \<longleftrightarrow> s \<in> {''MATCHED'', ''DIVERGENT'', ''EXPIRED''}"

text \<open>
  A row is well formed when its binding columns agree with its status: nothing is
  recorded before a binding, and a bound row holds the proof of its own reasoning
  hash and the transaction it records.
\<close>

definition row_ok :: "crates \<Rightarrow> trace_row \<Rightarrow> bool" where
  "row_ok c r \<longleftrightarrow>
     (if tr_verification_status r \<in> {''PENDING'', ''EXPIRED''}
      then tr_exchange_tx_id r = None \<and> tr_final_proof r = None
      else tr_verification_status r \<in> {''MATCHED'', ''DIVERGENT''}
        \<and> (\<exists>tx. tr_exchange_tx_id r = Some tx
             \<and> tr_final_proof r = Some (compute_final_proof c (tr_reasoning_hash r) tx)))"

text \<open>A closed row is final; an open one may close, its sealed columns untouched.\<close>

definition row_step :: "trace_row \<Rightarrow> trace_row \<Rightarrow> bool" where
  "row_step r r' \<longleftrightarrow> r' = r
     \<or> (tr_verification_status r = ''PENDING'' \<and> terminal (tr_verification_status r') \<and> sealed r' = sealed r)"

text \<open>The weaker guarantee that survives interleaved bindings.\<close>

definition row_race_step :: "trace_row \<Rightarrow> trace_row \<Rightarrow> bool" where
  "row_race_step r r' \<longleftrightarrow> r' = r \<or> (terminal (tr_verification_status r') \<and> sealed r' = sealed r)"

lemma terminal_cases: "terminal s \<Longrightarrow> s \<noteq> ''PENDING''"
  by (auto simp: terminal_def)

lemma row_step_trans: "row_step x y \<Longrightarrow> row_step y z \<Longrightarrow> row_step x z"
  by (auto simp: row_step_def terminal_cases)

lemma row_race_trans: "row_race_step x y \<Longrightarrow> row_race_step y z \<Longrightarrow> row_race_step x z"
  by (auto simp: row_race_step_def)

interpretation closing: row_evolution row_step
  by unfold_locales (simp add: row_step_def, rule row_step_trans)

interpretation racing: row_evolution row_race_step
  by unfold_locales (simp add: row_race_step_def, rule row_race_trans)

lemma row_step_race: "row_step x y \<Longrightarrow> row_race_step x y"
  by (auto simp: row_step_def row_race_step_def)


section \<open>Effect of each operation on the rows\<close>

text \<open>An authorization only adds rows, with nothing bound.\<close>

definition unbound :: "trace_row \<Rightarrow> bool" where
  "unbound r \<longleftrightarrow> tr_verification_status r = ''PENDING'' \<and> tr_exchange_tx_id r = None \<and> tr_final_proof r = None"

definition traces_grow :: "world \<Rightarrow> world \<Rightarrow> bool" where
  "traces_grow w w' \<longleftrightarrow> (\<exists>new. d_traces (w_db w') = d_traces (w_db w) @ new \<and> list_all unbound new)"

interpretation tg: frame traces_grow
  by unfold_locales (auto simp: traces_grow_def)

lemma traces_grow_same: "d_traces (w_db w') = d_traces (w_db w) \<Longrightarrow> traces_grow w w'"
  by (auto simp: traces_grow_def intro: exI [of _ "[]"])

lemma same_rows_grow: "keeps same_rows m \<Longrightarrow> keeps traces_grow m"
  by (auto simp: keeps_def same_rows_def intro!: traces_grow_same)

lemma new_row_unbound: "new_trace_row c snap vt tt h dec stored aid pk = Some r \<Longrightarrow> unbound r"
  by (auto simp: new_trace_row_def unbound_def Let_def split: option.splits)

lemma insert_row_grow:
  "new_trace_row c snap vt tt h dec stored aid pk = Some r \<Longrightarrow>
     insert_trace_row (Some r) (w_db w) = Inr (w_db w') \<Longrightarrow> traces_grow w w'"
  by (auto simp: insert_trace_row_ok traces_grow_def new_row_unbound)

lemma keeps_insert_trace: "keeps traces_grow (insert_trace E snap h dec trace aid kp pk)"
  unfolding keeps_def
proof
  fix w
  obtain out w' where run: "insert_trace E snap h dec trace aid kp pk w = (out, w')" by force
  show "traces_grow w (snd (insert_trace E snap h dec trace aid kp pk w))"
    using run by (cases out) (auto dest!: insert_trace_error elim!: insert_trace_ok
        intro: insert_row_grow traces_grow_same)
qed

lemma keeps_insert_trace_atomic: "keeps traces_grow (insert_trace_atomic E snap h dec trace aid ck kp pk)"
  unfolding keeps_def
proof
  fix w
  obtain out w' where run: "insert_trace_atomic E snap h dec trace aid ck kp pk w = (out, w')" by force
  show "traces_grow w (snd (insert_trace_atomic E snap h dec trace aid ck kp pk w))"
    using run by (cases out) (auto dest!: insert_trace_atomic_error
        elim!: insert_trace_atomic_ok intro: insert_row_grow traces_grow_same)
qed

lemma keeps_authorize: "keeps traces_grow (authorize E st cert req)"
  unfolding authorize_def policy_stage_def persist_stage_def Let_def
  by (intro tg.keeps_intros tg.keeps_count stage_frames [THEN same_rows_grow] keeps_insert_trace
      keeps_insert_trace_atomic traces_grow_same) simp_all

lemma bind_check_db: "bind_check E req w = (out, w') \<Longrightarrow> w_db w' = w_db w"
proof -
  have "keeps same_db (bind_check E req)"
    unfolding bind_check_def by (intro sd.keeps_intros keeps_intent)
  then show "bind_check E req w = (out, w') \<Longrightarrow> w_db w' = w_db w"
    by (auto dest: keepsD simp: same_db_def)
qed

lemma bind_check_ok:
  assumes "bind_check E req w = (Inr i, w')"
  shows "\<exists>r. find_trace (be_trace_id req) (w_db w) = Some r \<and> intent_of_row (env_crates E) r = Inr i
    \<and> tr_verification_status r = ''PENDING''"
  using assms
  by (auto simp: bind_check_def get_intent_for_binding_def bindE_Inr_iff sql_ok_iff io_simps liftE_Inr_iff
      intent_of_row_def res_bind_Inr_iff split: option.splits if_splits)

lemma intent_of_row_hash: "intent_of_row c r = Inr i \<Longrightarrow> bi_reasoning_hash i = tr_reasoning_hash r"
  by (auto simp: intent_of_row_def split: option.splits)

lemma keeps_upsert_position: "keeps same_traces (upsert_position E a s v c d p m t)"
  unfolding upsert_position_def Let_def
  by (intro st.keeps_sql) (auto simp: same_traces_def split: option.splits)

lemma keeps_bind_position: "keeps same_traces (bind_position E req i result)"
  unfolding bind_position_def Let_def by (intro st.keeps_intros keeps_upsert_position)

lemma keeps_update_metrics: "keeps same_metrics (update_binding E result req)"
  unfolding update_binding_def by (intro sm.keeps_sql) (simp add: same_metrics_def)

lemma keeps_position_metrics: "keeps same_metrics (bind_position E req i result)"
  unfolding bind_position_def upsert_position_def Let_def
  by (intro sm.keeps_intros sm.keeps_sql) (simp add: same_metrics_def)

lemma keeps_reconcile: "keeps only_tick (reconcile E al t h req asset act qty tol)"
  unfolding reconcile_def utc_now_us_def Let_def by (intro ot.keeps_intros)

text \<open>What a binding writes and counts, on every path.\<close>

definition bind_result_of :: "env \<Rightarrow> app_state \<Rightarrow> bind_execution_request \<Rightarrow> binding_intent \<Rightarrow> bind_execution_result \<Rightarrow> bool" where
  "bind_result_of E st req i result \<longleftrightarrow>
     br_trace_id result = be_trace_id req
     \<and> br_final_proof result = compute_final_proof (env_crates E) (bi_reasoning_hash i) (be_exchange_tx_id req)
     \<and> br_verification_status result =
         (if report_agrees (st_aliases st) req (bi_asset i) (bi_action i) (bi_quantity i)
               (cfg_bind_size_tolerance (st_config st)) then Matched else Divergent)"

lemma bind_commit_cases:
  assumes "bind_commit E st req i w = (out, w')"
  obtains (failed) e where "out = Inl (App (Database e))" "d_traces (w_db w') = d_traces (w_db w)"
      "w_metrics w' = w_metrics w"
  | (written) result price where "bind_result_of E st req i result"
      "opt_numeric (env_crates E) (be_execution_price req) = Some price"
      "d_traces (w_db w') = map (\<lambda>r. if tr_trace_id r = be_trace_id req
         then bind_row result req price r else r) (d_traces (w_db w))"
      "\<And>v. out = Inr v \<Longrightarrow> v = bind_response (env_crates E) result"
      "w_metrics w' = (case out of Inl _ \<Rightarrow> w_metrics w
         | Inr _ \<Rightarrow> count_bind (bind_label (br_verification_status result)) (w_metrics w))"
      "\<And>e. out = Inl e \<Longrightarrow> br_verification_status result = Matched"
proof -
  obtain result w1 where rec: "reconcile E (st_aliases st) (be_trace_id req) (bi_reasoning_hash i) req
      (bi_asset i) (bi_action i) (bi_quantity i) (cfg_bind_size_tolerance (st_config st)) w = (Inr result, w1)"
    and res: "bind_result_of E st req i result" and w1: "w_db w1 = w_db w"
    by (rule reconcile_result [of E "st_aliases st" "be_trace_id req" "bi_reasoning_hash i" req
        "bi_asset i" "bi_action i" "bi_quantity i" "cfg_bind_size_tolerance (st_config st)" w])
      (auto simp: bind_result_of_def)
  obtain u w2 where upd: "update_binding E result req w1 = (u, w2)" by force
  have m2: "w_metrics w2 = w_metrics w"
    using keepsD [OF keeps_reconcile [THEN only_tick_same_metrics] rec] keepsD [OF keeps_update_metrics upd]
    by (simp add: same_metrics_def)
  show thesis
  proof (cases u)
    case (Inl e)
    then have "out = Inl e" "w' = w2" using assms rec upd by (auto simp: bind_commit_def bindE_def)
    moreover have "\<exists>m. e = App (Database m)" "w_db w2 = w_db w1"
      using upd Inl by (auto simp: update_binding_def sql_def Let_def split: option.splits sum.splits)
    ultimately show thesis using w1 m2 failed by auto
  next
    case (Inr x)
    then obtain price where price: "opt_numeric (env_crates E) (be_execution_price req) = Some price"
      and rows: "d_traces (w_db w2) = map (\<lambda>r. if tr_trace_id r = be_trace_id req
         then bind_row result req price r else r) (d_traces (w_db w1))"
      using upd res by (auto simp: update_binding_def sql_ok_iff update_binding_stmt_def bind_result_of_def
          split: option.splits if_splits)
    obtain p w3 where pos: "bind_position E req i result w2 = (p, w3)" by force
    have same: "d_traces (w_db w3) = d_traces (w_db w2)"
      using keepsD [OF keeps_bind_position pos] by (simp add: same_traces_def)
    have m3: "w_metrics w3 = w_metrics w"
      using keepsD [OF keeps_position_metrics pos] m2 by (simp add: same_metrics_def)
    have "w_db w' = w_db w3" "\<And>v. out = Inr v \<Longrightarrow> v = bind_response (env_crates E) result"
      "w_metrics w' = (case out of Inl _ \<Rightarrow> w_metrics w
         | Inr _ \<Rightarrow> count_bind (bind_label (br_verification_status result)) (w_metrics w))"
      using assms rec upd pos Inr m3 by (auto simp: bind_commit_def bindE_def io_simps split: sum.splits)
    moreover have "br_verification_status result = Matched" if "out = Inl e" for e
      using that assms rec upd pos Inr
      by (auto simp: bind_commit_def bind_position_def bindE_def io_simps split: sum.splits if_splits)
    ultimately show thesis using written res price rows same w1 by simp
  qed
qed

lemma expire_pending_rows:
  "expire_pending E secs w = (out, w') \<Longrightarrow>
     d_traces (w_db w') = d_traces (w_db w)
     \<or> d_traces (w_db w') = map (expire_row (env_crates E) (env_clock E (w_tick w)) secs) (d_traces (w_db w))"
  by (auto simp: expire_pending_def sql_def Let_def split: option.splits)

section \<open>Interleaved requests\<close>

text \<open>
  The engine with its open bindings: the requests that have read the intent of
  their trace and have not written yet. Authorizations and sweeps are one
  statement as far as the trace table goes; a binding is a read and, later, a
  write. Ids come from \<open>Uuid::new_v4\<close>, so an authorization draws a fresh one.
\<close>

type_synonym engine = "world \<times> (bind_execution_request \<times> binding_intent) list"

definition trace_ids :: "world \<Rightarrow> uuid list" where
  "trace_ids w = map tr_trace_id (d_traces (w_db w))"

inductive engine_step :: "env \<Rightarrow> app_state \<Rightarrow> engine \<Rightarrow> engine \<Rightarrow> bool" for E st where
  es_authorize: "authorize E st cert req w = (out, w') \<Longrightarrow> distinct (trace_ids w') \<Longrightarrow>
     engine_step E st (w, S) (w', S)"
| es_bind_open: "bind_check E req w = (Inr i, w') \<Longrightarrow> engine_step E st (w, S) (w', (req, i) # S)"
| es_bind_refused: "bind_check E req w = (Inl e, w') \<Longrightarrow> engine_step E st (w, S) (w', S)"
| es_bind_write: "(req, i) \<in> set S \<Longrightarrow> bind_commit E st req i w = (out, w') \<Longrightarrow>
     engine_step E st (w, S) (w', remove1 (req, i) S)"
| es_expire: "expire_pending E secs w = (out, w') \<Longrightarrow> engine_step E st (w, S) (w', S)"

text \<open>Requests one after the other: no other request between the read and the write of a binding.\<close>

inductive serial_step :: "env \<Rightarrow> app_state \<Rightarrow> world \<Rightarrow> world \<Rightarrow> bool" for E st where
  ss_authorize: "authorize E st cert req w = (out, w') \<Longrightarrow> distinct (trace_ids w') \<Longrightarrow> serial_step E st w w'"
| ss_bind: "bind_execution E st req w = (out, w') \<Longrightarrow> serial_step E st w w'"
| ss_expire: "expire_pending E secs w = (out, w') \<Longrightarrow> serial_step E st w w'"

text \<open>The invariant: ids are unique, rows well formed, open bindings hold the hash of their row.\<close>

definition rows_ok :: "env \<Rightarrow> world \<Rightarrow> bool" where
  "rows_ok E w \<longleftrightarrow> distinct (trace_ids w) \<and> list_all (row_ok (env_crates E)) (d_traces (w_db w))"

definition engine_ok :: "env \<Rightarrow> engine \<Rightarrow> bool" where
  "engine_ok E s \<longleftrightarrow> rows_ok E (fst s) \<and> (\<forall>(req, i) \<in> set (snd s).
     \<exists>r \<in> set (d_traces (w_db (fst s))). tr_trace_id r = be_trace_id req \<and> tr_reasoning_hash r = bi_reasoning_hash i)"

lemma row_ok_unbound: "unbound r \<Longrightarrow> row_ok c r"
  by (simp add: row_ok_def unbound_def)

lemma expire_row_ok: "row_ok c r \<Longrightarrow> row_ok c (expire_row c' now secs r)"
  by (auto simp: row_ok_def expire_row_def)

lemma bind_row_ok:
  "bind_result_of E st req i result \<Longrightarrow> bi_reasoning_hash i = tr_reasoning_hash r \<Longrightarrow>
     row_ok (env_crates E) (bind_row result req price r)"
  by (auto simp: row_ok_def bind_row_def bind_result_of_def)

lemma row_columns [simp]:
  "tr_trace_id (bind_row result req price r) = tr_trace_id r"
  "tr_reasoning_hash (bind_row result req price r) = tr_reasoning_hash r"
  "sealed (bind_row result req price r) = sealed r"
  "tr_trace_id (expire_row c now secs r) = tr_trace_id r"
  "tr_reasoning_hash (expire_row c now secs r) = tr_reasoning_hash r"
  "sealed (expire_row c now secs r) = sealed r"
  by (simp_all add: bind_row_def expire_row_def sealed_def)

lemma bind_row_terminal:
  "bind_result_of E st req i result \<Longrightarrow> terminal (tr_verification_status (bind_row result req price r))"
  by (simp add: bind_row_def bind_result_of_def terminal_def)

lemma expire_row_step: "row_step r (expire_row c now secs r)"
  by (auto simp: row_step_def expire_row_def terminal_def sealed_def)


text \<open>A change of the rows that keeps ids and hashes keeps the open bindings valid.\<close>

lemma engine_ok_change:
  assumes "engine_ok E (w, S)" and "rows_ok E w'" and "set S' \<subseteq> set S"
    and "\<And>r. r \<in> set (d_traces (w_db w)) \<Longrightarrow> \<exists>r' \<in> set (d_traces (w_db w')).
           tr_trace_id r' = tr_trace_id r \<and> tr_reasoning_hash r' = tr_reasoning_hash r"
  shows "engine_ok E (w', S')"
  unfolding engine_ok_def
proof (simp add: assms(2), clarify)
  fix req i
  assume "(req, i) \<in> set S'"
  then have "(req, i) \<in> set S" using assms(3) by blast
  then obtain r where "r \<in> set (d_traces (w_db w))" "tr_trace_id r = be_trace_id req"
      "tr_reasoning_hash r = bi_reasoning_hash i"
    using assms(1) unfolding engine_ok_def by auto
  then show "\<exists>r \<in> set (d_traces (w_db w')). tr_trace_id r = be_trace_id req \<and> tr_reasoning_hash r = bi_reasoning_hash i"
    using assms(4) by metis
qed

lemma engine_ok_map:
  assumes "engine_ok E (w, S)" and "d_traces (w_db w') = map f (d_traces (w_db w))" and "set S' \<subseteq> set S"
    and "\<And>r. tr_trace_id (f r) = tr_trace_id r \<and> tr_reasoning_hash (f r) = tr_reasoning_hash r"
    and "\<And>r. r \<in> set (d_traces (w_db w)) \<Longrightarrow> row_ok (env_crates E) r \<Longrightarrow> row_ok (env_crates E) (f r)"
  shows "engine_ok E (w', S')"
proof (rule engine_ok_change [OF assms(1) _ assms(3)])
  show "rows_ok E w'"
    using assms by (simp add: engine_ok_def rows_ok_def trace_ids_def comp_def list_all_iff)
qed (use assms(2,4) in auto)

lemma authorize_rows_ok:
  assumes "authorize E st cert req w = (out, w')" and "distinct (trace_ids w')" and "rows_ok E w"
  shows "rows_ok E w'" and "\<exists>new. d_traces (w_db w') = d_traces (w_db w) @ new"
  using keepsD [OF keeps_authorize assms(1)] assms(2,3)
  by (auto simp: traces_grow_def rows_ok_def list_all_iff row_ok_unbound)

lemma ids_unique:
  "distinct (trace_ids w) \<Longrightarrow> r \<in> set (d_traces (w_db w)) \<Longrightarrow> r' \<in> set (d_traces (w_db w)) \<Longrightarrow>
     tr_trace_id r = tr_trace_id r' \<Longrightarrow> r = r'"
  by (auto simp: trace_ids_def distinct_map dest: inj_onD)

lemma find_trace_in: "find_trace t d = Some r \<Longrightarrow> r \<in> set (d_traces d) \<and> tr_trace_id r = t"
  by (auto simp: find_trace_def find_Some_iff)

lemma bind_commit_step:
  assumes "bind_commit E st req i w = (out, w')" and "engine_ok E (w, S)" and "(req, i) \<in> set S"
  shows "engine_ok E (w', remove1 (req, i) S)"
    and "rows_evolve row_race_step (d_traces (w_db w)) (d_traces (w_db w'))"
proof -
  have sub: "set (remove1 (req, i) S) \<subseteq> set S" by (rule set_remove1_subset)
  have hash: "bi_reasoning_hash i = tr_reasoning_hash r"
    if "r \<in> set (d_traces (w_db w))" "tr_trace_id r = be_trace_id req" for r
    using assms(2,3) that ids_unique unfolding engine_ok_def rows_ok_def by fastforce
  have "engine_ok E (w', remove1 (req, i) S) \<and> rows_evolve row_race_step (d_traces (w_db w)) (d_traces (w_db w'))"
    using assms(1)
  proof (cases rule: bind_commit_cases)
    case (failed e)
    then show ?thesis
      using engine_ok_map [OF assms(2) _ sub, of w' "\<lambda>r. r"] by (simp add: racing.evolve_refl)
  next
    case (written result price)
    let ?f = "\<lambda>r. if tr_trace_id r = be_trace_id req then bind_row result req price r else r"
    have "engine_ok E (w', remove1 (req, i) S)"
      using engine_ok_map [OF assms(2) written(3) sub] bind_row_ok [OF written(1)] hash by auto
    moreover have "rows_evolve row_race_step (d_traces (w_db w)) (map ?f (d_traces (w_db w)))"
      by (rule racing.evolve_map) (simp add: row_race_step_def bind_row_terminal [OF written(1)])
    ultimately show ?thesis using written(3) by simp
  qed
  then show "engine_ok E (w', remove1 (req, i) S)"
    and "rows_evolve row_race_step (d_traces (w_db w)) (d_traces (w_db w'))" by simp_all
qed

lemma engine_step_ok:
  assumes "engine_step E st s s'" and "engine_ok E s"
  shows "engine_ok E s' \<and> rows_evolve row_race_step (d_traces (w_db (fst s))) (d_traces (w_db (fst s')))"
  using assms
proof (induction rule: engine_step.induct)
  case (es_authorize cert req w out w' S)
  then have ok: "rows_ok E w'" "\<exists>new. d_traces (w_db w') = d_traces (w_db w) @ new"
    using authorize_rows_ok by (auto simp: engine_ok_def)
  have "engine_ok E (w', S)"
    by (rule engine_ok_change [OF es_authorize.prems ok(1)]) (use ok(2) in auto)
  then show ?case using ok(2) racing.evolve_append by auto
next
  case (es_bind_open req w i w' S)
  have db: "w_db w' = w_db w" using bind_check_db es_bind_open.hyps by blast
  obtain r where "find_trace (be_trace_id req) (w_db w) = Some r" "bi_reasoning_hash i = tr_reasoning_hash r"
    using bind_check_ok [OF es_bind_open.hyps] intent_of_row_hash by blast
  then show ?case
    using es_bind_open.prems db find_trace_in racing.evolve_refl
    by (fastforce simp: engine_ok_def rows_ok_def trace_ids_def)
next
  case (es_bind_refused req w e w' S)
  then have "w_db w' = w_db w" using bind_check_db by blast
  then show ?case using es_bind_refused.prems racing.evolve_refl
    by (auto simp: engine_ok_def rows_ok_def trace_ids_def)
next
  case (es_bind_write req i S w out w')
  then show ?case using bind_commit_step by simp
next
  case (es_expire secs w out w' S)
  consider (same) "d_traces (w_db w') = map (\<lambda>r. r) (d_traces (w_db w))"
    | (swept) "d_traces (w_db w') = map (expire_row (env_crates E) (env_clock E (w_tick w)) secs) (d_traces (w_db w))"
    using expire_pending_rows [OF es_expire.hyps] by auto
  then show ?case
  proof cases
    case same
    then show ?thesis using engine_ok_map [OF es_expire.prems same] racing.evolve_refl by simp
  next
    case swept
    then have "engine_ok E (w', S)"
      using engine_ok_map [OF es_expire.prems swept] expire_row_ok by simp
    then show ?thesis using swept racing.evolve_map expire_row_step row_step_race by simp
  qed
qed

lemma engine_run_ok:
  assumes "(engine_step E st)\<^sup>*\<^sup>* s s'" and "engine_ok E s"
  shows "engine_ok E s' \<and> rows_evolve row_race_step (d_traces (w_db (fst s))) (d_traces (w_db (fst s')))"
  using assms
proof (induction rule: rtranclp_induct)
  case base
  then show ?case by (simp add: racing.evolve_refl)
next
  case (step t u)
  then show ?case using engine_step_ok racing.evolve_trans by blast
qed


section \<open>Requests one after the other\<close>

lemma bind_execution_cases:
  assumes "bind_execution E st req w = (out, w')"
  obtains (refused) e where "out = Inl e" "w_db w' = w_db w"
  | (committed) i w1 where "bind_check E req w = (Inr i, w1)" "w_db w1 = w_db w" "bind_commit E st req i w1 = (out, w')"
proof -
  obtain c w1 where chk: "bind_check E req w = (c, w1)" by force
  then have db: "w_db w1 = w_db w" by (rule bind_check_db)
  show thesis
  proof (cases c)
    case (Inl e)
    then show thesis using assms chk db refused by (auto simp: bind_execution_def bindE_def)
  next
    case (Inr i)
    then show thesis using assms chk db committed by (simp add: bind_execution_def bindE_def)
  qed
qed

lemma bind_execution_rows:
  assumes "bind_execution E st req w = (out, w')" and "distinct (trace_ids w)"
  shows "rows_evolve row_step (d_traces (w_db w)) (d_traces (w_db w'))"
  using assms(1)
proof (cases rule: bind_execution_cases)
  case (refused e)
  then show ?thesis by (simp add: closing.evolve_refl)
next
  case (committed i w1)
  obtain r where r: "find_trace (be_trace_id req) (w_db w) = Some r" "tr_verification_status r = ''PENDING''"
    using bind_check_ok [OF committed(1)] by blast
  have pending: "tr_verification_status q = ''PENDING''"
    if "q \<in> set (d_traces (w_db w))" "tr_trace_id q = be_trace_id req" for q
    using ids_unique [OF assms(2)] find_trace_in [OF r(1)] r(2) that by metis
  from committed(3) show ?thesis
  proof (cases rule: bind_commit_cases)
    case (failed e)
    then show ?thesis using committed(2) by (simp add: closing.evolve_refl)
  next
    case (written result price)
    have "rows_evolve row_step (d_traces (w_db w)) (map (\<lambda>r. if tr_trace_id r = be_trace_id req
        then bind_row result req price r else r) (d_traces (w_db w)))"
      by (rule closing.evolve_map) (simp add: row_step_def bind_row_terminal [OF written(1)] pending)
    then show ?thesis using written(3) committed(2) by simp
  qed
qed

lemma serial_engine:
  assumes "serial_step E st w w'"
  shows "(engine_step E st)\<^sup>*\<^sup>* (w, []) (w', [])"
  using assms
proof (cases rule: serial_step.cases)
  case (ss_authorize cert req out)
  then show ?thesis using es_authorize by blast
next
  case (ss_bind req out)
  then obtain c w1 where chk: "bind_check E req w = (c, w1)" by force
  show ?thesis
  proof (cases c)
    case (Inl e)
    then have "w' = w1" using ss_bind chk by (simp add: bind_execution_def bindE_def)
    then show ?thesis using es_bind_refused chk Inl by blast
  next
    case (Inr i)
    then have "bind_commit E st req i w1 = (out, w')" using ss_bind chk by (simp add: bind_execution_def bindE_def)
    then have "engine_step E st (w1, [(req, i)]) (w', remove1 (req, i) [(req, i)])"
      by (intro es_bind_write) simp_all
    then show ?thesis
      using es_bind_open [of E req w i w1 st "[]"] chk Inr
      by (metis converse_rtranclp_into_rtranclp r_into_rtranclp remove1.simps(2))
  qed
next
  case (ss_expire secs out)
  then show ?thesis using es_expire by blast
qed

lemma serial_step_ok:
  assumes "serial_step E st w w'" and "rows_ok E w"
  shows "rows_ok E w' \<and> rows_evolve row_step (d_traces (w_db w)) (d_traces (w_db w'))"
proof
  show "rows_ok E w'"
    using engine_run_ok [OF serial_engine [OF assms(1)]] assms(2) by (simp add: engine_ok_def)
  show "rows_evolve row_step (d_traces (w_db w)) (d_traces (w_db w'))"
    using assms(1)
  proof (cases rule: serial_step.cases)
    case (ss_authorize cert req out)
    then show ?thesis using authorize_rows_ok(2) assms(2) closing.evolve_append by metis
  next
    case (ss_bind req out)
    then show ?thesis using bind_execution_rows assms(2) by (simp add: rows_ok_def)
  next
    case (ss_expire secs out)
    then show ?thesis using expire_pending_rows [OF ss_expire] closing.evolve_refl closing.evolve_map expire_row_step
      by auto
  qed
qed

lemma serial_run_ok:
  assumes "(serial_step E st)\<^sup>*\<^sup>* w w'" and "rows_ok E w"
  shows "rows_ok E w' \<and> rows_evolve row_step (d_traces (w_db w)) (d_traces (w_db w'))"
  using assms
proof (induction rule: rtranclp_induct)
  case base
  then show ?case by (simp add: closing.evolve_refl)
next
  case (step u v)
  then show ?case using serial_step_ok closing.evolve_trans by blast
qed


section \<open>Properties\<close>

definition demo_row :: trace_row where
  "demo_row =
     \<lparr>tr_trace_id = 7, tr_valid_time = 999000000, tr_txn_time = 999500000, tr_mta_regime_id = 0,
      tr_mta_version = ''v1'', tr_mta_hash = ''00'', tr_latent_fingerprint = ''lf'',
      tr_feature_schema_id = ''f'', tr_execution_action = ''Long(1)'', tr_execution_asset = ''BTC-PERP'',
      tr_client_order_id = ''o-1'', tr_execution_order_type = Some ''MARKET'',
      tr_execution_venue_id = Some ''XNAS'', tr_execution_quantity = Some 1,
      tr_execution_notional = Some 500, tr_execution_limit_price = None,
      tr_execution_notional_currency = ''USD'', tr_execution_multiplier = 1,
      tr_execution_stop_price = None, tr_heartbeat_seq = 0, tr_policy_id = POLICY_ID,
      tr_policy_version = POLICY_VERSION, tr_policy_hash = ''ph'', tr_policy_result = ''ALLOWED'',
      tr_reasoning_hash = ''rh'', tr_trace_json = JNull, tr_agent_id = Some 1, tr_trace_nonce = None,
      tr_encrypted_dek = None, tr_key_version = None, tr_encryption_version = 0,
      tr_mta_pubkey_used = None, tr_exchange_tx_id = None, tr_verification_status = ''PENDING'',
      tr_execution_status = None, tr_execution_price = None, tr_execution_time = None,
      tr_final_proof = None, tr_gdpr_erased_at = None, tr_gdpr_request_id = None\<rparr>"

definition demo_bind_world :: world where
  "demo_bind_world = demo_world\<lparr>w_db := demo_db\<lparr>d_traces := [demo_row]\<rparr>\<rparr>"

definition demo_fill :: "string \<Rightarrow> bind_execution_request" where
  "demo_fill tx =
     \<lparr>be_trace_id = 7, be_exchange_tx_id = tx, be_execution_status = Filled, be_asset = None,
      be_executed_quantity = None, be_execution_price = None, be_executed_side = None,
      be_execution_time_ms = Some 1000000\<rparr>"

definition demo_intent :: binding_intent where
  "demo_intent =
     \<lparr>bi_reasoning_hash = ''rh'', bi_asset = ''BTC-PERP'', bi_action = ''Long(1)'',
      bi_quantity = f64_round False 1, bi_status = ''PENDING'', bi_agent_id = Some 1, bi_venue_id = ''XNAS'',
      bi_currency = ''USD'', bi_multiplier = f64_round False 1\<rparr>"

lemma demo_intent_of_row: "intent_of_row demo_crates demo_row = Inr demo_intent"
  by (simp add: intent_of_row_def demo_row_def demo_intent_def demo_simps)

lemma demo_rows_ok: "rows_ok demo_env demo_bind_world"
  by (simp add: rows_ok_def trace_ids_def demo_bind_world_def row_ok_def demo_row_def)

lemma demo_check:
  assumes "d_traces (w_db w) = [demo_row]"
  shows "bind_check demo_env (demo_fill tx) w = (Inr demo_intent, w\<lparr>w_tick := Suc (w_tick w)\<rparr>)"
proof -
  have "find_trace 7 (w_db w) = Some demo_row" using assms by (simp add: find_trace_def demo_row_def)
  moreover have "bi_status demo_intent = ''PENDING''" by (simp add: demo_intent_def)
  ultimately show ?thesis
    by (simp add: bind_check_def get_intent_for_binding_def bindE_def sql_def Let_def demo_simps
        demo_fill_def demo_intent_of_row io_simps)
qed

lemma demo_commit:
  assumes "d_traces (w_db w) = [r]" and "tr_trace_id r = 7"
  shows "\<exists>v w'. bind_commit demo_env demo_state (demo_fill tx) demo_intent w = (Inr v, w')
     \<and> (\<exists>r'. d_traces (w_db w') = [r'] \<and> tr_trace_id r' = 7 \<and> tr_exchange_tx_id r' = Some tx
          \<and> tr_verification_status r' = ''MATCHED''
          \<and> tr_final_proof r' = Some (compute_final_proof demo_crates ''rh'' tx))"
  using assms
  by (simp add: bind_commit_def reconcile_def demo_fill_def demo_intent_def demo_state_def Let_def bindE_def
      io_simps demo_simps timestamp_millis_def asset_divergence_def side_divergence_def
      quantity_divergence_def update_binding_def sql_def update_binding_stmt_def opt_numeric_def
      valid_statuses_def bind_row_def bind_position_def quantity_delta_def)

lemma demo_bind_ok:
  "\<exists>v w'. bind_execution demo_env demo_state (demo_fill ''tx-1'') demo_bind_world = (Inr v, w')"
proof -
  have rows: "d_traces (w_db demo_bind_world) = [demo_row]" by (simp add: demo_bind_world_def)
  let ?w1 = "demo_bind_world\<lparr>w_tick := Suc (w_tick demo_bind_world)\<rparr>"
  obtain v w' where "bind_commit demo_env demo_state (demo_fill ''tx-1'') demo_intent ?w1 = (Inr v, w')"
    using demo_commit [of ?w1 demo_row "''tx-1''"] rows by (auto simp: demo_row_def)
  then show ?thesis by (simp add: bind_execution_def bindE_def demo_check [OF rows])
qed

text \<open>C4: the life cycle of a trace when requests run one after the other. From well formed rows,
  whatever authorizations, bindings and sweeps run, each stored trace stays in place with its
  sealed columns untouched; once it is matched, divergent or expired its row never changes again;
  and every row stays well formed: unbound rows carry no proof, bound ones the proof of their own
  reasoning hash and recorded transaction.\<close>

theorem trace_lifecycle:
  assumes "(serial_step E st)\<^sup>*\<^sup>* w w'" and "rows_ok E w" and "k < length (d_traces (w_db w))"
  shows "k < length (d_traces (w_db w'))
    \<and> sealed (d_traces (w_db w') ! k) = sealed (d_traces (w_db w) ! k)
    \<and> (tr_verification_status (d_traces (w_db w) ! k) \<noteq> ''PENDING'' \<longrightarrow>
           d_traces (w_db w') ! k = d_traces (w_db w) ! k)
    \<and> rows_ok E w'"
proof -
  have run: "rows_ok E w'" "rows_evolve row_step (d_traces (w_db w)) (d_traces (w_db w'))"
    using serial_run_ok [OF assms(1,2)] by simp_all
  then have "k < length (d_traces (w_db w')) \<and> row_step (d_traces (w_db w) ! k) (d_traces (w_db w') ! k)"
    using closing.evolve_nth assms(3) by blast
  then show ?thesis using run by (auto simp: row_step_def)
qed

theorem trace_lifecycle_witness:
  "\<exists>w'. serial_step demo_env demo_state demo_bind_world w'
     \<and> sealed (d_traces (w_db w') ! 0) = sealed demo_row \<and> rows_ok demo_env w'"
proof -
  obtain v w' where "bind_execution demo_env demo_state (demo_fill ''tx-1'') demo_bind_world = (Inr v, w')"
    using demo_bind_ok by blast
  then have step: "serial_step demo_env demo_state demo_bind_world w'" by (rule ss_bind)
  then have run: "(serial_step demo_env demo_state)\<^sup>*\<^sup>* demo_bind_world w'" by (rule r_into_rtranclp)
  have row: "d_traces (w_db demo_bind_world) = [demo_row]" by (simp add: demo_bind_world_def)
  with trace_lifecycle [OF run demo_rows_ok, of 0] step show ?thesis by auto
qed

text \<open>C14: what survives interleaving. Under every interleaving of the reads and writes of concurrent
  requests no stored trace disappears, its sealed columns stay as sealed, it never returns to
  PENDING, and whatever binding is recorded carries the proof of that row's reasoning hash and
  that row's transaction.\<close>

theorem interleaved_audit_chain:
  assumes "(engine_step E st)\<^sup>*\<^sup>* (w, S) (w', S')" and "engine_ok E (w, S)"
    and "k < length (d_traces (w_db w))"
  shows "k < length (d_traces (w_db w'))
    \<and> sealed (d_traces (w_db w') ! k) = sealed (d_traces (w_db w) ! k)
    \<and> (tr_verification_status (d_traces (w_db w) ! k) \<noteq> ''PENDING'' \<longrightarrow>
         tr_verification_status (d_traces (w_db w') ! k) \<noteq> ''PENDING'')
    \<and> row_ok (env_crates E) (d_traces (w_db w') ! k)"
proof -
  have run: "engine_ok E (w', S')" "rows_evolve row_race_step (d_traces (w_db w)) (d_traces (w_db w'))"
    using engine_run_ok [OF assms(1,2)] by simp_all
  have step: "k < length (d_traces (w_db w')) \<and> row_race_step (d_traces (w_db w) ! k) (d_traces (w_db w') ! k)"
    by (rule racing.evolve_nth [OF run(2) assms(3)])
  moreover have "row_ok (env_crates E) (d_traces (w_db w') ! k)"
    using run(1) step by (auto simp: engine_ok_def rows_ok_def list_all_length)
  ultimately show ?thesis by (auto simp: row_race_step_def terminal_def)
qed

text \<open>Two reports of one trace, both read before either is written.\<close>

lemma demo_race:
  "\<exists>w1 w2 S1 S2 r1 r2. (engine_step demo_env demo_state)\<^sup>*\<^sup>* (demo_bind_world, []) (w1, S1)
     \<and> engine_step demo_env demo_state (w1, S1) (w2, S2)
     \<and> d_traces (w_db w1) = [r1] \<and> tr_verification_status r1 = ''MATCHED'' \<and> tr_exchange_tx_id r1 = Some ''tx-1''
     \<and> d_traces (w_db w2) = [r2] \<and> tr_verification_status r2 = ''MATCHED'' \<and> tr_exchange_tx_id r2 = Some ''tx-2''
     \<and> tr_final_proof r2 = Some (compute_final_proof demo_crates ''rh'' ''tx-2'')"
proof -
  let ?a = "(demo_fill ''tx-1'', demo_intent)" and ?b = "(demo_fill ''tx-2'', demo_intent)"
  have rows: "d_traces (w_db demo_bind_world) = [demo_row]" by (simp add: demo_bind_world_def)
  obtain u1 where u1: "bind_check demo_env (demo_fill ''tx-1'') demo_bind_world = (Inr demo_intent, u1)"
      "d_traces (w_db u1) = [demo_row]"
    using demo_check [OF rows] rows by auto
  obtain u2 where u2: "bind_check demo_env (demo_fill ''tx-2'') u1 = (Inr demo_intent, u2)"
      "d_traces (w_db u2) = [demo_row]"
    using demo_check [OF u1(2)] u1(2) by auto
  have id: "tr_trace_id demo_row = 7" by (simp add: demo_row_def)
  obtain o1 w1 r1 where w1: "bind_commit demo_env demo_state (demo_fill ''tx-1'') demo_intent u2 = (o1, w1)"
      "d_traces (w_db w1) = [r1]" "tr_trace_id r1 = 7" "tr_exchange_tx_id r1 = Some ''tx-1''"
      "tr_verification_status r1 = ''MATCHED''"
    using demo_commit [OF u2(2) id] by blast
  obtain o2 w2 r2 where w2: "bind_commit demo_env demo_state (demo_fill ''tx-2'') demo_intent w1 = (o2, w2)"
      "d_traces (w_db w2) = [r2]" "tr_exchange_tx_id r2 = Some ''tx-2''" "tr_verification_status r2 = ''MATCHED''"
      "tr_final_proof r2 = Some (compute_final_proof demo_crates ''rh'' ''tx-2'')"
    using demo_commit [OF w1(2,3)] by blast
  have 1: "engine_step demo_env demo_state (demo_bind_world, []) (u1, [?a])" by (rule es_bind_open [OF u1(1)])
  have 2: "engine_step demo_env demo_state (u1, [?a]) (u2, [?b, ?a])" by (rule es_bind_open [OF u2(1)])
  have 3: "engine_step demo_env demo_state (u2, [?b, ?a]) (w1, remove1 ?a [?b, ?a])"
    by (rule es_bind_write [OF _ w1(1)]) simp
  have rem: "remove1 ?a [?b, ?a] = [?b]" by (simp add: demo_fill_def)
  have 4: "engine_step demo_env demo_state (w1, [?b]) (w2, remove1 ?b [?b])"
    by (rule es_bind_write [OF _ w2(1)]) simp
  have 3: "engine_step demo_env demo_state (u2, [?b, ?a]) (w1, [?b])" using 3 by (simp only: rem)
  have "(engine_step demo_env demo_state)\<^sup>*\<^sup>* (demo_bind_world, []) (u1, [?a])" using 1 by (rule r_into_rtranclp)
  then have "(engine_step demo_env demo_state)\<^sup>*\<^sup>* (demo_bind_world, []) (u2, [?b, ?a])" using 2 by (rule rtranclp.rtrancl_into_rtrancl)
  then have run: "(engine_step demo_env demo_state)\<^sup>*\<^sup>* (demo_bind_world, []) (w1, [?b])" using 3 by (rule rtranclp.rtrancl_into_rtrancl)
  show ?thesis
    by (intro exI conjI) (rule run 4 w1(2) w1(5) w1(4) w2(2) w2(4) w2(3) w2(5))+
qed

theorem interleaved_audit_chain_witness:
  "\<exists>w S. (engine_step demo_env demo_state)\<^sup>*\<^sup>* (demo_bind_world, []) (w, S)
     \<and> sealed (d_traces (w_db w) ! 0) = sealed demo_row \<and> row_ok demo_crates (d_traces (w_db w) ! 0)"
proof -
  obtain w S where run: "(engine_step demo_env demo_state)\<^sup>*\<^sup>* (demo_bind_world, []) (w, S)"
    using demo_race by blast
  have ok: "engine_ok demo_env (demo_bind_world, [])" using demo_rows_ok by (simp add: engine_ok_def)
  have "d_traces (w_db demo_bind_world) = [demo_row]" by (simp add: demo_bind_world_def)
  with interleaved_audit_chain [OF run ok, of 0] run show ?thesis by (auto simp: demo_simps)
qed

text \<open>the idempotency guard does not hold against a concurrent report. Two reports of one PENDING
  trace that are both read before either is written are both recorded: the trace is matched with
  the first transaction, and then its transaction and final proof are replaced by the second's.\<close>

theorem concurrent_bindings_overwrite:
  "\<exists>w1 w2 S1 S2 r1 r2. (engine_step demo_env demo_state)\<^sup>*\<^sup>* (demo_bind_world, []) (w1, S1)
     \<and> engine_step demo_env demo_state (w1, S1) (w2, S2)
     \<and> d_traces (w_db w1) = [r1] \<and> tr_verification_status r1 = ''MATCHED'' \<and> tr_exchange_tx_id r1 = Some ''tx-1''
     \<and> d_traces (w_db w2) = [r2] \<and> tr_verification_status r2 = ''MATCHED'' \<and> tr_exchange_tx_id r2 = Some ''tx-2''
     \<and> tr_final_proof r2 = Some (compute_final_proof demo_crates ''rh'' ''tx-2'')"
  by (rule demo_race)


lemma map_one_row:
  assumes "distinct (map key rows)" and "k < length rows"
  shows "map (\<lambda>r. if key r = key (rows ! k) then f r else r) rows = rows[k := f (rows ! k)]"
proof (rule nth_equalityI)
  show "map (\<lambda>r. if key r = key (rows ! k) then f r else r) rows ! j = rows[k := f (rows ! k)] ! j"
    if "j < length (map (\<lambda>r. if key r = key (rows ! k) then f r else r) rows)" for j
  proof -
    have "key (rows ! j) = key (rows ! k) \<longleftrightarrow> j = k"
      using assms that nth_eq_iff_index_eq [OF assms(1), of j k] by simp
    then show ?thesis using that assms(2) by (auto simp: nth_list_update)
  qed
qed simp

text \<open>C15: what a successful binding does. The reported trace was PENDING and is the only row that
  changes; it is closed as MATCHED exactly when the report agrees with the stored intent and as
  DIVERGENT otherwise, records the exchange transaction and the final proof of its own reasoning
  hash and that transaction, and keeps every sealed column.\<close>

theorem bind_execution_correct:
  assumes "bind_execution E st req w = (Inr v, w')" and "distinct (trace_ids w)"
  shows "\<exists>k r' qty. k < length (d_traces (w_db w)) \<and> d_traces (w_db w') = (d_traces (w_db w))[k := r']
    \<and> tr_trace_id (d_traces (w_db w) ! k) = be_trace_id req
    \<and> tr_verification_status (d_traces (w_db w) ! k) = ''PENDING''
    \<and> tr_execution_quantity (d_traces (w_db w) ! k) = Some qty
    \<and> tr_verification_status r' =
        (if report_agrees (st_aliases st) req (tr_execution_asset (d_traces (w_db w) ! k))
              (tr_execution_action (d_traces (w_db w) ! k)) (pg_float8 (env_crates E) qty)
              (cfg_bind_size_tolerance (st_config st))
         then ''MATCHED'' else ''DIVERGENT'')
    \<and> tr_exchange_tx_id r' = Some (be_exchange_tx_id req)
    \<and> tr_final_proof r' = Some (compute_final_proof (env_crates E)
         (tr_reasoning_hash (d_traces (w_db w) ! k)) (be_exchange_tx_id req))
    \<and> sealed r' = sealed (d_traces (w_db w) ! k)"
  using assms(1)
proof (cases rule: bind_execution_cases)
  case (refused e)
  then show ?thesis by simp
next
  case (committed i w1)
  let ?rows = "d_traces (w_db w)"
  obtain r where r: "find_trace (be_trace_id req) (w_db w) = Some r" "tr_verification_status r = ''PENDING''"
    and i: "intent_of_row (env_crates E) r = Inr i"
    using bind_check_ok [OF committed(1)] by blast
  then obtain k where k: "k < length ?rows" "?rows ! k = r" "tr_trace_id r = be_trace_id req"
    using find_trace_in [OF r(1)] by (auto simp: in_set_conv_nth)
  from committed(3) show ?thesis
  proof (cases rule: bind_commit_cases)
    case (failed e)
    then show ?thesis by simp
  next
    case (written result price)
    have "d_traces (w_db w') = ?rows[k := bind_row result req price r]"
      using map_one_row [of tr_trace_id ?rows k] assms(2) k written(3) committed(2) by (simp add: trace_ids_def)
    then show ?thesis
      using k r i written(1)
      by (intro exI [of _ k] exI [of _ "bind_row result req price r"])
        (auto simp: bind_row_def bind_result_of_def intent_of_row_def sealed_def split: option.splits)
  qed
qed

theorem bind_execution_correct_witness:
  "\<exists>v w' r'. bind_execution demo_env demo_state (demo_fill ''tx-1'') demo_bind_world = (Inr v, w')
     \<and> d_traces (w_db w') = [r'] \<and> tr_exchange_tx_id r' = Some ''tx-1''"
proof -
  obtain v w' where run: "bind_execution demo_env demo_state (demo_fill ''tx-1'') demo_bind_world = (Inr v, w')"
    using demo_bind_ok by blast
  have row: "d_traces (w_db demo_bind_world) = [demo_row]" and "distinct (trace_ids demo_bind_world)"
    by (simp_all add: demo_bind_world_def trace_ids_def)
  with bind_execution_correct [OF run] run show ?thesis by (auto simp: demo_fill_def)
qed

text \<open>C40: reports that are turned away. For an unknown trace the handler answers that it does not
  exist, for a trace that is not PENDING that it is already bound, with its status; the database
  is as before in both cases.\<close>

theorem bind_execution_refused:
  assumes "env_db_fault E (w_tick w) = None"
    and "find_trace (be_trace_id req) (w_db w) = None
      \<or> (\<exists>r. find_trace (be_trace_id req) (w_db w) = Some r \<and> tr_verification_status r \<noteq> ''PENDING''
           \<and> tr_execution_quantity r \<noteq> None)"
  shows "bind_execution E st req w =
    (Inl (App (case find_trace (be_trace_id req) (w_db w) of
                 None \<Rightarrow> TraceNotFound (uuid_to_string (env_crates E) (be_trace_id req))
               | Some r \<Rightarrow> TraceAlreadyBound (uuid_to_string (env_crates E) (be_trace_id req))
                   (tr_verification_status r))),
     w\<lparr>w_tick := Suc (w_tick w)\<rparr>)"
  using assms
  by (auto simp: bind_execution_def bind_check_def get_intent_for_binding_def bindE_def sql_def Let_def
      io_simps intent_of_row_def split: option.splits)

theorem bind_execution_refused_witness:
  "fst (bind_execution demo_env demo_state (demo_fill ''tx-1'') demo_world) = Inl (App (TraceNotFound ''7''))"
proof -
  have "find_trace (be_trace_id (demo_fill ''tx-1'')) (w_db demo_world) = None"
    by (simp add: find_trace_def demo_world_def demo_db_def)
  moreover have "show_int (uint (7 :: uuid)) = ''7''" by code_simp
  ultimately show ?thesis
    using bind_execution_refused [of demo_env demo_world "demo_fill ''tx-1''" demo_state]
    by (simp add: demo_simps demo_fill_def)
qed

text \<open>C33: the sweep closes every stale trace. After a successful sweep no PENDING trace is older than
  the expiry at the time of the sweep, the count is the number of traces it closed, and the
  pending notional of every agent is that of its younger PENDING traces, so expired orders
  release their share of the portfolio cap.\<close>

theorem expire_pending_complete:
  assumes "expire_pending E secs w = (Inr n, w')"
  shows "(\<forall>r \<in> set (d_traces (w_db w')). tr_verification_status r = ''PENDING'' \<longrightarrow>
         \<not> older_than (env_crates E) (env_clock E (w_tick w)) secs r)
    \<and> n = length (filter (\<lambda>(r, r'). r' \<noteq> r) (zip (d_traces (w_db w)) (d_traces (w_db w'))))
    \<and> pending_sum a (d_traces (w_db w')) = pending_sum a
         (filter (\<lambda>r. \<not> older_than (env_crates E) (env_clock E (w_tick w)) secs r) (d_traces (w_db w)))"
proof -
  define old where "old = older_than (env_crates E) (env_clock E (w_tick w)) secs"
  let ?c = "env_crates E" and ?now = "env_clock E (w_tick w)" and ?rows = "d_traces (w_db w)"
  have rows: "d_traces (w_db w') = map (expire_row ?c ?now secs) ?rows"
    and n: "n = length (filter (\<lambda>r. tr_verification_status r = ''PENDING'' \<and> old r) ?rows)"
    using assms unfolding old_def by (auto simp: expire_pending_def sql_ok_iff)
  have changed: "expire_row ?c ?now secs r \<noteq> r \<longleftrightarrow> tr_verification_status r = ''PENDING'' \<and> old r" for r
    by (cases r) (auto simp: expire_row_def old_def)
  have count: "length (filter (\<lambda>(r, r'). r' \<noteq> r) (zip xs (map (expire_row ?c ?now secs) xs)))
      = length (filter (\<lambda>r. tr_verification_status r = ''PENDING'' \<and> old r) xs)" for xs
    by (induction xs) (simp_all add: changed)
  have sum: "pending_sum a (map (expire_row ?c ?now secs) xs) = pending_sum a (filter (\<lambda>r. \<not> old r) xs)" for xs
    by (induction xs) (auto simp: pending_sum_def expire_row_def old_def)
  have "\<not> old r" if "r \<in> set (d_traces (w_db w'))" "tr_verification_status r = ''PENDING''" for r
    using that rows by (auto simp: expire_row_def old_def split: if_splits)
  then show ?thesis using count [of ?rows] sum [of ?rows] rows n unfolding old_def by simp
qed

theorem expire_pending_complete_witness:
  "\<exists>w'. expire_pending demo_env (Finite 0) demo_bind_world = (Inr 1, w')
     \<and> pending_sum 1 (d_traces (w_db w')) = 0 \<and> pending_sum 1 (d_traces (w_db demo_bind_world)) = 500"
proof -
  obtain w' where run: "expire_pending demo_env (Finite 0) demo_bind_world = (Inr 1, w')"
    by (simp add: expire_pending_def sql_def Let_def demo_simps demo_bind_world_def older_than_def
        demo_row_def demo_world_def)
  have "pending_sum 1 (d_traces (w_db w')) = 0"
    using expire_pending_complete [OF run, of 1]
    by (simp add: demo_bind_world_def older_than_def demo_simps demo_row_def demo_world_def pending_sum_def)
  then show ?thesis using run by (simp add: pending_sum_def demo_bind_world_def demo_row_def)
qed

end
