(* ===== verification/Irl_Auth.thy ===== *)
theory Irl_Auth
  imports Irl_World
begin

text \<open>
  \<open>src/rate_limit.rs\<close>, \<open>src/token_manager.rs\<close>, \<open>src/auth.rs\<close> and
  \<open>src/middleware/client_cert.rs\<close>: who may call the engine, and how often.
\<close>

section \<open>Rate limiter\<close>

text \<open>One request of a token in a given second of the wall clock.\<close>

definition rate_step ::
  "u32 \<Rightarrow> string \<times> u64 \<Rightarrow> (string \<Rightarrow> (u64 \<times> u32) option) \<Rightarrow> unit res \<times> (string \<Rightarrow> (u64 \<times> u32) option)"
where
  "rate_step max_per_second ev counters =
     (let (token, now_sec) = ev;
          entry = (case counters token of None \<Rightarrow> (now_sec, 0) | Some e \<Rightarrow> e)
      in if fst entry \<noteq> now_sec then (Inr (), counters(token \<mapsto> (now_sec, 1)))
         else if snd entry < max_per_second then (Inr (), counters(token \<mapsto> (now_sec, snd entry + 1)))
         else (Inl RateLimitExceeded, counters(token \<mapsto> entry)))"

text \<open>\<open>duration_since(UNIX_EPOCH)\<close> fails before the epoch, and the default is zero.\<close>

definition epoch_secs :: "int \<Rightarrow> u64" where
  "epoch_secs us = word_of_int (max 0 us div 1000000)"

definition rate_check :: "env \<Rightarrow> u32 \<Rightarrow> string \<Rightarrow> unit io" where
  "rate_check E max_per_second token =
     (if max_per_second = 0 then ret ()
      else bindE (effect (\<lambda>t. epoch_secs (env_clock E t))) (\<lambda>now_sec.
           bindE (gets w_counters) (\<lambda>counters.
           let (r, counters') = rate_step max_per_second (token, now_sec) counters
           in bindE (modify (\<lambda>w. w\<lparr>w_counters := counters'\<rparr>)) (\<lambda>_. liftE r))))"

section \<open>Token manager\<close>

definition sha256_hex :: "crates \<Rightarrow> string \<Rightarrow> string" where
  "sha256_hex c input = sha256_hex_of c [as_bytes input]"

definition insert_env_token :: "uuid \<Rightarrow> int \<Rightarrow> string \<Rightarrow> database \<Rightarrow> database" where
  "insert_env_token tid now hash d =
     (if list_ex (\<lambda>t. to_token_hash t = hash) (d_tokens d) then d
      else d\<lparr>d_tokens := d_tokens d @
        [\<lparr>to_token_id = tid, to_token_hash = hash, to_client_name = ''env-loaded'', to_created_at = now,
          to_last_used_at = None, to_status = ''active'', to_source = ''env'', to_role = ''client''\<rparr>]\<rparr>)"

definition active_hashes :: "database \<Rightarrow> string list" where
  "active_hashes d = map to_token_hash (filter (\<lambda>t. to_status t = ''active'') (d_tokens d))"

definition refresh_cache :: "env \<Rightarrow> unit io" where
  "refresh_cache E =
     bindE (sql_read E (\<lambda>now d. active_hashes d)) (\<lambda>rows.
     modify (\<lambda>w. w\<lparr>w_token_cache := rows\<rparr>))"

text \<open>The row id is drawn by the database when the row is inserted.\<close>

definition sync_token :: "env \<Rightarrow> string \<Rightarrow> unit io" where
  "sync_token E token =
     bindE (effect (env_uuid E)) (\<lambda>tid.
     sql E (\<lambda>now d. Inr ((), insert_env_token tid now (sha256_hex (env_crates E) token) d)))"

definition token_manager_new :: "env \<Rightarrow> string list \<Rightarrow> unit io" where
  "token_manager_new E env_tokens =
     bindE (mapM (sync_token E) env_tokens) (\<lambda>_.
     bindE (modify (\<lambda>w. w\<lparr>w_token_cache := [], w_last_bumped := (\<lambda>_. None)\<rparr>)) (\<lambda>_.
     refresh_cache E))"

definition is_valid :: "crates \<Rightarrow> world \<Rightarrow> string \<Rightarrow> bool" where
  "is_valid c w raw_token \<longleftrightarrow> sha256_hex c raw_token \<in> set (w_token_cache w)"

text \<open>The spawned update runs at once here; its result is discarded.\<close>

definition bump_last_used :: "env \<Rightarrow> string \<Rightarrow> unit io" where
  "bump_last_used E raw_token =
     (let hash = sha256_hex (env_crates E) raw_token in
      bindE (gets (\<lambda>w. w_last_bumped w hash)) (\<lambda>bumped.
      bindE (case bumped of
               None \<Rightarrow> ret True
             | Some t \<Rightarrow> effect (\<lambda>n. 60 * 1000000 \<le> max 0 (env_instant E n - t))) (\<lambda>should_bump.
      if \<not> should_bump then ret ()
      else
        bindE (effect (env_instant E)) (\<lambda>t.
        bindE (modify (\<lambda>w. w\<lparr>w_last_bumped := (w_last_bumped w)(hash \<mapsto> t)\<rparr>)) (\<lambda>_.
        bindE (attempt (sql E (\<lambda>now d. Inr ((), d\<lparr>d_tokens := map (\<lambda>r.
                 if to_token_hash r = hash then r\<lparr>to_last_used_at := Some now\<rparr> else r) (d_tokens d)\<rparr>)))) (\<lambda>_. ret ()))))))"

definition get_token_role :: "env \<Rightarrow> string \<Rightarrow> string option io" where
  "get_token_role E raw_token =
     bindE (attempt (sql_read E (\<lambda>now d. map_option to_role
       (find (\<lambda>t. to_token_hash t = sha256_hex (env_crates E) raw_token \<and> to_status t = ''active'')
          (d_tokens d))))) (\<lambda>row.
     ret (case row of Inl _ \<Rightarrow> None | Inr r \<Rightarrow> r))"

section \<open>Bearer authentication\<close>

text \<open>\<open>HeaderValue::to_str\<close>: visible ASCII and tab only.\<close>

definition header_to_str :: "string \<Rightarrow> string option" where
  "header_to_str h =
     (if list_all (\<lambda>ch. (32 \<le> (of_char ch :: nat) \<and> (of_char ch :: nat) < 127) \<or> (of_char ch :: nat) = 9) h
      then Some h else None)"

definition extract_bearer :: "string option \<Rightarrow> string res" where
  "extract_bearer authorization =
     res_bind (ok_or Unauthorized authorization) (\<lambda>h.
     res_bind (ok_or Unauthorized (header_to_str h)) (\<lambda>header.
     ok_or Unauthorized (strip_prefix header ''Bearer '')))"

text \<open>
  What the middleware adds to the request: the operator id, the first 12 hex
  digits of the token's hash, and the client's address.
\<close>

record operator =
  op_id :: string
  op_ip :: "string option"

definition require_bearer :: "env \<Rightarrow> u32 \<Rightarrow> string option \<Rightarrow> string option \<Rightarrow> operator io" where
  "require_bearer E max_per_second authorization connect_info =
     bindE (liftE (extract_bearer authorization)) (\<lambda>token.
     bindE (gets (\<lambda>w. is_valid (env_crates E) w token)) (\<lambda>valid.
     if \<not> valid then fail Unauthorized
     else
       bindE (rate_check E max_per_second token) (\<lambda>_.
       bindE (bump_last_used E token) (\<lambda>_.
       ret \<lparr>op_id = take 12 (sha256_hex (env_crates E) token), op_ip = connect_info\<rparr>))))"

definition require_owner :: "env \<Rightarrow> string option \<Rightarrow> unit io" where
  "require_owner E authorization =
     bindE (liftE (extract_bearer authorization)) (\<lambda>token.
     bindE (get_token_role E token) (\<lambda>role.
     if role = Some ''owner'' then ret () else fail Forbidden))"

section \<open>Client certificates\<close>

text \<open>
  The X.509 parser is a parameter: the common name, if any, and the expiry of a
  certificate, or nothing when the bytes are not a certificate.
\<close>

type_synonym x509 = "byte list \<Rightarrow> (string option \<times> int) option"

record client_cert_info =
  cc_cn :: string
  cc_not_after :: int

definition parse_client_cert :: "x509 \<Rightarrow> byte list \<Rightarrow> string + client_cert_info" where
  "parse_client_cert parse der =
     res_bind (ok_or ''Failed to parse client cert'' (parse der)) (\<lambda>cert.
     res_bind (ok_or ''Client cert has no CommonName'' (fst cert)) (\<lambda>cn.
     Inr \<lparr>cc_cn = cn, cc_not_after = snd cert\<rparr>))"

definition client_cert_middleware :: "x509 \<Rightarrow> byte list \<Rightarrow> client_cert_info option" where
  "client_cert_middleware parse peer_cert =
     (if peer_cert \<noteq> [] then (case parse_client_cert parse peer_cert of Inr i \<Rightarrow> Some i | Inl _ \<Rightarrow> None)
      else None)"


section \<open>The limiter over a run of requests\<close>

definition counters_ok :: "u32 \<Rightarrow> (string \<Rightarrow> (u64 \<times> u32) option) \<Rightarrow> bool" where
  "counters_ok mx counters \<longleftrightarrow> mx \<noteq> 0 \<longrightarrow> (\<forall>t win n. counters t = Some (win, n) \<longrightarrow> n \<le> mx)"

lemma u32_succ_le: "(n :: u32) < mx \<Longrightarrow> n + 1 \<le> mx \<and> unat (n + 1) = unat n + 1"
proof -
  assume "n < mx"
  then have "unat n < unat mx" by (simp add: word_less_nat_alt)
  moreover have "unat mx < 2 ^ 32" using unsigned_less [of mx, where ?'a = nat] by simp
  ultimately have "unat (n + 1) = unat n + 1" by (simp add: unat_word_ariths)
  then show ?thesis using \<open>unat n < unat mx\<close> by (simp add: word_le_nat_alt)
qed

interpretation limiter: step_invariant "rate_step mx" "counters_ok mx" for mx
proof
  fix s :: "string \<Rightarrow> (u64 \<times> u32) option" and e :: "string \<times> u64"
  have one: "mx \<noteq> 0 \<Longrightarrow> (1 :: u32) \<le> mx"
    by (simp add: word_le_nat_alt) (metis One_nat_def Suc_leI unat_gt_0)
  assume "counters_ok mx s"
  then show "counters_ok mx (snd (rate_step mx e s))"
    using one u32_succ_le
    by (auto simp: counters_ok_def rate_step_def Let_def split: prod.splits option.splits)
qed

text \<open>How much of its quota a token has used in a second.\<close>

definition used :: "(string \<Rightarrow> (u64 \<times> u32) option) \<Rightarrow> string \<Rightarrow> u64 \<Rightarrow> nat" where
  "used counters token sec =
     (case counters token of None \<Rightarrow> 0 | Some (win, n) \<Rightarrow> if win = sec then unat n else 0)"

definition not_past :: "(string \<Rightarrow> (u64 \<times> u32) option) \<Rightarrow> u64 \<Rightarrow> bool" where
  "not_past counters sec \<longleftrightarrow> (\<forall>t win n. counters t = Some (win, n) \<longrightarrow> win \<le> sec)"

lemma not_past_mono: "not_past s a \<Longrightarrow> a \<le> b \<Longrightarrow> not_past s b"
  unfolding not_past_def by (blast intro: order_trans)

lemma not_past_unused: "not_past s a \<Longrightarrow> a < b \<Longrightarrow> used s t b = 0"
  unfolding not_past_def used_def by (force split: option.splits)

lemma rate_step_used:
  assumes "mx \<noteq> 0" and "counters_ok mx s" and "not_past s sec"
  shows "is_ok (fst (rate_step mx (token, sec) s)) \<longleftrightarrow> used s token sec < unat mx"
    and "used (snd (rate_step mx (token, sec) s)) t k =
      (if t = token
       then if k = sec then (if used s token sec < unat mx then Suc (used s token sec) else used s token sec)
            else 0
       else used s t k)"
    and "not_past (snd (rate_step mx (token, sec) s)) sec"
proof -
  have pos: "0 < unat mx" using assms(1) by (simp add: unat_gt_0)
  have one: "unat (1 :: u32) = 1" by simp
  show "is_ok (fst (rate_step mx (token, sec) s)) \<longleftrightarrow> used s token sec < unat mx"
    using pos by (auto simp: rate_step_def used_def Let_def word_less_nat_alt split: option.splits)
  show "used (snd (rate_step mx (token, sec) s)) t k =
      (if t = token
       then if k = sec then (if used s token sec < unat mx then Suc (used s token sec) else used s token sec)
            else 0
       else used s t k)"
    using pos one u32_succ_le assms(3)
    by (auto simp: rate_step_def used_def Let_def word_less_nat_alt not_past_def split: option.splits)
  show "not_past (snd (rate_step mx (token, sec) s)) sec"
    using assms(3) by (auto simp: rate_step_def Let_def not_past_def split: option.splits if_splits)
qed

lemma accepted_count:
  assumes "mx \<noteq> 0"
  shows "counters_ok mx s \<Longrightarrow> sorted (map snd es) \<Longrightarrow> (\<forall>e \<in> set es. not_past s (snd e)) \<Longrightarrow>
    length (filter (\<lambda>p. fst p = (t, k) \<and> is_ok (snd p)) (fst (run_log (rate_step mx) es s)))
      = min (unat mx - used s t k) (length (filter (\<lambda>e. e = (t, k)) es))"
proof (induction es arbitrary: s)
  case Nil
  then show ?case by simp
next
  case (Cons e es)
  obtain token sec where e: "e = (token, sec)" by force
  let ?s = "snd (rate_step mx e s)"
  have np: "not_past s sec" using Cons.prems(3) e by simp
  note step = rate_step_used [OF assms Cons.prems(1) np, of token]
  have later: "\<forall>e' \<in> set es. not_past ?s (snd e')"
    using Cons.prems(2) step(3) e by (auto intro: not_past_mono)
  have IH: "length (filter (\<lambda>p. fst p = (t, k) \<and> is_ok (snd p)) (fst (run_log (rate_step mx) es ?s)))
      = min (unat mx - used ?s t k) (length (filter (\<lambda>e. e = (t, k)) es))"
    by (rule Cons.IH [OF limiter.step_inv [OF Cons.prems(1)] _ later]) (use Cons.prems(2) in simp)
  have none: "filter (\<lambda>e. e = (t, k)) es = []" if "k < sec"
    using Cons.prems(2) that e by (auto simp: filter_empty_conv)
  consider "t = token" "k = sec" | "t = token" "k < sec" | "t = token" "sec < k" | "t \<noteq> token" by fastforce
  then show ?case
  proof cases
    case 3
    then show ?thesis using IH step(2) [of t k] not_past_unused [OF np 3(2)] e by (auto simp: split_beta)
  qed (use IH none step(1) step(2) [of t k] e in \<open>auto simp: split_beta\<close>)
qed


section \<open>Tokens after a start\<close>

lemma extract_bearer_error: "extract_bearer h = Inl e \<Longrightarrow> e = Unauthorized"
  by (cases h; cases "header_to_str (the h)"; cases "strip_prefix (the (header_to_str (the h))) ''Bearer ''")
    (auto simp: extract_bearer_def)

definition hashes :: "database \<Rightarrow> string set" where
  "hashes d = to_token_hash ` set (d_tokens d)"

lemma hashes_iff: "h \<in> hashes d \<longleftrightarrow> (\<exists>t \<in> set (d_tokens d). to_token_hash t = h)"
  unfolding hashes_def by (metis image_iff)

text \<open>The rows a start adds: active, of clients, for hashes the table did not have.\<close>

definition fresh_tokens :: "database \<Rightarrow> token_row list \<Rightarrow> bool" where
  "fresh_tokens d new \<longleftrightarrow> (\<forall>t \<in> set new. to_status t = ''active'' \<and> to_role t = ''client'' \<and> to_token_hash t \<notin> hashes d)"

lemma sync_token_ok:
  "sync_token E token w = (Inr x, w') \<Longrightarrow>
     \<exists>tid now. w_db w' = insert_env_token tid now (sha256_hex (env_crates E) token) (w_db w)"
  by (auto simp: sync_token_def bindE_Inr_iff sql_ok_iff io_simps)

lemma env_tokens_synced:
  "mapM (sync_token E) env_tokens w = (Inr us, w') \<Longrightarrow>
   \<exists>new. d_tokens (w_db w') = d_tokens (w_db w) @ new \<and> fresh_tokens (w_db w) new
     \<and> hashes (w_db w') = hashes (w_db w) \<union> sha256_hex (env_crates E) ` set env_tokens"
proof (induction env_tokens arbitrary: w us)
  case Nil
  then show ?case by (auto simp: io_simps fresh_tokens_def)
next
  case (Cons token rest)
  let ?h = "sha256_hex (env_crates E) token"
  from Cons.prems obtain tid now u us' where step: "w_db u = insert_env_token tid now ?h (w_db w)"
    and rest: "mapM (sync_token E) rest u = (Inr us', w')"
    by (auto simp: bindE_Inr_iff io_simps dest!: sync_token_ok)
  obtain new where new: "d_tokens (w_db w') = d_tokens (w_db u) @ new" "fresh_tokens (w_db u) new"
      "hashes (w_db w') = hashes (w_db u) \<union> sha256_hex (env_crates E) ` set rest"
    using Cons.IH [OF rest] by blast
  show ?case
  proof (cases "?h \<in> hashes (w_db w)")
    case True
    then have "w_db u = w_db w" using step by (auto simp: insert_env_token_def hashes_def list_ex_iff)
    then show ?thesis using new True by auto
  next
    case False
    then have "\<not> list_ex (\<lambda>t. to_token_hash t = ?h) (d_tokens (w_db w))"
      by (auto simp: hashes_iff list_ex_iff)
    then show ?thesis using step new False by (auto simp: insert_env_token_def hashes_def fresh_tokens_def)
  qed
qed

lemma token_manager_new_ok:
  assumes "token_manager_new E env_tokens w = (Inr (), w')"
  obtains new where "d_tokens (w_db w') = d_tokens (w_db w) @ new" "fresh_tokens (w_db w) new"
    "hashes (w_db w') = hashes (w_db w) \<union> sha256_hex (env_crates E) ` set env_tokens"
    "w_token_cache w' = active_hashes (w_db w')"
proof -
  from assms obtain us u where sync: "mapM (sync_token E) env_tokens w = (Inr us, u)"
    and w': "w_db w' = w_db u" "w_token_cache w' = active_hashes (w_db u)"
    unfolding token_manager_new_def refresh_cache_def
    by (auto simp: bindE_Inr_iff sql_read_ok_iff io_simps)
  show thesis using env_tokens_synced [OF sync] w' that by auto
qed

lemma token_role_total:
  obtains role u where "get_token_role E token w = (Inr role, u)"
    "\<forall>x. role = Some x \<longrightarrow> (\<exists>t \<in> set (d_tokens (w_db w)). to_role t = x)"
proof -
  let ?q = "find (\<lambda>t. to_token_hash t = sha256_hex (env_crates E) token \<and> to_status t = ''active'') (d_tokens (w_db w))"
  have "\<exists>t \<in> set (d_tokens (w_db w)). to_role t = x" if "map_option to_role ?q = Some x" for x
    using that by (auto simp: find_Some_iff)
  then show thesis
    using that
    by (cases "env_db_fault E (w_tick w)")
      (auto simp: get_token_role_def bindE_def attempt_def sql_read_def sql_def Let_def io_simps)
qed

lemma active_hashes_iff: "h \<in> set (active_hashes d) \<longleftrightarrow> (\<exists>t \<in> set (d_tokens d). to_token_hash t = h \<and> to_status t = ''active'')"
  by (auto simp: active_hashes_def)

section \<open>Properties\<close>

text \<open>C31: the limiter enforces its quota exactly. While the wall clock does not run backwards, of
  the requests a token makes in one second the first \<open>max_per_second\<close> are admitted and the others
  refused, whatever other tokens do.\<close>

theorem rate_limit_exact:
  assumes "mx \<noteq> 0" and "sorted (map snd es)"
  shows "length (filter (\<lambda>p. fst p = (t, k) \<and> is_ok (snd p)) (fst (run_log (rate_step mx) es (\<lambda>_. None))))
    = min (unat mx) (length (filter (\<lambda>e. e = (t, k)) es))"
  using accepted_count [OF assms(1) _ assms(2), of "\<lambda>_. None" t k]
  by (simp add: counters_ok_def not_past_def used_def)

theorem rate_limit_exact_witness:
  "length (filter (\<lambda>p. fst p = (''a'', 5) \<and> is_ok (snd p))
     (fst (run_log (rate_step 2) [(''a'', 5), (''b'', 5), (''a'', 5), (''a'', 5), (''a'', 6)] (\<lambda>_. None)))) = 2"
  using rate_limit_exact [of 2 "[(''a'', 5), (''b'', 5), (''a'', 5), (''a'', 5), (''a'', 6)]" "''a''" 5] by simp

text \<open>Which tokens a start admits. After the bootstrap a token is valid exactly when the table
  has an active row for its hash or had no row for it at all and the environment lists it; in
  particular a token that was revoked in the table stays revoked although it is still listed.\<close>

lemma startup_tokens_valid_iff:
  assumes "token_manager_new E env_tokens w = (Inr (), w')"
  shows "is_valid (env_crates E) w' token \<longleftrightarrow>
    (if sha256_hex (env_crates E) token \<in> hashes (w_db w)
     then \<exists>t \<in> set (d_tokens (w_db w)). to_token_hash t = sha256_hex (env_crates E) token \<and> to_status t = ''active''
     else sha256_hex (env_crates E) token \<in> sha256_hex (env_crates E) ` set env_tokens)"
proof -
  let ?h = "sha256_hex (env_crates E) token"
  obtain new where new: "d_tokens (w_db w') = d_tokens (w_db w) @ new" "fresh_tokens (w_db w) new"
    and all: "hashes (w_db w') = hashes (w_db w) \<union> sha256_hex (env_crates E) ` set env_tokens"
    and cache: "w_token_cache w' = active_hashes (w_db w')"
    using token_manager_new_ok [OF assms] by blast
  have valid: "is_valid (env_crates E) w' token \<longleftrightarrow>
      (\<exists>t \<in> set (d_tokens (w_db w)) \<union> set new. to_token_hash t = ?h \<and> to_status t = ''active'')"
    using cache new(1) by (simp add: is_valid_def active_hashes_iff)
  show ?thesis
  proof (cases "?h \<in> hashes (w_db w)")
    case True
    then have "\<forall>t \<in> set new. to_token_hash t \<noteq> ?h" using new(2) by (auto simp: fresh_tokens_def)
    then show ?thesis using True valid by auto
  next
    case False
    then have "?h \<in> to_token_hash ` set new \<longleftrightarrow> ?h \<in> sha256_hex (env_crates E) ` set env_tokens"
      using all new(1) unfolding hashes_def by (simp add: image_Un) blast
    then have "(\<exists>t \<in> set new. to_token_hash t = ?h) \<longleftrightarrow> ?h \<in> sha256_hex (env_crates E) ` set env_tokens"
      by (metis (no_types, lifting) image_iff)
    moreover have "\<forall>t \<in> set (d_tokens (w_db w)). to_token_hash t \<noteq> ?h" using False by (auto simp: hashes_iff)
    ultimately show ?thesis using False valid new(2) by (auto simp: fresh_tokens_def)
  qed
qed

lemma demo_startup: "\<exists>w'. token_manager_new demo_env [''token-1''] demo_world = (Inr (), w')"
  by (simp add: token_manager_new_def sync_token_def refresh_cache_def bindE_def io_simps sql_def sql_read_def Let_def
      demo_simps)

text \<open>The bootstrap creates no owner. On a table without owner rows the tokens of the environment
  get the column's default role, so after the start every owner-only request is refused, whatever
  token it carries.\<close>

theorem startup_has_no_owner:
  assumes "token_manager_new E env_tokens w = (Inr (), w')"
    and "\<forall>t \<in> set (d_tokens (w_db w)). to_role t \<noteq> ''owner''"
  shows "fst (require_owner E header w') \<in> {Inl (App Forbidden), Inl (App Unauthorized)}"
proof -
  have roles: "\<forall>t \<in> set (d_tokens (w_db w')). to_role t \<noteq> ''owner''"
    by (rule token_manager_new_ok [OF assms(1)]) (use assms(2) in \<open>auto simp: fresh_tokens_def\<close>)
  show ?thesis
  proof (cases "extract_bearer header")
    case (Inl e)
    then have "e = Unauthorized"
      by (rule extract_bearer_error)
    then show ?thesis using Inl by (simp add: require_owner_def bindE_def io_simps)
  next
    case (Inr token)
    obtain role u where role: "get_token_role E token w' = (Inr role, u)"
        "\<forall>x. role = Some x \<longrightarrow> (\<exists>t \<in> set (d_tokens (w_db w')). to_role t = x)"
      by (rule token_role_total)
    then have "role \<noteq> Some ''owner''" using roles by blast
    then show ?thesis using Inr role(1) by (simp add: require_owner_def bindE_def io_simps)
  qed
qed

theorem startup_has_no_owner_witness:
  "\<exists>w'. token_manager_new demo_env [''token-1''] demo_world = (Inr (), w')
     \<and> fst (require_owner demo_env (Some ''Bearer token-1'') w') \<noteq> Inr ()"
proof -
  obtain w' where run: "token_manager_new demo_env [''token-1''] demo_world = (Inr (), w')"
    using demo_startup by blast
  have "d_tokens (w_db demo_world) = []" by (simp add: demo_world_def demo_db_def)
  then have "fst (require_owner demo_env (Some ''Bearer token-1'') w')
      \<in> {Inl (App Forbidden), Inl (App Unauthorized)}"
    by (intro startup_has_no_owner [OF run]) simp
  with run show ?thesis by auto
qed

end
