(* ===== verification/Irl_Admin.thy ===== *)
theory Irl_Admin
  imports Irl_Bind Irl_Auth
begin

text \<open>
  \<open>src/audit.rs\<close>, \<open>src/shadow_mode.rs\<close>, \<open>src/tls/expiry.rs\<close> and the management and
  query handlers of \<open>src/routes/\<close>: agents, tokens, shadow mode, the audit log and
  the trace queries. Queries that may go to a read replica read the same tables
  here.
\<close>

section \<open>Audit log\<close>

datatype audit_action =
  AgentRegister | AgentSuspend | AgentActivate | AgentStatusChange
  | TokenIssue | TokenRevoke | ShadowModeChange | GdprErasure

fun audit_action_as_str :: "audit_action \<Rightarrow> string" where
  "audit_action_as_str AgentRegister = ''AGENT_REGISTER''"
| "audit_action_as_str AgentSuspend = ''AGENT_SUSPEND''"
| "audit_action_as_str AgentActivate = ''AGENT_ACTIVATE''"
| "audit_action_as_str AgentStatusChange = ''AGENT_STATUS_CHANGE''"
| "audit_action_as_str TokenIssue = ''TOKEN_ISSUE''"
| "audit_action_as_str TokenRevoke = ''TOKEN_REVOKE''"
| "audit_action_as_str ShadowModeChange = ''SHADOW_MODE_CHANGE''"
| "audit_action_as_str GdprErasure = ''GDPR_ERASURE''"

fun target_type :: "audit_action \<Rightarrow> string" where
  "target_type TokenIssue = ''TOKEN''"
| "target_type TokenRevoke = ''TOKEN''"
| "target_type ShadowModeChange = ''SHADOW_MODE''"
| "target_type _ = ''AGENT''"

definition insert_audit_log ::
  "env \<Rightarrow> operator \<Rightarrow> audit_action \<Rightarrow> string option \<Rightarrow> json option \<Rightarrow> unit io"
where
  "insert_audit_log E who action target_id details =
     bindE (effect (env_uuid E)) (\<lambda>aid.
     sql E (\<lambda>now d. Inr ((), d\<lparr>d_audit := d_audit d @
       [\<lparr>au_id = aid, au_operator_id = op_id who, au_action = audit_action_as_str action,
         au_target_type = target_type action, au_target_id = target_id, au_details_json = details,
         au_ip_address = op_ip who, au_created_at = now\<rparr>]\<rparr>)))"

section \<open>Shadow mode\<close>

definition shadow_row :: "database \<Rightarrow> config_row option" where
  "shadow_row d = find (\<lambda>r. sc_key r = ''shadow_mode'') (d_config d)"

definition shadow_new :: "env \<Rightarrow> bool \<Rightarrow> unit io" where
  "shadow_new E env_default =
     bindE (sql_read E (\<lambda>now d. shadow_row d)) (\<lambda>row.
     bindE (case map_option sc_value_bool row of
              Some (Some v) \<Rightarrow> ret v
            | Some None \<Rightarrow> ret env_default
            | None \<Rightarrow>
                bindE (sql E (\<lambda>now d. Inr ((),
                  if shadow_row d \<noteq> None then d
                  else d\<lparr>d_config := d_config d @
                    [\<lparr>sc_key = ''shadow_mode'', sc_value_bool = Some env_default, sc_updated_at = now,
                      sc_updated_by = ''system''\<rparr>]\<rparr>))) (\<lambda>_.
                ret env_default)) (\<lambda>current.
     modify (\<lambda>w. w\<lparr>w_shadow := current\<rparr>)))"

definition shadow_set :: "env \<Rightarrow> bool \<Rightarrow> string \<Rightarrow> unit io" where
  "shadow_set E new_value updated_by =
     bindE (sql E (\<lambda>now d. Inr ((), d\<lparr>d_config := map (\<lambda>r.
       if sc_key r = ''shadow_mode''
       then r\<lparr>sc_value_bool := Some new_value, sc_updated_at := now, sc_updated_by := updated_by\<rparr>
       else r) (d_config d)\<rparr>))) (\<lambda>_.
     modify (\<lambda>w. w\<lparr>w_shadow := new_value\<rparr>))"

definition shadow_refresh :: "env \<Rightarrow> unit io" where
  "shadow_refresh E =
     bindE (sql_read E (\<lambda>now d. shadow_row d)) (\<lambda>row.
     case map_option sc_value_bool row of
       Some (Some v) \<Rightarrow> modify (\<lambda>w. w\<lparr>w_shadow := v\<rparr>)
     | _ \<Rightarrow> ret ())"

section \<open>Agent routes\<close>

definition opt_json :: "('a \<Rightarrow> json) \<Rightarrow> 'a option \<Rightarrow> json" where
  "opt_json f x = (case x of None \<Rightarrow> JNull | Some v \<Rightarrow> f v)"

definition agent_profile_value :: "crates \<Rightarrow> agent_profile \<Rightarrow> json" where
  "agent_profile_value c p = json_obj
     [(''agent_id'', JStr (uuid_to_string c (ap_agent_id p))), (''name'', JStr (ap_name p)),
      (''model_hash_hex'', JStr (ap_model_hash_hex p)), (''policy_module_id'', JStr (ap_policy_module_id p)),
      (''allowed_regimes'', opt_json (\<lambda>rs. JArr (map JInt rs)) (ap_allowed_regimes p)),
      (''max_notional'', json_f64 (ap_max_notional p)), (''max_leverage'', json_f64 (ap_max_leverage p)),
      (''allowed_venues'', opt_json json_str_arr (ap_allowed_venues p)), (''status'', JStr (ap_status p)),
      (''allowed_mta_pubkeys'', opt_json json_str_arr (ap_allowed_mta_pubkeys p))]"

definition route_register_agent :: "env \<Rightarrow> operator \<Rightarrow> register_agent_request \<Rightarrow> (nat \<times> json) io" where
  "route_register_agent E who req =
     (let c = env_crates E in
      if length (rr_model_hash_hex req) \<noteq> 64 \<or> hex_decode c (rr_model_hash_hex req) = None
      then fail (Serialization ''model_hash_hex must be a 64-character hex string (32 bytes SHA-256)'')
      else
        bindE (register_agent E req) (\<lambda>agent_id.
        bindE (insert_audit_log E who AgentRegister (Some (uuid_to_string c agent_id))
          (Some (json_obj
            [(''name'', JStr (rr_name req)), (''model_hash_hex'', JStr (rr_model_hash_hex req)),
             (''policy_module_id'', json_opt_str (rr_policy_module_id req)),
             (''max_notional'', json_f64 (case rr_max_notional req of None \<Rightarrow> Finite 1000000 | Some n \<Rightarrow> n))]))) (\<lambda>_.
        ret (201, json_obj
          [(''agent_id'', JStr (uuid_to_string c agent_id)), (''model_hash_hex'', JStr (rr_model_hash_hex req)),
           (''status'', JStr ''Active'')]))))"

definition route_list_agents :: "env \<Rightarrow> json io" where
  "route_list_agents E =
     bindE (list_agents E) (\<lambda>agents.
     ret (json_obj [(''agents'', JArr (map (agent_profile_value (env_crates E)) agents))]))"

definition route_get_agent :: "env \<Rightarrow> uuid \<Rightarrow> json io" where
  "route_get_agent E agent_id =
     bindE (fetch_profile E agent_id) (\<lambda>profile. ret (agent_profile_value (env_crates E) profile))"

definition agent_statuses :: "string list" where
  "agent_statuses = [''Active'', ''Suspended'', ''Deregistered'']"

definition status_action :: "string \<Rightarrow> audit_action" where
  "status_action status =
     (if status = ''Suspended'' then AgentSuspend
      else if status = ''Active'' then AgentActivate else AgentStatusChange)"

definition route_update_agent_status :: "env \<Rightarrow> operator \<Rightarrow> uuid \<Rightarrow> update_status_request \<Rightarrow> json io" where
  "route_update_agent_status E who agent_id req =
     (let c = env_crates E in
      if us_status req \<notin> set agent_statuses
      then fail (Serialization (''status must be one of: '' @ str_join '', '' agent_statuses))
      else
        bindE (update_status E agent_id (us_status req)) (\<lambda>old_status.
        bindE (insert_audit_log E who (status_action (us_status req)) (Some (uuid_to_string c agent_id))
          (Some (json_obj [(''old_status'', json_opt_str old_status), (''new_status'', JStr (us_status req))]))) (\<lambda>_.
        ret (json_obj [(''agent_id'', JStr (uuid_to_string c agent_id)), (''status'', JStr (us_status req))]))))"

section \<open>Token routes\<close>

definition insert_token :: "uuid \<Rightarrow> string \<Rightarrow> string \<Rightarrow> unit stmt" where
  "insert_token tid hash client_name now d =
     (if list_ex (\<lambda>t. to_token_hash t = hash) (d_tokens d) then Inl ''api_tokens_token_hash_key''
      else Inr ((), d\<lparr>d_tokens := d_tokens d @
        [\<lparr>to_token_id = tid, to_token_hash = hash, to_client_name = client_name, to_created_at = now,
          to_last_used_at = None, to_status = ''active'', to_source = ''api'', to_role = ''client''\<rparr>]\<rparr>))"

text \<open>\<open>&hash[..12]\<close> panics on a shorter text; a SHA-256 digest has 64 digits.\<close>

definition token_issue :: "env \<Rightarrow> operator \<Rightarrow> string \<Rightarrow> (nat \<times> json) io" where
  "token_issue E who client_name =
     (let c = env_crates E in
      if str_trim client_name = [] then fail (Serialization ''client_name must not be empty'')
      else
        bindE (effect (\<lambda>t. env_entropy E t 32)) (\<lambda>raw_bytes.
        let raw_token = hex_encode c raw_bytes; hash = sha256_hex c raw_token; token_id = take 12 hash in
        if length hash < 12 then panic ''byte index 12 is out of bounds''
        else
          bindE (effect (env_uuid E)) (\<lambda>tid.
          bindE (sql E (insert_token tid hash client_name)) (\<lambda>_.
          bindE (refresh_cache E) (\<lambda>_.
          bindE (insert_audit_log E who TokenIssue (Some token_id)
                   (Some (json_obj [(''client_name'', JStr client_name)]))) (\<lambda>_.
          ret (201, json_obj
            [(''token_id'', JStr token_id), (''client_name'', JStr client_name), (''token'', JStr raw_token)])))))))"

definition revoke_token :: "string \<Rightarrow> unit stmt" where
  "revoke_token hash now d =
     Inr ((), d\<lparr>d_tokens := map (\<lambda>t. if to_token_hash t = hash then t\<lparr>to_status := ''revoked''\<rparr> else t) (d_tokens d)\<rparr>)"

definition token_revoke :: "env \<Rightarrow> operator \<Rightarrow> string \<Rightarrow> json io" where
  "token_revoke E who token_id =
     (if length token_id \<noteq> 12 then fail (Serialization ''token_id must be exactly 12 characters'')
      else
        bindE (sql_read E (\<lambda>now d. map_option (\<lambda>t. (to_token_hash t, to_client_name t))
          (find (\<lambda>t. take 12 (to_token_hash t) = token_id \<and> to_status t = ''active'') (d_tokens d)))) (\<lambda>row.
        case row of
          None \<Rightarrow> fail (Serialization (''No active token found with id: '' @ token_id))
        | Some (full_hash, client_name) \<Rightarrow>
            bindE (sql E (revoke_token full_hash)) (\<lambda>_.
            bindE (refresh_cache E) (\<lambda>_.
            bindE (insert_audit_log E who TokenRevoke (Some token_id)
                     (Some (json_obj [(''client_name'', JStr client_name)]))) (\<lambda>_.
            ret (json_obj [(''token_id'', JStr token_id), (''status'', JStr ''revoked'')]))))))"

section \<open>Shadow mode and audit routes\<close>

definition shadow_mode_get :: "env \<Rightarrow> json io" where
  "shadow_mode_get E =
     bindE (sql E (\<lambda>now d.
       case shadow_row d of
         None \<Rightarrow> Inr (json_obj [(''shadow_mode'', JBool False), (''updated_at'', JNull), (''updated_by'', JNull)], d)
       | Some r \<Rightarrow>
           (case sc_value_bool r of
              None \<Rightarrow> Inl ''unexpected null''
            | Some enabled \<Rightarrow> Inr (json_obj
                [(''shadow_mode'', JBool enabled), (''updated_at'', JStr (show_datetime (env_crates E) (sc_updated_at r))),
                 (''updated_by'', JStr (sc_updated_by r))], d)))) ret"

definition shadow_mode_set :: "env \<Rightarrow> operator \<Rightarrow> bool \<Rightarrow> string option \<Rightarrow> json io" where
  "shadow_mode_set E who enabled reason =
     bindE (gets w_shadow) (\<lambda>old.
     bindE (shadow_set E enabled (op_id who)) (\<lambda>_.
     bindE (insert_audit_log E who ShadowModeChange None
       (Some (json_obj [(''old_value'', JBool old), (''new_value'', JBool enabled),
                        (''reason'', json_opt_str reason)]))) (\<lambda>_.
     ret (json_obj [(''shadow_mode'', JBool enabled), (''changed_by'', JStr (op_id who))]))))"

record audit_log_query =
  aq_action :: "string option"
  aq_target_id :: "string option"
  aq_from :: "int option"
  aq_to :: "int option"
  aq_before_id :: "uuid option"
  aq_limit :: "int option"

definition audit_matches :: "audit_log_query \<Rightarrow> audit_row \<Rightarrow> bool" where
  "audit_matches q r \<longleftrightarrow>
     (case aq_action q of None \<Rightarrow> True | Some a \<Rightarrow> au_action r = a)
     \<and> (case aq_target_id q of None \<Rightarrow> True | Some t \<Rightarrow> au_target_id r = Some t)
     \<and> (case aq_from q of None \<Rightarrow> True | Some t \<Rightarrow> t \<le> au_created_at r)
     \<and> (case aq_to q of None \<Rightarrow> True | Some t \<Rightarrow> au_created_at r \<le> t)
     \<and> (case aq_before_id q of None \<Rightarrow> True | Some i \<Rightarrow> au_id r < i)"

definition audit_value :: "crates \<Rightarrow> audit_row \<Rightarrow> json" where
  "audit_value c r = json_obj
     [(''id'', JStr (uuid_to_string c (au_id r))), (''operator_id'', JStr (au_operator_id r)),
      (''action'', JStr (au_action r)), (''target_type'', JStr (au_target_type r)),
      (''target_id'', json_opt_str (au_target_id r)), (''details_json'', opt_json (\<lambda>v. v) (au_details_json r)),
      (''ip_address'', json_opt_str (map_option (pg_inet_text c) (au_ip_address r))), (''created_at'', JStr (show_datetime c (au_created_at r)))]"

text \<open>One page of the log: the rows, and the cursor of the next page.\<close>

definition audit_limit :: "audit_log_query \<Rightarrow> nat" where
  "audit_limit q = nat (max 1 (min 500 (case aq_limit q of None \<Rightarrow> 50 | Some l \<Rightarrow> l)))"

definition audit_page :: "audit_log_query \<Rightarrow> audit_row list \<Rightarrow> audit_row list \<times> uuid option" where
  "audit_page q trail =
     (let limit = audit_limit q;
          rows = take (limit + 1) (rev (sort_key au_id (filter (audit_matches q) trail)));
          entries = take limit rows
      in (entries, if limit < length rows then Some (au_id (last entries)) else None))"

definition audit_log_query_handler :: "env \<Rightarrow> audit_log_query \<Rightarrow> json io" where
  "audit_log_query_handler E q =
     bindE (sql_read E (\<lambda>now d. audit_page q (d_audit d))) (\<lambda>(entries, next_cursor).
     ret (json_obj
       [(''count'', JInt (int (length entries))), (''entries'', JArr (map (audit_value (env_crates E)) entries)),
        (''next_cursor'', json_opt_str (map_option (uuid_to_string (env_crates E)) next_cursor))]))"

section \<open>Trace queries and health\<close>

definition count_traces :: "json list \<Rightarrow> json" where
  "count_traces traces = json_obj [(''count'', JInt (int (length traces))), (''traces'', JArr traces)]"

definition route_list_traces ::
  "env \<Rightarrow> uuid option \<Rightarrow> int option \<Rightarrow> int option \<Rightarrow> string option \<Rightarrow> int option \<Rightarrow> json io"
where
  "route_list_traces E agent_id from_ms to_ms status limit =
     bindE (list_traces E agent_id from_ms to_ms status (min (case limit of None \<Rightarrow> 500 | Some l \<Rightarrow> l) 5000)) (\<lambda>traces.
     ret (count_traces traces))"

definition get_trace :: "env \<Rightarrow> app_state \<Rightarrow> uuid \<Rightarrow> json io" where
  "get_trace E st trace_id = get_trace_json E trace_id (st_key_provider st)"

definition get_pending :: "env \<Rightarrow> app_state \<Rightarrow> int option \<Rightarrow> json io" where
  "get_pending E st age_seconds =
     bindE (get_pending_traces E (case age_seconds of None \<Rightarrow> 0 | Some s \<Rightarrow> s) (st_key_provider st)) (\<lambda>traces.
     ret (count_traces traces))"

definition get_orphans :: "env \<Rightarrow> app_state \<Rightarrow> json io" where
  "get_orphans E st =
     bindE (get_orphan_traces E (st_key_provider st)) (\<lambda>traces. ret (count_traces traces))"

definition route_get_shadow_violations :: "env \<Rightarrow> app_state \<Rightarrow> json io" where
  "route_get_shadow_violations E st =
     bindE (get_shadow_violations E (st_key_provider st)) (\<lambda>traces. ret (count_traces traces))"

datatype cert_expiry_status = CertOk | ExpiringSoon int | CertExpired

definition check_cert_expiry :: "int \<Rightarrow> int \<Rightarrow> cert_expiry_status" where
  "check_cert_expiry now not_after =
     (if now \<le> not_after
      then let days = (not_after - now) div 1000000 div 86400
           in if days \<le> 14 then ExpiringSoon days else CertOk
      else CertExpired)"

definition health :: "env \<Rightarrow> app_state \<Rightarrow> json io" where
  "health E st =
     (case (cfg_mtls_enabled (st_config st), st_cert_expiry_not_after st) of
        (True, Some not_after) \<Rightarrow>
          bindE (effect (env_clock E)) (\<lambda>now.
          ret (json_obj
            [(''status'', JStr ''ok''),
             (''cert_expiry_status'',
              case check_cert_expiry now not_after of
                CertOk \<Rightarrow> JStr ''ok''
              | ExpiringSoon days \<Rightarrow> json_obj [(''warning'', JStr (''expires in '' @ show_int days @ '' day(s)''))]
              | CertExpired \<Rightarrow> JStr ''expired'')]))
      | _ \<Rightarrow> ret (json_obj [(''status'', JStr ''ok'')]))"


section \<open>Pages of the audit log\<close>

definition audit_result :: "audit_log_query \<Rightarrow> audit_row list \<Rightarrow> audit_row list" where
  "audit_result q trail = rev (sort_key au_id (filter (audit_matches q) trail))"

lemma audit_limit_pos: "0 < audit_limit q"
  by (simp add: audit_limit_def)

lemma audit_page_eq:
  "audit_page q trail =
     (take (audit_limit q) (audit_result q trail),
      if audit_limit q < length (audit_result q trail)
      then Some (au_id (audit_result q trail ! (audit_limit q - 1))) else None)"
proof -
  let ?L = "audit_result q trail" and ?n = "audit_limit q"
  have "last (take ?n ?L) = ?L ! (?n - 1)" if "?n < length ?L"
    using that audit_limit_pos [of q] by (subst last_conv_nth) auto
  moreover have "?n < length (take (?n + 1) ?L) \<longleftrightarrow> ?n < length ?L" by auto
  ultimately show ?thesis
    by (auto simp: audit_page_def audit_result_def [symmetric] Let_def min_def)
qed

text \<open>The rows below a cut of a strictly descending list are those below the row before the cut.\<close>

lemma descending_drop:
  assumes "sorted_wrt (>) (map f xs)" and "0 < n" and "n \<le> length xs"
  shows "filter (\<lambda>x. (f x :: 'k :: linorder) < f (xs ! (n - 1))) xs = drop n xs"
proof -
  have "filter (\<lambda>x. f x < f (xs ! (n - 1))) (take n xs) = []"
  proof -
    have "f (xs ! (n - 1)) \<le> f (take n xs ! i)" if "i < n" for i
      using sorted_wrt_nth_less [OF assms(1), of i "n - 1"] that assms(2,3)
      by (cases "i = n - 1") (auto simp: less_imp_le)
    then show ?thesis using assms(3) by (auto simp: filter_empty_conv in_set_conv_nth not_less)
  qed
  moreover have "filter (\<lambda>x. f x < f (xs ! (n - 1))) (drop n xs) = drop n xs"
  proof -
    have "f (drop n xs ! i) < f (xs ! (n - 1))" if "i < length xs - n" for i
      using sorted_wrt_nth_less [OF assms(1), of "n - 1" "n + i"] that assms(2,3) by auto
    then show ?thesis by (auto simp: filter_id_conv in_set_conv_nth)
  qed
  ultimately show ?thesis by (metis append.left_neutral append_take_drop_id filter_append)
qed

lemma sort_key_descending:
  assumes "distinct (map f xs)"
  shows "sorted_wrt (>) (map f (rev (sort_key f xs)))"
proof -
  have "sorted (map f (sort_key f xs))" by simp
  moreover have "distinct (map f (sort_key f xs))"
    using assms by (simp add: distinct_map sort_key_inj_key_eq)
  ultimately have "sorted_wrt (<) (map f (sort_key f xs))" by (simp add: strict_sorted_iff)
  then show ?thesis by (simp add: rev_map [symmetric] sorted_wrt_rev)
qed

lemma filter_sort_key_rev: "filter P (rev (sort_key f xs)) = rev (sort_key f (filter P xs))"
  by (simp add: rev_filter [symmetric] filter_sort)

lemma audit_result_below:
  assumes "distinct (map au_id trail)" and "r \<in> set (audit_result q trail)"
  shows "audit_result (q\<lparr>aq_before_id := Some (au_id r)\<rparr>) trail = filter (\<lambda>x. au_id x < au_id r) (audit_result q trail)"
proof -
  have r: "audit_matches q r" using assms(2) by (simp add: audit_result_def)
  have "audit_matches (q\<lparr>aq_before_id := Some (au_id r)\<rparr>) x \<longleftrightarrow> audit_matches q x \<and> au_id x < au_id r" for x
    using r by (auto simp: audit_matches_def split: option.splits)
  then have "audit_matches (q\<lparr>aq_before_id := Some (au_id r)\<rparr>) = (\<lambda>x. au_id x < au_id r \<and> audit_matches q x)"
    by auto
  then show ?thesis unfolding audit_result_def filter_sort_key_rev by (simp add: conj_commute)
qed


section \<open>Effect of the token routes\<close>

lemma refresh_cache_ok:
  "refresh_cache E w = (Inr x, w') \<Longrightarrow> w_db w' = w_db w \<and> w_token_cache w' = active_hashes (w_db w)"
  by (auto simp: refresh_cache_def bindE_Inr_iff sql_read_ok_iff io_simps)

lemma insert_audit_log_ok:
  "insert_audit_log E who action target details w = (Inr x, w') \<Longrightarrow>
     \<exists>r. w_db w' = (w_db w)\<lparr>d_audit := d_audit (w_db w) @ [r]\<rparr> \<and> w_token_cache w' = w_token_cache w
       \<and> w_shadow w' = w_shadow w
       \<and> au_operator_id r = op_id who \<and> au_action r = audit_action_as_str action \<and> au_target_id r = target
       \<and> au_details_json r = details \<and> au_ip_address r = op_ip who"
  by (auto simp: insert_audit_log_def bindE_Inr_iff sql_ok_iff io_simps)

section \<open>Properties\<close>

text \<open>C30: revocation takes effect at once. After a successful revocation a token of the named prefix
  that was active is invalid, every active token of another hash is valid, and one audit row
  names the operator and the token.\<close>

theorem token_revoke_effective:
  assumes "token_revoke E who token_id w = (Inr v, w')"
  shows "\<exists>t \<in> set (d_tokens (w_db w)). take 12 (to_token_hash t) = token_id \<and> to_status t = ''active''
    \<and> (\<forall>raw. is_valid (env_crates E) w' raw \<longleftrightarrow> sha256_hex (env_crates E) raw \<noteq> to_token_hash t
         \<and> (\<exists>s \<in> set (d_tokens (w_db w)). to_token_hash s = sha256_hex (env_crates E) raw \<and> to_status s = ''active''))
    \<and> (\<exists>r. d_audit (w_db w') = d_audit (w_db w) @ [r] \<and> au_operator_id r = op_id who
         \<and> au_action r = ''TOKEN_REVOKE'' \<and> au_target_id r = Some token_id)"
proof -
  from assms obtain t u2 u3 where
    t: "find (\<lambda>t. take 12 (to_token_hash t) = token_id \<and> to_status t = ''active'') (d_tokens (w_db w)) = Some t"
    and upd: "sql E (revoke_token (to_token_hash t)) (w\<lparr>w_tick := Suc (w_tick w)\<rparr>) = (Inr (), u2)"
    and ref: "refresh_cache E u2 = (Inr (), u3)"
    and aud: "insert_audit_log E who TokenRevoke (Some token_id)
        (Some (json_obj [(''client_name'', JStr (to_client_name t))])) u3 = (Inr (), w')"
    unfolding token_revoke_def
    by (auto simp: bindE_Inr_iff sql_read_ok_iff io_simps split: if_splits option.splits)
  have tokens: "d_tokens (w_db u2) = map (\<lambda>s. if to_token_hash s = to_token_hash t
      then s\<lparr>to_status := ''revoked''\<rparr> else s) (d_tokens (w_db w))" and audit: "d_audit (w_db u2) = d_audit (w_db w)"
    using upd by (auto simp: sql_ok_iff revoke_token_def)
  obtain r where r: "w_db w' = (w_db u2)\<lparr>d_audit := d_audit (w_db u2) @ [r]\<rparr>"
      "w_token_cache w' = active_hashes (w_db u2)" "au_operator_id r = op_id who"
      "au_action r = ''TOKEN_REVOKE''" "au_target_id r = Some token_id"
    using refresh_cache_ok [OF ref] insert_audit_log_ok [OF aud] by auto
  have "h \<in> set (w_token_cache w') \<longleftrightarrow> h \<noteq> to_token_hash t
      \<and> (\<exists>s \<in> set (d_tokens (w_db w)). to_token_hash s = h \<and> to_status s = ''active'')" for h
    using r(2) tokens by (auto simp: active_hashes_iff)
  moreover have "t \<in> set (d_tokens (w_db w))" "take 12 (to_token_hash t) = token_id" "to_status t = ''active''"
    using t by (auto simp: find_Some_iff)
  ultimately show ?thesis using r audit by (auto simp: is_valid_def)
qed

text \<open>C35: the pages of the audit log partition it. With the log's unique ids, the rows a query selects,
  newest id first, are those of its page followed by those of the query at the returned cursor;
  without a cursor the page is all of them; and a page never takes more than the limit of 500.\<close>

theorem audit_pages_partition:
  assumes "distinct (map au_id trail)" and "audit_page q trail = (entries, cursor)"
  shows "audit_result q trail =
      entries @ (case cursor of None \<Rightarrow> [] | Some i \<Rightarrow> audit_result (q\<lparr>aq_before_id := Some i\<rparr>) trail)
    \<and> length entries \<le> 500 \<and> (cursor \<noteq> None \<longrightarrow> entries \<noteq> [])"
proof -
  let ?L = "audit_result q trail" and ?n = "audit_limit q"
  have page: "entries = take ?n ?L"
      "cursor = (if ?n < length ?L then Some (au_id (?L ! (?n - 1))) else None)"
    using assms(2) by (simp_all add: audit_page_eq)
  have desc: "sorted_wrt (>) (map au_id ?L)"
    unfolding audit_result_def by (rule sort_key_descending) (use assms(1) in \<open>simp add: distinct_map_filter\<close>)
  have rest: "audit_result (q\<lparr>aq_before_id := Some (au_id (?L ! (?n - 1)))\<rparr>) trail = drop ?n ?L" if "?n < length ?L"
    using audit_result_below [OF assms(1), of "?L ! (?n - 1)" q] descending_drop [OF desc audit_limit_pos] that
    by (simp add: less_imp_diff_less less_imp_le)
  have "?n \<le> 500" by (simp add: audit_limit_def)
  then show ?thesis using page rest audit_limit_pos [of q] by (auto simp: min_def)
qed

definition demo_audit :: "uuid \<Rightarrow> audit_row" where
  "demo_audit i = \<lparr>au_id = i, au_operator_id = ''op'', au_action = ''TOKEN_ISSUE'', au_target_type = ''TOKEN'',
     au_target_id = None, au_details_json = None, au_ip_address = None, au_created_at = 0\<rparr>"

definition demo_query :: audit_log_query where
  "demo_query = \<lparr>aq_action = None, aq_target_id = None, aq_from = None, aq_to = None, aq_before_id = None,
     aq_limit = Some 2\<rparr>"

theorem audit_pages_partition_witness:
  "audit_result demo_query [demo_audit 1, demo_audit 3, demo_audit 2] =
     [demo_audit 3, demo_audit 2] @ audit_result (demo_query\<lparr>aq_before_id := Some 2\<rparr>) [demo_audit 1, demo_audit 3, demo_audit 2]"
proof -
  have "audit_page demo_query [demo_audit 1, demo_audit 3, demo_audit 2] = ([demo_audit 3, demo_audit 2], Some 2)"
    by (simp add: audit_page_def audit_limit_def demo_query_def audit_matches_def demo_audit_def)
  from audit_pages_partition [OF _ this] show ?thesis by (simp add: demo_audit_def)
qed

definition demo_token_world :: world where
  "demo_token_world = demo_world\<lparr>w_db := demo_db\<lparr>d_tokens :=
     [\<lparr>to_token_id = 1, to_token_hash = sha256_hex demo_crates ''secret'', to_client_name = ''desk'', to_created_at = 0,
       to_last_used_at = None, to_status = ''active'', to_source = ''api'', to_role = ''client''\<rparr>]\<rparr>\<rparr>"

lemma length_demo_hex: "length (demo_hex_encode bs) = 2 * length bs"
  by (induction bs) (simp_all add: demo_hex_encode_def)

lemma demo_token_id: "length (take 12 (sha256_hex demo_crates s)) = 12"
  by (simp add: sha256_hex_def sha256_hex_of_def demo_simps length_demo_hex demo_digest_def)

theorem token_revoke_effective_witness:
  "\<exists>v w'. token_revoke demo_env \<lparr>op_id = ''op'', op_ip = None\<rparr> (take 12 (sha256_hex demo_crates ''secret'')) demo_token_world
       = (Inr v, w') \<and> \<not> is_valid demo_crates w' ''secret''"
proof -
  obtain v w' where run: "token_revoke demo_env \<lparr>op_id = ''op'', op_ip = None\<rparr>
      (take 12 (sha256_hex demo_crates ''secret'')) demo_token_world = (Inr v, w')"
    by (simp add: token_revoke_def demo_token_id bindE_def sql_read_def sql_def Let_def demo_simps io_simps
        demo_token_world_def revoke_token_def refresh_cache_def insert_audit_log_def del: length_take)
  have "d_tokens (w_db demo_token_world) =
      [\<lparr>to_token_id = 1, to_token_hash = sha256_hex demo_crates ''secret'', to_client_name = ''desk'', to_created_at = 0,
        to_last_used_at = None, to_status = ''active'', to_source = ''api'', to_role = ''client''\<rparr>]"
    by (simp add: demo_token_world_def)
  with token_revoke_effective [OF run] run show ?thesis by (auto simp: demo_simps)
qed

end
