(* ===== verification/Irl_Gdpr.thy ===== *)
theory Irl_Gdpr
  imports Irl_Rewrite Irl_Admin
begin

text \<open>
  \<open>src/gdpr.rs\<close> and its handler in \<open>src/routes/admin.rs\<close>: the erasure of the personal
  fields of an agent's traces. Each trace is decrypted, its personal fields are
  set to null, and it is encrypted again under a fresh key.
\<close>

section \<open>The personal fields\<close>

text \<open>\<open>get_mut(parent)\<close>, \<open>as_object_mut\<close>, then one \<open>insert\<close> of null per field.\<close>

definition null_fields :: "string \<Rightarrow> string list \<Rightarrow> json \<Rightarrow> json" where
  "null_fields parent members v =
     (case v of
        JObj m \<Rightarrow>
          (case map_of m parent of
             Some (JObj obj) \<Rightarrow> JObj (obj_insert parent (JObj (fold (\<lambda>k. obj_insert k JNull) members obj)) m)
           | _ \<Rightarrow> v)
      | _ \<Rightarrow> v)"

definition null_pii_fields :: "json \<Rightarrow> json" where
  "null_pii_fields v =
     null_fields ''execution'' [''client_order_id'', ''venue_id'']
       (null_fields ''agent'' [''agent_id'', ''latent_fingerprint'', ''feature_schema_id''] v)"

section \<open>Erasure of an agent's traces\<close>

definition decrypt_trace_json ::
  "env \<Rightarrow> json \<Rightarrow> byte list option \<Rightarrow> byte list option \<Rightarrow> int option \<Rightarrow> int \<Rightarrow> key_provider \<Rightarrow> json io"
where
  "decrypt_trace_json E trace_json trace_nonce encrypted_dek key_version encryption_version kp =
     (if encryption_version = 0 then ret trace_json
      else if encryption_version = 1 then
        bindE (liftE (ok_or (Encryption ''encrypted_dek is NULL for encryption_version=1'') encrypted_dek)) (\<lambda>enc_dek.
        bindE (liftE (ok_or (Encryption ''trace_nonce is NULL for encryption_version=1'') trace_nonce)) (\<lambda>nonce.
        let kv = (case key_version of None \<Rightarrow> 1 | Some kv \<Rightarrow> kv) in
        bindE (map_errE Encryption (decrypt_dek E kp enc_dek kv)) (\<lambda>dek.
        bindE (liftE (res_map_err Encryption
                 (extract_ciphertext_from_jsonb (env_crates E) trace_json))) (\<lambda>ciphertext.
        bindE (map_errE Encryption (decrypt_trace E ciphertext nonce dek)) (\<lambda>plaintext.
        liftE (res_map_err Serialization (json_from_slice (env_crates E) plaintext)))))))
      else fail (Encryption (''unknown encryption_version: '' @ show_int encryption_version)))"

text \<open>
  The batch query: \<open>ORDER BY txn_time ASC LIMIT limit OFFSET offset\<close> over the rows in the
  order in which the statement scans them. Rows of equal time come in that order.
\<close>

definition agent_batch :: "uuid \<Rightarrow> nat \<Rightarrow> nat \<Rightarrow> trace_row list \<Rightarrow> trace_row list" where
  "agent_batch a limit offset rows =
     take limit (drop offset (sort_key tr_txn_time (filter (\<lambda>r. tr_agent_id r = Some a) rows)))"

definition erase_key :: "trace_row \<Rightarrow> uuid \<times> int" where
  "erase_key r = (tr_trace_id r, tr_txn_time r)"

text \<open>
  The loop body. Serializing, wrapping a fresh data key, encrypting and wrapping
  the ciphertext are the steps an insertion makes with a provider.
\<close>

definition erase_trace :: "env \<Rightarrow> key_provider \<Rightarrow> uuid \<Rightarrow> int \<Rightarrow> trace_row \<Rightarrow> nat \<Rightarrow> nat io" where
  "erase_trace E kp request_id erased_at r total_erased =
     bindE (decrypt_trace_json E (tr_trace_json r) (tr_trace_nonce r) (tr_encrypted_dek r)
              (tr_key_version r) (tr_encryption_version r) kp) (\<lambda>decrypted.
     bindE (encrypt_stored E (Some kp) (null_pii_fields decrypted)) (\<lambda>(trace_json, nonce, enc_dek, kv, _).
     bindE (sql E (\<lambda>now d. Inr ((), d\<lparr>d_traces := write_row erase_key (erase_key r)
              (\<lambda>s. s\<lparr>tr_trace_json := trace_json, tr_trace_nonce := nonce, tr_encrypted_dek := enc_dek,
                     tr_key_version := kv, tr_encryption_version := 1,
                     tr_gdpr_erased_at := Some erased_at, tr_gdpr_request_id := Some request_id\<rparr>)
              (d_traces d)\<rparr>))) (\<lambda>_.
     ret (total_erased + 1))))"

text \<open>The loop over the batches of 100, at most \<open>fuel\<close> of them: \<open>None\<close> when there are more.\<close>

fun erase_batches ::
  "nat \<Rightarrow> env \<Rightarrow> key_provider \<Rightarrow> uuid \<Rightarrow> uuid \<Rightarrow> int \<Rightarrow> nat \<Rightarrow> nat \<Rightarrow> nat option io"
where
  "erase_batches 0 E kp a request_id erased_at offset n_erased = ret None"
| "erase_batches (Suc fuel) E kp a request_id erased_at offset n_erased =
     bindE (gets w_tick) (\<lambda>t.
     bindE (sql_read E (\<lambda>now d. agent_batch a 100 offset (scan_order E t (d_traces d)))) (\<lambda>rows.
     if rows = [] then ret (Some n_erased)
     else
       bindE (foldM (erase_trace E kp request_id erased_at) rows n_erased) (\<lambda>n_erased'.
       if length rows < 100 then ret (Some n_erased')
       else erase_batches fuel E kp a request_id erased_at (offset + length rows) n_erased')))"

text \<open>
  The view \<open>irl.reasoning_traces_unified\<close> is dropped by migration 015, so the query for
  it finds nothing. One batch more than there are rows is enough.
\<close>

definition gdpr_erase_agent :: "env \<Rightarrow> uuid \<Rightarrow> uuid \<Rightarrow> key_provider \<Rightarrow> nat option io" where
  "gdpr_erase_agent E a request_id kp =
     bindE (sql_read E (\<lambda>now d. False)) (\<lambda>unified_exists.
     bindE (effect (env_clock E)) (\<lambda>erased_at.
     bindE (gets (\<lambda>w. Suc (length (d_traces (w_db w))))) (\<lambda>fuel.
     erase_batches fuel E kp a request_id erased_at 0 0)))"

definition gdpr_erase_handler :: "env \<Rightarrow> app_state \<Rightarrow> operator \<Rightarrow> uuid \<Rightarrow> json io" where
  "gdpr_erase_handler E st who agent_id =
     (let c = env_crates E in
      bindE (effect (env_uuid E)) (\<lambda>request_id.
      bindE (liftE (ok_or (Encryption
               (''KMS provider required for GDPR erasure '' @ [CHR 0xE2, CHR 0x80, CHR 0x94] @ '' configure KMS_PROVIDER''))
               (st_key_provider st))) (\<lambda>kp.
      bindE (gdpr_erase_agent E agent_id request_id kp) (\<lambda>erased.
      case erased of
        None \<Rightarrow> panic ''more batches than rows''
      | Some erased_count \<Rightarrow>
          bindE (insert_audit_log E who GdprErasure (Some (uuid_to_string c agent_id))
            (Some (json_obj [(''gdpr_request_id'', JStr (uuid_to_string c request_id)),
               (''traces_erased'', JInt (int erased_count))]))) (\<lambda>_.
          ret (json_obj [(''agent_id'', JStr (uuid_to_string c agent_id)),
            (''gdpr_request_id'', JStr (uuid_to_string c request_id)),
            (''traces_erased'', JInt (int erased_count)), (''status'', JStr ''erased'')]))))))"

section \<open>What an erased row is\<close>

text \<open>
  Only the stored form and the tombstone columns change, and the stored form is an
  encryption of the old value with its personal fields set to null.
\<close>

definition erased :: "env \<Rightarrow> key_provider \<Rightarrow> uuid \<Rightarrow> int \<Rightarrow> trace_row \<Rightarrow> trace_row \<Rightarrow> bool" where
  "erased E kp request_id erased_at r r' \<longleftrightarrow>
     r' = r\<lparr>tr_trace_json := tr_trace_json r', tr_trace_nonce := tr_trace_nonce r',
            tr_encrypted_dek := tr_encrypted_dek r', tr_key_version := tr_key_version r',
            tr_encryption_version := 1, tr_gdpr_erased_at := Some erased_at,
            tr_gdpr_request_id := Some request_id\<rparr>
     \<and> (\<exists>v u u' x x'.
          decrypt_if_needed E (tr_trace_json r) (tr_trace_nonce r) (tr_encrypted_dek r)
            (tr_key_version r) (tr_encryption_version r) (Some kp) u = (Inr v, u')
          \<and> encrypt_stored E (Some kp) (null_pii_fields v) x = (Inr (tr_trace_json r', tr_trace_nonce r',
               tr_encrypted_dek r', tr_key_version r', tr_encryption_version r'), x'))"

text \<open>The private copy of the decryption agrees with the one of \<open>src/db.rs\<close>.\<close>

lemma decrypt_trace_json_eq:
  "decrypt_trace_json E j n dk kv ev kp = decrypt_if_needed E j n dk kv ev (Some kp)"
  by (simp add: decrypt_trace_json_def decrypt_if_needed_def fun_eq_iff io_simps bindE_def Let_def)

lemma encrypt_stored_version: "encrypt_stored E (Some kp) v w = (Inr (j, n, dk, kv, ev), w') \<Longrightarrow> ev = 1"
  by (auto elim!: encrypt_stored_Some)

lemma erase_trace_Inr:
  assumes "erase_trace E kp rq at' r n_erased w = (Inr n_erased', w')"
  shows "n_erased' = n_erased + 1 \<and> (\<exists>upd. erased E kp rq at' r (upd r)
    \<and> d_traces (w_db w') = write_row erase_key (erase_key r) upd (d_traces (w_db w)))"
proof -
  obtain v w1 j n dk kv ev w2 where dec: "decrypt_if_needed E (tr_trace_json r) (tr_trace_nonce r)
      (tr_encrypted_dek r) (tr_key_version r) (tr_encryption_version r) (Some kp) w = (Inr v, w1)"
    and enc: "encrypt_stored E (Some kp) (null_pii_fields v) w1 = (Inr (j, n, dk, kv, ev), w2)"
    and n_erased: "n_erased' = n_erased + 1"
    and db: "d_traces (w_db w') = write_row erase_key (erase_key r)
       (\<lambda>s. s\<lparr>tr_trace_json := j, tr_trace_nonce := n, tr_encrypted_dek := dk, tr_key_version := kv,
              tr_encryption_version := 1, tr_gdpr_erased_at := Some at', tr_gdpr_request_id := Some rq\<rparr>)
       (d_traces (w_db w2))"
    using assms unfolding erase_trace_def decrypt_trace_json_eq
    by (auto simp: bindE_Inr_iff sql_ok_iff io_simps)
  have "w_db w2 = w_db w"
    using keepsD [OF keeps_decrypt_if_needed dec] keepsD [OF keeps_encrypt_stored enc]
    by (auto simp: only_tick_def)
  moreover have "erased E kp rq at' r (r\<lparr>tr_trace_json := j, tr_trace_nonce := n, tr_encrypted_dek := dk,
      tr_key_version := kv, tr_encryption_version := 1, tr_gdpr_erased_at := Some at',
      tr_gdpr_request_id := Some rq\<rparr>)"
    using dec enc encrypt_stored_version [OF enc] unfolding erased_def by auto
  ultimately show ?thesis using db n_erased by fastforce
qed

lemma erase_trace_Inl:
  "erase_trace E kp rq at' r n_erased w = (Inl e, w') \<Longrightarrow> d_traces (w_db w') = d_traces (w_db w)"
  unfolding erase_trace_def decrypt_trace_json_eq
  by (auto elim!: bindE_InlE simp: io_simps only_tick_def dest!: sql_error_db
      keepsD [OF keeps_decrypt_if_needed] keepsD [OF keeps_encrypt_stored])

interpretation erasing: keyed_rewrite erase_key "erased E kp rq at'" "erase_trace E kp rq at'"
  for E kp rq at'
proof
  show "erase_key r' = erase_key r" if "erased E kp rq at' r r'" for r r'
  proof -
    have "tr_trace_id r' = tr_trace_id r" "tr_txn_time r' = tr_txn_time r"
      using that by (auto simp: erased_def dest: arg_cong [where f = tr_trace_id] arg_cong [where f = tr_txn_time])
    then show ?thesis by (simp add: erase_key_def)
  qed
qed (auto dest: erase_trace_Inr erase_trace_Inl)

section \<open>The batches cover the agent's traces\<close>

lemma erased_columns:
  assumes "erased E kp rq at' r r'"
  shows "tr_agent_id r' = tr_agent_id r" "tr_txn_time r' = tr_txn_time r" "tr_trace_id r' = tr_trace_id r"
  using assms
  by (auto simp: erased_def dest: arg_cong [where f = tr_trace_id] arg_cong [where f = tr_txn_time]
      arg_cong [where f = tr_agent_id])

definition agent_traces :: "uuid \<Rightarrow> trace_row list \<Rightarrow> trace_row list" where
  "agent_traces a rows = sort_key tr_txn_time (filter (\<lambda>r. tr_agent_id r = Some a) rows)"

lemma set_agent_traces: "set (agent_traces a rows) = {r \<in> set rows. tr_agent_id r = Some a}"
  by (auto simp: agent_traces_def)

lemma distinct_agent_traces:
  "distinct (map erase_key rows) \<Longrightarrow> distinct (map erase_key (agent_traces a rows))"
  by (auto simp: agent_traces_def distinct_map intro: inj_on_subset)

lemma length_agent_traces: "length (agent_traces a rows) = length (filter (\<lambda>r. tr_agent_id r = Some a) rows)"
  by (simp add: agent_traces_def)

text \<open>
  Pages of 100 are stable when the agent's rows have different times, or fit on one page:
  whatever order each query scans the rows in, and however they have been rewritten,
  the page at an offset holds the same traces.
\<close>

definition pages_stable :: "uuid \<Rightarrow> trace_row list \<Rightarrow> bool" where
  "pages_stable a rows \<longleftrightarrow> distinct (map tr_txn_time (filter (\<lambda>r. tr_agent_id r = Some a) rows))
     \<or> length (filter (\<lambda>r. tr_agent_id r = Some a) rows) \<le> 100"

lemma sorted_keys_unique:
  assumes "mset xs = mset ys" and "distinct (map f xs)" and "sorted (map f xs)" and "sorted (map f ys)"
  shows "xs = ys"
proof -
  have inj: "inj_on f (set xs)" using assms(2) by (simp add: distinct_map)
  then have "sort_key f xs = ys" by (rule sort_key_inj_key_eq [OF assms(1) _ assms(4)])
  moreover have "sort_key f xs = xs" by (rule sort_key_inj_key_eq [OF refl inj assms(3)])
  ultimately show ?thesis by simp
qed

lemma agent_keys_mset:
  assumes "mset scanned = mset (map F rows0)"
    and F: "\<And>r. r \<in> set rows0 \<Longrightarrow> tr_agent_id (F r) = tr_agent_id r \<and> erase_key (F r) = erase_key r"
  shows "mset (map erase_key (agent_traces a scanned)) = mset (map erase_key (agent_traces a rows0))"
proof -
  have "mset (map erase_key (agent_traces a scanned)) = image_mset erase_key (filter_mset (\<lambda>r. tr_agent_id r = Some a) (mset scanned))"
    by (simp add: agent_traces_def)
  also have "\<dots> = mset (map erase_key (filter (\<lambda>r. tr_agent_id r = Some a) (map F rows0)))"
    by (simp only: assms(1) mset_filter [symmetric] mset_map [symmetric])
  also have "filter (\<lambda>r. tr_agent_id r = Some a) (map F rows0) = map F (filter (\<lambda>r. tr_agent_id r = Some a) rows0)"
    by (rule filter_map_same) (simp add: F)
  also have "map erase_key (map F (filter (\<lambda>r. tr_agent_id r = Some a) rows0))
      = map erase_key (filter (\<lambda>r. tr_agent_id r = Some a) rows0)"
    using F by simp
  finally show ?thesis by (simp add: agent_traces_def)
qed

lemma agent_batch_keys:
  assumes "mset scanned = mset (map F rows0)"
    and "\<And>r. r \<in> set rows0 \<Longrightarrow> tr_agent_id (F r) = tr_agent_id r \<and> erase_key (F r) = erase_key r"
    and "pages_stable a rows0" and "100 dvd offset"
  shows "erase_key ` set (agent_batch a 100 offset scanned)
    = erase_key ` set (take 100 (drop offset (agent_traces a rows0)))"
proof -
  let ?S = "agent_traces a rows0" and ?T = "agent_traces a scanned"
  have keys: "mset (map erase_key ?T) = mset (map erase_key ?S)" by (rule agent_keys_mset [OF assms(1,2)])
  have batch: "agent_batch a 100 offset scanned = take 100 (drop offset ?T)"
    by (simp add: agent_batch_def agent_traces_def)
  have sorted: "sorted (map snd (map erase_key (agent_traces a rows)))" for rows
    by (simp add: agent_traces_def erase_key_def comp_def)
  from assms(3) consider "distinct (map tr_txn_time (filter (\<lambda>r. tr_agent_id r = Some a) rows0))"
    | "length ?S \<le> 100" by (auto simp: pages_stable_def length_agent_traces)
  then show ?thesis
  proof cases
    case 1
    then have "distinct (map snd (map erase_key ?S))"
      by (simp add: agent_traces_def erase_key_def comp_def distinct_map)
    then have "map erase_key ?S = map erase_key ?T" using keys sorted by (intro sorted_keys_unique) auto
    then show ?thesis unfolding batch by (metis drop_map image_set take_map)
  next
    case 2
    have len: "length ?T = length ?S" using keys by (metis length_map size_mset)
    have set: "erase_key ` set ?T = erase_key ` set ?S" using keys by (metis image_set set_mset_mset)
    show ?thesis
    proof (cases "offset = 0")
      case True
      then show ?thesis using 2 len set unfolding batch by simp
    next
      case False
      then have "100 \<le> offset" using assms(4) by (simp add: dvd_imp_le)
      then show ?thesis using 2 len by (simp add: batch)
    qed
  qed
qed

section \<open>Erasing twice is erasing once\<close>

lemma obj_insert_twice: "obj_insert k v (obj_insert k u m) = obj_insert k v m"
  by (induction k u m rule: obj_insert.induct) auto

lemma obj_insert_commute: "k \<noteq> l \<Longrightarrow> obj_insert k v (obj_insert l u m) = obj_insert l u (obj_insert k v m)"
  by (induction m) auto

lemma obj_insert_nulls: "obj_insert k JNull (fold (\<lambda>k. obj_insert k JNull) ks m) = fold (\<lambda>k. obj_insert k JNull) ks (obj_insert k JNull m)"
proof (induction ks arbitrary: m)
  case (Cons l ks)
  then show ?case using obj_insert_commute [of k l JNull JNull m] by (cases "k = l") auto
qed simp

lemma nulls_twice: "fold (\<lambda>k. obj_insert k JNull) ks (fold (\<lambda>k. obj_insert k JNull) ks m) = fold (\<lambda>k. obj_insert k JNull) ks m"
proof (induction ks arbitrary: m)
  case (Cons k ks)
  have "fold (\<lambda>k. obj_insert k JNull) (k # ks) (fold (\<lambda>k. obj_insert k JNull) (k # ks) m)
      = fold (\<lambda>k. obj_insert k JNull) ks (fold (\<lambda>k. obj_insert k JNull) ks (obj_insert k JNull (obj_insert k JNull m)))"
    by (simp only: fold.simps comp_def obj_insert_nulls)
  then show ?case using Cons by (simp add: obj_insert_twice)
qed simp

lemma null_fields_twice: "null_fields p ks (null_fields p ks v) = null_fields p ks v"
  by (cases v) (auto simp: null_fields_def obj_insert_twice nulls_twice split: option.splits json.splits)

lemma null_fields_commute:
  "p \<noteq> q \<Longrightarrow> null_fields p ks (null_fields q ls v) = null_fields q ls (null_fields p ks v)"
  by (cases v) (auto simp: null_fields_def obj_insert_commute split: option.splits json.splits)

lemma null_pii_fields_twice: "null_pii_fields (null_pii_fields v) = null_pii_fields v"
  unfolding null_pii_fields_def
  by (subst null_fields_commute [of "''agent''"]) (simp_all add: null_fields_twice)

text \<open>
  What the erasure makes of a row, after one rewrite or several: whoever decrypts the
  new row gets the old value without its personal fields, the tombstone is set, and no
  other column changes.
\<close>

definition decrypt_row :: "env \<Rightarrow> key_provider \<Rightarrow> trace_row \<Rightarrow> json io" where
  "decrypt_row E kp r = decrypt_if_needed E (tr_trace_json r) (tr_trace_nonce r) (tr_encrypted_dek r)
     (tr_key_version r) (tr_encryption_version r) (Some kp)"

definition rewritten_form :: "uuid \<Rightarrow> int \<Rightarrow> trace_row \<Rightarrow> trace_row \<Rightarrow> bool" where
  "rewritten_form request_id erased_at r r' \<longleftrightarrow>
     r' = r\<lparr>tr_trace_json := tr_trace_json r', tr_trace_nonce := tr_trace_nonce r',
            tr_encrypted_dek := tr_encrypted_dek r', tr_key_version := tr_key_version r',
            tr_encryption_version := 1, tr_gdpr_erased_at := Some erased_at,
            tr_gdpr_request_id := Some request_id\<rparr>"

lemma rewritten_form_trans:
  "rewritten_form rq at' r r' \<Longrightarrow> rewritten_form rq at' r' r'' \<Longrightarrow> rewritten_form rq at' r r''"
  unfolding rewritten_form_def by (cases r; cases r'; cases r'') simp

definition nulled :: "env \<Rightarrow> key_provider \<Rightarrow> uuid \<Rightarrow> int \<Rightarrow> trace_row \<Rightarrow> trace_row \<Rightarrow> bool" where
  "nulled E kp request_id erased_at r r' \<longleftrightarrow> rewritten_form request_id erased_at r r'
     \<and> (\<exists>v u u'. decrypt_row E kp r u = (Inr v, u')
          \<and> (\<forall>x v' x'. decrypt_row E kp r' x = (Inr v', x') \<longrightarrow> v' = null_pii_fields v))"

lemma erased_parts:
  assumes "erased E kp rq at' r r'"
  obtains v u u' x x' where "rewritten_form rq at' r r'" "decrypt_row E kp r u = (Inr v, u')"
    "encrypt_stored E (Some kp) (null_pii_fields v) x = (Inr (tr_trace_json r', tr_trace_nonce r',
       tr_encrypted_dek r', tr_key_version r', tr_encryption_version r'), x')"
  using assms by (auto simp: erased_def decrypt_row_def rewritten_form_def)

lemma erased_nulled:
  assumes "erased E kp rq at' r r'" and "crypto_ok E" and "provider_ok E kp"
    and "\<And>u v u'. decrypt_row E kp r u = (Inr v, u') \<Longrightarrow> json_roundtrip (env_crates E) (null_pii_fields v)"
  shows "nulled E kp rq at' r r'"
proof -
  obtain v u u' x x' where form: "rewritten_form rq at' r r'" and dec: "decrypt_row E kp r u = (Inr v, u')"
    and enc: "encrypt_stored E (Some kp) (null_pii_fields v) x = (Inr (tr_trace_json r', tr_trace_nonce r',
       tr_encrypted_dek r', tr_key_version r', tr_encryption_version r'), x')"
    using assms(1) by (rule erased_parts)
  have "v' = null_pii_fields v" if "decrypt_row E kp r' y = (Inr v', y')" for v' y y'
    using stored_form_read [OF assms(2) assms(4) [OF dec] _ enc] that assms(3) by (simp add: decrypt_row_def)
  then show ?thesis using form dec by (auto simp: nulled_def)
qed

lemma nulled_again:
  assumes "nulled E kp rq at' r r'" and "erased E kp rq at' r' r''" and "crypto_ok E" and "provider_ok E kp"
    and "\<And>u v u'. decrypt_row E kp r u = (Inr v, u') \<Longrightarrow> json_roundtrip (env_crates E) (null_pii_fields v)"
  shows "nulled E kp rq at' r r''"
proof -
  obtain v u u' where form: "rewritten_form rq at' r r'" and dec: "decrypt_row E kp r u = (Inr v, u')"
    and only: "\<And>x v' x'. decrypt_row E kp r' x = (Inr v', x') \<Longrightarrow> v' = null_pii_fields v"
    using assms(1) unfolding nulled_def by blast
  obtain v' y y' x x' where form': "rewritten_form rq at' r' r''" and dec': "decrypt_row E kp r' y = (Inr v', y')"
    and enc: "encrypt_stored E (Some kp) (null_pii_fields v') x = (Inr (tr_trace_json r'', tr_trace_nonce r'',
       tr_encrypted_dek r'', tr_key_version r'', tr_encryption_version r''), x')"
    using assms(2) by (rule erased_parts)
  have "null_pii_fields v' = null_pii_fields v" using only [OF dec'] by (simp add: null_pii_fields_twice)
  with enc have enc': "encrypt_stored E (Some kp) (null_pii_fields v) x = (Inr (tr_trace_json r'', tr_trace_nonce r'',
       tr_encrypted_dek r'', tr_key_version r'', tr_encryption_version r''), x')" by simp
  have "w = null_pii_fields v" if "decrypt_row E kp r'' z = (Inr w, z')" for w z z'
    using stored_form_read [OF assms(3) assms(5) [OF dec] _ enc'] that assms(4) by (simp add: decrypt_row_def)
  then show ?thesis using rewritten_form_trans [OF form form'] dec by (auto simp: nulled_def)
qed

section \<open>The progress of the loop\<close>

text \<open>
  The table so far: every row is as at the start, or a row of the agent that has been
  erased, and the rows with a key in \<open>K\<close> have been.
\<close>

definition erase_progress ::
  "env \<Rightarrow> key_provider \<Rightarrow> uuid \<Rightarrow> int \<Rightarrow> uuid \<Rightarrow> (uuid \<times> int) set \<Rightarrow> trace_row list \<Rightarrow> trace_row list \<Rightarrow> bool"
where
  "erase_progress E kp rq at' a K rows0 rows \<longleftrightarrow>
     (\<exists>F. rows = map F rows0 \<and> (\<forall>r \<in> set rows0.
        (F r = r \<or> tr_agent_id r = Some a \<and> nulled E kp rq at' r (F r))
        \<and> (erase_key r \<in> K \<longrightarrow> nulled E kp rq at' r (F r))))"

definition erasure_readable :: "env \<Rightarrow> key_provider \<Rightarrow> trace_row list \<Rightarrow> bool" where
  "erasure_readable E kp rows \<longleftrightarrow> crypto_ok E \<and> provider_ok E kp
     \<and> (\<forall>r \<in> set rows. \<forall>u v u'. decrypt_row E kp r u = (Inr v, u') \<longrightarrow>
          json_roundtrip (env_crates E) (null_pii_fields v))"

lemma nulled_columns:
  assumes "nulled E kp rq at' r r'"
  shows "tr_agent_id r' = tr_agent_id r" "erase_key r' = erase_key r"
proof -
  have "rewritten_form rq at' r r'" using assms by (simp add: nulled_def)
  then show "tr_agent_id r' = tr_agent_id r" "erase_key r' = erase_key r"
    by (auto simp: rewritten_form_def erase_key_def dest: arg_cong [where f = tr_trace_id]
        arg_cong [where f = tr_txn_time] arg_cong [where f = tr_agent_id])
qed

lemma erase_progress_batch:
  assumes prog: "erase_progress E kp rq at' a K rows0 cur" and dist: "distinct (map erase_key rows0)"
    and ok: "erasure_readable E kp rows0" and batch: "\<forall>r \<in> set batch. r \<in> set cur \<and> tr_agent_id r = Some a"
    and sub: "K' \<subseteq> erase_key ` set batch" and rew: "rewritten erase_key (erased E kp rq at') K' cur rows"
  shows "erase_progress E kp rq at' a (K \<union> K') rows0 rows"
proof -
  obtain F where cur: "cur = map F rows0"
    and F: "\<And>r. r \<in> set rows0 \<Longrightarrow> F r = r \<or> tr_agent_id r = Some a \<and> nulled E kp rq at' r (F r)"
    and FK: "\<And>r. r \<in> set rows0 \<Longrightarrow> erase_key r \<in> K \<Longrightarrow> nulled E kp rq at' r (F r)"
    using prog by (auto simp: erase_progress_def)
  obtain G where rows: "rows = map G cur"
    and G: "\<And>r. r \<in> set cur \<Longrightarrow> if erase_key r \<in> K' then erased E kp rq at' r (G r) else G r = r"
    using rew by (auto simp: rewritten_def)
  have same: "tr_agent_id (F r) = tr_agent_id r" "erase_key (F r) = erase_key r" if "r \<in> set rows0" for r
    using F [OF that] nulled_columns by metis+
  have new: "tr_agent_id r = Some a \<and> nulled E kp rq at' r (G (F r))" if r: "r \<in> set rows0" and K': "erase_key r \<in> K'" for r
  proof -
    have "erase_key (F r) \<in> K'" using same(2) [OF r] K' by simp
    moreover have "F r \<in> set cur" using r by (simp add: cur)
    ultimately have step: "erased E kp rq at' (F r) (G (F r))" using G by auto
    obtain b where b: "b \<in> set batch" "erase_key b = erase_key r" using sub K' by auto
    then obtain r0 where r0: "r0 \<in> set rows0" "b = F r0" using batch cur by auto
    then have "r0 = r" using dist r b(2) same(2) by (auto simp: distinct_map dest: inj_onD)
    then have agent: "tr_agent_id r = Some a" using batch b(1) r0 same(1) by auto
    have rt: "json_roundtrip (env_crates E) (null_pii_fields v)" if "decrypt_row E kp r u = (Inr v, u')" for u v u'
      using ok r that by (auto simp: erasure_readable_def)
    have ext: "crypto_ok E" "provider_ok E kp" using ok by (simp_all add: erasure_readable_def)
    from F [OF r] have "nulled E kp rq at' r (G (F r))"
      using erased_nulled [OF _ ext rt] nulled_again [OF _ _ ext rt] step by auto
    then show ?thesis using agent by simp
  qed
  have old: "G (F r) = F r" if "r \<in> set rows0" "erase_key r \<notin> K'" for r
    using G [of "F r"] that same(2) by (simp add: cur)
  show ?thesis
    unfolding erase_progress_def
  proof (intro exI [of _ "G \<circ> F"] conjI ballI)
    show "rows = map (G \<circ> F) rows0" by (simp add: rows cur)
  next
    fix r assume r: "r \<in> set rows0"
    show "(G \<circ> F) r = r \<or> tr_agent_id r = Some a \<and> nulled E kp rq at' r ((G \<circ> F) r)"
      using new [OF r] old [OF r] F [OF r] by (cases "erase_key r \<in> K'") auto
    show "erase_key r \<in> K \<union> K' \<longrightarrow> nulled E kp rq at' r ((G \<circ> F) r)"
      using new [OF r] old [OF r] FK [OF r] by (cases "erase_key r \<in> K'") auto
  qed
qed

lemma erase_fold_count:
  "foldM (erase_trace E kp rq at') rows n w = (Inr n', w') \<Longrightarrow> n' = n + length rows"
  by (induction rows arbitrary: n w) (fastforce simp: io_simps bindE_Inr_iff dest!: erase_trace_Inr)+

lemma progress_map:
  assumes "erase_progress E kp rq at' a K rows0 rows"
  obtains F where "rows = map F rows0"
    "\<And>r. r \<in> set rows0 \<Longrightarrow> tr_agent_id (F r) = tr_agent_id r \<and> erase_key (F r) = erase_key r"
  using assms nulled_columns unfolding erase_progress_def by metis

lemma drop_100: "erase_key ` set (take 100 (drop offset S)) \<union> erase_key ` set (drop (offset + 100) S)
    = erase_key ` set (drop offset S)"
proof -
  have "set (take 100 (drop offset S)) \<union> set (drop 100 (drop offset S)) = set (drop offset S)"
    by (metis append_take_drop_id set_append)
  then show ?thesis by (simp add: image_Un [symmetric] add.commute)
qed

lemma erase_batches_spec:
  assumes "erase_progress E kp rq at' a K rows0 (d_traces (w_db w))" and "distinct (map erase_key rows0)"
    and "erasure_readable E kp rows0" and "100 dvd offset"
    and "erase_batches fuel E kp a rq at' offset n w = (res, w')"
  shows "\<exists>K'. erase_progress E kp rq at' a K' rows0 (d_traces (w_db w'))
    \<and> (length (agent_traces a rows0) - offset < fuel \<longrightarrow> res \<noteq> Inr None)
    \<and> (\<forall>m. res = Inr (Some m) \<longrightarrow> m = n + (length (agent_traces a rows0) - offset)
         \<and> K \<subseteq> K' \<and> (pages_stable a rows0 \<longrightarrow> erase_key ` set (drop offset (agent_traces a rows0)) \<subseteq> K'))"
  using assms
proof (induction fuel arbitrary: K offset n w)
  case 0
  then show ?case by (auto simp: io_simps)
next
  case (Suc fuel)
  let ?S = "agent_traces a rows0" and ?cur = "d_traces (w_db w)"
  let ?scan = "scan_order E (w_tick w) ?cur" and ?q = "\<lambda>now d. agent_batch a 100 offset (scan_order E (w_tick w) (d_traces d))"
  obtain F where cur: "?cur = map F rows0"
    and F: "\<And>r. r \<in> set rows0 \<Longrightarrow> tr_agent_id (F r) = tr_agent_id r \<and> erase_key (F r) = erase_key r"
    by (rule progress_map [OF Suc.prems(1)]) blast
  have scan: "mset ?scan = mset (map F rows0)" by (simp add: mset_scan_order cur)
  obtain x w1 where read: "sql_read E ?q w = (x, w1)" by force
  have db: "w_db w1 = w_db w" using read sql_read_world [of E ?q w] by simp
  show ?case
  proof (cases x)
    case (Inl e)
    then have "res = Inl e" "w' = w1" using Suc.prems(5) read by (auto simp: bindE_def io_simps)
    then show ?thesis using Suc.prems(1) db by auto
  next
    case (Inr rows)
    then have rows: "rows = agent_batch a 100 offset ?scan" using read by (simp add: sql_read_ok_iff)
    have "length (agent_traces a ?scan) = length ?S"
      using arg_cong [OF agent_keys_mset [OF scan F], where f = size] by simp
    then have len: "length rows = min 100 (length ?S - offset)"
      by (simp add: rows agent_batch_def agent_traces_def)
    have keys: "erase_key ` set rows = erase_key ` set (take 100 (drop offset ?S))" if "pages_stable a rows0"
      unfolding rows by (rule agent_batch_keys [OF scan F that Suc.prems(4)])
    show ?thesis
    proof (cases "rows = []")
      case True
      then have "length ?S \<le> offset" using len by auto
      then show ?thesis using True Suc.prems(1,5) read Inr db
        by (intro exI [of _ K]) (auto simp: bindE_def io_simps)
    next
      case False
      obtain y w2 where fold: "foldM (erase_trace E kp rq at') rows n w1 = (y, w2)" by force
      have batch: "\<forall>r \<in> set rows. r \<in> set ?cur \<and> tr_agent_id r = Some a"
        by (auto simp: rows agent_batch_def dest!: in_set_takeD in_set_dropD)
      have "map erase_key ?cur = map erase_key rows0" using F by (simp add: cur)
      then have dist: "distinct (map erase_key ?cur)" using Suc.prems(2) by simp
      moreover have "mset (map erase_key ?scan) = mset (map erase_key ?cur)" by (simp add: mset_scan_order)
      ultimately have "distinct (map erase_key ?scan)" by (metis mset_eq_imp_distinct_iff)
      from distinct_agent_traces [OF this, of a] have "distinct (map erase_key rows)"
        by (simp add: rows agent_batch_def agent_traces_def take_map [symmetric] drop_map [symmetric])
      moreover have "rewritten erase_key (erased E kp rq at') {} ?cur (d_traces (w_db w1))"
        unfolding db by (rule erasing.rewritten_refl)
      ultimately obtain K' where K': "K' \<subseteq> erase_key ` set rows"
          "rewritten erase_key (erased E kp rq at') K' ?cur (d_traces (w_db w2))"
          "\<And>s. y = Inr s \<Longrightarrow> K' = erase_key ` set rows"
        using erasing.rewritten_foldM [OF _ dist _ _ _ fold, of "{}"] batch by auto
      note prog = erase_progress_batch [OF Suc.prems(1-3) batch K'(1,2)]
      show ?thesis
      proof (cases y)
        case (Inl e)
        then have "res = Inl e" "w' = w2" using Suc.prems(5) read \<open>x = Inr rows\<close> fold False
          by (auto simp: bindE_def io_simps)
        then show ?thesis using prog by auto
      next
        case (Inr n')
        have n': "n' = n + length rows" using erase_fold_count fold Inr by blast
        show ?thesis
        proof (cases "length rows < 100")
          case True
          then have all: "length ?S - offset = length rows" "length ?S - offset < 100" using len by auto
          then have "drop offset ?S = take 100 (drop offset ?S)" by simp
          moreover have "res = Inr (Some n')" "w' = w2"
            using Suc.prems(5) read \<open>x = Inr rows\<close> fold False True Inr by (auto simp: bindE_def io_simps)
          ultimately show ?thesis using prog n' all keys K'(3) [OF Inr] by (intro exI [of _ "K \<union> K'"]) auto
        next
          case more: False
          then have hundred: "length rows = 100" "100 \<le> length ?S - offset" using len by auto
          have run: "erase_batches fuel E kp a rq at' (offset + length rows) n' w2 = (res, w')"
            using Suc.prems(5) read \<open>x = Inr rows\<close> fold False Inr more by (auto simp: bindE_def io_simps)
          have "100 dvd offset + length rows" using Suc.prems(4) hundred by simp
          from Suc.IH [OF prog Suc.prems(2,3) this run] obtain K2 where K2:
              "erase_progress E kp rq at' a K2 rows0 (d_traces (w_db w'))"
              "length ?S - (offset + length rows) < fuel \<Longrightarrow> res \<noteq> Inr None"
              "\<And>m. res = Inr (Some m) \<Longrightarrow> m = n' + (length ?S - (offset + length rows)) \<and> K \<union> K' \<subseteq> K2
                \<and> (pages_stable a rows0 \<longrightarrow> erase_key ` set (drop (offset + length rows) ?S) \<subseteq> K2)"
            by blast
          show ?thesis
          proof (intro exI [of _ K2] conjI allI impI)
            fix m assume res: "res = Inr (Some m)"
            show "m = n + (length ?S - offset)" using K2(3) [OF res] n' hundred by simp
            show "K \<subseteq> K2" using K2(3) [OF res] by simp
            show "erase_key ` set (drop offset ?S) \<subseteq> K2" if stable: "pages_stable a rows0"
            proof -
              have "erase_key ` set (drop offset ?S) = K' \<union> erase_key ` set (drop (offset + length rows) ?S)"
                using drop_100 [of offset ?S] keys [OF stable] K'(3) [OF Inr] hundred(1) by simp
              then show ?thesis using K2(3) [OF res] stable by simp
            qed
          qed (use K2 hundred in auto)
        qed
      qed
    qed
  qed
qed

section \<open>Properties\<close>

definition json_path :: "json \<Rightarrow> string \<Rightarrow> string \<Rightarrow> json option" where
  "json_path v parent field = Option.bind (json_get v parent) (\<lambda>x. json_get x field)"

definition pii_paths :: "(string \<times> string) set" where
  "pii_paths = {(''agent'', ''agent_id''), (''agent'', ''latent_fingerprint''), (''agent'', ''feature_schema_id''),
     (''execution'', ''client_order_id''), (''execution'', ''venue_id'')}"

lemma map_of_null_members: "map_of (fold (\<lambda>k. obj_insert k JNull) ks m) k = (if k \<in> set ks then Some JNull else map_of m k)"
  by (induction ks arbitrary: m) auto

lemma json_get_null_fields:
  "json_get (null_fields p ks v) k =
     (case json_get v k of
        Some (JObj m) \<Rightarrow> Some (JObj (if k = p then fold (\<lambda>k. obj_insert k JNull) ks m else m))
      | x \<Rightarrow> x)"
  by (cases v) (auto simp: null_fields_def split: option.splits json.splits)

text \<open>Exactly the five personal fields are blanked. At every path of two keys the result has null
  if the path is one of the five and its parent is an object, and otherwise what the value had
  there; keys whose value is not an object are as they were.\<close>

theorem null_pii_fields_exact:
  "json_path (null_pii_fields v) parent field =
     (if (parent, field) \<in> pii_paths \<and> (\<exists>m. json_get v parent = Some (JObj m)) then Some JNull
      else json_path v parent field)
   \<and> (case json_get v k of
        Some (JObj m) \<Rightarrow> (\<exists>m'. json_get (null_pii_fields v) k = Some (JObj m'))
      | x \<Rightarrow> json_get (null_pii_fields v) k = x)"
proof -
  have "json_path (null_pii_fields v) parent field =
     (if (parent, field) \<in> pii_paths \<and> (\<exists>m. json_get v parent = Some (JObj m)) then Some JNull
      else json_path v parent field)"
    by (cases "json_get v parent")
      (auto simp: json_path_def null_pii_fields_def json_get_null_fields map_of_null_members pii_paths_def
        split: json.splits)
  moreover have "case json_get v k of
        Some (JObj m) \<Rightarrow> (\<exists>m'. json_get (null_pii_fields v) k = Some (JObj m'))
      | x \<Rightarrow> json_get (null_pii_fields v) k = x"
    by (auto simp: null_pii_fields_def json_get_null_fields split: option.splits json.splits)
  ultimately show ?thesis by blast
qed

text \<open>
  What the erasure promises, without reference to the code: in the value, exactly the
  five personal fields are null, where their parent is an object, and every other
  field is as it was; in the row, only the stored form and the tombstone change.
\<close>

definition pii_blanked :: "json \<Rightarrow> json \<Rightarrow> bool" where
  "pii_blanked v v' \<longleftrightarrow>
     (\<forall>parent field. json_path v' parent field =
        (if (parent, field) \<in> pii_paths \<and> (\<exists>m. json_get v parent = Some (JObj m)) then Some JNull
         else json_path v parent field))
     \<and> (\<forall>k. case json_get v k of
          Some (JObj m) \<Rightarrow> (\<exists>m'. json_get v' k = Some (JObj m'))
        | x \<Rightarrow> json_get v' k = x)
     \<and> ((\<forall>m. v \<noteq> JObj m) \<longrightarrow> v' = v)"

definition pii_erased :: "env \<Rightarrow> key_provider \<Rightarrow> uuid \<Rightarrow> int \<Rightarrow> trace_row \<Rightarrow> trace_row \<Rightarrow> bool" where
  "pii_erased E kp request_id erased_at r r' \<longleftrightarrow>
     r' = r\<lparr>tr_trace_json := tr_trace_json r', tr_trace_nonce := tr_trace_nonce r',
            tr_encrypted_dek := tr_encrypted_dek r', tr_key_version := tr_key_version r',
            tr_encryption_version := 1, tr_gdpr_erased_at := Some erased_at,
            tr_gdpr_request_id := Some request_id\<rparr>
     \<and> (\<exists>v u u'. decrypt_row E kp r u = (Inr v, u')
          \<and> (\<forall>x v' x'. decrypt_row E kp r' x = (Inr v', x') \<longrightarrow> pii_blanked v v'))"

lemma null_pii_fields_blanked: "pii_blanked v (null_pii_fields v)"
proof -
  have "null_pii_fields v = v" if "\<forall>m. v \<noteq> JObj m"
    using that by (cases v) (auto simp: null_pii_fields_def null_fields_def)
  then show ?thesis using null_pii_fields_exact unfolding pii_blanked_def by blast
qed

lemma nulled_pii: "nulled E kp rq at' r r' \<Longrightarrow> pii_erased E kp rq at' r r'"
  unfolding nulled_def pii_erased_def rewritten_form_def by (metis null_pii_fields_blanked)

text \<open>What the erasure does to the table, whatever its outcome.\<close>

lemma gdpr_erase_progress:
  assumes "gdpr_erase_agent E a rq kp w = (res, w')" and "distinct (map erase_key (d_traces (w_db w)))"
    and "erasure_readable E kp (d_traces (w_db w))"
  shows "\<exists>K. erase_progress E kp rq (env_clock E (Suc (w_tick w))) a K (d_traces (w_db w)) (d_traces (w_db w'))
    \<and> res \<noteq> Inr None
    \<and> (\<forall>m. res = Inr (Some m) \<longrightarrow> m = length (agent_traces a (d_traces (w_db w)))
         \<and> (pages_stable a (d_traces (w_db w)) \<longrightarrow>
              erase_key ` set (agent_traces a (d_traces (w_db w))) \<subseteq> K))"
proof -
  let ?rows = "d_traces (w_db w)" and ?at = "env_clock E (Suc (w_tick w))"
  have start: "erase_progress E kp rq ?at a {} ?rows ?rows"
    by (auto simp: erase_progress_def intro!: exI [of _ id])
  show ?thesis
  proof (cases "env_db_fault E (w_tick w)")
    case None
    let ?w = "w\<lparr>w_tick := Suc (Suc (w_tick w))\<rparr>"
    have run: "erase_batches (Suc (length ?rows)) E kp a rq ?at 0 0 ?w = (res, w')"
      using assms(1) None by (simp add: gdpr_erase_agent_def bindE_def sql_read_def sql_def io_simps del: erase_batches.simps)
    have "length (agent_traces a ?rows) < Suc (length ?rows)" by (simp add: length_agent_traces le_imp_less_Suc)
    with erase_batches_spec [OF _ assms(2,3) _ run, of "{}"] start show ?thesis
      by (simp del: erase_batches.simps)
  next
    case (Some e)
    then have "res = Inl (App (Database e))" "d_traces (w_db w') = ?rows"
      using assms(1) by (auto simp: gdpr_erase_agent_def bindE_def sql_read_def sql_def)
    then show ?thesis using start by auto
  qed
qed

text \<open>Two agents with one plaintext trace each; the first one is erased.\<close>

definition demo_pii :: json where
  "demo_pii = JObj [(''agent'', JObj [(''agent_id'', JStr ''a-1'')])]"

definition demo_pii_row :: "uuid \<Rightarrow> uuid \<Rightarrow> trace_row" where
  "demo_pii_row t a = demo_row\<lparr>tr_trace_id := t, tr_agent_id := Some a, tr_trace_json := demo_pii\<rparr>"

definition demo_pii_world :: world where
  "demo_pii_world = demo_world\<lparr>w_db := demo_db\<lparr>d_traces := [demo_pii_row 7 1, demo_pii_row 8 2]\<rparr>\<rparr>"

definition demo_pii_env :: env where
  "demo_pii_env = demo_env\<lparr>env_crates := demo_crates\<lparr>json_from_slice := (\<lambda>bs. Inr (null_pii_fields demo_pii))\<rparr>\<rparr>"

lemma demo_pii_crypto: "crypto_ok demo_pii_env"
  by (auto simp: crypto_ok_def demo_pii_env_def demo_env_def demo_crates_def demo_hex_roundtrip)

lemma demo_erase: "\<exists>w'. gdpr_erase_agent demo_pii_env 1 5 demo_key demo_pii_world = (Inr (Some 1), w')"
  by (simp add: gdpr_erase_agent_def agent_batch_def scan_order_def enumerate_eq_zip erase_trace_def decrypt_trace_json_def encrypt_stored_def
      demo_key_def local_generate_dek_def encrypt_trace_def with_context_def map_errE_def bindE_def sql_read_def
      sql_def io_simps demo_pii_env_def demo_env_def demo_crates_def demo_pii_world_def demo_world_def demo_db_def
      demo_pii_row_def demo_row_def Let_def)



end
