(* ===== verification/Irl_Router.thy ===== *)
theory Irl_Router
  imports Irl_Gdpr
begin

text \<open>
  \<open>build_router\<close> of \<open>src/lib.rs\<close>: which handler serves a request and which middleware
  runs before it. A request is one whose path, query and body the extractors
  accept; the landing page, the metrics text and the API documentation are left out.
\<close>

section \<open>Requests\<close>

datatype api_call =
    CallAuthorize authorize_request
  | CallBindExecution bind_execution_request
  | CallGetTrace uuid
  | CallGetPending "int option"
  | CallGetOrphans
  | CallRegisterAgent register_agent_request
  | CallListAgents
  | CallGetAgent uuid
  | CallUpdateAgentStatus uuid update_status_request
  | CallGetShadowViolations
  | CallListTraces "uuid option" "int option" "int option" "string option" "int option"
  | CallShadowModeGet
  | CallShadowModeSet bool "string option"
  | CallAuditLog audit_log_query
  | CallGdprErase uuid
  | CallTokenIssue string
  | CallTokenRevoke string
  | CallHealth

text \<open>The routes without authentication, and those of the \<open>admin_routes\<close> router.\<close>

definition is_public :: "api_call \<Rightarrow> bool" where
  "is_public call \<longleftrightarrow> call = CallHealth"

fun is_admin :: "api_call \<Rightarrow> bool" where
  "is_admin CallShadowModeGet \<longleftrightarrow> True"
| "is_admin (CallShadowModeSet _ _) \<longleftrightarrow> True"
| "is_admin (CallAuditLog _) \<longleftrightarrow> True"
| "is_admin (CallGdprErase _) \<longleftrightarrow> True"
| "is_admin (CallTokenIssue _) \<longleftrightarrow> True"
| "is_admin (CallTokenRevoke _) \<longleftrightarrow> True"
| "is_admin _ \<longleftrightarrow> False"

text \<open>
  A request as the server receives it: its \<open>Authorization\<close> header, the peer
  certificate of its connection and its peer address, if the server records one.
\<close>

record http_request =
  rq_authorization :: "string option"
  rq_peer_cert :: "byte list"
  rq_connect_info :: "string option"
  rq_call :: api_call

section \<open>Dispatch\<close>

definition ok_json :: "json io \<Rightarrow> (nat \<times> json) io" where
  "ok_json m = bindE m (\<lambda>v. ret (200, v))"

text \<open>The handler of a call, with the extensions the middleware added.\<close>

fun dispatch :: "env \<Rightarrow> app_state \<Rightarrow> client_cert_info option \<Rightarrow> operator \<Rightarrow> api_call \<Rightarrow> (nat \<times> json) io" where
  "dispatch E st cert who (CallAuthorize req) = ok_json (authorize E st (map_option cc_cn cert) req)"
| "dispatch E st cert who (CallBindExecution req) = ok_json (bind_execution E st req)"
| "dispatch E st cert who (CallGetTrace t) = ok_json (get_trace E st t)"
| "dispatch E st cert who (CallGetPending age) = ok_json (get_pending E st age)"
| "dispatch E st cert who CallGetOrphans = ok_json (get_orphans E st)"
| "dispatch E st cert who (CallRegisterAgent req) = route_register_agent E who req"
| "dispatch E st cert who CallListAgents = ok_json (route_list_agents E)"
| "dispatch E st cert who (CallGetAgent a) = ok_json (route_get_agent E a)"
| "dispatch E st cert who (CallUpdateAgentStatus a req) = ok_json (route_update_agent_status E who a req)"
| "dispatch E st cert who CallGetShadowViolations = ok_json (route_get_shadow_violations E st)"
| "dispatch E st cert who (CallListTraces a from_ms to_ms status limit) =
     ok_json (route_list_traces E a from_ms to_ms status limit)"
| "dispatch E st cert who CallShadowModeGet = ok_json (shadow_mode_get E)"
| "dispatch E st cert who (CallShadowModeSet enabled reason) = ok_json (shadow_mode_set E who enabled reason)"
| "dispatch E st cert who (CallAuditLog q) = ok_json (audit_log_query_handler E q)"
| "dispatch E st cert who (CallGdprErase a) = ok_json (gdpr_erase_handler E st who a)"
| "dispatch E st cert who (CallTokenIssue client_name) = token_issue E who client_name"
| "dispatch E st cert who (CallTokenRevoke token_id) = ok_json (token_revoke E who token_id)"
| "dispatch E st cert who CallHealth = ok_json (health E st)"

text \<open>
  The layers, outermost first: the default \<open>PeerCertDer\<close> replaces whatever the
  connection carried, the certificate is parsed, and a call that is not public
  passes \<open>require_bearer\<close> and, on the admin routes, \<open>require_owner\<close>.
\<close>

definition handle_request :: "env \<Rightarrow> x509 \<Rightarrow> app_state \<Rightarrow> http_request \<Rightarrow> (nat \<times> json) io" where
  "handle_request E parse st rq =
     (let peer_cert = ([] :: byte list);
          cert = client_cert_middleware parse peer_cert;
          nobody = \<lparr>op_id = [], op_ip = None\<rparr>
      in if is_public (rq_call rq) then dispatch E st cert nobody (rq_call rq)
         else
           bindE (require_bearer E (cfg_rate_limit_per_second (st_config st)) (rq_authorization rq)
                    (rq_connect_info rq)) (\<lambda>who.
           bindE (whenE (is_admin (rq_call rq)) (require_owner E (rq_authorization rq))) (\<lambda>_.
           dispatch E st cert who (rq_call rq))))"

text \<open>The response on the wire; a panic closes the connection without one.\<close>

definition serve :: "env \<Rightarrow> x509 \<Rightarrow> app_state \<Rightarrow> http_request \<Rightarrow> world \<Rightarrow> (nat \<times> json) option \<times> world" where
  "serve E parse st rq w =
     (case handle_request E parse st rq w of
        (Inr resp, w') \<Rightarrow> (Some resp, w')
      | (Inl (App e), w') \<Rightarrow> (Some (into_response (env_crates E) e), w')
      | (Inl (Panic _), w') \<Rightarrow> (None, w'))"

section \<open>What authentication changes\<close>

text \<open>
  The middleware counts the request and notes when the token was used; everything
  else is as before.
\<close>

definition unstamped :: "database \<Rightarrow> database" where
  "unstamped d = d\<lparr>d_tokens := map (\<lambda>t. t\<lparr>to_last_used_at := None\<rparr>) (d_tokens d)\<rparr>"

definition untouched :: "world \<Rightarrow> world \<Rightarrow> bool" where
  "untouched w w' \<longleftrightarrow> unstamped (w_db w') = unstamped (w_db w)
     \<and> w_sequences w' = w_sequences w \<and> w_mta_cache w' = w_mta_cache w
     \<and> w_token_cache w' = w_token_cache w \<and> w_shadow w' = w_shadow w"

interpretation ut: frame untouched
  by unfold_locales (auto simp: untouched_def)

lemma keeps_rate_check: "keeps untouched (rate_check E mx token)"
  unfolding rate_check_def Let_def
  by (intro ut.keeps_intros ut.keeps_modify) (auto simp: untouched_def)

lemma keeps_bump: "keeps untouched (bump_last_used E token)"
  unfolding bump_last_used_def Let_def
  by (intro ut.keeps_intros ut.keeps_modify ut.keeps_sql) (auto simp: untouched_def unstamped_def)

lemma keeps_require_bearer: "keeps untouched (require_bearer E mx auth ci)"
  unfolding require_bearer_def by (intro ut.keeps_intros keeps_rate_check keeps_bump)

lemma keeps_require_owner: "keeps untouched (require_owner E auth)"
  unfolding require_owner_def get_token_role_def by (intro ut.keeps_intros)

text \<open>The role a token has in the table; the middleware reads the first active row of its hash.\<close>

definition token_role :: "crates \<Rightarrow> database \<Rightarrow> string \<Rightarrow> string option" where
  "token_role c d token =
     map_option to_role (find (\<lambda>t. to_token_hash t = sha256_hex c token \<and> to_status t = ''active'') (d_tokens d))"

lemma find_stamp:
  "map_option to_role (find (\<lambda>t. to_token_hash t = h \<and> to_status t = s) (map (\<lambda>t. t\<lparr>to_last_used_at := None\<rparr>) ts))
    = map_option to_role (find (\<lambda>t. to_token_hash t = h \<and> to_status t = s) ts)"
  by (induction ts) auto

lemma token_role_untouched:
  assumes "unstamped d' = unstamped d" shows "token_role c d' token = token_role c d token"
proof -
  have "token_role c (unstamped e) token = token_role c e token" for e
    by (simp add: token_role_def unstamped_def find_stamp)
  then show ?thesis using assms by metis
qed

lemma require_owner_ok:
  "require_owner E auth w = (Inr x, w') \<Longrightarrow>
     \<exists>token. extract_bearer auth = Inr token \<and> token_role (env_crates E) (w_db w) token = Some ''owner''"
  by (auto simp: require_owner_def get_token_role_def token_role_def bindE_Inr_iff liftE_Inr_iff io_simps
      attempt_def sql_read_def sql_def Let_def split: if_splits option.splits)

lemma require_owner_error: "require_owner E auth w = (Inl e, w') \<Longrightarrow> e = App Unauthorized \<or> e = App Forbidden"
  by (auto simp: require_owner_def get_token_role_def bindE_def liftE_def io_simps
      attempt_def sql_read_def sql_def Let_def dest: extract_bearer_error split: if_splits option.splits sum.splits)

lemma require_bearer_ok:
  assumes "require_bearer E mx auth ci w = (Inr who, w')"
  obtains token where "extract_bearer auth = Inr token" "is_valid (env_crates E) w token"
    "who = \<lparr>op_id = take 12 (sha256_hex (env_crates E) token), op_ip = ci\<rparr>"
  using assms by (auto simp: require_bearer_def bindE_Inr_iff liftE_Inr_iff io_simps split: if_splits)

lemma rate_check_error: "rate_check E mx token w = (Inl e, w') \<Longrightarrow> e = App RateLimitExceeded"
  by (auto simp: rate_check_def rate_step_def bindE_def io_simps liftE_def Let_def split: if_splits option.splits prod.splits)

lemma bump_ok: "\<exists>w'. bump_last_used E token w = (Inr (), w')"
  by (auto simp: bump_last_used_def bindE_def io_simps attempt_def sql_def Let_def split: if_splits option.splits)

lemma require_bearer_error:
  assumes "require_bearer E mx auth ci w = (Inl e, w')"
  shows "e = App Unauthorized \<and> w' = w \<or> e = App RateLimitExceeded"
proof (cases "extract_bearer auth")
  case (Inl f)
  then show ?thesis using assms extract_bearer_error [OF Inl] by (simp add: require_bearer_def bindE_def io_simps)
next
  case (Inr token)
  show ?thesis
  proof (cases "is_valid (env_crates E) w token")
    case True
    obtain r w1 where rate: "rate_check E mx token w = (r, w1)" by force
    obtain w2 where "bump_last_used E token w1 = (Inr (), w2)" using bump_ok by blast
    then show ?thesis using assms Inr True rate rate_check_error [of E mx token w]
      by (cases r) (auto simp: require_bearer_def bindE_def io_simps)
  qed (use assms Inr in \<open>simp add: require_bearer_def bindE_def io_simps\<close>)
qed

lemma require_bearer_invalid:
  assumes "\<forall>token. extract_bearer auth = Inr token \<longrightarrow> \<not> is_valid (env_crates E) w token"
  shows "require_bearer E mx auth ci w = (Inl (App Unauthorized), w)"
  using assms extract_bearer_error [of auth]
  by (cases "extract_bearer auth") (auto simp: require_bearer_def bindE_def io_simps)

section \<open>Which requests are audited\<close>

fun audit_action_of :: "api_call \<Rightarrow> audit_action option" where
  "audit_action_of (CallRegisterAgent _) = Some AgentRegister"
| "audit_action_of (CallUpdateAgentStatus _ req) = Some (status_action (us_status req))"
| "audit_action_of (CallShadowModeSet _ _) = Some ShadowModeChange"
| "audit_action_of (CallGdprErase _) = Some GdprErasure"
| "audit_action_of (CallTokenIssue _) = Some TokenIssue"
| "audit_action_of (CallTokenRevoke _) = Some TokenRevoke"
| "audit_action_of _ = None"

definition same_audit :: "world \<Rightarrow> world \<Rightarrow> bool" where
  "same_audit w w' \<longleftrightarrow> d_audit (w_db w') = d_audit (w_db w)"

interpretation sau: frame same_audit
  by unfold_locales (auto simp: same_audit_def)

lemma same_db_audit: "keeps same_db m \<Longrightarrow> keeps same_audit m"
  by (simp add: keeps_def same_db_def same_audit_def)

lemma untouched_audit: "keeps untouched m \<Longrightarrow> keeps same_audit m"
proof -
  have "d_audit (unstamped d) = d_audit d" for d by (simp add: unstamped_def)
  then have "same_audit w w'" if "untouched w w'" for w w'
    using that unfolding untouched_def same_audit_def by metis
  then show "keeps untouched m \<Longrightarrow> keeps same_audit m" by (simp add: keeps_def)
qed

lemmas only_tick_audit = only_tick_same_db [THEN same_db_audit]

text \<open>A computation that appends one audit row of the operator when it succeeds, and none when it fails.\<close>

fun audited :: "operator \<Rightarrow> audit_action \<Rightarrow> audit_row list \<Rightarrow> ('e failure + 'a) \<times> world \<Rightarrow> bool" where
  "audited who act trail (Inl e, w') \<longleftrightarrow> d_audit (w_db w') = trail"
| "audited who act trail (Inr x, w') \<longleftrightarrow> (\<exists>r. d_audit (w_db w') = trail @ [r]
     \<and> au_operator_id r = op_id who \<and> au_action r = audit_action_as_str act)"

definition audits :: "operator \<Rightarrow> audit_action \<Rightarrow> (world \<Rightarrow> ('e failure + 'a) \<times> world) \<Rightarrow> bool" where
  "audits who act m \<longleftrightarrow> (\<forall>w. audited who act (d_audit (w_db w)) (m w))"

lemma audits_log: "audits who act (insert_audit_log E who act target details)"
  unfolding audits_def
proof
  fix w
  obtain r w' where run: "insert_audit_log E who act target details w = (r, w')" by force
  show "audited who act (d_audit (w_db w)) (insert_audit_log E who act target details w)"
    using run insert_audit_log_ok [of E who act target details w]
    by (cases r) (auto simp: insert_audit_log_def bindE_def io_simps dest!: sql_error_db)
qed

lemma audits_bind:
  assumes "keeps same_audit m" and "\<And>x. audits who act (f x)"
  shows "audits who act (bindE m f)"
  unfolding audits_def
proof
  fix w
  obtain x w1 where m: "m w = (x, w1)" by force
  have same: "d_audit (w_db w1) = d_audit (w_db w)" using keepsD [OF assms(1) m] by (simp add: same_audit_def)
  show "audited who act (d_audit (w_db w)) (bindE m f w)"
  proof (cases x)
    case (Inr y)
    then show ?thesis using m same assms(2) [of y] by (simp add: audits_def bindE_def) metis
  qed (use m same in \<open>simp add: bindE_def\<close>)
qed

lemma audits_ret:
  assumes "audits who act m" shows "audits who act (bindE m (\<lambda>x. ret (g x)))"
  unfolding audits_def
proof
  fix w
  obtain x w1 where "m w = (x, w1)" by force
  then show "audited who act (d_audit (w_db w)) (bindE m (\<lambda>x. ret (g x)) w)"
    using assms [unfolded audits_def, rule_format, of w] by (cases x) (auto simp: bindE_def io_simps)
qed

lemma audits_fail: "audits who act (fail e)" and audits_panic: "audits who act (panic p)"
  by (simp_all add: audits_def io_simps)

lemma audits_if: "(b \<Longrightarrow> audits who act m) \<Longrightarrow> (\<not> b \<Longrightarrow> audits who act n) \<Longrightarrow> audits who act (if b then m else n)"
  by simp

lemma audits_option: "audits who act m \<Longrightarrow> (\<And>y. audits who act (f y)) \<Longrightarrow>
    audits who act (case x of None \<Rightarrow> m | Some y \<Rightarrow> f y)"
  by (cases x) auto

lemma audits_prod: "(\<And>a b. audits who act (f a b)) \<Longrightarrow> audits who act (case x of (a, b) \<Rightarrow> f a b)"
  by (cases x) auto

lemmas audits_intros = audits_log audits_ret audits_fail audits_panic audits_if audits_option audits_prod

lemma audits_register: "audits who AgentRegister (route_register_agent E who req)"
  unfolding route_register_agent_def register_agent_def Let_def
  by (intro audits_intros audits_bind sau.keeps_intros sau.keeps_sql)
    (auto simp: same_audit_def insert_agent_def Let_def split: if_splits option.splits)

lemma audits_update_status:
  "audits who (status_action (us_status req)) (route_update_agent_status E who a req)"
  unfolding route_update_agent_status_def update_status_def Let_def
  by (intro audits_intros audits_bind sau.keeps_intros sau.keeps_sql)
    (auto simp: same_audit_def set_agent_status_def)

lemma keeps_refresh_audit: "keeps same_audit (refresh_cache E)"
  unfolding refresh_cache_def by (intro sau.keeps_intros sau.keeps_modify) (simp add: same_audit_def)

lemma audits_token_issue: "audits who TokenIssue (token_issue E who name)"
  unfolding token_issue_def Let_def
  by (intro audits_intros audits_bind sau.keeps_intros sau.keeps_sql keeps_refresh_audit)
    (auto simp: same_audit_def insert_token_def split: if_splits)

lemma audits_token_revoke: "audits who TokenRevoke (token_revoke E who tid)"
  unfolding token_revoke_def
  by (intro audits_intros audits_bind sau.keeps_intros sau.keeps_sql keeps_refresh_audit)
    (auto simp: same_audit_def revoke_token_def)

lemma audits_shadow_set: "audits who ShadowModeChange (shadow_mode_set E who b reason)"
  unfolding shadow_mode_set_def shadow_set_def
  by (intro audits_intros audits_bind sau.keeps_intros sau.keeps_sql sau.keeps_modify)
    (auto simp: same_audit_def)

lemma keeps_foldM: "(\<And>x s. keeps same_audit (f x s)) \<Longrightarrow> keeps same_audit (foldM f xs s)"
  by (induction xs arbitrary: s) (auto intro: sau.keeps_ret sau.keeps_bindE)

lemma keeps_erase_trace: "keeps same_audit (erase_trace E kp rq at' r n)"
  unfolding erase_trace_def decrypt_trace_json_eq
  by (intro sau.keeps_intros sau.keeps_sql keeps_decrypt_if_needed [THEN only_tick_audit]
      keeps_encrypt_stored [THEN only_tick_audit]) (auto simp: same_audit_def)

lemma keeps_erase_batches: "keeps same_audit (erase_batches fuel E kp a rq at' offset n)"
  by (induction fuel arbitrary: offset n) (auto intro!: sau.keeps_intros keeps_foldM keeps_erase_trace)

lemma audits_gdpr: "audits who GdprErasure (gdpr_erase_handler E st who a)"
  unfolding gdpr_erase_handler_def gdpr_erase_agent_def Let_def
  by (intro audits_intros audits_bind sau.keeps_intros keeps_erase_batches)

lemma keeps_validate_audit: "keeps same_audit (validate E hv hb a cfg p)"
  by (auto simp: keeps_def same_audit_def validate_cases Let_def)

lemma keeps_fetch_verified_audit: "keeps same_audit (fetch_verified E cl)"
  unfolding keeps_def
proof
  fix w
  show "same_audit w (snd (fetch_verified E cl w))"
  proof (cases cl)
    case (MacroPulse x)
    obtain r w' where run: "fetch_verified_live E x w = (r, w')" by force
    then have "same_audit w w'" by (cases rule: fetch_verified_live_cases) (auto simp: same_audit_def)
    then show ?thesis using MacroPulse run by simp
  qed (simp_all add: fetch_verified_mock_def fetch_verified_null_def utc_now_ms_def bindE_def io_simps
      same_audit_def)
qed

lemma insert_row_audit: "insert_trace_row r d = Inr d' \<Longrightarrow> d_audit d' = d_audit d"
  by (cases r) (auto simp: insert_trace_row_def split: if_splits)

lemma keeps_insert_trace_audit: "keeps same_audit (insert_trace E snap h dec trace aid kp pk)"
  unfolding keeps_def
proof
  fix w
  obtain out w' where run: "insert_trace E snap h dec trace aid kp pk w = (out, w')" by force
  show "same_audit w (snd (insert_trace E snap h dec trace aid kp pk w))"
    using run by (cases out) (auto dest!: insert_trace_error elim!: insert_trace_ok
        simp: same_audit_def dest: insert_row_audit)
qed

lemma keeps_insert_atomic_audit: "keeps same_audit (insert_trace_atomic E snap h dec trace aid ck kp pk)"
  unfolding keeps_def
proof
  fix w
  obtain out w' where run: "insert_trace_atomic E snap h dec trace aid ck kp pk w = (out, w')" by force
  show "same_audit w (snd (insert_trace_atomic E snap h dec trace aid ck kp pk w))"
    using run by (cases out) (auto dest!: insert_trace_atomic_error elim!: insert_trace_atomic_ok
        simp: same_audit_def dest: insert_row_audit)
qed

lemma keeps_authorize_audit: "keeps same_audit (authorize E st cert req)"
  unfolding authorize_def heartbeat_stage_def mta_stage_def policy_stage_def persist_stage_def Let_def
  by (intro sau.keeps_intros sau.keeps_count keeps_validate_audit keeps_fetch_verified_audit
      keeps_insert_trace_audit keeps_insert_atomic_audit keeps_registry_stage [THEN only_tick_audit]
      keeps_snapshot_stage [THEN only_tick_audit]) (simp_all add: same_audit_def)

lemma keeps_bind_audit: "keeps same_audit (bind_execution E st req)"
  unfolding bind_execution_def bind_check_def bind_commit_def bind_position_def update_binding_def
    upsert_position_def Let_def
  by (intro sau.keeps_intros sau.keeps_count sau.keeps_sql keeps_intent [THEN same_db_audit]
      keeps_reconcile [THEN only_tick_audit])
    (auto simp: same_audit_def update_binding_stmt_def split: option.splits if_splits)

lemma keeps_ok_json: "keeps same_audit m \<Longrightarrow> keeps same_audit (ok_json m)"
  unfolding ok_json_def by (intro sau.keeps_intros)

lemma audits_ok_json: "audits who act m \<Longrightarrow> audits who act (ok_json m)"
  unfolding ok_json_def by (rule audits_ret)

lemma keeps_trace_queries:
  "keeps same_audit (get_trace E st t)" "keeps same_audit (get_pending E st age)"
  "keeps same_audit (get_orphans E st)" "keeps same_audit (route_get_shadow_violations E st)"
  unfolding get_trace_def get_pending_def get_orphans_def route_get_shadow_violations_def
    get_pending_traces_def get_orphan_traces_def get_shadow_violations_def
  by (intro sau.keeps_bindE sau.keeps_ret sau.keeps_sql_read keeps_get_trace_json [THEN only_tick_audit]
      keeps_decrypt_rows [THEN only_tick_audit])+

lemma keeps_agent_queries: "keeps same_audit (route_list_agents E)" "keeps same_audit (route_get_agent E a)"
  unfolding route_list_agents_def route_get_agent_def list_agents_def fetch_profile_def
  by (intro sau.keeps_intros)+

lemma keeps_list_traces: "keeps same_audit (route_list_traces E ag f u s l)"
  unfolding route_list_traces_def list_traces_def Let_def
  by (intro sau.keeps_intros sau.keeps_sql) (auto simp: same_audit_def split: if_splits)

lemma keeps_admin_queries:
  "keeps same_audit (shadow_mode_get E)" "keeps same_audit (audit_log_query_handler E q)"
  unfolding shadow_mode_get_def audit_log_query_handler_def
  by (intro sau.keeps_bindE sau.keeps_ret sau.keeps_prod sau.keeps_sql_read sau.keeps_sql;
      auto simp: same_audit_def split: option.splits)+

lemma keeps_health: "keeps same_audit (health E st)"
  unfolding health_def by (cases "cfg_mtls_enabled (st_config st)"; cases "st_cert_expiry_not_after st")
    (auto intro!: sau.keeps_intros)

lemmas keeps_queries = keeps_trace_queries keeps_agent_queries keeps_list_traces keeps_admin_queries keeps_health

lemma dispatch_audit:
  "case audit_action_of call of
     None \<Rightarrow> keeps same_audit (dispatch E st cert who call)
   | Some act \<Rightarrow> audits who act (dispatch E st cert who call)"
  by (cases call)
    (simp_all add: keeps_ok_json keeps_queries keeps_authorize_audit keeps_bind_audit audits_register
      audits_ok_json audits_update_status audits_shadow_set audits_gdpr audits_token_issue audits_token_revoke)

lemma error_status: "400 \<le> fst (into_response c e)"
proof -
  have "400 \<le> policy_status p" "400 \<le> heartbeat_status h" for p h by (cases p; simp) (cases h; simp)
  then show ?thesis by (cases e) (auto simp: into_response_def)
qed

lemma dispatch_status: "dispatch E st cert who call w = (Inr (status, v), w') \<Longrightarrow> status < 400"
  by (cases call) (auto simp: ok_json_def route_register_agent_def token_issue_def bindE_Inr_iff io_simps Let_def
      split: if_splits)

lemma handle_status: "handle_request E parse st rq w = (Inr (status, v), w') \<Longrightarrow> status < 400"
  by (auto simp: handle_request_def bindE_Inr_iff Let_def split: if_splits dest: dispatch_status)

text \<open>The audit trail of a request, whatever its outcome.\<close>

lemma handle_audit:
  assumes "handle_request E parse st rq w = (res, w')"
  shows "case audit_action_of (rq_call rq) of
      None \<Rightarrow> d_audit (w_db w') = d_audit (w_db w)
    | Some act \<Rightarrow> (case res of
        Inl e \<Rightarrow> d_audit (w_db w') = d_audit (w_db w)
      | Inr x \<Rightarrow> \<exists>token r. extract_bearer (rq_authorization rq) = Inr token
          \<and> d_audit (w_db w') = d_audit (w_db w) @ [r]
          \<and> au_operator_id r = take 12 (sha256_hex (env_crates E) token)
          \<and> au_action r = audit_action_as_str act)"
proof (cases "is_public (rq_call rq)")
  case True
  then show ?thesis using assms keepsD [OF keeps_ok_json [OF keeps_health]]
    by (auto simp: is_public_def handle_request_def same_audit_def)
next
  case False
  let ?bearer = "require_bearer E (cfg_rate_limit_per_second (st_config st)) (rq_authorization rq) (rq_connect_info rq)"
  let ?owner = "whenE (is_admin (rq_call rq)) (require_owner E (rq_authorization rq))"
  let ?run = "dispatch E st (client_cert_middleware parse []) "
  obtain r w1 where b: "?bearer w = (r, w1)" by force
  have 1: "d_audit (w_db w1) = d_audit (w_db w)"
    using keepsD [OF untouched_audit [OF keeps_require_bearer] b] by (simp add: same_audit_def)
  have req: "handle_request E parse st rq = bindE ?bearer (\<lambda>who. bindE ?owner (\<lambda>_. ?run who (rq_call rq)))"
    using False by (simp add: handle_request_def Let_def)
  show ?thesis
  proof (cases r)
    case (Inl e)
    then show ?thesis using assms b 1 req by (auto simp: bindE_def split: option.splits)
  next
    case (Inr who)
    obtain token where token: "extract_bearer (rq_authorization rq) = Inr token"
      and who: "op_id who = take 12 (sha256_hex (env_crates E) token)"
      using require_bearer_ok [OF b [unfolded Inr]] by (metis operator.select_convs(1))
    have run: "bindE ?owner (\<lambda>_. ?run who (rq_call rq)) w1 = (res, w')"
      using assms b Inr req by (simp add: bindE_def)
    have owner: "keeps same_audit ?owner"
      by (intro sau.keeps_whenE untouched_audit keeps_require_owner)
    show ?thesis
    proof (cases "audit_action_of (rq_call rq)")
      case None
      then have "keeps same_audit (bindE ?owner (\<lambda>_. ?run who (rq_call rq)))"
        using dispatch_audit [where call = "rq_call rq" and who = who and E = E and st = st] by (intro sau.keeps_bindE owner) simp
      then have "same_audit w1 w'" using run by (rule keepsD)
      then show ?thesis using 1 None by (simp add: same_audit_def)
    next
      case (Some act)
      then have "audits who act (bindE ?owner (\<lambda>_. ?run who (rq_call rq)))"
        using dispatch_audit [where call = "rq_call rq" and who = who and E = E and st = st] by (intro audits_bind owner) simp
      then have "audited who act (d_audit (w_db w)) (res, w')"
        unfolding audits_def using run 1 by metis
      then show ?thesis using Some token who by (cases res) auto
    qed
  qed
qed

section \<open>Properties\<close>

definition demo_http_request :: "string option \<Rightarrow> api_call \<Rightarrow> http_request" where
  "demo_http_request auth call =
     \<lparr>rq_authorization = auth, rq_peer_cert = [], rq_connect_info = None, rq_call = call\<rparr>"

text \<open>C11: no request passes without its credentials. A request to a protected route whose header carries no
  token that is valid at that moment is answered 401 and changes nothing at all; a request to an
  admin route whose token is not an active owner token in the table is answered 401, 429 or 403
  and changes nothing but the request counters and the time the token was last used.\<close>

theorem authentication_gate:
  assumes "\<not> is_public (rq_call rq)" and "serve E parse st rq w = (resp, w')"
  shows "((\<forall>token. extract_bearer (rq_authorization rq) = Inr token \<longrightarrow> \<not> is_valid (env_crates E) w token) \<longrightarrow>
           resp = Some (into_response (env_crates E) Unauthorized) \<and> w' = w)
    \<and> (is_admin (rq_call rq)
         \<and> (\<forall>token. extract_bearer (rq_authorization rq) = Inr token \<longrightarrow>
              token_role (env_crates E) (w_db w) token \<noteq> Some ''owner'') \<longrightarrow>
         untouched w w'
         \<and> (\<exists>e \<in> {Unauthorized, RateLimitExceeded, Forbidden}. resp = Some (into_response (env_crates E) e)))"
proof -
  let ?bearer = "require_bearer E (cfg_rate_limit_per_second (st_config st)) (rq_authorization rq) (rq_connect_info rq)"
  obtain r w1 where b: "?bearer w = (r, w1)" by force
  have "resp = Some (into_response (env_crates E) Unauthorized) \<and> w' = w"
    if "\<forall>token. extract_bearer (rq_authorization rq) = Inr token \<longrightarrow> \<not> is_valid (env_crates E) w token"
    using assms require_bearer_invalid [OF that] by (simp add: serve_def handle_request_def Let_def bindE_def)
  moreover have "untouched w w'
      \<and> (\<exists>e \<in> {Unauthorized, RateLimitExceeded, Forbidden}. resp = Some (into_response (env_crates E) e))"
    if adm: "is_admin (rq_call rq)" and role: "\<forall>token. extract_bearer (rq_authorization rq) = Inr token \<longrightarrow>
              token_role (env_crates E) (w_db w) token \<noteq> Some ''owner''"
  proof (cases r)
    case (Inl e)
    then show ?thesis using assms b require_bearer_error [OF b [unfolded Inl]] keepsD [OF keeps_require_bearer b]
      by (auto simp: serve_def handle_request_def Let_def bindE_def)
  next
    case (Inr who)
    have ut: "untouched w w1" using keepsD [OF keeps_require_bearer b] .
    obtain q w2 where owner: "require_owner E (rq_authorization rq) w1 = (q, w2)" by force
    have same: "token_role (env_crates E) (w_db w1) t = token_role (env_crates E) (w_db w) t" for t
      using ut by (intro token_role_untouched) (simp add: untouched_def)
    obtain e where e: "q = Inl e"
    proof (cases q)
      case (Inr x)
      then have "\<exists>token. extract_bearer (rq_authorization rq) = Inr token
          \<and> token_role (env_crates E) (w_db w1) token = Some ''owner''"
        using require_owner_ok owner by blast
      then show ?thesis using role unfolding same by blast
    qed
    have "untouched w w2" using ut keepsD [OF keeps_require_owner owner] by (rule ut.R_trans)
    moreover have "e = App Unauthorized \<or> e = App Forbidden" using require_owner_error owner e by blast
    ultimately show ?thesis using assms b Inr owner e adm
      by (auto simp: serve_def handle_request_def Let_def bindE_def io_simps)
  qed
  ultimately show ?thesis by blast
qed

theorem authentication_gate_witness:
  "serve demo_env (\<lambda>der. None) demo_state (demo_http_request None (CallTokenIssue ''x'')) demo_world
     = (Some (into_response demo_crates Unauthorized), demo_world)"
proof -
  obtain resp w' where run: "serve demo_env (\<lambda>der. None) demo_state
      (demo_http_request None (CallTokenIssue ''x'')) demo_world = (resp, w')" by force
  have "\<not> is_public (rq_call (demo_http_request None (CallTokenIssue ''x'')))"
    by (simp add: demo_http_request_def is_public_def)
  from authentication_gate [OF this run] run show ?thesis
    by (auto simp: demo_http_request_def extract_bearer_def demo_simps)
qed

definition demo_managed_agent :: agent_row where
  "demo_managed_agent =
     \<lparr>ag_agent_id = 1, ag_name = ''a'', ag_model_hash_hex = ''00'', ag_policy_module_id = ''p'',
      ag_allowed_regimes = None, ag_max_notional = 1000, ag_max_leverage = 1, ag_allowed_venues = None,
      ag_status = ''Active'', ag_allowed_mta_pubkeys = None, ag_registered_at = 0, ag_updated_at = 0\<rparr>"

definition demo_admin_world :: world where
  "demo_admin_world = demo_world\<lparr>w_db := demo_db\<lparr>d_agents := [demo_managed_agent]\<rparr>,
     w_token_cache := [sha256_hex demo_crates ''t'']\<rparr>"

lemma demo_bearer: "extract_bearer (Some ''Bearer t'') = Inr ''t''"
  by (simp add: extract_bearer_def header_to_str_def strip_prefix_def starts_with_def)

lemma demo_suspend:
  "\<exists>v w'. serve demo_env (\<lambda>der. None) demo_state
      (demo_http_request (Some ''Bearer t'') (CallUpdateAgentStatus 1 \<lparr>us_status = ''Suspended''\<rparr>)) demo_admin_world = (Some (200, v), w')"
  by (simp add: serve_def handle_request_def demo_http_request_def is_public_def require_bearer_def demo_bearer
      is_valid_def rate_check_def rate_step_def bump_last_used_def ok_json_def route_update_agent_status_def
      agent_statuses_def update_status_def set_agent_status_def find_agent_def demo_managed_agent_def
      insert_audit_log_def bindE_def attempt_def sql_def io_simps demo_admin_world_def demo_world_def demo_db_def
      demo_simps demo_state_def demo_config_def Let_def)

text \<open>C13: every management action is on the record. When a request that registers an agent, changes its
  status, sets the shadow mode, erases an agent or issues or revokes a token is answered with
  success, the audit log has exactly one row more, with the action and the first twelve digits of
  the hash of the bearer token of that request; a request that fails, and every other request,
  leaves the log as it was.\<close>

theorem management_is_audited:
  assumes "serve E parse st rq w = (resp, w')"
  shows "case audit_action_of (rq_call rq) of
      None \<Rightarrow> d_audit (w_db w') = d_audit (w_db w)
    | Some act \<Rightarrow>
        if \<exists>status body. resp = Some (status, body) \<and> status < 400
        then \<exists>token r. extract_bearer (rq_authorization rq) = Inr token
          \<and> d_audit (w_db w') = d_audit (w_db w) @ [r]
          \<and> au_operator_id r = take 12 (sha256_hex (env_crates E) token)
          \<and> au_action r = audit_action_as_str act
        else d_audit (w_db w') = d_audit (w_db w)"
proof -
  obtain res w1 where run: "handle_request E parse st rq w = (res, w1)" by force
  have w1: "w1 = w'" using assms run by (auto simp: serve_def split: sum.splits failure.splits)
  show ?thesis
  proof (cases res)
    case (Inl e)
    have "\<not> (\<exists>status body. resp = Some (status, body) \<and> status < 400)"
    proof (cases e)
      case (App f)
      then have "resp = Some (into_response (env_crates E) f)" using assms run Inl by (simp add: serve_def)
      then show ?thesis using error_status [of "env_crates E" f] by (auto dest: leD)
    next
      case (Panic p)
      then show ?thesis using assms run Inl by (simp add: serve_def)
    qed
    then show ?thesis using handle_audit [OF run] Inl w1 by (auto split: option.splits)
  next
    case (Inr x)
    then have "resp = Some x" using assms run by (simp add: serve_def)
    moreover have "fst x < 400" using handle_status run Inr by (metis prod.collapse)
    ultimately show ?thesis using handle_audit [OF run] Inr w1 by (cases x) (auto split: option.splits)
  qed
qed

theorem management_is_audited_witness:
  "\<exists>resp w' r. serve demo_env (\<lambda>der. None) demo_state
      (demo_http_request (Some ''Bearer t'') (CallUpdateAgentStatus 1 \<lparr>us_status = ''Suspended''\<rparr>)) demo_admin_world = (Some resp, w')
     \<and> d_audit (w_db w') = [r] \<and> au_action r = ''AGENT_SUSPEND''
     \<and> au_operator_id r = take 12 (sha256_hex demo_crates ''t'')"
proof -
  obtain resp w' where run: "serve demo_env (\<lambda>der. None) demo_state
      (demo_http_request (Some ''Bearer t'') (CallUpdateAgentStatus 1 \<lparr>us_status = ''Suspended''\<rparr>)) demo_admin_world = (Some (200, resp), w')"
    using demo_suspend by blast
  have "d_audit (w_db demo_admin_world) = []" by (simp add: demo_admin_world_def demo_world_def demo_db_def)
  with management_is_audited [OF run] run show ?thesis
    by (auto simp: demo_http_request_def demo_bearer status_action_def demo_simps)
qed

end
