(* ===== verification/Irl_Backfill.thy ===== *)
theory Irl_Backfill
  imports Irl_Rewrite
begin

text \<open>
  \<open>src/backfill.rs\<close>: the job that encrypts the traces stored in plaintext, in batches
  of 500 along the trace ids.
\<close>

section \<open>The job\<close>

text \<open>
  \<open>WHERE encryption_version = 0 AND (cursor IS NULL OR trace_id > cursor) ORDER BY
  trace_id LIMIT 500\<close>. No other session holds row locks here, so none is skipped.
\<close>

definition beyond :: "uuid option \<Rightarrow> trace_row \<Rightarrow> bool" where
  "beyond cursor r \<longleftrightarrow> (case cursor of None \<Rightarrow> True | Some i \<Rightarrow> i < tr_trace_id r)"

definition plaintext_batch :: "uuid option \<Rightarrow> database \<Rightarrow> trace_row list" where
  "plaintext_batch cursor d =
     take 500 (sort_key tr_trace_id
       (filter (\<lambda>r. tr_encryption_version r = 0 \<and> beyond cursor r) (d_traces d)))"

text \<open>
  The update of one row, guarded by its version: \<open>Some\<close> key version when a row was hit.
  Only the outermost context of an error is shown.
\<close>

definition encrypt_one_row :: "env \<Rightarrow> key_provider \<Rightarrow> uuid \<Rightarrow> json \<Rightarrow> int option anyio" where
  "encrypt_one_row E kp trace_id trace_json =
     bindE (with_context ''generate_dek'' (generate_dek E kp)) (\<lambda>(dek, enc_dek, kv).
     bindE (liftE (res_map_err (\<lambda>_. ''serialize trace_json to bytes'') (json_to_vec (env_crates E) trace_json))) (\<lambda>plaintext.
     bindE (with_context ''encrypt_trace'' (encrypt_trace E plaintext dek)) (\<lambda>blob.
     let wrapped = wrap_ciphertext_for_jsonb (env_crates E) (bl_ciphertext blob) in
     bindE (map_errE (\<lambda>_. ''UPDATE reasoning_traces (encrypt backfill)'') (sql E (\<lambda>now d. Inr
         (length (filter (\<lambda>s. tr_trace_id s = trace_id \<and> tr_encryption_version s = 0) (d_traces d)),
          d\<lparr>d_traces := write_row tr_trace_id trace_id
             (\<lambda>s. if tr_encryption_version s = 0
                  then s\<lparr>tr_trace_json := wrapped, tr_trace_nonce := Some (bl_nonce blob),
                         tr_encrypted_dek := Some enc_dek, tr_key_version := Some kv,
                         tr_encryption_version := 1\<rparr>
                  else s) (d_traces d)\<rparr>)))) (\<lambda>rows_affected.
     ret (if rows_affected = 0 then None else Some kv)))))"

text \<open>The key version of an encrypted row is registered once per run.\<close>

definition register_version :: "env \<Rightarrow> string \<Rightarrow> string \<Rightarrow> int list \<Rightarrow> int option \<Rightarrow> int list anyio" where
  "register_version E provider_name key_arn_or_path registered key_version =
     (case key_version of
        None \<Rightarrow> ret registered
      | Some kv \<Rightarrow>
          if kv \<in> set registered then ret registered
          else
            bindE (map_errE (\<lambda>_. ''upsert_kms_key_metadata key_version='' @ show_int kv)
                     (upsert_kms_key_metadata E kv provider_name key_arn_or_path)) (\<lambda>_.
            ret (kv # registered)))"

definition backfill_row ::
  "env \<Rightarrow> key_provider \<Rightarrow> string \<Rightarrow> string \<Rightarrow> trace_row \<Rightarrow> int list \<Rightarrow> int list anyio"
where
  "backfill_row E kp provider_name key_arn_or_path r registered =
     bindE (with_context (''encrypt_one_row for trace_id='' @ uuid_to_string (env_crates E) (tr_trace_id r))
              (encrypt_one_row E kp (tr_trace_id r) (tr_trace_json r)))
       (register_version E provider_name key_arn_or_path registered)"

text \<open>The short transaction that reads a batch.\<close>

definition fetch_batch :: "env \<Rightarrow> uuid option \<Rightarrow> trace_row list anyio" where
  "fetch_batch E cursor =
     bindE (map_errE (\<lambda>_. ''begin batch select txn'') (sql_read E (\<lambda>now d. ()))) (\<lambda>_.
     bindE (map_errE (\<lambda>_. ''fetch plaintext batch'') (sql_read E (\<lambda>now d. plaintext_batch cursor d))) (\<lambda>rows.
     bindE (map_errE (\<lambda>_. ''commit batch select txn'') (sql_read E (\<lambda>now d. ()))) (\<lambda>_. ret rows)))"

fun backfill_batches ::
  "nat \<Rightarrow> env \<Rightarrow> key_provider \<Rightarrow> string \<Rightarrow> string \<Rightarrow> uuid option \<Rightarrow> int list \<Rightarrow> nat \<Rightarrow> nat option anyio"
where
  "backfill_batches 0 E kp provider_name arn cursor registered n = ret None"
| "backfill_batches (Suc fuel) E kp provider_name arn cursor registered n =
     bindE (fetch_batch E cursor) (\<lambda>rows.
     if rows = [] then ret (Some n)
     else
       bindE (foldM (backfill_row E kp provider_name arn) rows registered) (\<lambda>registered'.
       backfill_batches fuel E kp provider_name arn (Some (tr_trace_id (last rows))) registered'
         (n + length rows)))"

text \<open>
  The estimate for the log is best effort: a failure counts as zero. One batch more
  than there are rows is enough.
\<close>

definition run_backfill :: "env \<Rightarrow> key_provider \<Rightarrow> string \<Rightarrow> string \<Rightarrow> nat option anyio" where
  "run_backfill E kp provider_name arn =
     bindE (attempt (sql_read E (\<lambda>now d. length (filter (\<lambda>r. tr_encryption_version r = 0) (d_traces d))))) (\<lambda>estimate.
     bindE (gets (\<lambda>w. Suc (length (d_traces (w_db w))))) (\<lambda>fuel.
     backfill_batches fuel E kp provider_name arn None [] 0))"

section \<open>What an encrypted row is\<close>

definition backfilled :: "env \<Rightarrow> key_provider \<Rightarrow> trace_row \<Rightarrow> trace_row \<Rightarrow> bool" where
  "backfilled E kp r r' \<longleftrightarrow>
     (if tr_encryption_version r = 0
      then r' = r\<lparr>tr_trace_json := tr_trace_json r', tr_trace_nonce := tr_trace_nonce r',
            tr_encrypted_dek := tr_encrypted_dek r', tr_key_version := tr_key_version r',
            tr_encryption_version := 1\<rparr>
        \<and> (\<exists>x x'. encrypt_stored E (Some kp) (tr_trace_json r) x = (Inr (tr_trace_json r', tr_trace_nonce r',
               tr_encrypted_dek r', tr_key_version r', tr_encryption_version r'), x'))
      else r' = r)"

lemma backfilled_id: "backfilled E kp r r' \<Longrightarrow> tr_trace_id r' = tr_trace_id r"
  by (auto simp: backfilled_def dest: arg_cong [where f = tr_trace_id] split: if_splits)

text \<open>A generated key and an encryption under it are the stored form of an insertion.\<close>

lemma encrypt_stored_intro:
  assumes "json_to_vec (env_crates E) v = Inr pt" and "generate_dek E kp w = (Inr (dek, enc_dek, kv), w1)"
    and "encrypt_trace E pt dek w1 = (Inr blob, w2)"
  shows "encrypt_stored E (Some kp) v w =
    (Inr (wrap_ciphertext_for_jsonb (env_crates E) (bl_ciphertext blob), Some (bl_nonce blob), Some enc_dek, Some kv, 1), w2)"
  using assms by (simp add: encrypt_stored_def bindE_def map_errE_def io_simps)

definition row_written :: "env \<Rightarrow> key_provider \<Rightarrow> trace_row \<Rightarrow> world \<Rightarrow> world \<Rightarrow> bool" where
  "row_written E kp r w w' \<longleftrightarrow> (\<exists>upd. backfilled E kp r (upd r)
     \<and> d_traces (w_db w') = write_row tr_trace_id (tr_trace_id r) upd (d_traces (w_db w)))"

lemma encrypt_one_row_Inr:
  assumes "encrypt_one_row E kp (tr_trace_id r) (tr_trace_json r) w = (Inr x, w')"
  shows "row_written E kp r w w'"
proof -
  obtain dek enc_dek kv w1 pt blob w2 where gen: "generate_dek E kp w = (Inr (dek, enc_dek, kv), w1)"
    and pt: "json_to_vec (env_crates E) (tr_trace_json r) = Inr pt"
    and enc: "encrypt_trace E pt dek w1 = (Inr blob, w2)"
    and db: "d_traces (w_db w') = write_row tr_trace_id (tr_trace_id r)
       (\<lambda>s. if tr_encryption_version s = 0
            then s\<lparr>tr_trace_json := wrap_ciphertext_for_jsonb (env_crates E) (bl_ciphertext blob),
                   tr_trace_nonce := Some (bl_nonce blob), tr_encrypted_dek := Some enc_dek,
                   tr_key_version := Some kv, tr_encryption_version := 1\<rparr>
            else s) (d_traces (w_db w2))"
    using assms unfolding encrypt_one_row_def
    by (auto simp: bindE_Inr_iff with_context_Inr liftE_Inr_iff map_errE_Inr_iff sql_ok_iff io_simps Let_def)
  have "w_db w2 = w_db w"
    using keepsD [OF keeps_generate_dek gen] keepsD [OF keeps_encrypt_trace enc] by (auto simp: only_tick_def)
  then show ?thesis unfolding row_written_def db
    using encrypt_stored_intro [OF pt gen enc]
    by (intro exI conjI, unfold backfilled_def) (auto intro!: exI)
qed

lemma encrypt_one_row_Inl:
  assumes "encrypt_one_row E kp i j w = (Inl e, w')" shows "d_traces (w_db w') = d_traces (w_db w)"
  using assms unfolding encrypt_one_row_def with_context_def Let_def
  by (auto elim!: bindE_InlE simp: io_simps only_tick_def map_errE_def liftE_def
      dest!: sql_error_db keepsD [OF keeps_generate_dek] keepsD [OF keeps_encrypt_trace]
      split: prod.splits sum.splits failure.splits)

lemma register_keeps_traces: "keeps same_traces (register_version E p arn reg kv)"
  unfolding register_version_def upsert_kms_key_metadata_def
  by (intro st.keeps_intros st.keeps_sql) (auto simp: same_traces_def)

lemma backfill_row_cases:
  assumes "backfill_row E kp p arn r reg w = (res, w')"
  shows "row_written E kp r w w' \<or> (\<exists>e. res = Inl e) \<and> d_traces (w_db w') = d_traces (w_db w)"
proof -
  obtain x w1 where one: "encrypt_one_row E kp (tr_trace_id r) (tr_trace_json r) w = (x, w1)" by force
  show ?thesis
  proof (cases x)
    case (Inl f)
    then have "w' = w1 \<and> (\<exists>e. res = Inl e)" using assms one
      by (cases f) (auto simp: backfill_row_def bindE_def with_context_def map_errE_def)
    then show ?thesis using encrypt_one_row_Inl one Inl by blast
  next
    case (Inr kv)
    then have "register_version E p arn reg kv w1 = (res, w')" using assms one
      by (simp add: backfill_row_def bindE_def with_context_def map_errE_def)
    then have "d_traces (w_db w') = d_traces (w_db w1)"
      using keepsD [OF register_keeps_traces] by (auto simp: same_traces_def)
    then show ?thesis using encrypt_one_row_Inr one Inr by (auto simp: row_written_def)
  qed
qed

interpretation backfilling: keyed_rewrite tr_trace_id "backfilled E kp" "backfill_row E kp p arn"
  for E kp p arn
proof
  show "tr_trace_id r' = tr_trace_id r" if "backfilled E kp r r'" for r r'
    using that by (rule backfilled_id)
  show "\<exists>upd. backfilled E kp r (upd r)
      \<and> d_traces (w_db w') = write_row tr_trace_id (tr_trace_id r) upd (d_traces (w_db w))"
    if "backfill_row E kp p arn r s w = (Inr s', w')" for r s w s' w'
    using backfill_row_cases [OF that] by (simp add: row_written_def)
  show "d_traces (w_db w') = d_traces (w_db w) \<or> (\<exists>upd. backfilled E kp r (upd r)
      \<and> d_traces (w_db w') = write_row tr_trace_id (tr_trace_id r) upd (d_traces (w_db w)))"
    if "backfill_row E kp p arn r s w = (Inl e, w')" for r s w e w'
    using backfill_row_cases [OF that] unfolding row_written_def by blast
qed

section \<open>The batches cover the plaintext traces\<close>

definition plaintext :: "uuid option \<Rightarrow> trace_row list \<Rightarrow> trace_row list" where
  "plaintext cursor rows = filter (\<lambda>r. tr_encryption_version r = 0 \<and> beyond cursor r) rows"

definition finished_ids :: "uuid option \<Rightarrow> trace_row list \<Rightarrow> uuid set" where
  "finished_ids cursor rows = {tr_trace_id r | r. r \<in> set rows \<and> tr_encryption_version r = 0 \<and> \<not> beyond cursor r}"

lemma beyond_id: "tr_trace_id s = tr_trace_id r \<Longrightarrow> beyond cursor s = beyond cursor r"
  by (simp add: beyond_def split: option.splits)

lemma filter_map_idle:
  assumes "\<And>x. x \<in> set xs \<Longrightarrow> g x = x \<or> \<not> P x \<and> \<not> P (g x)"
  shows "filter P (map g xs) = filter P xs"
  using assms
proof (induction xs)
  case (Cons x xs)
  have "g x = x \<or> \<not> P x \<and> \<not> P (g x)" using Cons.prems by simp
  moreover have "filter P (map g xs) = filter P xs" using Cons by simp
  ultimately show ?case by auto
qed simp

lemma plaintext_batch_unwritten:
  assumes "rewritten tr_trace_id (backfilled E kp) (finished_ids cursor rows0) rows0 (d_traces d)"
  shows "plaintext_batch cursor d = take 500 (sort_key tr_trace_id (plaintext cursor rows0))"
proof -
  obtain F where rows: "d_traces d = map F rows0"
    and F: "\<And>r. r \<in> set rows0 \<Longrightarrow> if tr_trace_id r \<in> finished_ids cursor rows0
      then backfilled E kp r (F r) else F r = r"
    using assms by (auto simp: rewritten_def)
  have "F r = r \<or> \<not> beyond cursor r \<and> \<not> beyond cursor (F r)" if r: "r \<in> set rows0" for r
  proof (cases "tr_trace_id r \<in> finished_ids cursor rows0")
    case True
    then have "\<not> beyond cursor r" by (auto simp: finished_ids_def dest: beyond_id)
    moreover have "tr_trace_id (F r) = tr_trace_id r" using F [OF r] True by (auto dest: backfilled_id)
    ultimately show ?thesis using beyond_id [of "F r" r] by simp
  qed (use F [OF r] in simp)
  then have "plaintext cursor (map F rows0) = plaintext cursor rows0"
    unfolding plaintext_def by (intro filter_map_idle) blast
  then show ?thesis by (simp add: plaintext_batch_def plaintext_def rows)
qed

text \<open>Cutting the sorted plaintext rows at the last id of a batch.\<close>

lemma plaintext_cut:
  assumes "distinct (map tr_trace_id rows0)" and "rows = take 500 (sort_key tr_trace_id (plaintext cursor rows0))"
    and "rows \<noteq> []"
  shows "finished_ids (Some (tr_trace_id (last rows))) rows0 = finished_ids cursor rows0 \<union> tr_trace_id ` set rows"
    and "length (plaintext cursor rows0) = length rows + length (plaintext (Some (tr_trace_id (last rows))) rows0)"
    and "distinct (map tr_trace_id rows)" and "set rows \<subseteq> set rows0"
    and "tr_trace_id ` set rows \<inter> finished_ids cursor rows0 = {}"
proof -
  let ?U = "sort_key tr_trace_id (plaintext cursor rows0)" and ?c = "Some (tr_trace_id (last rows))"
  define rest where "rest = drop 500 ?U"
  have U: "?U = rows @ rest" by (simp add: assms(2) rest_def)
  have set_U: "set rows \<union> set rest = {r \<in> set rows0. tr_encryption_version r = 0 \<and> beyond cursor r}"
    using arg_cong [OF U, of set] by (auto simp: plaintext_def)
  have inj: "distinct (map tr_trace_id ?U)"
    using assms(1) by (auto simp: plaintext_def distinct_map intro: inj_on_subset)
  moreover have "sorted (map tr_trace_id ?U)" by simp
  ultimately have strict: "sorted_wrt (<) (map tr_trace_id (rows @ rest))"
    unfolding U [symmetric] by (simp add: strict_sorted_iff)
  then have parts: "\<And>r s. r \<in> set rows \<Longrightarrow> s \<in> set rest \<Longrightarrow> tr_trace_id r < tr_trace_id s"
    by (auto simp: sorted_wrt_append)
  have le: "tr_trace_id r \<le> tr_trace_id (last rows)" if "r \<in> set rows" for r
  proof -
    have "sorted_wrt (<) (map tr_trace_id (butlast rows @ [last rows]))"
      using strict assms(3) by (simp add: sorted_wrt_append)
    moreover have "r \<in> set (butlast rows) \<or> r = last rows"
      using that assms(3) by (metis append_butlast_last_id in_set_conv_decomp_last Un_iff empty_iff empty_set set_ConsD set_append list.set_intros(1))
    ultimately show ?thesis by (auto simp: sorted_wrt_append less_imp_le)
  qed
  have last: "last rows \<in> set rows" using assms(3) by simp
  show "distinct (map tr_trace_id rows)" using inj unfolding U by simp
  show "set rows \<subseteq> set rows0" using set_U by auto
  show "tr_trace_id ` set rows \<inter> finished_ids cursor rows0 = {}"
    using set_U by (auto simp: finished_ids_def dest: beyond_id)
  have later: "beyond ?c r \<longleftrightarrow> r \<in> set rest" if "r \<in> set rows \<union> set rest" for r
    using that le [of r] parts [OF last, of r] by (auto simp: beyond_def dest: leD)
  have mono: "beyond cursor r" if "beyond ?c r" for r
    using that last set_U by (cases cursor) (auto simp: beyond_def intro: less_trans)
  show "finished_ids ?c rows0 = finished_ids cursor rows0 \<union> tr_trace_id ` set rows"
    using set_U later mono le by (auto simp: finished_ids_def beyond_def not_less) fastforce+
  have "plaintext ?c rows0 = filter (beyond ?c) (plaintext cursor rows0)"
    unfolding plaintext_def using mono by (auto intro: filter_cong)
  then have "length (plaintext ?c rows0) = length (filter (beyond ?c) ?U)"
    by (metis mset_filter mset_sort size_mset)
  also have "filter (beyond ?c) ?U = rest"
    unfolding U using later parts by (auto simp: filter_empty_conv filter_id_conv)
  finally have "length (plaintext ?c rows0) = length rest" .
  then show "length (plaintext cursor rows0) = length rows + length (plaintext ?c rows0)"
    using arg_cong [OF U, of length] by simp
qed

lemma backfill_batches_spec:
  assumes "rewritten tr_trace_id (backfilled E kp) (finished_ids cursor rows0) rows0 (d_traces (w_db w))"
    and "distinct (map tr_trace_id rows0)" and "backfill_batches fuel E kp p arn cursor reg n w = (res, w')"
  shows "\<exists>K. rewritten tr_trace_id (backfilled E kp) K rows0 (d_traces (w_db w'))
    \<and> (length (plaintext cursor rows0) < fuel \<longrightarrow> res \<noteq> Inr None)
    \<and> (\<forall>m. res = Inr (Some m) \<longrightarrow> m = n + length (plaintext cursor rows0)
         \<and> (\<forall>r \<in> set rows0. tr_encryption_version r = 0 \<longrightarrow> tr_trace_id r \<in> K))"
  using assms
proof (induction fuel arbitrary: cursor reg n w)
  case 0
  then show ?case by (auto simp: io_simps)
next
  case (Suc fuel)
  let ?rows = "take 500 (sort_key tr_trace_id (plaintext cursor rows0))"
  obtain x w1 where fetch: "fetch_batch E cursor w = (x, w1)" by force
  have "keeps same_db (fetch_batch E cursor)" unfolding fetch_batch_def by (intro sd.keeps_intros)
  then have db: "w_db w1 = w_db w" using fetch by (auto simp: same_db_def dest: keepsD)
  note run = Suc.prems(3) [unfolded backfill_batches.simps]
  show ?case
  proof (cases x)
    case (Inl e)
    then have "res = Inl e" "w' = w1" using run fetch by (auto simp: bindE_def)
    then show ?thesis using Suc.prems(1) db by (intro exI [of _ "finished_ids cursor rows0"]) auto
  next
    case (Inr rows)
    then have rows: "rows = ?rows"
      using fetch plaintext_batch_unwritten [OF Suc.prems(1)]
      by (auto simp: fetch_batch_def bindE_Inr_iff map_errE_Inr_iff sql_read_ok_iff io_simps)
    have tail: "(if rows = [] then ret (Some n)
        else bindE (foldM (backfill_row E kp p arn) rows reg) (\<lambda>reg'.
          backfill_batches fuel E kp p arn (Some (tr_trace_id (last rows))) reg' (n + length rows))) w1 = (res, w')"
      using run fetch Inr by (simp add: bindE_def)
    show ?thesis
    proof (cases "rows = []")
      case True
      then have "length (sort_key tr_trace_id (plaintext cursor rows0)) = 0" using rows by simp
      then have none: "plaintext cursor rows0 = []" by simp
      have "res = Inr (Some n)" "w' = w1" using tail True by (auto simp: io_simps)
      then show ?thesis using Suc.prems(1) db none
        by (intro exI [of _ "finished_ids cursor rows0"])
          (auto simp: plaintext_def finished_ids_def filter_empty_conv)
    next
      case False
      note cut = plaintext_cut [OF Suc.prems(2) rows False]
      obtain y w2 where fold: "foldM (backfill_row E kp p arn) rows reg w1 = (y, w2)" by force
      from backfilling.rewritten_foldM [OF Suc.prems(1) [folded db] Suc.prems(2) cut(4,3,5) fold]
      obtain K where K: "rewritten tr_trace_id (backfilled E kp) K rows0 (d_traces (w_db w2))"
          "\<forall>s. y = Inr s \<longrightarrow> K = finished_ids cursor rows0 \<union> tr_trace_id ` set rows"
        by (elim exE conjE) simp
      show ?thesis
      proof (cases y)
        case (Inl e)
        then have "res = Inl e" "w' = w2" using tail False fold by (auto simp: bindE_def)
        then show ?thesis using K(1) by (intro exI [of _ K]) auto
      next
        case (Inr reg')
        then have "K = finished_ids (Some (tr_trace_id (last rows))) rows0" using K(2) cut(1) by simp
        moreover have "backfill_batches fuel E kp p arn (Some (tr_trace_id (last rows))) reg' (n + length rows) w2 = (res, w')"
          using tail False fold Inr by (simp add: bindE_def)
        ultimately have "\<exists>K. rewritten tr_trace_id (backfilled E kp) K rows0 (d_traces (w_db w'))
            \<and> (length (plaintext (Some (tr_trace_id (last rows))) rows0) < fuel \<longrightarrow> res \<noteq> Inr None)
            \<and> (\<forall>m. res = Inr (Some m) \<longrightarrow>
                 m = n + length rows + length (plaintext (Some (tr_trace_id (last rows))) rows0)
               \<and> (\<forall>r \<in> set rows0. tr_encryption_version r = 0 \<longrightarrow> tr_trace_id r \<in> K))"
          using K(1) Suc.prems(2) by (intro Suc.IH) simp_all
        moreover have "length (plaintext (Some (tr_trace_id (last rows))) rows0) < fuel"
          if "length (plaintext cursor rows0) < Suc fuel"
        proof -
          have "0 < length rows" using False by simp
          then show ?thesis using cut(2) that by linarith
        qed
        ultimately show ?thesis using cut(2) by (simp add: add.assoc) blast
      qed
    qed
  qed
qed

section \<open>Properties\<close>

text \<open>What the job promises of a row: it is as it was, or was plaintext and is now encrypted such that
  whoever decrypts it gets the old value, with no column but the stored form changed.\<close>

definition sealed_in_place :: "env \<Rightarrow> key_provider \<Rightarrow> trace_row \<Rightarrow> trace_row \<Rightarrow> bool" where
  "sealed_in_place E kp r r' \<longleftrightarrow>
     r' = r\<lparr>tr_trace_json := tr_trace_json r', tr_trace_nonce := tr_trace_nonce r',
            tr_encrypted_dek := tr_encrypted_dek r', tr_key_version := tr_key_version r',
            tr_encryption_version := 1\<rparr>
     \<and> (\<forall>x v x'. decrypt_if_needed E (tr_trace_json r') (tr_trace_nonce r') (tr_encrypted_dek r')
          (tr_key_version r') (tr_encryption_version r') (Some kp) x = (Inr v, x') \<longrightarrow> v = tr_trace_json r)"

lemma backfilled_sealed:
  assumes "backfilled E kp r r'" and "tr_encryption_version r = 0" and "crypto_ok E" and "provider_ok E kp"
    and "json_roundtrip (env_crates E) (tr_trace_json r)"
  shows "sealed_in_place E kp r r'"
proof -
  obtain x x' where enc: "encrypt_stored E (Some kp) (tr_trace_json r) x = (Inr (tr_trace_json r', tr_trace_nonce r',
      tr_encrypted_dek r', tr_key_version r', tr_encryption_version r'), x')"
    using assms(1,2) by (auto simp: backfilled_def)
  have "v = tr_trace_json r" if "decrypt_if_needed E (tr_trace_json r') (tr_trace_nonce r') (tr_encrypted_dek r')
      (tr_key_version r') (tr_encryption_version r') (Some kp) y = (Inr v, y')" for v y y'
    using stored_form_read [OF assms(3,5) _ enc that] assms(4) by simp
  then show ?thesis using assms(1,2) by (auto simp: backfilled_def sealed_in_place_def)
qed

text \<open>One plaintext trace, encrypted under a local key.\<close>

definition demo_plain_row :: trace_row where
  "demo_plain_row =
     \<lparr>tr_trace_id = 7, tr_valid_time = 1, tr_txn_time = 2, tr_mta_regime_id = 0,
      tr_mta_version = ''v1'', tr_mta_hash = ''00'', tr_latent_fingerprint = ''lf'',
      tr_feature_schema_id = ''f'', tr_execution_action = ''Long(1)'', tr_execution_asset = ''BTC-PERP'',
      tr_client_order_id = ''o-1'', tr_execution_order_type = None, tr_execution_venue_id = None,
      tr_execution_quantity = None, tr_execution_notional = None, tr_execution_limit_price = None,
      tr_execution_notional_currency = ''USD'', tr_execution_multiplier = 1,
      tr_execution_stop_price = None, tr_heartbeat_seq = 0, tr_policy_id = POLICY_ID,
      tr_policy_version = POLICY_VERSION, tr_policy_hash = ''ph'', tr_policy_result = ''ALLOWED'',
      tr_reasoning_hash = ''rh'', tr_trace_json = JNull, tr_agent_id = None, tr_trace_nonce = None,
      tr_encrypted_dek = None, tr_key_version = None, tr_encryption_version = 0,
      tr_mta_pubkey_used = None, tr_exchange_tx_id = None, tr_verification_status = ''PENDING'',
      tr_execution_status = None, tr_execution_price = None, tr_execution_time = None,
      tr_final_proof = None, tr_gdpr_erased_at = None, tr_gdpr_request_id = None\<rparr>"

definition demo_plain_world :: world where
  "demo_plain_world = demo_world\<lparr>w_db := demo_db\<lparr>d_traces := [demo_plain_row]\<rparr>\<rparr>"

lemma demo_env_crypto: "crypto_ok demo_env"
  by (auto simp: crypto_ok_def demo_env_def demo_crates_def demo_hex_roundtrip)

lemma demo_backfill: "\<exists>w'. run_backfill demo_env demo_key ''local'' ''local'' demo_plain_world = (Inr (Some 1), w')"
  by (simp add: run_backfill_def attempt_def fetch_batch_def plaintext_batch_def beyond_def backfill_row_def
      register_version_def encrypt_one_row_def upsert_kms_key_metadata_def write_row_def
      demo_key_def local_generate_dek_def encrypt_trace_def with_context_def map_errE_def bindE_def sql_read_def
      sql_def io_simps demo_env_def demo_crates_def demo_plain_world_def demo_world_def demo_db_def
      demo_plain_row_def Let_def)



end
