(* ===== verification/Irl_Start.thy ===== *)
theory Irl_Start
  imports Irl_Router Irl_Backfill
begin

text \<open>
  \<open>Config::from_env\<close> of \<open>src/config.rs\<close> and the start of the server in \<open>src/main.rs\<close>: the
  configuration from the process environment, the subcommand, and the state the
  router serves with. Logging, TLS listeners and the spawning of the periodic
  tasks (whose rounds are defined with their components) are left out.
\<close>

section \<open>Numbers in the environment\<close>

text \<open>\<open>str::parse\<close> of integers: an optional sign, then digits, within the type's range.\<close>

definition parse_digits :: "string \<Rightarrow> nat option" where
  "parse_digits s =
     (if s \<noteq> [] \<and> list_all (\<lambda>ch. 48 \<le> (of_char ch :: nat) \<and> (of_char ch :: nat) \<le> 57) s
      then Some (fold (\<lambda>ch n. 10 * n + (of_char ch - 48)) s 0) else None)"

definition parse_unsigned :: "nat \<Rightarrow> string \<Rightarrow> nat option" where
  "parse_unsigned bits s =
     (case parse_digits (case s of ch # r \<Rightarrow> if ch = CHR ''+'' then r else s | [] \<Rightarrow> []) of
        None \<Rightarrow> None
      | Some n \<Rightarrow> if n < 2 ^ bits then Some n else None)"

definition parse_i32 :: "string \<Rightarrow> int option" where
  "parse_i32 s =
     (case s of
        [] \<Rightarrow> None
      | ch # r \<Rightarrow>
          if ch = CHR ''-''
          then (case parse_digits r of Some n \<Rightarrow> if n \<le> 2 ^ 31 then Some (- int n) else None | None \<Rightarrow> None)
          else map_option int (parse_unsigned 31 s))"

section \<open>Configuration from the environment\<close>

definition var_or :: "env_vars \<Rightarrow> string \<Rightarrow> string \<Rightarrow> string" where
  "var_or vars name dflt = (case vars name of None \<Rightarrow> dflt | Some v \<Rightarrow> v)"

text \<open>
  \<open>to_lowercase() == "true"\<close>; no character outside ASCII has a letter of \<open>true\<close> as its
  lowercase form.
\<close>

definition var_flag :: "env_vars \<Rightarrow> string \<Rightarrow> string \<Rightarrow> bool" where
  "var_flag vars name dflt \<longleftrightarrow> to_ascii_lowercase (var_or vars name dflt) = ''true''"

definition mta_mode_of :: "env_vars \<Rightarrow> mta_mode" where
  "mta_mode_of vars =
     (if vars ''MTA_MODE'' \<in> {Some ''mock'', Some ''Mock''} then ModeMock
      else if vars ''MTA_MODE'' \<in> {Some ''none'', Some ''None''} then ModeNone
      else ModeMacroPulse)"

definition kms_provider_of :: "env_vars \<Rightarrow> kms_provider" where
  "kms_provider_of vars =
     (if vars ''KMS_PROVIDER'' = Some ''local'' then KmsLocal
      else if vars ''KMS_PROVIDER'' = Some ''aws'' then KmsAws
      else if vars ''KMS_PROVIDER'' = Some ''vault'' then KmsVault
      else KmsNone)"

text \<open>
  The operator's address and key. \<open>key_ok\<close> is \<open>VerifyingKey::from_bytes\<close>, which accepts the
  all-zero encoding used with the mock.
\<close>

definition mta_credentials :: "crates \<Rightarrow> (byte list \<Rightarrow> bool) \<Rightarrow> env_vars \<Rightarrow> string + string \<times> byte list" where
  "mta_credentials c key_ok vars =
     (if mta_mode_of vars = ModeMock then Inr ([], replicate 32 0)
      else
        res_bind (ok_or ''MTA_URL missing'' (vars ''MTA_URL'')) (\<lambda>url.
        res_bind (ok_or ''MTA_PUBKEY_HEX missing'' (vars ''MTA_PUBKEY_HEX'')) (\<lambda>pubkey_hex.
        res_bind (ok_or ''MTA_PUBKEY_HEX is not valid hex'' (hex_decode c pubkey_hex)) (\<lambda>pubkey.
        if length pubkey \<noteq> 32 then Inl ''MTA_PUBKEY_HEX must be exactly 32 bytes (64 hex chars)''
        else if \<not> key_ok pubkey then Inl ''Invalid Ed25519 public key''
        else Inr (url, pubkey)))))"

definition api_tokens_of :: "string \<Rightarrow> string list" where
  "api_tokens_of raw = filter (\<lambda>s. s \<noteq> []) (map str_trim (str_split (CHR '','') raw))"

definition from_env ::
  "crates \<Rightarrow> (byte list \<Rightarrow> bool) \<Rightarrow> (string \<Rightarrow> f64 option) \<Rightarrow> env_vars \<Rightarrow> string + config"
where
  "from_env c key_ok parse_f64 vars =
     res_bind (ok_or ''DATABASE_URL missing'' (vars ''DATABASE_URL'')) (\<lambda>database_url.
     res_bind (mta_credentials c key_ok vars) (\<lambda>(mta_url, mta_pubkey).
     res_bind (ok_or ''IRL_API_TOKENS missing'' (vars ''IRL_API_TOKENS'')) (\<lambda>tokens_raw.
     let tokens = api_tokens_of tokens_raw in
     if tokens = [] then Inl ''IRL_API_TOKENS must contain at least one token''
     else
     res_bind (ok_or ''MAX_HEARTBEAT_DRIFT_MS must be a number''
                (parse_unsigned 64 (var_or vars ''MAX_HEARTBEAT_DRIFT_MS'' ''200''))) (\<lambda>drift.
     res_bind (ok_or ''BIND_SIZE_TOLERANCE must be a float''
                (parse_f64 (var_or vars ''BIND_SIZE_TOLERANCE'' ''0.0001''))) (\<lambda>tolerance.
     res_bind (ok_or ''TRACE_EXPIRY_MS must be a number''
                (parse_unsigned 64 (var_or vars ''TRACE_EXPIRY_MS'' ''3600000''))) (\<lambda>expiry.
     res_bind (ok_or ''PORT must be a valid port number'' (parse_unsigned 16 (var_or vars ''PORT'' ''4000''))) (\<lambda>port.
     res_bind (ok_or ''RATE_LIMIT_PER_SECOND must be a non-negative integer''
                (parse_unsigned 32 (var_or vars ''RATE_LIMIT_PER_SECOND'' ''100''))) (\<lambda>rate.
     res_bind (ok_or ''MAX_BODY_BYTES must be a non-negative integer''
                (parse_unsigned 64 (var_or vars ''MAX_BODY_BYTES'' ''1048576''))) (\<lambda>body.
     res_bind (ok_or ''KMS_KEY_VERSION must be an integer'' (parse_i32 (var_or vars ''KMS_KEY_VERSION'' ''1''))) (\<lambda>version.
     Inr \<lparr>cfg_database_url = database_url, cfg_mta_mode = mta_mode_of vars, cfg_mta_url = mta_url,
       cfg_mta_pubkey = mta_pubkey, cfg_irl_api_tokens = tokens,
       cfg_time_source = (if vars ''TIME_SOURCE'' = Some ''NtpSynced'' then NtpSynced else System),
       cfg_max_heartbeat_drift_ms = word_of_nat drift, cfg_layer2_enabled = var_flag vars ''LAYER2_ENABLED'' ''true'',
       cfg_bind_size_tolerance = tolerance, cfg_trace_expiry_ms = word_of_nat expiry, cfg_port = word_of_nat port,
       cfg_shadow_mode = var_flag vars ''SHADOW_MODE'' ''false'',
       cfg_metrics_enabled = var_flag vars ''METRICS_ENABLED'' ''true'',
       cfg_rate_limit_per_second = word_of_nat rate, cfg_max_body_bytes = word_of_nat body,
       cfg_kms_provider = kms_provider_of vars, cfg_kms_key_id = vars ''KMS_KEY_ID'', cfg_kms_key_version = version,
       cfg_mtls_enabled = var_flag vars ''MTLS_ENABLED'' ''false'',
       cfg_mtls_required = var_flag vars ''MTLS_REQUIRED'' ''false'',
       cfg_tls_cert_path = vars ''TLS_CERT_PATH'', cfg_tls_key_path = vars ''TLS_KEY_PATH'',
       cfg_tls_ca_cert_path = vars ''TLS_CA_CERT_PATH'',
       cfg_mtls_dev_certs = var_flag vars ''MTLS_DEV_CERTS'' ''false''\<rparr>))))))))))"

section \<open>Start\<close>

text \<open>
  What the start asks of the outside: key and number parsers, the settings of the
  Vault client, whether the connection to a read replica succeeds, the file system,
  the PEM and X.509 parsers and the generator of development certificates.
\<close>

record platform =
  pf_key_ok :: "byte list \<Rightarrow> bool"
  pf_parse_f64 :: "string \<Rightarrow> f64 option"
  pf_vault_settings_ok :: "string \<Rightarrow> bool"
  pf_replica_ok :: "string \<Rightarrow> bool"
  pf_read_file :: "string \<Rightarrow> byte list option"
  pf_pem_certs :: "byte list \<Rightarrow> byte list option list"
  pf_x509 :: x509
  pf_dev_cert_pem :: "byte list option"

text \<open>The memory of a new process.\<close>

definition new_process :: "world \<Rightarrow> world" where
  "new_process w = w\<lparr>w_sequences := (\<lambda>_. None), w_mta_cache := None, w_token_cache := [],
     w_last_bumped := (\<lambda>_. None), w_counters := (\<lambda>_. None), w_shadow := False,
     w_metrics := metrics_init\<rparr>"

fun make_mta_client :: "config \<Rightarrow> mta_client" where
  "make_mta_client cfg =
     (case cfg_mta_mode cfg of
        ModeMock \<Rightarrow> MockMta
      | ModeMacroPulse \<Rightarrow> MacroPulse (macropulse_new cfg)
      | ModeNone \<Rightarrow> NullMta)"

definition load_aliases :: "env_vars \<Rightarrow> alias_map" where
  "load_aliases vars =
     (case vars ''ASSET_ALIAS_MAP'' of
        None \<Rightarrow> (\<lambda>_. None)
      | Some raw \<Rightarrow> if str_trim raw = [] then (\<lambda>_. None) else asset_init raw)"

text \<open>The expiry of the server certificate, for the health endpoint.\<close>

definition first_cert_der_from_pem :: "platform \<Rightarrow> byte list \<Rightarrow> byte list option" where
  "first_cert_der_from_pem pf pem = (case pf_pem_certs pf pem of [] \<Rightarrow> None | r # _ \<Rightarrow> r)"

definition cert_expiry_not_after :: "platform \<Rightarrow> config \<Rightarrow> int option" where
  "cert_expiry_not_after pf cfg =
     (if cfg_mtls_enabled cfg \<or> cfg_tls_cert_path cfg \<noteq> None
      then Option.bind
        (if cfg_mtls_dev_certs cfg \<or> cfg_tls_cert_path cfg = None
         then Option.bind (pf_dev_cert_pem pf) (first_cert_der_from_pem pf)
         else Option.bind (Option.bind (cfg_tls_cert_path cfg) (pf_read_file pf)) (first_cert_der_from_pem pf))
        (\<lambda>der. map_option snd (pf_x509 pf der))
      else None)"

fun show_kms_provider :: "kms_provider \<Rightarrow> string" where
  "show_kms_provider KmsNone = ''none''"
| "show_kms_provider KmsLocal = ''local''"
| "show_kms_provider KmsAws = ''aws''"
| "show_kms_provider KmsVault = ''vault''"

datatype started = Serving app_state | BackfillDone nat

text \<open>An \<open>AppError\<close> propagated by \<open>?\<close> shows its text.\<close>

definition app_any :: "env \<Rightarrow> 'a io \<Rightarrow> 'a anyio" where
  "app_any E m = map_errE (app_error_text (env_crates E)) m"

definition subcommand :: "env \<Rightarrow> config \<Rightarrow> key_provider option \<Rightarrow> string \<Rightarrow> started anyio" where
  "subcommand E cfg kp cmd =
     (if cmd = ''backfill-encrypt''
      then
        bindE (liftE (ok_or (''KMS_PROVIDER must be set (aws|vault|local) to run backfill-encrypt. ''
          @ ''Plaintext rows cannot be encrypted without a key provider. ''
          @ ''Set KMS_PROVIDER and any required key env vars, then retry.'') kp)) (\<lambda>provider.
        bindE (run_backfill E provider (show_kms_provider (cfg_kms_provider cfg))
                 (case cfg_kms_key_id cfg of None \<Rightarrow> ''local'' | Some k \<Rightarrow> k)) (\<lambda>n.
        case n of None \<Rightarrow> panic ''more batches than rows'' | Some k \<Rightarrow> ret (BackfillDone k)))
      else fail (''Unknown subcommand: '' @ apostrophe @ cmd @ apostrophe
             @ ''. Known subcommands: backfill-encrypt''))"

definition start_server :: "env \<Rightarrow> platform \<Rightarrow> env_vars \<Rightarrow> config \<Rightarrow> key_provider option \<Rightarrow> started anyio" where
  "start_server E pf vars cfg kp =
     bindE (app_any E (shadow_new E (cfg_shadow_mode cfg))) (\<lambda>_.
     bindE (app_any E (heartbeat_validator_new E cfg)) (\<lambda>validator.
     bindE (app_any E (token_manager_new E (cfg_irl_api_tokens cfg))) (\<lambda>_.
     bindE (liftE (case vars ''DB_READONLY_URL'' of
              None \<Rightarrow> Inr False
            | Some url \<Rightarrow> if pf_replica_ok pf url then Inr True
                          else Inl ''Failed to connect to DB_READONLY_URL read replica'')) (\<lambda>has_readonly.
     bindE (liftE (ok_or ''DB_RETENTION_MONTHS must be a positive integer''
              (parse_i32 (var_or vars ''DB_RETENTION_MONTHS'' ''36'')))) (\<lambda>retention_months.
     bindE (map_errE (\<lambda>_. ''Failed to configure pg_partman retention '' @ [CHR 0xE2, CHR 0x80, CHR 0x94]
              @ '' is pg_partman installed?'') (sql E (\<lambda>now d. Inr ((), d\<lparr>d_retention_months := retention_months\<rparr>)))) (\<lambda>_.
     ret (Serving \<lparr>st_config = cfg, st_has_readonly = has_readonly, st_validator = validator,
       st_mta_client = make_mta_client cfg, st_key_provider = kp,
       st_cert_expiry_not_after = cert_expiry_not_after pf cfg,
       st_aliases = load_aliases vars\<rparr>)))))))"

text \<open>The database is connected and its migrations are applied when the tables exist.\<close>

definition main :: "env \<Rightarrow> platform \<Rightarrow> env_vars \<Rightarrow> string option \<Rightarrow> started anyio" where
  "main E pf vars arg =
     bindE (modify new_process) (\<lambda>_.
     bindE (liftE (from_env (env_crates E) (pf_key_ok pf) (pf_parse_f64 pf) vars)) (\<lambda>cfg.
     bindE (liftE (build_key_provider (env_crates E) (pf_vault_settings_ok pf) vars cfg)) (\<lambda>kp.
     case arg of
       Some cmd \<Rightarrow> subcommand E cfg kp cmd
     | None \<Rightarrow> start_server E pf vars cfg kp)))"

section \<open>What the stages of the start do\<close>

text \<open>The tables no stage writes.\<close>

definition same_records :: "world \<Rightarrow> world \<Rightarrow> bool" where
  "same_records w w' \<longleftrightarrow> d_traces (w_db w') = d_traces (w_db w) \<and> d_agents (w_db w') = d_agents (w_db w)
     \<and> d_positions (w_db w') = d_positions (w_db w) \<and> d_audit (w_db w') = d_audit (w_db w)
     \<and> d_anchors (w_db w') = d_anchors (w_db w) \<and> d_heartbeats (w_db w') = d_heartbeats (w_db w)"

interpretation rec: frame same_records
  by unfold_locales (auto simp: same_records_def)

definition same_controls :: "world \<Rightarrow> world \<Rightarrow> bool" where
  "same_controls w w' \<longleftrightarrow> w_shadow w' = w_shadow w \<and> w_sequences w' = w_sequences w"

interpretation ctl: frame same_controls
  by unfold_locales (auto simp: same_controls_def)

lemma shadow_new_ok:
  assumes "shadow_new E b w = (Inr x, w')"
  shows "w_shadow w' = (case Option.bind (shadow_row (w_db w)) sc_value_bool of None \<Rightarrow> b | Some v \<Rightarrow> v)
    \<and> d_tokens (w_db w') = d_tokens (w_db w)"
  using assms
  by (cases "shadow_row (w_db w)"; cases "sc_value_bool (the (shadow_row (w_db w)))")
    (auto simp: shadow_new_def bindE_Inr_iff sql_read_ok_iff sql_ok_iff io_simps)

lemma keeps_shadow_new: "keeps same_records (shadow_new E b)"
  unfolding shadow_new_def
  by (intro rec.keeps_intros rec.keeps_sql rec.keeps_modify) (auto simp: same_records_def)

lemma fold_map_update:
  "fold (\<lambda>(a, s) m. m(a \<mapsto> f s)) rows m = m ++ (\<lambda>a. map_option f (map_of (rev rows) a))"
  by (induction rows arbitrary: m) (auto simp: fun_eq_iff map_add_def split: option.splits)

lemma validator_new_ok:
  assumes "heartbeat_validator_new E cfg w = (Inr hv, w')"
  shows "w_db w' = w_db w \<and> w_shadow w' = w_shadow w"
    and "env_db_fault E (w_tick w) = None \<Longrightarrow>
      w_sequences w' a = map_option i64_as_u64 (map_of (rev (d_heartbeats (w_db w))) a)"
  using assms validator_new_sequences [OF assms]
  by (auto simp: heartbeat_validator_new_def bindE_def attempt_def io_simps sql_read_def sql_def Let_def
      fold_map_update map_add_def split: option.splits)

lemma keeps_token_manager:
  "keeps same_records (token_manager_new E ts)" "keeps same_controls (token_manager_new E ts)"
  unfolding token_manager_new_def sync_token_def refresh_cache_def
  by (intro rec.keeps_intros rec.keeps_sql rec.keeps_modify; simp add: same_records_def insert_env_token_def)
    (intro ctl.keeps_intros ctl.keeps_sql ctl.keeps_modify; simp add: same_controls_def)

section \<open>The configuration\<close>

lemma parse_unsigned_bound: "parse_unsigned bits s = Some n \<Longrightarrow> n < 2 ^ bits"
  by (auto simp: parse_unsigned_def split: option.splits if_splits)

lemma parse_unsigned_unat:
  "parse_unsigned 64 s = Some n \<Longrightarrow> unat (word_of_nat n :: u64) = n"
  "parse_unsigned 32 s = Some n \<Longrightarrow> unat (word_of_nat n :: u32) = n"
  by (auto simp: unat_of_nat dest: parse_unsigned_bound)

lemma mta_credentials_ok:
  assumes "mta_credentials c key_ok vars = Inr (url, key)"
  shows "length key = 32"
    and "mta_mode_of vars \<noteq> ModeMock \<Longrightarrow> key_ok key \<and> vars ''MTA_URL'' = Some url"
  using assms
  by (auto simp: mta_credentials_def ok_or_Inr_iff res_bind_Inr_iff split: if_splits)

text \<open>
  An accepted configuration has a token, no blank token, a 32-byte key that the
  signature scheme accepts unless the anchor is mocked, and the numbers that were
  written: none wraps around its type.
\<close>

lemma from_env_sound:
  assumes "from_env c key_ok parse_f64 vars = Inr cfg"
  shows "cfg_irl_api_tokens cfg \<noteq> [] \<and> [] \<notin> set (cfg_irl_api_tokens cfg)"
    and "length (cfg_mta_pubkey cfg) = 32"
    and "cfg_mta_mode cfg \<noteq> ModeMock \<Longrightarrow> key_ok (cfg_mta_pubkey cfg) \<and> vars ''MTA_URL'' = Some (cfg_mta_url cfg)"
    and "parse_unsigned 64 (var_or vars ''MAX_HEARTBEAT_DRIFT_MS'' ''200'') = Some (unat (cfg_max_heartbeat_drift_ms cfg))"
    and "parse_unsigned 64 (var_or vars ''TRACE_EXPIRY_MS'' ''3600000'') = Some (unat (cfg_trace_expiry_ms cfg))"
    and "parse_unsigned 32 (var_or vars ''RATE_LIMIT_PER_SECOND'' ''100'') = Some (unat (cfg_rate_limit_per_second cfg))"
proof -
  obtain url key raw where cred: "mta_credentials c key_ok vars = Inr (url, key)"
    and cfg: "cfg_mta_url cfg = url" "cfg_mta_pubkey cfg = key" "cfg_mta_mode cfg = mta_mode_of vars"
      "cfg_irl_api_tokens cfg = api_tokens_of raw" "cfg_irl_api_tokens cfg \<noteq> []"
    and num: "\<exists>n. parse_unsigned 64 (var_or vars ''MAX_HEARTBEAT_DRIFT_MS'' ''200'') = Some n
        \<and> cfg_max_heartbeat_drift_ms cfg = word_of_nat n"
      "\<exists>n. parse_unsigned 64 (var_or vars ''TRACE_EXPIRY_MS'' ''3600000'') = Some n
        \<and> cfg_trace_expiry_ms cfg = word_of_nat n"
      "\<exists>n. parse_unsigned 32 (var_or vars ''RATE_LIMIT_PER_SECOND'' ''100'') = Some n
        \<and> cfg_rate_limit_per_second cfg = word_of_nat n"
    using assms unfolding from_env_def by (auto simp: res_bind_Inr_iff Let_def split: if_splits)
  show "cfg_irl_api_tokens cfg \<noteq> [] \<and> [] \<notin> set (cfg_irl_api_tokens cfg)"
    using cfg(4,5) by (auto simp: api_tokens_of_def)
  show "length (cfg_mta_pubkey cfg) = 32" using mta_credentials_ok(1) [OF cred] cfg by simp
  show "cfg_mta_mode cfg \<noteq> ModeMock \<Longrightarrow> key_ok (cfg_mta_pubkey cfg) \<and> vars ''MTA_URL'' = Some (cfg_mta_url cfg)"
    using mta_credentials_ok(2) [OF cred] cfg by simp
  show "parse_unsigned 64 (var_or vars ''MAX_HEARTBEAT_DRIFT_MS'' ''200'') = Some (unat (cfg_max_heartbeat_drift_ms cfg))"
    using num(1) by (auto simp: parse_unsigned_unat)
  show "parse_unsigned 64 (var_or vars ''TRACE_EXPIRY_MS'' ''3600000'') = Some (unat (cfg_trace_expiry_ms cfg))"
    using num(2) by (auto simp: parse_unsigned_unat)
  show "parse_unsigned 32 (var_or vars ''RATE_LIMIT_PER_SECOND'' ''100'') = Some (unat (cfg_rate_limit_per_second cfg))"
    using num(3) by (auto simp: parse_unsigned_unat)
qed

text \<open>
  The mode without an external signal still asks for the operator's address, although
  the configuration documents address and key as used with a live operator only.
\<close>

lemma none_mode_needs_url:
  assumes "vars ''MTA_MODE'' = Some ''none''" and "vars ''DATABASE_URL'' = Some url" and "vars ''MTA_URL'' = None"
  shows "from_env c key_ok parse_f64 vars = Inl ''MTA_URL missing''"
  using assms by (simp add: from_env_def mta_credentials_def mta_mode_of_def)

section \<open>Properties\<close>

definition demo_vars :: env_vars where
  "demo_vars = map_of [(''DATABASE_URL'', ''postgres://irl''), (''MTA_MODE'', ''mock''), (''IRL_API_TOKENS'', ''t-1, t-2'')]"

definition demo_platform :: platform where
  "demo_platform = \<lparr>pf_key_ok = (\<lambda>_. True), pf_parse_f64 = (\<lambda>s. Some (Finite (1 / 8192))),
     pf_vault_settings_ok = (\<lambda>_. False), pf_replica_ok = (\<lambda>_. False),
     pf_read_file = (\<lambda>_. None), pf_pem_certs = (\<lambda>_. []), pf_x509 = (\<lambda>_. None), pf_dev_cert_pem = None\<rparr>"

lemma demo_config_ok:
  "\<exists>cfg. from_env demo_crates (pf_key_ok demo_platform) (pf_parse_f64 demo_platform) demo_vars = Inr cfg
     \<and> cfg_irl_api_tokens cfg = [''t-1'', ''t-2''] \<and> cfg_kms_provider cfg = KmsNone \<and> \<not> cfg_shadow_mode cfg
     \<and> cfg_mta_mode cfg = ModeMock"
proof -
  have "parse_unsigned 64 ''200'' = Some 200" "parse_unsigned 64 ''3600000'' = Some 3600000"
    "parse_unsigned 16 ''4000'' = Some 4000" "parse_unsigned 32 ''100'' = Some 100"
    "parse_unsigned 64 ''1048576'' = Some 1048576" "parse_i32 ''1'' = Some 1"
    by (simp_all add: parse_i32_def parse_unsigned_def parse_digits_def)
  moreover have "api_tokens_of ''t-1, t-2'' = [''t-1'', ''t-2'']" "to_ascii_lowercase ''false'' = ''false''"
    by code_simp+
  ultimately show ?thesis
    by (simp add: from_env_def mta_credentials_def mta_mode_of_def kms_provider_of_def var_or_def var_flag_def
        demo_vars_def demo_platform_def Let_def)
qed

lemma demo_main: "\<exists>st w'. main demo_env demo_platform demo_vars None demo_world = (Inr (Serving st), w')
    \<and> cfg_irl_api_tokens (st_config st) = [''t-1'', ''t-2''] \<and> \<not> cfg_shadow_mode (st_config st)"
proof -
  obtain cfg where cfg: "from_env demo_crates (pf_key_ok demo_platform) (pf_parse_f64 demo_platform) demo_vars = Inr cfg"
    "cfg_irl_api_tokens cfg = [''t-1'', ''t-2'']" "cfg_kms_provider cfg = KmsNone" "\<not> cfg_shadow_mode cfg"
    "cfg_mta_mode cfg = ModeMock"
    using demo_config_ok by blast
  have num: "parse_i32 ''36'' = Some 36" by (simp add: parse_i32_def parse_unsigned_def parse_digits_def)
  have vars: "demo_vars ''DB_READONLY_URL'' = None" "demo_vars ''DB_RETENTION_MONTHS'' = None"
    by (simp_all add: demo_vars_def)
  show ?thesis
    by (simp add: main_def cfg vars demo_simps build_key_provider_def start_server_def app_any_def map_errE_def bindE_def
        io_simps liftE_def shadow_new_def heartbeat_validator_new_def token_manager_new_def sync_token_def
        refresh_cache_def attempt_def sql_def sql_read_def Let_def num var_or_def new_process_def
        demo_world_def demo_db_def shadow_row_def)
qed

text \<open>C19: a restart restores the controls. Whatever the process had in memory, after a successful start the
  shadow mode is the one stored in the database, or the configured default when none is stored;
  a token is valid exactly when the table has it active, or has no row for it and the environment
  lists it; if the database answered, the last heartbeat sequence of each agent is the stored one;
  and no trace, agent, position, audit row, anchor or stored sequence changed.\<close>

theorem start_restores_controls:
  assumes "main E pf vars None w = (Inr (Serving st), w')"
  shows "w_shadow w' = (case Option.bind (shadow_row (w_db w)) sc_value_bool of
      None \<Rightarrow> cfg_shadow_mode (st_config st) | Some v \<Rightarrow> v)
    \<and> (is_valid (env_crates E) w' token \<longleftrightarrow>
        (if sha256_hex (env_crates E) token \<in> hashes (w_db w)
         then \<exists>t \<in> set (d_tokens (w_db w)). to_token_hash t = sha256_hex (env_crates E) token \<and> to_status t = ''active''
         else sha256_hex (env_crates E) token \<in> sha256_hex (env_crates E) ` set (cfg_irl_api_tokens (st_config st))))
    \<and> ((\<forall>n. env_db_fault E n = None) \<longrightarrow>
        w_sequences w' a = map_option i64_as_u64 (map_of (rev (d_heartbeats (w_db w))) a))
    \<and> same_records w w'"
proof -
  let ?w0 = "new_process w"
  obtain cfg kp where run: "start_server E pf vars cfg kp ?w0 = (Inr (Serving st), w')"
    using assms by (auto simp: main_def bindE_Inr_iff liftE_Inr_iff io_simps)
  obtain w1 hv w2 w3 months where
    1: "shadow_new E (cfg_shadow_mode cfg) ?w0 = (Inr (), w1)"
    and 2: "heartbeat_validator_new E cfg w1 = (Inr hv, w2)"
    and 3: "token_manager_new E (cfg_irl_api_tokens cfg) w2 = (Inr (), w3)"
    and w': "w' = w3\<lparr>w_tick := Suc (w_tick w3), w_db := (w_db w3)\<lparr>d_retention_months := months\<rparr>\<rparr>" and st: "st_config st = cfg"
    using run unfolding start_server_def app_any_def
    by (auto simp: bindE_Inr_iff map_errE_Inr_iff liftE_Inr_iff sql_ok_iff io_simps)
  have w0: "w_db ?w0 = w_db w" by (simp add: new_process_def)
  note s1 = shadow_new_ok [OF 1, unfolded w0] and s2 = validator_new_ok [OF 2]
  have r1: "same_records w w1" using keepsD [OF keeps_shadow_new 1] w0 by (simp add: same_records_def)
  have r3: "same_records w2 w3" and c3: "same_controls w2 w3"
    using keepsD [OF keeps_token_manager(1) 3] keepsD [OF keeps_token_manager(2) 3] by simp_all
  have tokens: "d_tokens (w_db w2) = d_tokens (w_db w)" using s1 s2(1) by simp
  have "is_valid (env_crates E) w' token = is_valid (env_crates E) w3 token" by (simp add: w' is_valid_def)
  moreover have "hashes (w_db w2) = hashes (w_db w)" by (simp add: hashes_def tokens)
  ultimately have "is_valid (env_crates E) w' token \<longleftrightarrow>
        (if sha256_hex (env_crates E) token \<in> hashes (w_db w)
         then \<exists>t \<in> set (d_tokens (w_db w)). to_token_hash t = sha256_hex (env_crates E) token \<and> to_status t = ''active''
         else sha256_hex (env_crates E) token \<in> sha256_hex (env_crates E) ` set (cfg_irl_api_tokens cfg))"
    using startup_tokens_valid_iff [OF 3, of token] tokens by simp
  moreover have "w_shadow w' = w_shadow w1" using c3 s2(1) by (simp add: w' same_controls_def)
  moreover have "w_sequences w' a = map_option i64_as_u64 (map_of (rev (d_heartbeats (w_db w))) a)"
    if "\<forall>n. env_db_fault E n = None"
    using that s2(2) [of a] c3 r1 by (simp add: w' same_controls_def same_records_def)
  moreover have "same_records w w'" using r1 r3 s2(1) by (auto simp: w' same_records_def)
  ultimately show ?thesis using s1 st by auto
qed

theorem start_restores_controls_witness:
  "\<exists>st w'. main demo_env demo_platform demo_vars None demo_world = (Inr (Serving st), w')
     \<and> \<not> w_shadow w' \<and> is_valid demo_crates w' ''t-2'' \<and> w_sequences w' 1 = None"
proof -
  obtain st w' where run: "main demo_env demo_platform demo_vars None demo_world = (Inr (Serving st), w')"
    and cfg: "cfg_irl_api_tokens (st_config st) = [''t-1'', ''t-2'']" "\<not> cfg_shadow_mode (st_config st)"
    using demo_main by blast
  have db: "d_tokens (w_db demo_world) = []" "d_heartbeats (w_db demo_world) = []"
    "hashes (w_db demo_world) = {}" "shadow_row (w_db demo_world) =
      Some \<lparr>sc_key = ''shadow_mode'', sc_value_bool = Some False, sc_updated_at = 0, sc_updated_by = ''system''\<rparr>"
    by (simp_all add: demo_world_def demo_db_def hashes_def shadow_row_def)
  from start_restores_controls [OF run, of "''t-2''" 1] run show ?thesis
    by (auto simp: demo_simps db cfg)
qed

end
