(* ===== verification/Irl_Merkle.thy ===== *)
theory Irl_Merkle
  imports Irl_Bind
begin

text \<open>
  \<open>src/merkle.rs\<close>: the Merkle root over the reasoning hashes of a period, the
  submission of the root to the timestamp calendars, and the two background
  cycles that write \<open>irl.merkle_anchors\<close>.
\<close>

section \<open>The root\<close>

definition merkle_leaf :: "crates \<Rightarrow> string \<Rightarrow> byte list" where
  "merkle_leaf c h =
     (case hex_decode c h of
        Some bytes \<Rightarrow> if length bytes = 32 then bytes else sha256 c (as_bytes h)
      | None \<Rightarrow> sha256 c (as_bytes h))"

text \<open>\<open>chunks(2)\<close> of a list of even length, each chunk hashed.\<close>

fun hash_pairs :: "crates \<Rightarrow> byte list list \<Rightarrow> byte list list" where
  "hash_pairs c (a # b # nodes) = sha256 c (a @ b) # hash_pairs c nodes"
| "hash_pairs c nodes = []"

definition merkle_level :: "crates \<Rightarrow> byte list list \<Rightarrow> byte list list" where
  "merkle_level c nodes = hash_pairs c (if odd (length nodes) then nodes @ [last nodes] else nodes)"

lemma length_hash_pairs: "length (hash_pairs c nodes) = length nodes div 2"
  by (induction c nodes rule: hash_pairs.induct) simp_all

lemma length_merkle_level: "length (merkle_level c nodes) = (length nodes + 1) div 2"
  by (simp add: merkle_level_def length_hash_pairs)

function merkle_loop :: "crates \<Rightarrow> byte list list \<Rightarrow> byte list" where
  "merkle_loop c nodes = (if 1 < length nodes then merkle_loop c (merkle_level c nodes) else hd nodes)"
  by auto
termination
  by (relation "measure (\<lambda>(c, nodes). length nodes)") (auto simp: length_merkle_level)

declare merkle_loop.simps [simp del]

definition compute_merkle_root :: "crates \<Rightarrow> string list \<Rightarrow> byte list" where
  "compute_merkle_root c hashes =
     (if hashes = [] then replicate 32 0 else merkle_loop c (map (merkle_leaf c) hashes))"

section \<open>The calendars\<close>

definition OTS_ENDPOINTS :: "string list" where
  "OTS_ENDPOINTS =
     [''https://a.pool.opentimestamps.org/digest'',
      ''https://b.pool.opentimestamps.org/digest'',
      ''https://finney.calendar.eternitywall.com/digest'']"

text \<open>
  What the HTTP client contributes to the texts: the error of building it, if any,
  the rendering of a status, and the lossy decoding of a body.
\<close>

record http_client =
  hc_build_error :: "string option"
  hc_status_text :: "nat \<Rightarrow> string"
  hc_body_text :: "byte list \<Rightarrow> string"

definition try_ots_endpoint ::
  "env \<Rightarrow> http_client \<Rightarrow> string \<Rightarrow> byte list \<Rightarrow> world \<Rightarrow> ('e failure + (string + byte list)) \<times> world"
where
  "try_ots_endpoint E hc endpoint digest =
     bindE (effect (\<lambda>t. env_ots_post E t endpoint digest)) (\<lambda>resp.
     ret (case resp of
            Inl e \<Rightarrow> Inl (''POST failed: '' @ e)
          | Inr (status, body) \<Rightarrow>
              if \<not> (200 \<le> status \<and> status < 300)
              then Inl (''HTTP '' @ hc_status_text hc status @ '': '' @
                        (case body of Inl _ \<Rightarrow> [] | Inr bs \<Rightarrow> hc_body_text hc bs))
              else res_map_err (\<lambda>e. ''failed to read response body: '' @ e) body))"

fun post_to_endpoints ::
  "env \<Rightarrow> http_client \<Rightarrow> string list \<Rightarrow> byte list \<Rightarrow> string \<Rightarrow> world \<Rightarrow> ('e failure + (string + byte list)) \<times> world"
where
  "post_to_endpoints E hc [] digest last_error =
     ret (Inl (''all '' @ show_int (int (length OTS_ENDPOINTS)) @ '' OTS endpoints failed; last error: '' @ last_error))"
| "post_to_endpoints E hc (endpoint # rest) digest last_error =
     bindE (try_ots_endpoint E hc endpoint digest) (\<lambda>r.
     case r of
       Inr bytes \<Rightarrow> ret (Inr bytes)
     | Inl e \<Rightarrow> post_to_endpoints E hc rest digest e)"

definition post_to_opentimestamps ::
  "env \<Rightarrow> http_client \<Rightarrow> byte list \<Rightarrow> world \<Rightarrow> ('e failure + (string + byte list)) \<times> world"
where
  "post_to_opentimestamps E hc digest =
     (case hc_build_error hc of
        Some e \<Rightarrow> ret (Inl (''failed to build HTTP client: '' @ e))
      | None \<Rightarrow> post_to_endpoints E hc OTS_ENDPOINTS digest [])"

section \<open>The anchor cycle\<close>

definition db_text :: "app_error \<Rightarrow> string" where
  "db_text e = (case e of Database m \<Rightarrow> m | _ \<Rightarrow> [])"

definition anyhow_sql :: "env \<Rightarrow> string \<Rightarrow> 'a stmt \<Rightarrow> 'a anyio" where
  "anyhow_sql E what q = map_errE (\<lambda>e. what @ db_text e) (sql E q)"

text \<open>\<open>ORDER BY period_end DESC LIMIT 1\<close>, and the epoch when there is no anchor.\<close>

definition last_period_end :: "database \<Rightarrow> int option" where
  "last_period_end d =
     (case map an_period_end (d_anchors d) of [] \<Rightarrow> None | e # es \<Rightarrow> Some (foldl max e es))"

text \<open>The traces of the period, \<open>ORDER BY txn_time ASC\<close>, from the rows as the statement scans them.\<close>

definition anchored_rows :: "int \<Rightarrow> int \<Rightarrow> trace_row list \<Rightarrow> trace_row list" where
  "anchored_rows period_start period_end rows =
     sort_key tr_txn_time (filter (\<lambda>r. period_start < tr_txn_time r \<and> tr_txn_time r \<le> period_end) rows)"

definition usize_as_i32 :: "nat \<Rightarrow> int" where
  "usize_as_i32 n = sint (word_of_nat n :: 32 word)"

text \<open>\<open>BIGSERIAL\<close>: above every id handed out so far.\<close>

definition next_anchor_id :: "database \<Rightarrow> int" where
  "next_anchor_id d = 1 + foldl max 0 (map an_id (d_anchors d))"

definition new_anchor ::
  "crates \<Rightarrow> int \<Rightarrow> int \<Rightarrow> int \<Rightarrow> string list \<Rightarrow> int \<Rightarrow> string + byte list \<Rightarrow> anchor_row"
where
  "new_anchor c aid period_start period_end hashes now posted =
     \<lparr>an_id = aid, an_period_start = period_start, an_period_end = period_end,
      an_leaf_count = usize_as_i32 (length hashes),
      an_merkle_root = hex_encode c (compute_merkle_root c hashes),
      an_ots_receipt = (case posted of Inr bytes \<Rightarrow> Some bytes | Inl _ \<Rightarrow> None),
      an_ots_error = (case posted of Inr _ \<Rightarrow> None | Inl e \<Rightarrow> Some e),
      an_ots_upgraded_at = (case posted of Inr _ \<Rightarrow> Some now | Inl _ \<Rightarrow> None)\<rparr>"

definition run_anchor_cycle :: "env \<Rightarrow> http_client \<Rightarrow> unit anyio" where
  "run_anchor_cycle E hc =
     (let c = env_crates E in
      bindE (anyhow_sql E ''DB error fetching last anchor: '' (\<lambda>now d. Inr (last_period_end d, d))) (\<lambda>last_end.
      bindE (effect (env_clock E)) (\<lambda>period_end.
      let period_start = (case last_end of None \<Rightarrow> 0 | Some e \<Rightarrow> e) in
      bindE (gets w_tick) (\<lambda>t.
      bindE (anyhow_sql E ''DB error fetching hashes: ''
               (\<lambda>now d. Inr (map tr_reasoning_hash
                  (anchored_rows period_start period_end (scan_order E t (d_traces d))), d))) (\<lambda>hashes.
      if usize_as_i32 (length hashes) = 0 then ret ()
      else
        bindE (effect (env_clock E)) (\<lambda>now.
        bindE (post_to_opentimestamps E hc (compute_merkle_root c hashes)) (\<lambda>posted.
        anyhow_sql E ''DB error storing anchor: '' (\<lambda>_ d. Inr ((), d\<lparr>d_anchors := d_anchors d @
          [new_anchor c (next_anchor_id d) period_start period_end hashes now posted]\<rparr>)))))))))"

section \<open>The upgrade cycle\<close>

definition unanchored :: "database \<Rightarrow> anchor_row list" where
  "unanchored d =
     take 10 (sort_key (\<lambda>a. - an_period_end a)
       (filter (\<lambda>a. an_ots_receipt a = None \<and> an_ots_upgraded_at a = None) (d_anchors d)))"

definition set_receipt :: "byte list \<Rightarrow> int \<Rightarrow> anchor_row \<Rightarrow> anchor_row" where
  "set_receipt receipt now a =
     a\<lparr>an_ots_receipt := Some receipt, an_ots_error := None, an_ots_upgraded_at := Some now\<rparr>"

definition upgrade_anchor :: "env \<Rightarrow> http_client \<Rightarrow> anchor_row \<Rightarrow> unit anyio" where
  "upgrade_anchor E hc a =
     (case hex_decode (env_crates E) (an_merkle_root a) of
        None \<Rightarrow> ret ()
      | Some digest \<Rightarrow>
          if length digest \<noteq> 32 then ret ()
          else
            bindE (post_to_opentimestamps E hc digest) (\<lambda>posted.
            case posted of
              Inl e \<Rightarrow> ret ()
            | Inr receipt \<Rightarrow>
                anyhow_sql E (''DB error updating anchor id='' @ show_int (an_id a) @ '': '') (\<lambda>now d. Inr ((),
                  d\<lparr>d_anchors := map (\<lambda>x. if an_id x = an_id a then set_receipt receipt now x else x) (d_anchors d)\<rparr>))))"

definition run_ots_upgrade_cycle :: "env \<Rightarrow> http_client \<Rightarrow> unit anyio" where
  "run_ots_upgrade_cycle E hc =
     bindE (anyhow_sql E ''DB error fetching unanchored rows: '' (\<lambda>now d. Inr (unanchored d, d))) (\<lambda>failed.
     if failed = [] then ret ()
     else bindE (mapM (upgrade_anchor E hc) failed) (\<lambda>_. ret ()))"

text \<open>One round of each worker's loop: a failed cycle is logged and the loop goes on.\<close>

definition anchor_round :: "env \<Rightarrow> http_client \<Rightarrow> (string + unit) io" where
  "anchor_round E hc = attempt (run_anchor_cycle E hc)"

definition upgrade_round :: "env \<Rightarrow> http_client \<Rightarrow> (string + unit) io" where
  "upgrade_round E hc = attempt (run_ots_upgrade_cycle E hc)"

section \<open>The reference tree\<close>

text \<open>
  The tree of height \<open>n\<close> from the top: the left half holds the first \<open>2^n\<close> leaves,
  and a half without leaves repeats its sibling.
\<close>

fun tree_root :: "crates \<Rightarrow> nat \<Rightarrow> byte list list \<Rightarrow> byte list" where
  "tree_root c 0 nodes = hd nodes"
| "tree_root c (Suc n) nodes =
     sha256 c (tree_root c n (take (2 ^ n) nodes) @
       tree_root c n (if length nodes \<le> 2 ^ n then nodes else drop (2 ^ n) nodes))"

lemma hash_pairs_append: "even (length xs) \<Longrightarrow> hash_pairs c (xs @ ys) = hash_pairs c xs @ hash_pairs c ys"
  by (induction c xs rule: hash_pairs.induct) simp_all

lemma level_append:
  "even (length xs) \<Longrightarrow> ys \<noteq> [] \<Longrightarrow> merkle_level c (xs @ ys) = merkle_level c xs @ merkle_level c ys"
  by (simp add: merkle_level_def hash_pairs_append)

lemma level_split:
  assumes "even k" and "k < length nodes"
  shows "merkle_level c nodes = merkle_level c (take k nodes) @ merkle_level c (drop k nodes)"
  using level_append [of "take k nodes" "drop k nodes" c] assms by simp

lemma tree_root_level:
  "nodes \<noteq> [] \<Longrightarrow> length nodes \<le> 2 ^ Suc n \<Longrightarrow> tree_root c (Suc n) nodes = tree_root c n (merkle_level c nodes)"
proof (induction n arbitrary: nodes)
  case 0
  then consider a where "nodes = [a]" | a b where "nodes = [a, b]"
    by (cases nodes; cases "tl nodes") (auto simp: length_Suc_conv le_Suc_eq)
  then show ?case by cases (simp_all add: merkle_level_def)
next
  case (Suc n)
  show ?case
  proof (cases "length nodes \<le> 2 ^ Suc n")
    case True
    have lv: "length (merkle_level c nodes) \<le> 2 ^ n" using True by (simp add: length_merkle_level)
    have "tree_root c (Suc (Suc n)) nodes = sha256 c (tree_root c (Suc n) nodes @ tree_root c (Suc n) nodes)"
      using True by simp
    also have "\<dots> = tree_root c (Suc n) (merkle_level c nodes)"
      using Suc.IH [OF Suc.prems(1) True] lv by simp
    finally show ?thesis .
  next
    case False
    let ?k = "2 ^ Suc n"
    have k: "?k < length nodes" "even ?k" using False by simp_all
    have lens: "length (take ?k nodes) = ?k" "take ?k nodes \<noteq> []" "drop ?k nodes \<noteq> []"
        "length (drop ?k nodes) \<le> 2 ^ Suc n"
      using k Suc.prems(2) by auto
    have split: "merkle_level c nodes = merkle_level c (take ?k nodes) @ merkle_level c (drop ?k nodes)"
      by (rule level_split [OF k(2,1)])
    have half: "length (merkle_level c (take ?k nodes)) = 2 ^ n" using lens(1) by (simp add: length_merkle_level)
    have nonempty: "0 < length (merkle_level c (drop ?k nodes))"
      using lens(3) by (simp add: length_merkle_level)
    have "tree_root c (Suc (Suc n)) nodes = sha256 c (tree_root c (Suc n) (take ?k nodes) @ tree_root c (Suc n) (drop ?k nodes))"
      using k(1) by simp
    also have "\<dots> = sha256 c (tree_root c n (merkle_level c (take ?k nodes)) @ tree_root c n (merkle_level c (drop ?k nodes)))"
      by (simp only: Suc.IH [OF lens(2) eq_imp_le [OF lens(1)]] Suc.IH [OF lens(3,4)])
    also have "\<dots> = tree_root c (Suc n) (merkle_level c nodes)"
      using half nonempty split by simp
    finally show ?thesis .
  qed
qed


text \<open>The loop computes the tree of the least sufficient height.\<close>

lemma merkle_loop_tree:
  "nodes \<noteq> [] \<Longrightarrow> length nodes \<le> 2 ^ n \<Longrightarrow> (n = 0 \<or> 2 ^ (n - 1) < length nodes) \<Longrightarrow>
     merkle_loop c nodes = tree_root c n nodes"
proof (induction n arbitrary: nodes)
  case 0
  then have "length nodes = 1" by (cases nodes) auto
  then show ?case by (simp add: merkle_loop.simps)
next
  case (Suc n)
  then have long: "1 < length nodes"
    by (metis One_nat_def Suc_diff_1 diff_Suc_1 less_one nat_neq_iff nat.simps(3) not_less_eq one_less_numeral_iff
        one_le_numeral one_le_power le_less_trans zero_less_Suc)
  have "merkle_level c nodes \<noteq> []" using long length_merkle_level [of c nodes] by auto
  moreover have "length (merkle_level c nodes) \<le> 2 ^ n" using Suc.prems(2) by (simp add: length_merkle_level)
  moreover have "n = 0 \<or> 2 ^ (n - 1) < length (merkle_level c nodes)"
    using Suc.prems(3) by (cases n) (auto simp: length_merkle_level)
  ultimately have "merkle_loop c (merkle_level c nodes) = tree_root c n (merkle_level c nodes)"
    by (rule Suc.IH)
  then show ?case using tree_root_level [OF Suc.prems(1,2)] long by (simp add: merkle_loop.simps [of c nodes])
qed

text \<open>The number of levels above the leaves.\<close>

fun tree_height :: "nat \<Rightarrow> nat" where
  "tree_height k = (if k \<le> 1 then 0 else Suc (tree_height ((k + 1) div 2)))"

declare tree_height.simps [simp del]

lemma tree_height_bounds: "0 < k \<Longrightarrow> k \<le> 2 ^ tree_height k \<and> (tree_height k = 0 \<or> 2 ^ (tree_height k - 1) < k)"
proof (induction k rule: tree_height.induct)
  case (1 k)
  show ?case
  proof (cases "k \<le> 1")
    case True
    then show ?thesis using 1 by (simp add: tree_height.simps)
  next
    case False
    have IH: "(k + 1) div 2 \<le> 2 ^ tree_height ((k + 1) div 2)"
        "tree_height ((k + 1) div 2) = 0 \<or> 2 ^ (tree_height ((k + 1) div 2) - 1) < (k + 1) div 2"
      using "1.IH" [OF False] False by auto
    have "2 ^ tree_height ((k + 1) div 2) < k"
      using IH(2) False by (cases "tree_height ((k + 1) div 2)") auto
    then show ?thesis using IH(1) False tree_height.simps [of k] by auto
  qed
qed

lemma root_is_tree:
  "hashes \<noteq> [] \<Longrightarrow> compute_merkle_root c hashes = tree_root c (tree_height (length hashes)) (map (merkle_leaf c) hashes)"
  using merkle_loop_tree [of "map (merkle_leaf c) hashes" "tree_height (length hashes)" c]
    tree_height_bounds [of "length hashes"]
  by (simp add: compute_merkle_root_def)


section \<open>What the root commits to\<close>

text \<open>The byte strings hashed above the leaves.\<close>

fun tree_inputs :: "crates \<Rightarrow> nat \<Rightarrow> byte list list \<Rightarrow> byte list list" where
  "tree_inputs c 0 nodes = []"
| "tree_inputs c (Suc n) nodes =
     (let l = take (2 ^ n) nodes; r = (if length nodes \<le> 2 ^ n then nodes else drop (2 ^ n) nodes)
      in (tree_root c n l @ tree_root c n r) # tree_inputs c n l @ tree_inputs c n r)"

definition hashed_inputs :: "crates \<Rightarrow> string list \<Rightarrow> byte list list" where
  "hashed_inputs c hs = tree_inputs c (tree_height (length hs)) (map (merkle_leaf c) hs)"

lemma length_tree_root:
  assumes "\<forall>x. length (sha256 c x) = 32" and "nodes \<noteq> []" and "\<forall>b \<in> set nodes. length b = 32"
  shows "length (tree_root c n nodes) = 32"
  using assms by (cases n) simp_all

lemma tree_binding:
  assumes "\<forall>x. length (sha256 c x) = 32"
  shows "xs \<noteq> [] \<Longrightarrow> length ys = length xs \<Longrightarrow> length xs \<le> 2 ^ n \<Longrightarrow>
    \<forall>b \<in> set xs \<union> set ys. length b = 32 \<Longrightarrow> tree_root c n xs = tree_root c n ys \<Longrightarrow>
    xs = ys \<or> (\<exists>u \<in> set (tree_inputs c n xs). \<exists>v \<in> set (tree_inputs c n ys). u \<noteq> v \<and> sha256 c u = sha256 c v)"
proof (induction n arbitrary: xs ys)
  case 0
  then show ?case by (cases xs; cases ys) auto
next
  case (Suc n)
  define right where "right = (\<lambda>zs :: byte list list. if length zs \<le> 2 ^ n then zs else drop (2 ^ n) zs)"
  let ?l = "take (2 ^ n) xs" and ?l' = "take (2 ^ n) ys" and ?r = "right xs" and ?r' = "right ys"
  let ?u = "tree_root c n ?l @ tree_root c n ?r" and ?v = "tree_root c n ?l' @ tree_root c n ?r'"
  have in_u: "set (tree_inputs c (Suc n) xs) = insert ?u (set (tree_inputs c n ?l) \<union> set (tree_inputs c n ?r))"
    and in_v: "set (tree_inputs c (Suc n) ys) = insert ?v (set (tree_inputs c n ?l') \<union> set (tree_inputs c n ?r'))"
    by (simp_all add: right_def Let_def)
  have eq: "sha256 c ?u = sha256 c ?v" using Suc.prems(5) by (simp add: right_def)
  show ?case
  proof (cases "?u = ?v")
    case False
    then show ?thesis using eq in_u in_v by blast
  next
    case True
    have sub: "set ?l \<subseteq> set xs" "set ?r \<subseteq> set xs" "set ?l' \<subseteq> set ys" "set ?r' \<subseteq> set ys"
      by (auto simp: right_def dest: in_set_takeD in_set_dropD)
    have ne: "?l \<noteq> []" "?r \<noteq> []" "?l' \<noteq> []" using Suc.prems(1,2) by (auto simp: right_def)
    have lens: "length ?l' = length ?l" "length ?r' = length ?r" "length ?l \<le> 2 ^ n" "length ?r \<le> 2 ^ n"
      using Suc.prems(2,3) by (auto simp: right_def)
    have "length (tree_root c n ?l) = 32" "length (tree_root c n ?l') = 32"
      using length_tree_root [OF assms] ne Suc.prems(4) sub by (meson UnI1 UnI2 subsetD)+
    then have roots: "tree_root c n ?l = tree_root c n ?l'" "tree_root c n ?r = tree_root c n ?r'"
      using True by simp_all
    have "?l = ?l' \<or> (\<exists>u \<in> set (tree_inputs c n ?l). \<exists>v \<in> set (tree_inputs c n ?l'). u \<noteq> v \<and> sha256 c u = sha256 c v)"
      by (rule Suc.IH [OF ne(1) lens(1,3) _ roots(1)]) (use Suc.prems(4) sub in blast)
    moreover have "?r = ?r' \<or> (\<exists>u \<in> set (tree_inputs c n ?r). \<exists>v \<in> set (tree_inputs c n ?r'). u \<noteq> v \<and> sha256 c u = sha256 c v)"
      by (rule Suc.IH [OF ne(2) lens(2,4) _ roots(2)]) (use Suc.prems(4) sub in blast)
    moreover have "xs = ys" if "?l = ?l'" "?r = ?r'"
      using that Suc.prems(2) by (metis append_take_drop_id right_def)
    ultimately show ?thesis using in_u in_v by blast
  qed
qed

lemma leaf_of_seal:
  "hex_decode c h = Some b \<Longrightarrow> length b = 32 \<Longrightarrow> merkle_leaf c h = b"
  by (simp add: merkle_leaf_def)

section \<open>The cycles\<close>

lemma anyhow_sql_ok: "anyhow_sql E what q w = (Inr x, w') \<longleftrightarrow> sql E q w = (Inr x, w')"
  by (simp add: anyhow_sql_def map_errE_Inr_iff)

lemma foldl_max: "x \<in> set (e # es) \<Longrightarrow> x \<le> foldl max (e :: int) es"
proof (induction es arbitrary: e x)
  case Nil
  then show ?case by simp
next
  case (Cons y es)
  have "max e y \<le> foldl max (max e y) es" by (rule Cons.IH) simp
  then show ?case using Cons.prems Cons.IH [of x "max e y"] by auto
qed

definition period_start :: "database \<Rightarrow> int" where
  "period_start d = (case last_period_end d of None \<Rightarrow> 0 | Some e \<Rightarrow> e)"

lemma period_start_ge: "a \<in> set (d_anchors d) \<Longrightarrow> an_period_end a \<le> period_start d"
  using foldl_max [of "an_period_end a" "an_period_end (hd (d_anchors d))" "map an_period_end (tl (d_anchors d))"]
  by (cases "d_anchors d") (auto simp: period_start_def last_period_end_def)

lemma foldl_max_in: "foldl max (e :: int) es \<in> insert e (set es)"
  by (induction es arbitrary: e) (auto simp: max_def split: if_splits)

lemma period_start_latest:
  "if d_anchors d = [] then period_start d = 0 else period_start d \<in> an_period_end ` set (d_anchors d)"
  using foldl_max_in [of "an_period_end (hd (d_anchors d))" "map an_period_end (tl (d_anchors d))"]
  by (cases "d_anchors d") (auto simp: period_start_def last_period_end_def)

text \<open>Neither cycle touches what an anchor commits to.\<close>

definition anchor_core :: "anchor_row \<Rightarrow> anchor_row" where
  "anchor_core a = a\<lparr>an_ots_receipt := None, an_ots_error := None, an_ots_upgraded_at := None\<rparr>"

definition same_anchors :: "world \<Rightarrow> world \<Rightarrow> bool" where
  "same_anchors w w' \<longleftrightarrow> map anchor_core (d_anchors (w_db w')) = map anchor_core (d_anchors (w_db w))
     \<and> d_traces (w_db w') = d_traces (w_db w)"

interpretation sa: frame same_anchors
  by unfold_locales (auto simp: same_anchors_def)

lemma keeps_try_ots: "keeps only_tick (try_ots_endpoint E hc ep digest)"
  unfolding try_ots_endpoint_def by (intro ot.keeps_intros)

lemma keeps_post_endpoints: "keeps only_tick (post_to_endpoints E hc eps digest err)"
  by (induction eps arbitrary: err) (auto intro!: ot.keeps_intros keeps_try_ots)

lemma keeps_post: "keeps only_tick (post_to_opentimestamps E hc digest)"
  unfolding post_to_opentimestamps_def by (intro ot.keeps_intros keeps_post_endpoints)

lemma only_tick_same_anchors: "keeps only_tick m \<Longrightarrow> keeps same_anchors m"
  by (auto simp: keeps_def only_tick_def same_anchors_def)
    (metis world.select_convs(2) world.surjective world.update_convs(1))+

lemma keeps_upgrade_anchor: "keeps same_anchors (upgrade_anchor E hc a)"
  unfolding upgrade_anchor_def anyhow_sql_def
  by (intro sa.keeps_intros sa.keeps_sql only_tick_same_anchors [OF keeps_post])
    (auto simp: same_anchors_def anchor_core_def set_receipt_def)

lemma keeps_upgrade_cycle: "keeps same_anchors (run_ots_upgrade_cycle E hc)"
  unfolding run_ots_upgrade_cycle_def anyhow_sql_def
  by (intro sa.keeps_intros sa.keeps_sql keeps_upgrade_anchor) (auto simp: same_anchors_def)

section \<open>Properties\<close>

text \<open>C28: the loop computes the textbook tree. For every non-empty list of hashes the root found level
  by level, with the last node of an odd level repeated, is the root of the tree defined from the
  top, where the left half holds the first power of two of the leaves and a missing half repeats
  its sibling.\<close>

theorem merkle_root_is_tree:
  "compute_merkle_root c (h # hs) =
     tree_root c (tree_height (length (h # hs))) (map (merkle_leaf c) (h # hs))"
  by (rule root_is_tree) simp

text \<open>C29: the root commits to the hashes. For two lists of the same length of well-formed hex digests
  with the same root, the lists are equal, or two different byte strings hashed in the two
  computations collide under SHA-256.\<close>

theorem merkle_root_binding:
  assumes "length hs' = length hs"
    and "\<forall>h \<in> set hs \<union> set hs'. \<exists>b. hex_decode c h = Some b \<and> length b = 32 \<and> hex_encode c b = h"
    and "\<forall>x. length (sha256 c x) = 32"
    and "compute_merkle_root c hs = compute_merkle_root c hs'"
  shows "hs = hs' \<or> (\<exists>u \<in> set (hashed_inputs c hs). \<exists>v \<in> set (hashed_inputs c hs').
    u \<noteq> v \<and> sha256 c u = sha256 c v)"
proof (cases "hs = []")
  case True
  then show ?thesis using assms(1) by simp
next
  case False
  let ?xs = "map (merkle_leaf c) hs" and ?ys = "map (merkle_leaf c) hs'" and ?n = "tree_height (length hs)"
  have ne': "hs' \<noteq> []" using False assms(1) by auto
  have roots: "tree_root c ?n ?xs = tree_root c ?n ?ys"
    using assms(1,4) root_is_tree [OF False, of c] root_is_tree [OF ne', of c] by simp
  have leaf: "\<exists>b. merkle_leaf c h = b \<and> length b = 32 \<and> hex_encode c b = h" if "h \<in> set hs \<union> set hs'" for h
    using assms(2) that leaf_of_seal by blast
  have "?xs = ?ys \<or> (\<exists>u \<in> set (tree_inputs c ?n ?xs). \<exists>v \<in> set (tree_inputs c ?n ?ys). u \<noteq> v \<and> sha256 c u = sha256 c v)"
    by (rule tree_binding [OF assms(3) _ _ _ _ roots])
      (use False assms(1) leaf tree_height_bounds [of "length hs"] in auto)
  moreover have "hs = hs'" if "?xs = ?ys"
  proof -
    have "map (hex_encode c \<circ> merkle_leaf c) hs = map (hex_encode c \<circ> merkle_leaf c) hs'"
      using that by (metis map_map)
    moreover have "map (hex_encode c \<circ> merkle_leaf c) hs = hs" "map (hex_encode c \<circ> merkle_leaf c) hs' = hs'"
      using leaf by (auto intro!: map_idI)
    ultimately show ?thesis by simp
  qed
  ultimately show ?thesis using assms(1) by (auto simp: hashed_inputs_def)
qed

definition demo_seal_hex :: "byte \<Rightarrow> string" where
  "demo_seal_hex b = demo_hex_encode (replicate 32 b)"

lemma demo_leaf: "merkle_leaf demo_crates (demo_seal_hex b) = replicate 32 b"
  by (simp add: merkle_leaf_def demo_seal_hex_def demo_simps demo_hex_roundtrip)

lemma demo_pair_root: "compute_merkle_root demo_crates [demo_seal_hex a, demo_seal_hex b] = replicate 32 a"
  by (simp add: compute_merkle_root_def merkle_loop.simps merkle_level_def demo_leaf demo_simps demo_digest_def)

theorem merkle_root_binding_witness:
  "\<exists>u v. u \<noteq> v \<and> demo_digest u = demo_digest v
     \<and> u \<in> set (hashed_inputs demo_crates [demo_seal_hex 0, demo_seal_hex 1])
     \<and> v \<in> set (hashed_inputs demo_crates [demo_seal_hex 0, demo_seal_hex 2])"
proof -
  have hex: "\<exists>b. hex_decode demo_crates (demo_seal_hex k) = Some b \<and> length b = 32
      \<and> hex_encode demo_crates b = demo_seal_hex k" for k
    by (simp add: demo_seal_hex_def demo_simps demo_hex_roundtrip)
  have "demo_seal_hex 1 \<noteq> demo_seal_hex 2"
    using demo_hex_inj by (auto simp: demo_seal_hex_def dest!: injD)
  moreover have "[demo_seal_hex 0, demo_seal_hex 1] = [demo_seal_hex 0, demo_seal_hex 2]
      \<or> (\<exists>u \<in> set (hashed_inputs demo_crates [demo_seal_hex 0, demo_seal_hex 1]).
           \<exists>v \<in> set (hashed_inputs demo_crates [demo_seal_hex 0, demo_seal_hex 2]).
             u \<noteq> v \<and> sha256 demo_crates u = sha256 demo_crates v)"
    by (rule merkle_root_binding) (use hex in \<open>auto simp: demo_pair_root demo_simps demo_digest_def\<close>)
  ultimately show ?thesis by (auto simp: demo_simps)
qed

text \<open>C34: what an anchor cycle records. The period starts at the latest end of an earlier anchor,
  or at the epoch, and ends at the clock of the cycle. The leaves are exactly the traces of the
  table with a transaction time after the start and not after the end, whatever their policy result
  or status, each as often as it is stored, in order of time (of equal times in any order). With
  no such trace the database is left alone; otherwise exactly one anchor is added, with that
  period, the number of leaves and the Merkle root of their reasoning hashes. No leaf falls in the
  period of an earlier anchor, so no trace is anchored twice; and the receipt is missing exactly
  when the error of the calendars is recorded.\<close>

theorem anchor_cycle_correct:
  assumes "run_anchor_cycle E hc w = (Inr (), w')"
  shows "\<exists>rows start. (if d_anchors (w_db w) = [] then start = 0
      else start \<in> an_period_end ` set (d_anchors (w_db w))
        \<and> (\<forall>a \<in> set (d_anchors (w_db w)). an_period_end a \<le> start))
    \<and> mset rows = filter_mset (\<lambda>r. start < tr_txn_time r \<and> tr_txn_time r \<le> env_clock E (Suc (w_tick w)))
        (mset (d_traces (w_db w)))
    \<and> sorted (map tr_txn_time rows)
    \<and> (\<forall>r \<in> set rows. \<forall>a \<in> set (d_anchors (w_db w)). an_period_end a < tr_txn_time r)
    \<and> (if usize_as_i32 (length rows) = 0 then w_db w' = w_db w
       else \<exists>a. w_db w' = (w_db w)\<lparr>d_anchors := d_anchors (w_db w) @ [a]\<rparr>
         \<and> an_period_start a = start \<and> an_period_end a = env_clock E (Suc (w_tick w))
         \<and> an_leaf_count a = usize_as_i32 (length rows)
         \<and> an_merkle_root a = hex_encode (env_crates E)
             (compute_merkle_root (env_crates E) (map tr_reasoning_hash rows))
         \<and> (an_ots_receipt a = None \<longleftrightarrow> an_ots_error a \<noteq> None))"
proof -
  let ?start = "period_start (w_db w)" and ?stop = "env_clock E (Suc (w_tick w))"
  let ?rows = "anchored_rows ?start ?stop (scan_order E (Suc (Suc (w_tick w))) (d_traces (w_db w)))"
  have members: "mset ?rows = filter_mset (\<lambda>r. ?start < tr_txn_time r \<and> tr_txn_time r \<le> ?stop) (mset (d_traces (w_db w)))"
    by (simp add: anchored_rows_def mset_scan_order)
  have sorted: "sorted (map tr_txn_time ?rows)" by (simp add: anchored_rows_def)
  have later: "\<forall>r \<in> set ?rows. \<forall>a \<in> set (d_anchors (w_db w)). an_period_end a < tr_txn_time r"
    using period_start_ge by (fastforce simp: anchored_rows_def)
  let ?now = "env_clock E (Suc (Suc (Suc (w_tick w))))"
  have cycle: "if usize_as_i32 (length ?rows) = 0 then w_db w' = w_db w
      else \<exists>posted. w_db w' = (w_db w)\<lparr>d_anchors := d_anchors (w_db w) @
        [new_anchor (env_crates E) (next_anchor_id (w_db w)) ?start ?stop
           (map tr_reasoning_hash ?rows) ?now posted]\<rparr>"
    using assms unfolding run_anchor_cycle_def Let_def period_start_def
    by (auto simp: bindE_Inr_iff anyhow_sql_ok sql_ok_iff io_simps only_tick_def
        dest!: keepsD [OF keeps_post] split: if_splits) (rule exI, rule refl)
  show ?thesis
  proof (intro exI [of _ ?rows] exI [of _ ?start] conjI members sorted later)
    show "if d_anchors (w_db w) = [] then ?start = 0
      else ?start \<in> an_period_end ` set (d_anchors (w_db w))
        \<and> (\<forall>a \<in> set (d_anchors (w_db w)). an_period_end a \<le> ?start)"
      using period_start_ge [of _ "w_db w"] period_start_latest [of "w_db w"] by auto
    show "if usize_as_i32 (length ?rows) = 0 then w_db w' = w_db w
      else \<exists>a. w_db w' = (w_db w)\<lparr>d_anchors := d_anchors (w_db w) @ [a]\<rparr>
         \<and> an_period_start a = ?start \<and> an_period_end a = ?stop
         \<and> an_leaf_count a = usize_as_i32 (length ?rows)
         \<and> an_merkle_root a = hex_encode (env_crates E)
             (compute_merkle_root (env_crates E) (map tr_reasoning_hash ?rows))
         \<and> (an_ots_receipt a = None \<longleftrightarrow> an_ots_error a \<noteq> None)"
      using cycle by (auto simp: new_anchor_def split: if_splits sum.splits)
  qed
qed

definition demo_http :: http_client where
  "demo_http = \<lparr>hc_build_error = Some ''offline'', hc_status_text = (\<lambda>_. []), hc_body_text = (\<lambda>_. [])\<rparr>"

text \<open>A halted trace, which is anchored like any other.\<close>

definition demo_halted_world :: world where
  "demo_halted_world =
     demo_bind_world\<lparr>w_db := (w_db demo_bind_world)\<lparr>d_traces := [demo_row\<lparr>tr_policy_result := ''HALTED''\<rparr>]\<rparr>\<rparr>"

lemma demo_cycle: "\<exists>w'. run_anchor_cycle demo_env demo_http demo_halted_world = (Inr (), w')"
  by (simp add: run_anchor_cycle_def anyhow_sql_def map_errE_def sql_def bindE_def io_simps Let_def demo_simps
      post_to_opentimestamps_def demo_http_def)

theorem anchor_cycle_correct_witness:
  "\<exists>w' a. run_anchor_cycle demo_env demo_http demo_halted_world = (Inr (), w')
     \<and> d_anchors (w_db w') = [a] \<and> an_leaf_count a = 1 \<and> an_period_start a = 0
     \<and> an_merkle_root a = demo_hex_encode (compute_merkle_root demo_crates [''rh''])"
proof -
  let ?r = "demo_row\<lparr>tr_policy_result := ''HALTED''\<rparr>"
  obtain w' where run: "run_anchor_cycle demo_env demo_http demo_halted_world = (Inr (), w')"
    using demo_cycle by blast
  have none: "d_anchors (w_db demo_halted_world) = []" and hash: "tr_reasoning_hash ?r = ''rh''"
    by (simp_all add: demo_halted_world_def demo_bind_world_def demo_db_def demo_row_def)
  have members: "filter_mset (\<lambda>r. 0 < tr_txn_time r \<and> tr_txn_time r \<le> env_clock demo_env (Suc (w_tick demo_halted_world)))
      (mset (d_traces (w_db demo_halted_world))) = {# ?r #}"
    by (simp add: demo_halted_world_def demo_bind_world_def demo_world_def demo_row_def demo_simps)
  have one: "usize_as_i32 1 = 1" by (simp add: usize_as_i32_def)
  note correct = anchor_cycle_correct [OF run, unfolded none if_P [OF refl]]
  from correct have "\<exists>rows. mset rows = {# ?r #} \<and> (if usize_as_i32 (length rows) = 0
       then w_db w' = w_db demo_halted_world
       else \<exists>a. w_db w' = (w_db demo_halted_world)\<lparr>d_anchors := [] @ [a]\<rparr>
         \<and> an_period_start a = 0 \<and> an_leaf_count a = usize_as_i32 (length rows)
         \<and> an_merkle_root a = hex_encode (env_crates demo_env)
             (compute_merkle_root (env_crates demo_env) (map tr_reasoning_hash rows)))"
    using members by (elim exE conjE) (intro exI conjI, simp, simp split: if_splits, blast)
  then obtain rows where "mset rows = {# ?r #}" and new: "if usize_as_i32 (length rows) = 0
       then w_db w' = w_db demo_halted_world
       else \<exists>a. w_db w' = (w_db demo_halted_world)\<lparr>d_anchors := [] @ [a]\<rparr>
         \<and> an_period_start a = 0 \<and> an_leaf_count a = usize_as_i32 (length rows)
         \<and> an_merkle_root a = hex_encode (env_crates demo_env)
             (compute_merkle_root (env_crates demo_env) (map tr_reasoning_hash rows))"
    by blast
  then have "rows = [?r]" by simp
  with new one hash run show ?thesis by (auto simp: demo_simps)
qed

text \<open>Anchors are immutable. Whatever the calendars answer and wherever it stops, the cycle that
  retries missing receipts leaves every anchor's period, leaf count and root, and all traces, as
  they were.\<close>

theorem upgrade_keeps_anchors:
  "map anchor_core (d_anchors (w_db (snd (run_ots_upgrade_cycle E hc w)))) = map anchor_core (d_anchors (w_db w))
   \<and> d_traces (w_db (snd (run_ots_upgrade_cycle E hc w))) = d_traces (w_db w)"
  using keeps_upgrade_cycle [of E hc] by (simp add: keeps_def same_anchors_def)

text \<open>the root does not fix the number of traces. Repeating the last of an odd number of hashes
  leaves the root as it was, so a list with a duplicated final trace cannot be told from the
  original by the root alone.\<close>

theorem duplicated_leaf_same_root:
  assumes "odd (length hs)" and "1 < length hs"
  shows "compute_merkle_root c (hs @ [last hs]) = compute_merkle_root c hs"
proof -
  let ?f = "merkle_leaf c"
  have ne: "hs \<noteq> []" using assms(2) by auto
  then have "map ?f (hs @ [last hs]) = map ?f hs @ [last (map ?f hs)]" by (simp add: last_map)
  then have level: "merkle_level c (map ?f (hs @ [last hs])) = merkle_level c (map ?f hs)"
    using assms(1) by (simp add: merkle_level_def)
  have loop: "merkle_loop c nodes = merkle_loop c (merkle_level c nodes)" if "1 < length nodes" for nodes
    using that merkle_loop.simps [of c nodes] by simp
  have "merkle_loop c (map ?f (hs @ [last hs])) = merkle_loop c (map ?f hs)"
    using loop [of "map ?f (hs @ [last hs])"] loop [of "map ?f hs"] level assms(2) ne by simp
  then show ?thesis using ne by (simp add: compute_merkle_root_def)
qed

theorem duplicated_leaf_same_root_witness:
  "compute_merkle_root demo_crates [''aa'', ''bb'', ''cc'', ''cc''] = compute_merkle_root demo_crates [''aa'', ''bb'', ''cc'']"
  using duplicated_leaf_same_root [of "[''aa'', ''bb'', ''cc'']" demo_crates] by simp

end
