(* ===== verification/Irl_Tables.thy ===== *)
theory Irl_Tables
  imports Irl_Start Irl_Merkle
begin

text \<open>
  The tables as an abstract transition system. Each step inserts a row with a new key
  into one table or changes rows of one table within what the engine may change. The
  constraints of the migrations and the history of every table are invariants of
  these steps; that the engine's statements are such steps is shown in \<open>Irl_System\<close>.
\<close>

section \<open>Keyed tables\<close>

definition grows ::
  "('r \<Rightarrow> 'k) \<Rightarrow> ('r \<Rightarrow> 'r \<Rightarrow> bool) \<Rightarrow> ('r \<Rightarrow> bool) \<Rightarrow> 'r list \<Rightarrow> 'r list \<Rightarrow> bool"
where
  "grows key chg fresh xs ys \<longleftrightarrow>
     list_all2 chg xs ys \<or> (\<exists>y. ys = xs @ [y] \<and> fresh y \<and> key y \<notin> key ` set xs)"

text \<open>
  The contract of a table: changes keep the key, compose, and keep the row
  constraint \<open>ok\<close>, which every new row satisfies.
\<close>

locale keyed_table = row_evolution chg for chg :: "'r \<Rightarrow> 'r \<Rightarrow> bool" +
  fixes key :: "'r \<Rightarrow> 'k" and fresh ok :: "'r \<Rightarrow> bool"
  assumes chg_key: "chg x y \<Longrightarrow> key y = key x"
    and fresh_ok: "fresh y \<Longrightarrow> ok y"
    and chg_ok: "chg x y \<Longrightarrow> ok x \<Longrightarrow> ok y"
begin

lemma grows_map: "(\<And>x. x \<in> set xs \<Longrightarrow> chg x (f x)) \<Longrightarrow> grows key chg fresh xs (map f xs)"
  by (simp add: grows_def list_all2_map2 list.rel_refl_strong)

lemma grows_refl: "grows key chg fresh xs xs"
  using grows_map [of xs "\<lambda>x. x"] P_refl by simp

lemma grows_insert: "fresh y \<Longrightarrow> key y \<notin> key ` set xs \<Longrightarrow> grows key chg fresh xs (xs @ [y])"
  by (auto simp: grows_def)

lemma all2_keys: "list_all2 chg xs ys \<Longrightarrow> map key ys = map key xs"
  by (induction rule: list_all2_induct) (auto simp: chg_key)

lemma grows_distinct: "grows key chg fresh xs ys \<Longrightarrow> distinct (map key xs) \<Longrightarrow> distinct (map key ys)"
  using all2_keys [of xs ys] by (auto simp: grows_def)

lemma all2_ok: "list_all2 chg xs ys \<Longrightarrow> list_all ok xs \<Longrightarrow> list_all ok ys"
  by (induction rule: list_all2_induct) (auto simp: chg_ok)

lemma grows_ok: "grows key chg fresh xs ys \<Longrightarrow> list_all ok xs \<Longrightarrow> list_all ok ys"
  using all2_ok [of xs ys] by (auto simp: grows_def fresh_ok)

lemma grows_evolve: "grows key chg fresh xs ys \<Longrightarrow> rows_evolve chg xs ys"
  unfolding grows_def by (metis append_Nil2 evolve_append rows_evolve_def)

end

section \<open>Traces\<close>

text \<open>
  What may change in a stored trace: the columns of the binding, the stored form of
  the trace, and the columns of an erasure.
\<close>

definition trace_core :: "trace_row \<Rightarrow> trace_row" where
  "trace_core r = (sealed r)\<lparr>tr_trace_json := JNull, tr_trace_nonce := None, tr_encrypted_dek := None,
     tr_key_version := None, tr_encryption_version := 0, tr_gdpr_erased_at := None, tr_gdpr_request_id := None\<rparr>"

definition stored_encrypted :: "trace_row \<Rightarrow> bool" where
  "stored_encrypted r \<longleftrightarrow> tr_encryption_version r = 1
     \<and> tr_trace_nonce r \<noteq> None \<and> tr_encrypted_dek r \<noteq> None \<and> tr_key_version r \<noteq> None"

text \<open>A trace never reopens, never goes back to plain text and stays erased.\<close>

definition trace_change :: "trace_row \<Rightarrow> trace_row \<Rightarrow> bool" where
  "trace_change r r' \<longleftrightarrow> trace_core r' = trace_core r
     \<and> (tr_verification_status r' = tr_verification_status r \<or> terminal (tr_verification_status r'))
     \<and> (tr_verification_status r' = ''PENDING'' \<longrightarrow> tr_final_proof r' = tr_final_proof r)
     \<and> (stored_encrypted r' \<or> (\<not> stored_encrypted r \<and> tr_gdpr_erased_at r' = tr_gdpr_erased_at r
           \<and> tr_encryption_version r' = tr_encryption_version r))
     \<and> (tr_gdpr_erased_at r \<noteq> None \<longrightarrow> tr_gdpr_erased_at r' \<noteq> None)"

definition trace_fresh :: "trace_row \<Rightarrow> bool" where
  "trace_fresh r \<longleftrightarrow> tr_valid_time r < tr_txn_time r
     \<and> tr_policy_result r \<in> {''ALLOWED'', ''HALTED'', ''SHADOW_HALTED''}
     \<and> tr_verification_status r = ''PENDING'' \<and> tr_final_proof r = None
     \<and> (tr_encryption_version r = 0 \<or> stored_encrypted r) \<and> tr_gdpr_erased_at r = None"

definition trace_ok :: "trace_row \<Rightarrow> bool" where
  "trace_ok r \<longleftrightarrow> tr_valid_time r < tr_txn_time r
     \<and> tr_policy_result r \<in> {''ALLOWED'', ''HALTED'', ''SHADOW_HALTED''}
     \<and> tr_verification_status r \<in> set valid_statuses
     \<and> (tr_verification_status r = ''PENDING'' \<longrightarrow> tr_final_proof r = None)
     \<and> (tr_encryption_version r = 0 \<or> stored_encrypted r)
     \<and> (tr_gdpr_erased_at r \<noteq> None \<longrightarrow> stored_encrypted r)"

lemma trace_core_fields:
  assumes "trace_core r' = trace_core r"
  shows "tr_trace_id r' = tr_trace_id r" "tr_valid_time r' = tr_valid_time r" "tr_txn_time r' = tr_txn_time r"
    "tr_policy_result r' = tr_policy_result r" "tr_reasoning_hash r' = tr_reasoning_hash r"
    "tr_agent_id r' = tr_agent_id r"
proof -
  have "f (trace_core r') = f (trace_core r)" for f :: "trace_row \<Rightarrow> 'a" using assms by simp
  from this [of tr_trace_id] this [of tr_valid_time] this [of tr_txn_time] this [of tr_policy_result]
    this [of tr_reasoning_hash] this [of tr_agent_id]
  show "tr_trace_id r' = tr_trace_id r" "tr_valid_time r' = tr_valid_time r" "tr_txn_time r' = tr_txn_time r"
    "tr_policy_result r' = tr_policy_result r" "tr_reasoning_hash r' = tr_reasoning_hash r"
    "tr_agent_id r' = tr_agent_id r"
    by (simp_all add: trace_core_def sealed_def)
qed

lemma terminal_valid: "terminal s \<Longrightarrow> s \<in> set valid_statuses"
  by (auto simp: terminal_def valid_statuses_def)

interpretation trt: keyed_table trace_change erase_key trace_fresh trace_ok
proof
  show "trace_change r r" for r by (auto simp: trace_change_def)
  show "trace_change x z" if "trace_change x y" "trace_change y z" for x y z
    using that terminal_cases unfolding trace_change_def by metis
  show "erase_key y = erase_key x" if "trace_change x y" for x y
    using that by (simp add: trace_change_def erase_key_def trace_core_fields [of y x])
  show "trace_ok y" if "trace_fresh y" for y
    using that by (auto simp: trace_fresh_def trace_ok_def valid_statuses_def)
  show "trace_ok y" if "trace_change x y" "trace_ok x" for x y
    using that trace_core_fields [of y x] terminal_valid terminal_cases
    unfolding trace_change_def trace_ok_def by metis
qed

section \<open>The other tables\<close>

definition agent_core :: "agent_row \<Rightarrow> agent_row" where
  "agent_core r = r\<lparr>ag_status := [], ag_updated_at := 0\<rparr>"

definition agent_change :: "agent_row \<Rightarrow> agent_row \<Rightarrow> bool" where
  "agent_change r r' \<longleftrightarrow> agent_core r' = agent_core r
     \<and> (ag_status r' = ag_status r \<or> ag_status r' \<in> set agent_statuses)"

definition agent_ok :: "agent_row \<Rightarrow> bool" where
  "agent_ok r \<longleftrightarrow> ag_status r \<in> set agent_statuses"

definition agent_fresh :: "agent_row \<Rightarrow> bool" where
  "agent_fresh r \<longleftrightarrow> ag_status r = ''Active''"

lemma agent_core_id: "agent_core r' = agent_core r \<Longrightarrow> ag_agent_id r' = ag_agent_id r"
  by (drule arg_cong [where f = ag_agent_id]) (simp add: agent_core_def)

interpretation agt: keyed_table agent_change ag_agent_id agent_fresh agent_ok
  by unfold_locales (auto simp: agent_change_def agent_ok_def agent_fresh_def agent_statuses_def dest: agent_core_id)

definition position_id :: "position_row \<Rightarrow> uuid \<times> string \<times> string \<times> string" where
  "position_id p = (po_agent_id p, po_asset p, po_venue_id p, po_currency p)"

definition same_position :: "position_row \<Rightarrow> position_row \<Rightarrow> bool" where
  "same_position p p' \<longleftrightarrow> position_id p' = position_id p"

interpretation pot: keyed_table same_position position_id "\<lambda>_. True" "\<lambda>_. True"
  by unfold_locales (auto simp: same_position_def)

text \<open>A token keeps all but its use time and its status, and a revoked one stays revoked.\<close>

definition token_core :: "token_row \<Rightarrow> token_row" where
  "token_core t = t\<lparr>to_last_used_at := None, to_status := []\<rparr>"

definition token_change :: "token_row \<Rightarrow> token_row \<Rightarrow> bool" where
  "token_change t t' \<longleftrightarrow> token_core t' = token_core t \<and> (to_status t' = to_status t \<or> to_status t' = ''revoked'')"

definition token_ok :: "token_row \<Rightarrow> bool" where
  "token_ok t \<longleftrightarrow> to_status t \<in> {''active'', ''revoked''} \<and> to_role t \<in> {''client'', ''owner''}"

definition token_fresh :: "token_row \<Rightarrow> bool" where
  "token_fresh t \<longleftrightarrow> to_status t = ''active'' \<and> to_role t = ''client''"

lemma token_core_fields:
  assumes "token_core t' = token_core t" shows "to_token_hash t' = to_token_hash t" "to_role t' = to_role t"
  using arg_cong [OF assms, of to_token_hash] arg_cong [OF assms, of to_role] by (simp_all add: token_core_def)

interpretation tot: keyed_table token_change to_token_hash token_fresh token_ok
  by unfold_locales (auto simp: token_change_def token_fresh_def token_ok_def dest: token_core_fields)

definition same_setting :: "config_row \<Rightarrow> config_row \<Rightarrow> bool" where
  "same_setting r r' \<longleftrightarrow> sc_key r' = sc_key r"

interpretation cot: keyed_table same_setting sc_key "\<lambda>_. True" "\<lambda>_. True"
  by unfold_locales (auto simp: same_setting_def)

definition mark_rises :: "uuid \<times> int \<Rightarrow> uuid \<times> int \<Rightarrow> bool" where
  "mark_rises h h' \<longleftrightarrow> fst h' = fst h \<and> snd h \<le> snd h'"

interpretation hbt: keyed_table mark_rises fst "\<lambda>_. True" "\<lambda>_. True"
  by unfold_locales (auto simp: mark_rises_def)

definition key_id :: "kms_key_row \<Rightarrow> int \<times> string" where
  "key_id k = (kk_key_version k, kk_provider k)"

definition key_ok :: "kms_key_row \<Rightarrow> bool" where
  "key_ok k \<longleftrightarrow> kk_status k \<in> {''active'', ''rotating'', ''retired''}"

definition key_fresh :: "kms_key_row \<Rightarrow> bool" where
  "key_fresh k \<longleftrightarrow> kk_status k = ''active''"

interpretation kkt: keyed_table "(=)" key_id key_fresh key_ok
  by unfold_locales (auto simp: key_fresh_def key_ok_def)

definition anchor_change :: "anchor_row \<Rightarrow> anchor_row \<Rightarrow> bool" where
  "anchor_change a a' \<longleftrightarrow> anchor_core a' = anchor_core a"

definition anchor_ok :: "anchor_row \<Rightarrow> bool" where
  "anchor_ok a \<longleftrightarrow> an_leaf_count a \<noteq> 0"

lemma anchor_core_fields:
  assumes "anchor_core a' = anchor_core a"
  shows "an_id a' = an_id a" "an_leaf_count a' = an_leaf_count a" "an_merkle_root a' = an_merkle_root a"
  using arg_cong [OF assms, of an_id] arg_cong [OF assms, of an_leaf_count] arg_cong [OF assms, of an_merkle_root]
  by (simp_all add: anchor_core_def)

interpretation ant: keyed_table anchor_change an_id anchor_ok anchor_ok
  by unfold_locales (auto simp: anchor_change_def anchor_ok_def dest: anchor_core_fields)

section \<open>Steps of the database\<close>

inductive table_step :: "database \<Rightarrow> database \<Rightarrow> bool" where
  ts_trace: "grows erase_key trace_change trace_fresh (d_traces d) rows \<Longrightarrow> table_step d (d\<lparr>d_traces := rows\<rparr>)"
| ts_agent: "grows ag_agent_id agent_change agent_fresh (d_agents d) ags \<Longrightarrow> table_step d (d\<lparr>d_agents := ags\<rparr>)"
| ts_position: "grows position_id same_position (\<lambda>_. True) (d_positions d) ps \<Longrightarrow> table_step d (d\<lparr>d_positions := ps\<rparr>)"
| ts_token: "grows to_token_hash token_change token_fresh (d_tokens d) ts \<Longrightarrow> table_step d (d\<lparr>d_tokens := ts\<rparr>)"
| ts_audit: "table_step d (d\<lparr>d_audit := d_audit d @ [a]\<rparr>)"
| ts_config: "grows sc_key same_setting (\<lambda>_. True) (d_config d) cs \<Longrightarrow> table_step d (d\<lparr>d_config := cs\<rparr>)"
| ts_anchor: "grows an_id anchor_change anchor_ok (d_anchors d) ans \<Longrightarrow> table_step d (d\<lparr>d_anchors := ans\<rparr>)"
| ts_heartbeat: "grows fst mark_rises (\<lambda>_. True) (d_heartbeats d) hs \<Longrightarrow> table_step d (d\<lparr>d_heartbeats := hs\<rparr>)"
| ts_key: "grows key_id (=) key_fresh (d_kms_keys d) ks \<Longrightarrow> table_step d (d\<lparr>d_kms_keys := ks\<rparr>)"
| ts_retention: "table_step d (d\<lparr>d_retention_months := m\<rparr>)"

text \<open>The constraints of the migrations, and those the stored columns of a trace have to each other.\<close>

definition schema_ok :: "database \<Rightarrow> bool" where
  "schema_ok d \<longleftrightarrow>
     distinct (map erase_key (d_traces d)) \<and> list_all trace_ok (d_traces d)
     \<and> distinct (map ag_agent_id (d_agents d)) \<and> list_all agent_ok (d_agents d)
     \<and> distinct (map position_id (d_positions d))
     \<and> distinct (map to_token_hash (d_tokens d)) \<and> list_all token_ok (d_tokens d)
     \<and> distinct (map sc_key (d_config d))
     \<and> distinct (map an_id (d_anchors d)) \<and> list_all anchor_ok (d_anchors d)
     \<and> distinct (map fst (d_heartbeats d))
     \<and> distinct (map key_id (d_kms_keys d)) \<and> list_all key_ok (d_kms_keys d)"

lemma table_step_schema: "table_step d d' \<Longrightarrow> schema_ok d \<Longrightarrow> schema_ok d'"
  by (induction rule: table_step.induct)
    (auto simp: schema_ok_def dest: trt.grows_distinct trt.grows_ok agt.grows_distinct agt.grows_ok
      pot.grows_distinct tot.grows_distinct tot.grows_ok cot.grows_distinct ant.grows_distinct ant.grows_ok
      hbt.grows_distinct kkt.grows_distinct kkt.grows_ok)

text \<open>What is recorded stays recorded.\<close>

definition kept :: "database \<Rightarrow> database \<Rightarrow> bool" where
  "kept d d' \<longleftrightarrow> rows_evolve trace_change (d_traces d) (d_traces d')
     \<and> rows_evolve agent_change (d_agents d) (d_agents d')
     \<and> rows_evolve token_change (d_tokens d) (d_tokens d')
     \<and> rows_evolve anchor_change (d_anchors d) (d_anchors d')
     \<and> rows_evolve mark_rises (d_heartbeats d) (d_heartbeats d')
     \<and> rows_evolve (=) (d_kms_keys d) (d_kms_keys d')
     \<and> (\<exists>new. d_audit d' = d_audit d @ new)"

lemmas evolve_refls = trt.evolve_refl agt.evolve_refl tot.evolve_refl ant.evolve_refl hbt.evolve_refl kkt.evolve_refl

lemma kept_refl: "kept d d"
  by (simp add: kept_def evolve_refls)

lemma kept_trans: "kept d e \<Longrightarrow> kept e f \<Longrightarrow> kept d f"
  unfolding kept_def
  using trt.evolve_trans agt.evolve_trans tot.evolve_trans ant.evolve_trans hbt.evolve_trans kkt.evolve_trans
  by (metis append_assoc)

lemma table_step_kept: "table_step d d' \<Longrightarrow> kept d d'"
  by (induction rule: table_step.induct)
    (simp_all add: kept_def evolve_refls trt.grows_evolve agt.grows_evolve tot.grows_evolve ant.grows_evolve
      hbt.grows_evolve kkt.grows_evolve)

lemma table_run_schema: "table_step\<^sup>*\<^sup>* d d' \<Longrightarrow> schema_ok d \<Longrightarrow> schema_ok d'"
  by (induction rule: rtranclp_induct) (auto dest: table_step_schema)

lemma table_run_kept: "table_step\<^sup>*\<^sup>* d d' \<Longrightarrow> kept d d'"
  by (induction rule: rtranclp_induct) (auto intro: kept_refl kept_trans table_step_kept)

end
