(* ===== verification/Irl_System.thy ===== *)
theory Irl_System
  imports Irl_Tables
begin

text \<open>
  The whole engine over the tables: every statement of \<open>src/db.rs\<close>, \<open>src/registry.rs\<close>,
  \<open>src/heartbeat.rs\<close>, \<open>src/token_manager.rs\<close>, \<open>src/shadow_mode.rs\<close>, \<open>src/audit.rs\<close>, \<open>src/gdpr.rs\<close>,
  \<open>src/backfill.rs\<close>, \<open>src/merkle.rs\<close> and \<open>src/verifier.rs\<close> is a step of \<open>Irl_Tables\<close>, so
  every request, worker round, subcommand and restart is a run of such steps.
\<close>

section \<open>Computations that move the database in steps\<close>

definition stepwise :: "world \<Rightarrow> world \<Rightarrow> bool" where
  "stepwise w w' \<longleftrightarrow> table_step\<^sup>*\<^sup>* (w_db w) (w_db w')"

interpretation stp: frame stepwise
  by unfold_locales (auto simp: stepwise_def intro: rtranclp_trans)

lemma stepwise_db: "w_db w' = w_db w \<Longrightarrow> stepwise w w'"
  by (simp add: stepwise_def)

lemma same_db_stepwise: "keeps same_db m \<Longrightarrow> keeps stepwise m"
  by (simp add: keeps_def same_db_def stepwise_db)

lemmas only_tick_stepwise = only_tick_same_db [THEN same_db_stepwise]

lemma stepwise_step: "table_step (w_db w) d \<Longrightarrow> stepwise w (w\<lparr>w_db := d\<rparr>)"
  by (simp add: stepwise_def r_into_rtranclp)

lemma keeps_step:
  "(\<And>now d x d'. q now d = Inr (x, d') \<Longrightarrow> table_step d d') \<Longrightarrow> keeps stepwise (sql E q)"
  by (rule stp.keeps_sql, rule stepwise_step)

lemma stepwise_count: "keeps stepwise (count_metric g)"
  by (rule stp.keeps_count) (simp add: stepwise_db)

lemma keeps_cache: "(\<And>w. w_db (g w) = w_db w) \<Longrightarrow> keeps stepwise (modify g)"
  by (rule stp.keeps_modify, rule stepwise_db)

context frame
begin

text \<open>A continuation only has to keep the relation for values its predecessor can give.\<close>

lemma keeps_bindE_val:
  assumes "keeps R m" and "\<And>x u v. m u = (Inr x, v) \<Longrightarrow> keeps R (f x)"
  shows "keeps R (bindE m f)"
  unfolding keeps_def
proof
  fix w
  obtain r w' where run: "m w = (r, w')" by force
  then have w': "R w w'" by (rule keepsD [OF assms(1)])
  show "R w (snd (bindE m f w))"
  proof (cases r)
    case (Inr x)
    obtain y w'' where "f x w' = (y, w'')" by force
    then show ?thesis using Inr run w' R_trans keepsD [OF assms(2)] by (fastforce simp: bindE_def)
  qed (use run w' in \<open>simp add: bindE_def\<close>)
qed

lemma keeps_foldM_frame: "(\<And>x s. keeps R (f x s)) \<Longrightarrow> keeps R (foldM f xs s)"
  by (induction xs arbitrary: s) (auto intro: keeps_ret keeps_bindE)

end

section \<open>Statements on traces\<close>

lemma encrypt_stored_form:
  assumes "encrypt_stored E kp v w = (Inr (tj, nonce, dek, kv, ev), w')"
  shows "(ev = 0 \<and> kp = None) \<or> (ev = 1 \<and> nonce \<noteq> None \<and> dek \<noteq> None \<and> kv \<noteq> None)"
  using assms by (cases kp) (auto simp: encrypt_stored_def io_simps bindE_Inr_iff)

lemma insert_row_step:
  assumes "new_trace_row c snap vt tt h dec stored aid pk = Some r"
    and "insert_trace_row (Some r) d = Inr d'"
    and "encrypt_stored E kp v u = (Inr stored, u')"
  shows "table_step d d'"
proof -
  have d': "d' = d\<lparr>d_traces := d_traces d @ [r]\<rparr>" and key: "erase_key r \<notin> erase_key ` set (d_traces d)"
    and chk: "tr_valid_time r < tr_txn_time r" "tr_policy_result r \<in> {''ALLOWED'', ''HALTED'', ''SHADOW_HALTED''}"
    using assms(2) by (auto simp: insert_trace_row_def erase_key_def list_ex_iff split: if_splits)
  have "tr_encryption_version r = 0 \<or> stored_encrypted r" "tr_gdpr_erased_at r = None"
    "tr_verification_status r = ''PENDING''" "tr_final_proof r = None"
    using assms(1) encrypt_stored_form [of E kp v u "fst stored" "fst (snd stored)" "fst (snd (snd stored))"
        "fst (snd (snd (snd stored)))" "snd (snd (snd (snd stored)))" u'] assms(3)
    by (auto simp: new_trace_row_def stored_encrypted_def Let_def split: option.splits)
  then have "trace_fresh r" using chk by (simp add: trace_fresh_def)
  then show ?thesis unfolding d' using key by (intro ts_trace trt.grows_insert)
qed

lemma stepwise_insert_trace: "keeps stepwise (insert_trace E snap h dec trace aid kp pk)"
  unfolding keeps_def
proof
  fix w
  obtain out w' where run: "insert_trace E snap h dec trace aid kp pk w = (out, w')" by force
  show "stepwise w (snd (insert_trace E snap h dec trace aid kp pk w))"
    using run by (cases out) (auto simp: stepwise_db stepwise_def dest!: insert_trace_error
        elim!: insert_trace_ok intro: insert_row_step)
qed

lemma stepwise_insert_trace_atomic: "keeps stepwise (insert_trace_atomic E snap h dec trace aid ck kp pk)"
  unfolding keeps_def
proof
  fix w
  obtain out w' where run: "insert_trace_atomic E snap h dec trace aid ck kp pk w = (out, w')" by force
  show "stepwise w (snd (insert_trace_atomic E snap h dec trace aid ck kp pk w))"
    using run by (cases out) (auto simp: stepwise_db stepwise_def dest!: insert_trace_atomic_error
        elim!: insert_trace_atomic_ok intro: insert_row_step)
qed

lemma bind_row_change:
  "terminal (show_verification_status (br_verification_status result)) \<Longrightarrow> trace_change r (bind_row result req price r)"
  by (auto simp: trace_change_def bind_row_def trace_core_def sealed_def stored_encrypted_def dest: terminal_cases)

lemma expire_row_change: "trace_change r (expire_row c now secs r)"
  by (auto simp: trace_change_def expire_row_def trace_core_def sealed_def stored_encrypted_def terminal_def)

lemma keeps_expire: "keeps stepwise (expire_pending E secs)"
  unfolding expire_pending_def
  by (rule keeps_step) (auto intro!: ts_trace trt.grows_map expire_row_change)

lemma keeps_erase: "keeps stepwise (erase_trace E kp rq at' r n)"
proof -
  have "keeps stepwise (sql E (\<lambda>now d. Inr ((), d\<lparr>d_traces := write_row erase_key (erase_key r)
      (\<lambda>s. s\<lparr>tr_trace_json := tj, tr_trace_nonce := nonce, tr_encrypted_dek := dek, tr_key_version := kv,
             tr_encryption_version := 1, tr_gdpr_erased_at := Some at', tr_gdpr_request_id := Some rq\<rparr>)
      (d_traces d)\<rparr>)))"
    if "encrypt_stored E (Some kp) v u = (Inr (tj, nonce, dek, kv, ev), u')" for tj nonce dek kv ev v u u'
    using encrypt_stored_form [OF that]
    by (intro keeps_step)
      (auto simp: write_row_def trace_change_def trace_core_def sealed_def stored_encrypted_def
        intro!: ts_trace trt.grows_map)
  then show ?thesis
    unfolding erase_trace_def decrypt_trace_json_eq
    by (intro stp.keeps_bindE stp.keeps_bindE_val stp.keeps_prod stp.keeps_ret
        keeps_decrypt_if_needed [THEN only_tick_stepwise] keeps_encrypt_stored [THEN only_tick_stepwise]) auto
qed

lemma keeps_encrypt_row: "keeps stepwise (encrypt_one_row E kp t v)"
  unfolding encrypt_one_row_def with_context_def Let_def
  by (intro stp.keeps_intros keeps_step keeps_generate_dek [THEN only_tick_stepwise]
      keeps_encrypt_trace [THEN only_tick_stepwise])
    (auto simp: write_row_def trace_change_def trace_core_def sealed_def stored_encrypted_def
      intro!: ts_trace trt.grows_map)

section \<open>Statements on the other tables\<close>

lemma keeps_audit_log: "keeps stepwise (insert_audit_log E who act target details)"
  unfolding insert_audit_log_def by (intro stp.keeps_intros keeps_step) (auto intro: ts_audit)

lemma keeps_register: "keeps stepwise (register_agent E req)"
proof -
  have "table_step d d'" if "insert_agent c a req now d = Inr (x, d')" for c a now d x d'
  proof -
    have "a \<notin> ag_agent_id ` set (d_agents d)"
      using that by (auto simp: insert_agent_def find_agent_def find_None_iff split: if_splits option.splits)
    then show ?thesis
      using that by (auto simp: insert_agent_def agent_fresh_def split: if_splits option.splits
          intro!: ts_agent agt.grows_insert)
  qed
  then show ?thesis unfolding register_agent_def by (intro stp.keeps_intros keeps_step) blast
qed

lemma keeps_update_status: "status \<in> set agent_statuses \<Longrightarrow> keeps stepwise (update_status E a status)"
  unfolding update_status_def
  by (intro stp.keeps_intros keeps_step)
    (auto simp: set_agent_status_def agent_change_def agent_core_def intro!: ts_agent agt.grows_map)

lemma keeps_insert_token: "keeps stepwise (sql E (insert_token tid hash name))"
  by (rule keeps_step)
    (auto simp: insert_token_def list_ex_iff token_fresh_def split: if_splits intro!: ts_token tot.grows_insert)

lemma keeps_revoke_token: "keeps stepwise (sql E (revoke_token hash))"
  by (rule keeps_step)
    (auto simp: revoke_token_def token_change_def token_core_def intro!: ts_token tot.grows_map)

lemma keeps_refresh: "keeps stepwise (refresh_cache E)"
  unfolding refresh_cache_def by (intro stp.keeps_intros keeps_cache) simp

lemma keeps_sync_token: "keeps stepwise (sync_token E token)"
proof -
  have "table_step d (insert_env_token tid now hash d)" for tid now hash d
  proof (cases "list_ex (\<lambda>t. to_token_hash t = hash) (d_tokens d)")
    case True
    then show ?thesis using ts_token [OF tot.grows_refl, of d] by (simp add: insert_env_token_def)
  next
    case False
    then show ?thesis
      by (auto simp: insert_env_token_def list_ex_iff token_fresh_def intro!: ts_token tot.grows_insert)
  qed
  then show ?thesis unfolding sync_token_def by (intro stp.keeps_intros keeps_step) auto
qed

lemma keeps_bump_last_used: "keeps stepwise (bump_last_used E token)"
  unfolding bump_last_used_def Let_def
  by (intro stp.keeps_intros keeps_cache keeps_step)
    (auto simp: token_change_def token_core_def intro!: ts_token tot.grows_map)

lemma keeps_rate: "keeps stepwise (rate_check E mx token)"
  unfolding rate_check_def Let_def by (intro stp.keeps_intros keeps_cache) simp

lemma keeps_bearer: "keeps stepwise (require_bearer E mx auth ci)"
  unfolding require_bearer_def by (intro stp.keeps_intros keeps_rate keeps_bump_last_used)

lemma keeps_owner: "keeps stepwise (require_owner E auth)"
  unfolding require_owner_def get_token_role_def by (intro stp.keeps_intros)

lemma stepwise_token_manager: "keeps stepwise (token_manager_new E tokens)"
  unfolding token_manager_new_def by (intro stp.keeps_intros keeps_sync_token keeps_cache keeps_refresh) simp

lemma keeps_shadow: "keeps stepwise (shadow_new E b)" "keeps stepwise (shadow_set E b by')"
  "keeps stepwise (shadow_refresh E)"
proof -
  have "table_step d (if shadow_row d \<noteq> None then d else d\<lparr>d_config := d_config d @ [r]\<rparr>)"
    if "sc_key r = ''shadow_mode''" for d r
    using that ts_config [OF cot.grows_refl, of d]
    by (auto simp: shadow_row_def find_None_iff intro!: ts_config cot.grows_insert)
  then show "keeps stepwise (shadow_new E b)"
    unfolding shadow_new_def by (intro stp.keeps_intros keeps_step keeps_cache) auto
  show "keeps stepwise (shadow_set E b by')"
    unfolding shadow_set_def
    by (intro stp.keeps_intros keeps_step keeps_cache) (auto simp: same_setting_def intro!: ts_config cot.grows_map)
  show "keeps stepwise (shadow_refresh E)"
    unfolding shadow_refresh_def by (intro stp.keeps_intros keeps_cache) simp
qed

lemma heartbeat_upsert_new: "a \<notin> fst ` set rows \<Longrightarrow> heartbeat_upsert a s rows = rows @ [(a, s)]"
  by (induction a s rows rule: heartbeat_upsert.induct) auto

lemma heartbeat_upsert_old:
  "a \<in> fst ` set rows \<Longrightarrow> list_all2 mark_rises rows (heartbeat_upsert a s rows)"
  by (induction a s rows rule: heartbeat_upsert.induct) (auto simp: mark_rises_def intro: list_all2_refl)

lemma heartbeat_grows: "grows fst mark_rises (\<lambda>_. True) rows (heartbeat_upsert a s rows)"
  using heartbeat_upsert_new [of a rows s] heartbeat_upsert_old [of a rows s] by (auto simp: grows_def)

lemma stepwise_validate: "keeps stepwise (validate E hv hb a cfg p)"
proof -
  have "table_step d (d\<lparr>d_heartbeats := heartbeat_upsert b s (d_heartbeats d)\<rparr>)" for d b s
    by (intro ts_heartbeat heartbeat_grows)
  then show ?thesis
    unfolding validate_def Let_def
    by (intro stp.keeps_intros keeps_step keeps_cache keeps_now_ms [THEN only_tick_stepwise]) auto
qed

lemma keeps_validator_new: "keeps stepwise (heartbeat_validator_new E cfg)"
  unfolding heartbeat_validator_new_def by (intro stp.keeps_intros keeps_cache) simp

lemma keeps_position: "keeps stepwise (upsert_position E a asset v cur delta price mlt t)"
proof -
  have ins: "table_step d (d\<lparr>d_positions := d_positions d @ [p]\<rparr>)"
    if "find (position_key a asset v cur) (d_positions d) = None"
      "new_position c now a asset v cur delta n price mlt t = Some p" for c now n d p
    using that by (intro ts_position pot.grows_insert)
      (auto simp: find_None_iff position_key_def position_id_def new_position_def split: option.splits)
  have upd: "table_step d (d\<lparr>d_positions := map (\<lambda>q. if position_key a asset v cur q then p' else q) (d_positions d)\<rparr>)"
    if "find (position_key a asset v cur) (d_positions d) = Some p"
      "update_position c now delta n price mlt t p = Some p'" for c now n d p p'
    using that by (intro ts_position pot.grows_map)
      (auto simp: find_Some_iff position_key_def position_id_def same_position_def update_position_def split: option.splits)
  show ?thesis
    unfolding upsert_position_def Let_def
    by (intro keeps_step) (auto split: option.splits intro: ins upd)
qed

lemma keeps_key_metadata: "keeps stepwise (upsert_kms_key_metadata E kv provider arn)"
proof -
  have "table_step d (if list_ex (\<lambda>k. kk_key_version k = kv \<and> kk_provider k = provider) (d_kms_keys d) then d
      else d\<lparr>d_kms_keys := d_kms_keys d @ [r]\<rparr>)"
    if "kk_key_version r = kv" "kk_provider r = provider" "kk_status r = ''active''" for d r
    using that ts_key [OF kkt.grows_refl, of d]
    by (auto simp: list_ex_iff key_id_def key_fresh_def intro!: ts_key kkt.grows_insert)
  then show ?thesis unfolding upsert_kms_key_metadata_def by (intro keeps_step) auto
qed

lemma next_anchor_id_fresh: "next_anchor_id d \<notin> an_id ` set (d_anchors d)"
  using foldl_max [of "next_anchor_id d" 0 "map an_id (d_anchors d)"] by (auto simp: next_anchor_id_def)

section \<open>Requests, workers and jobs\<close>

lemma stepwise_bind_position: "keeps stepwise (bind_position E req i result)"
  unfolding bind_position_def Let_def by (intro stp.keeps_intros keeps_position)

lemma keeps_update_binding:
  assumes "terminal (show_verification_status (br_verification_status result))"
  shows "keeps stepwise (update_binding E result req)"
  unfolding update_binding_def
  by (intro keeps_step)
    (auto simp: update_binding_stmt_def split: option.splits if_splits
      intro!: ts_trace trt.grows_map bind_row_change [OF assms] trt.P_refl)

lemma reconcile_terminal:
  assumes "reconcile E al t h req asset act qty tol w = (Inr result, w')"
  shows "terminal (show_verification_status (br_verification_status result))"
  using assms by (rule_tac reconcile_result [of E al t h req asset act qty tol w]) (auto simp: terminal_def)

lemma keeps_bind_execution: "keeps stepwise (bind_execution E st req)"
  unfolding bind_execution_def bind_check_def bind_commit_def
  by (intro stp.keeps_bindE stp.keeps_bindE_val stp.keeps_if stp.keeps_fail stp.keeps_ret stepwise_count
      stepwise_bind_position
      keeps_update_binding keeps_intent [THEN same_db_stepwise] keeps_reconcile [THEN only_tick_stepwise])
    (rule reconcile_terminal)

lemma stepwise_fetch_verified: "keeps stepwise (fetch_verified E cl)"
  unfolding keeps_def
proof
  fix w
  show "stepwise w (snd (fetch_verified E cl w))"
  proof (cases cl)
    case (MacroPulse x)
    obtain r w' where run: "fetch_verified_live E x w = (r, w')" by force
    then have "w_db w' = w_db w" by (cases rule: fetch_verified_live_cases) auto
    then show ?thesis using MacroPulse run by (simp add: stepwise_db)
  qed (simp_all add: fetch_verified_mock_def fetch_verified_null_def utc_now_ms_def bindE_def io_simps stepwise_db)
qed

lemma stepwise_authorize: "keeps stepwise (authorize E st cert req)"
  unfolding authorize_def heartbeat_stage_def mta_stage_def policy_stage_def persist_stage_def Let_def
  by (intro stp.keeps_intros stepwise_count stepwise_validate stepwise_fetch_verified stepwise_insert_trace
      stepwise_insert_trace_atomic
      keeps_registry_stage [THEN only_tick_stepwise] keeps_snapshot_stage [THEN only_tick_stepwise])

lemma stepwise_erase_batches: "keeps stepwise (erase_batches fuel E kp a rq at' offset n)"
  by (induction fuel arbitrary: offset n)
    (auto intro!: stp.keeps_ret stp.keeps_gets stp.keeps_bindE stp.keeps_sql_read stp.keeps_if stp.keeps_foldM_frame keeps_erase)

lemma keeps_gdpr: "keeps stepwise (gdpr_erase_handler E st who a)"
  unfolding gdpr_erase_handler_def gdpr_erase_agent_def Let_def
  by (intro stp.keeps_intros stepwise_erase_batches keeps_audit_log)

lemma keeps_trace_reads:
  "keeps stepwise (get_trace E st t)" "keeps stepwise (get_pending E st age)" "keeps stepwise (get_orphans E st)"
  "keeps stepwise (route_get_shadow_violations E st)"
  unfolding get_trace_def get_pending_def get_orphans_def route_get_shadow_violations_def
    get_pending_traces_def get_orphan_traces_def get_shadow_violations_def
  by (intro stp.keeps_bindE stp.keeps_ret stp.keeps_sql_read keeps_get_trace_json [THEN only_tick_stepwise]
      keeps_decrypt_rows [THEN only_tick_stepwise])+

lemma keeps_list_traces_step: "keeps stepwise (route_list_traces E ag f u s l)"
  unfolding route_list_traces_def list_traces_def Let_def
  by (intro stp.keeps_intros stp.keeps_sql) (auto simp: stepwise_db split: if_splits)

lemma keeps_agent_reads: "keeps stepwise (route_list_agents E)" "keeps stepwise (route_get_agent E a)"
  unfolding route_list_agents_def route_get_agent_def list_agents_def fetch_profile_def
  by (intro stp.keeps_intros)+

lemma keeps_shadow_get: "keeps stepwise (shadow_mode_get E)"
  unfolding shadow_mode_get_def
  by (intro stp.keeps_intros stp.keeps_sql) (auto simp: stepwise_db split: option.splits)

lemma keeps_management:
  "keeps stepwise (route_register_agent E who rq)" "keeps stepwise (route_update_agent_status E who a us)"
  "keeps stepwise (token_issue E who name)" "keeps stepwise (token_revoke E who tid)"
  "keeps stepwise (shadow_mode_set E who b reason)"
  unfolding route_register_agent_def route_update_agent_status_def token_issue_def token_revoke_def
    shadow_mode_set_def Let_def
  by (intro stp.keeps_intros keeps_register keeps_update_status keeps_insert_token keeps_revoke_token keeps_refresh
      keeps_shadow keeps_audit_log; simp)+

lemma keeps_health_step: "keeps stepwise (health E st)"
  unfolding health_def
  by (cases "cfg_mtls_enabled (st_config st)"; cases "st_cert_expiry_not_after st") (auto intro!: stp.keeps_intros)

lemma keeps_dispatch: "keeps stepwise (dispatch E st cert who call)"
  by (cases call)
    (auto simp: ok_json_def Let_def audit_log_query_handler_def intro!: stp.keeps_intros stepwise_authorize
      keeps_bind_execution keeps_trace_reads keeps_list_traces_step keeps_agent_reads keeps_shadow_get
      keeps_management keeps_gdpr keeps_health_step)

lemma keeps_handle_request: "keeps stepwise (handle_request E parse st rq)"
  unfolding handle_request_def Let_def
  by (intro stp.keeps_intros keeps_dispatch keeps_bearer keeps_owner)

lemma keeps_serve: "keeps stepwise (serve E parse st rq)"
  using keeps_handle_request [of E parse st rq] unfolding keeps_def serve_def
  by (auto split: prod.splits sum.splits failure.splits) (metis snd_conv)+

lemma keeps_rounds:
  "keeps stepwise (expiry_round E ms)" "keeps stepwise (anchor_round E hc)" "keeps stepwise (upgrade_round E hc)"
proof -
  show "keeps stepwise (expiry_round E ms)" unfolding expiry_round_def by (intro stp.keeps_attempt keeps_expire)
  have read: "keeps stepwise (anyhow_sql E what (\<lambda>now d. Inr (f now d, d)))" for what and f :: "int \<Rightarrow> database \<Rightarrow> 'a"
    unfolding anyhow_sql_def by (intro stp.keeps_map_errE stp.keeps_sql) (auto simp: stepwise_db)
  have new: "keeps stepwise (anyhow_sql E what (\<lambda>_ d. Inr ((), d\<lparr>d_anchors := d_anchors d @
      [new_anchor c (next_anchor_id d) s e hashes now posted]\<rparr>)))"
    if "usize_as_i32 (length hashes) \<noteq> 0" for what c s e hashes now posted
    unfolding anyhow_sql_def
  proof (intro stp.keeps_map_errE keeps_step)
    fix d x d'
    let ?row = "new_anchor c (next_anchor_id d) s e hashes now posted"
    have "anchor_ok ?row" "an_id ?row \<notin> an_id ` set (d_anchors d)"
      using that by (simp_all add: new_anchor_def anchor_ok_def next_anchor_id_fresh)
    then show "Inr ((), d\<lparr>d_anchors := d_anchors d @ [?row]\<rparr>) = Inr (x, d') \<Longrightarrow> table_step d d'"
      by (auto intro: ts_anchor ant.grows_insert)
  qed
  show "keeps stepwise (anchor_round E hc)"
    unfolding anchor_round_def run_anchor_cycle_def Let_def
    by (intro stp.keeps_attempt stp.keeps_bindE stp.keeps_effect stp.keeps_gets stp.keeps_if stp.keeps_ret read new
        keeps_post [THEN only_tick_stepwise])
  have upd: "keeps stepwise (anyhow_sql E what (\<lambda>now d. Inr ((),
      d\<lparr>d_anchors := map (\<lambda>x. if an_id x = i then set_receipt receipt now x else x) (d_anchors d)\<rparr>)))"
    for what i receipt
    unfolding anyhow_sql_def
    by (intro stp.keeps_map_errE keeps_step)
      (auto simp: anchor_change_def set_receipt_def anchor_core_def intro!: ts_anchor ant.grows_map)
  show "keeps stepwise (upgrade_round E hc)"
    unfolding upgrade_round_def run_ots_upgrade_cycle_def upgrade_anchor_def
    by (intro stp.keeps_attempt stp.keeps_bindE stp.keeps_if stp.keeps_ret stp.keeps_mapM stp.keeps_option stp.keeps_sum
        read upd keeps_post [THEN only_tick_stepwise])
qed

lemma keeps_backfill_batches: "keeps stepwise (backfill_batches fuel E kp name arn cursor reg n)"
proof (induction fuel arbitrary: cursor reg n)
  case (Suc fuel)
  have "keeps stepwise (backfill_row E kp name arn r reg)" for r reg
    unfolding backfill_row_def with_context_def register_version_def
    by (intro stp.keeps_intros keeps_encrypt_row keeps_key_metadata)
  then show ?case
    unfolding backfill_batches.simps fetch_batch_def
    by (intro stp.keeps_bindE stp.keeps_map_errE stp.keeps_sql_read stp.keeps_ret stp.keeps_if stp.keeps_foldM_frame Suc)
qed (simp add: stp.keeps_ret)

lemma keeps_retention: "keeps stepwise (sql E (\<lambda>now d. Inr ((), d\<lparr>d_retention_months := m\<rparr>)))"
  by (rule keeps_step) (auto intro: ts_retention)

lemma keeps_main: "keeps stepwise (main E pf vars arg)"
  unfolding main_def subcommand_def start_server_def run_backfill_def app_any_def new_process_def Let_def
  by (intro stp.keeps_intros keeps_cache keeps_shadow keeps_validator_new stepwise_token_manager keeps_backfill_batches
      keeps_retention) simp

section \<open>The system\<close>

text \<open>
  The state: the application state while the server runs, and the world. The steps: a
  request, a round of the sweep, of the anchoring, of the receipt upgrade, of the
  shadow refresh and of the token refresh, a start of the server (after a stop or a crash,
  whose memory is lost), and a subcommand, which runs in a process of its own. The one
  task of \<open>main\<close> on the tables that is not here, the partition maintenance, which drops
  old traces, is added in \<open>Irl_Retention\<close>.
\<close>

text \<open>One round of the two background refreshes that \<open>main\<close> spawns: a failure is logged.\<close>

definition refresh_round :: "env \<Rightarrow> (app_error + unit) io" where
  "refresh_round E = attempt (shadow_refresh E)"

definition token_refresh_round :: "env \<Rightarrow> (app_error + unit) io" where
  "token_refresh_round E = attempt (refresh_cache E)"

lemma keeps_refresh_round: "keeps stepwise (refresh_round E)"
  unfolding refresh_round_def by (intro stp.keeps_attempt keeps_shadow)

lemma keeps_token_refresh_round: "keeps stepwise (token_refresh_round E)"
  unfolding token_refresh_round_def by (intro stp.keeps_attempt keeps_refresh)

type_synonym deployment = "app_state option \<times> world"

inductive system_step :: "env \<Rightarrow> x509 \<Rightarrow> http_client \<Rightarrow> platform \<Rightarrow> deployment \<Rightarrow> deployment \<Rightarrow> bool"
  for E :: env and parse :: x509 and hc :: http_client and pf :: platform
where
  sys_request: "serve E parse st rq w = (resp, w') \<Longrightarrow> system_step E parse hc pf (Some st, w) (Some st, w')"
| sys_sweep: "expiry_round E (cfg_trace_expiry_ms (st_config st)) w = (r, w') \<Longrightarrow>
    system_step E parse hc pf (Some st, w) (Some st, w')"
| sys_anchor: "anchor_round E hc w = (r, w') \<Longrightarrow> system_step E parse hc pf (Some st, w) (Some st, w')"
| sys_upgrade: "upgrade_round E hc w = (r, w') \<Longrightarrow> system_step E parse hc pf (Some st, w) (Some st, w')"
| sys_refresh: "refresh_round E w = (r, w') \<Longrightarrow> system_step E parse hc pf (Some st, w) (Some st, w')"
| sys_token_refresh: "token_refresh_round E w = (r, w') \<Longrightarrow> system_step E parse hc pf (Some st, w) (Some st, w')"
| sys_stop: "system_step E parse hc pf (s, w) (None, w)"
| sys_start: "main E pf vars None w = (Inr (Serving st), w') \<Longrightarrow> system_step E parse hc pf (None, w) (Some st, w')"
| sys_start_fails: "main E pf vars None w = (Inl e, w') \<Longrightarrow> system_step E parse hc pf (None, w) (None, w')"
| sys_subcommand: "main E pf vars (Some cmd) w = (r, w') \<Longrightarrow>
    system_step E parse hc pf (s, w) (s, w\<lparr>w_tick := w_tick w', w_db := w_db w'\<rparr>)"

lemma system_step_tables: "system_step E parse hc pf s s' \<Longrightarrow> table_step\<^sup>*\<^sup>* (w_db (snd s)) (w_db (snd s'))"
  by (induction rule: system_step.induct)
    (auto simp: stepwise_def dest!: keepsD [OF keeps_serve] keepsD [OF keeps_rounds(1)] keepsD [OF keeps_rounds(2)]
      keepsD [OF keeps_rounds(3)] keepsD [OF keeps_refresh_round] keepsD [OF keeps_token_refresh_round] keepsD [OF keeps_main])

lemma system_run_tables:
  "(system_step E parse hc pf)\<^sup>*\<^sup>* s s' \<Longrightarrow> table_step\<^sup>*\<^sup>* (w_db (snd s)) (w_db (snd s'))"
  by (induction rule: rtranclp_induct) (auto intro: rtranclp_trans system_step_tables)

lemma trace_change_facts:
  assumes "trace_change r r'"
  shows "trace_core r' = trace_core r"
    "tr_verification_status r \<noteq> ''PENDING'' \<Longrightarrow> tr_verification_status r' \<noteq> ''PENDING''"
    "stored_encrypted r \<Longrightarrow> stored_encrypted r'" "tr_gdpr_erased_at r \<noteq> None \<Longrightarrow> tr_gdpr_erased_at r' \<noteq> None"
  using assms by (auto simp: trace_change_def dest: terminal_cases)

text \<open>A run of the engine for the witnesses below: a start on empty tables, then a request.\<close>

lemma demo_schema: "schema_ok (w_db demo_world)"
  by (simp add: schema_ok_def demo_world_def demo_db_def)

lemma demo_start_step:
  "\<exists>st w'. system_step demo_env (\<lambda>der. None) hc demo_platform (None, demo_world) (Some st, w')"
  using demo_main sys_start by blast

lemma demo_sweep_step:
  "\<exists>w'. system_step demo_env (\<lambda>der. None) hc demo_platform (Some demo_state, demo_bind_world) (Some demo_state, w')"
  using sys_sweep by (metis surj_pair)

lemma token_change_facts:
  assumes "token_change t t'"
  shows "to_token_hash t' = to_token_hash t" "to_role t' = to_role t"
    "to_status t = ''revoked'' \<Longrightarrow> to_status t' = ''revoked''"
  using assms token_core_fields [of t' t] by (auto simp: token_change_def)

section \<open>Properties\<close>

text \<open>C6: the tables stay well formed. Whatever requests, worker rounds, starts, stops and subcommands run, with
  whatever faults of the database, in every table the keys stay unique and every row keeps its
  constraints: a trace's valid time lies before its transaction time, its statuses are among those
  of the schema, an open trace has no proof, an encrypted one has nonce, data key and key version,
  and an erased one is encrypted.\<close>

theorem schema_preserved:
  assumes "(system_step E parse hc pf)\<^sup>*\<^sup>* s s'" and "schema_ok (w_db (snd s))"
  shows "schema_ok (w_db (snd s'))"
  using table_run_schema [OF system_run_tables [OF assms(1)] assms(2)] .

text \<open>C5: what is recorded stays recorded, as long as no partition is dropped. In every run of requests, rounds
  of the sweep, of the anchoring, of the receipt upgrade and of the two cache refreshes, starts,
  stops and subcommands, with whatever faults of the database, the audit log only grows at its end;
  every trace stays in place with all columns but those of the binding, of its stored form and of
  an erasure, never reopens, never goes back to plain text and stays erased; every anchor keeps its
  period and root; a revoked token stays revoked; and no persisted heartbeat watermark falls. The
  daily partition maintenance, which removes traces older than the retention, is not among these
  steps; \<open>Irl_Retention\<close> treats the runs that include it.\<close>

theorem records_append_only:
  assumes "(system_step E parse hc pf)\<^sup>*\<^sup>* (s, w) (s', w')"
  shows "(\<exists>new. d_audit (w_db w') = d_audit (w_db w) @ new)
    \<and> (\<forall>k < length (d_traces (w_db w)). k < length (d_traces (w_db w'))
         \<and> trace_core (d_traces (w_db w') ! k) = trace_core (d_traces (w_db w) ! k)
         \<and> (tr_verification_status (d_traces (w_db w) ! k) \<noteq> ''PENDING'' \<longrightarrow>
              tr_verification_status (d_traces (w_db w') ! k) \<noteq> ''PENDING'')
         \<and> (stored_encrypted (d_traces (w_db w) ! k) \<longrightarrow> stored_encrypted (d_traces (w_db w') ! k))
         \<and> (tr_gdpr_erased_at (d_traces (w_db w) ! k) \<noteq> None \<longrightarrow> tr_gdpr_erased_at (d_traces (w_db w') ! k) \<noteq> None))
    \<and> (\<forall>k < length (d_anchors (w_db w)). k < length (d_anchors (w_db w'))
         \<and> anchor_core (d_anchors (w_db w') ! k) = anchor_core (d_anchors (w_db w) ! k))
    \<and> (\<forall>k < length (d_tokens (w_db w)). k < length (d_tokens (w_db w'))
         \<and> to_token_hash (d_tokens (w_db w') ! k) = to_token_hash (d_tokens (w_db w) ! k)
         \<and> to_role (d_tokens (w_db w') ! k) = to_role (d_tokens (w_db w) ! k)
         \<and> (to_status (d_tokens (w_db w) ! k) = ''revoked'' \<longrightarrow> to_status (d_tokens (w_db w') ! k) = ''revoked''))
    \<and> (\<forall>k < length (d_heartbeats (w_db w)). k < length (d_heartbeats (w_db w'))
         \<and> fst (d_heartbeats (w_db w') ! k) = fst (d_heartbeats (w_db w) ! k)
         \<and> snd (d_heartbeats (w_db w) ! k) \<le> snd (d_heartbeats (w_db w') ! k))"
proof -
  have kept: "kept (w_db w) (w_db w')" using table_run_kept [OF system_run_tables [OF assms]] by simp
  then have tr: "rows_evolve trace_change (d_traces (w_db w)) (d_traces (w_db w'))"
    and tok: "rows_evolve token_change (d_tokens (w_db w)) (d_tokens (w_db w'))"
    and anc: "rows_evolve anchor_change (d_anchors (w_db w)) (d_anchors (w_db w'))"
    and hb: "rows_evolve mark_rises (d_heartbeats (w_db w)) (d_heartbeats (w_db w'))"
    and audit: "\<exists>new. d_audit (w_db w') = d_audit (w_db w) @ new"
    by (simp_all add: kept_def)
  show ?thesis
    using audit trt.evolve_nth [OF tr] trace_change_facts ant.evolve_nth [OF anc, unfolded anchor_change_def]
      tot.evolve_nth [OF tok] token_change_facts hbt.evolve_nth [OF hb, unfolded mark_rises_def]
    by (intro conjI) blast+
qed

theorem schema_preserved_witness:
  "\<exists>st w'. system_step demo_env (\<lambda>der. None) demo_http demo_platform (None, demo_world) (Some st, w')
     \<and> schema_ok (w_db w')"
  using demo_start_step [of demo_http] schema_preserved [OF r_into_rtranclp, of demo_env "\<lambda>der. None" demo_http demo_platform]
    demo_schema by fastforce

theorem records_append_only_witness:
  "\<exists>w'. system_step demo_env (\<lambda>der. None) demo_http demo_platform (Some demo_state, demo_bind_world) (Some demo_state, w')
     \<and> trace_core (d_traces (w_db w') ! 0) = trace_core demo_row"
proof -
  have row: "d_traces (w_db demo_bind_world) = [demo_row]" by (simp add: demo_bind_world_def)
  obtain w' where step: "system_step demo_env (\<lambda>der. None) demo_http demo_platform (Some demo_state, demo_bind_world) (Some demo_state, w')"
    using demo_sweep_step by blast
  then have "(system_step demo_env (\<lambda>der. None) demo_http demo_platform)\<^sup>*\<^sup>* (Some demo_state, demo_bind_world) (Some demo_state, w')"
    by (rule r_into_rtranclp)
  from records_append_only [OF this] step row show ?thesis by auto
qed

end
