(* ===== verification/Irl_Tls.thy ===== *)
theory Irl_Tls
  imports Irl_Start
begin

text \<open>
  The listener that \<open>src/main.rs\<close> opens, with \<open>src/tls/config.rs\<close> and
  \<open>src/tls/cert_watch.rs\<close>: which certificates and which client policy it serves with, and
  what the hot reload of the certificates does to them. The certificate libraries are
  parameters.
\<close>

section \<open>Development certificates\<close>

record cert_params =
  cp_is_ca :: bool
  cp_subject_alt_names :: "string list"
  cp_common_name :: string

record dev_certs =
  ca_cert_pem :: "byte list"
  ca_key_pem :: "byte list"
  server_cert_pem :: "byte list"
  server_key_pem :: "byte list"
  client_cert_pem :: "byte list"
  client_key_pem :: "byte list"

text \<open>
  What \<open>rcgen\<close> answers: the n-th key pair, whether alternative names are accepted, a
  certificate signed with its own key or with the key of an issuer, and the PEM texts.
\<close>

record rcgen =
  rg_generate :: "nat \<Rightarrow> string + byte list"
  rg_names_error :: "string list \<Rightarrow> string option"
  rg_self_signed :: "cert_params \<Rightarrow> byte list \<Rightarrow> string + byte list"
  rg_signed_by :: "cert_params \<Rightarrow> byte list \<Rightarrow> byte list \<Rightarrow> byte list \<Rightarrow> string + byte list"
  rg_cert_pem :: "byte list \<Rightarrow> byte list"
  rg_key_pem :: "byte list \<Rightarrow> byte list"

fun err_or :: "'e option \<Rightarrow> 'a \<Rightarrow> 'e + 'a" where
  "err_or (Some e) x = Inl e"
| "err_or None x = Inr x"

definition generate_dev_certs :: "rcgen \<Rightarrow> string + dev_certs" where
  "generate_dev_certs rg =
     res_bind (rg_generate rg 0) (\<lambda>ca_key.
     res_bind (rg_self_signed rg \<lparr>cp_is_ca = True, cp_subject_alt_names = [], cp_common_name = ''IRL-Engine Dev CA''\<rparr>
                 ca_key) (\<lambda>ca_cert.
     res_bind (rg_generate rg 1) (\<lambda>server_key.
     res_bind (err_or (rg_names_error rg [''localhost'']) ()) (\<lambda>_.
     res_bind (rg_signed_by rg \<lparr>cp_is_ca = False, cp_subject_alt_names = [''localhost''],
                 cp_common_name = ''irl-engine-server''\<rparr> server_key ca_cert ca_key) (\<lambda>server_cert.
     res_bind (rg_generate rg 2) (\<lambda>client_key.
     res_bind (rg_signed_by rg \<lparr>cp_is_ca = False, cp_subject_alt_names = [], cp_common_name = ''dev-agent-01''\<rparr>
                 client_key ca_cert ca_key) (\<lambda>client_cert.
     Inr \<lparr>ca_cert_pem = rg_cert_pem rg ca_cert, ca_key_pem = rg_key_pem rg ca_key,
          server_cert_pem = rg_cert_pem rg server_cert, server_key_pem = rg_key_pem rg server_key,
          client_cert_pem = rg_cert_pem rg client_cert, client_key_pem = rg_key_pem rg client_key\<rparr>)))))))"

section \<open>Server configuration\<close>

text \<open>
  Whether a client certificate is asked for, and the root it is checked against.
\<close>

datatype client_auth = NoClientAuth | OptionalClientAuth "byte list" | RequiredClientAuth "byte list"

record server_config =
  sv_client_auth :: client_auth
  sv_cert_chain :: "byte list list"
  sv_key :: "byte list"
  sv_alpn_protocols :: "string list"

text \<open>
  What \<open>rustls\<close>, \<open>rustls_pemfile\<close>, \<open>rcgen\<close> and the file system answer: the error of adding a
  root, of building a verifier and of pairing a chain with a key, the items of a PEM
  text, the generation of certificates, and the content of a file.
\<close>

record rustls =
  rl_add_root_error :: "byte list \<Rightarrow> string option"
  rl_verifier_error :: "client_auth \<Rightarrow> string option"
  rl_single_cert_error :: "byte list list \<Rightarrow> byte list \<Rightarrow> string option"
  rl_parse_certs :: "byte list \<Rightarrow> (string + byte list) list"
  rl_parse_key :: "byte list \<Rightarrow> string + byte list option"
  rl_rcgen :: rcgen
  rl_read :: "string \<Rightarrow> string + byte list"

definition build_server_config ::
  "rustls \<Rightarrow> byte list \<Rightarrow> byte list list \<Rightarrow> byte list \<Rightarrow> bool \<Rightarrow> bool \<Rightarrow> string + server_config"
where
  "build_server_config rl ca_cert_der chain key mtls_enabled mtls_required =
     res_bind
       (if mtls_enabled
        then
          res_bind (err_or (map_option (\<lambda>e. ''Failed to add CA cert to root store: '' @ e)
                     (rl_add_root_error rl ca_cert_der)) ()) (\<lambda>_.
          let client_verifier = (if mtls_required then RequiredClientAuth ca_cert_der else OptionalClientAuth ca_cert_der) in
          err_or (rl_verifier_error rl client_verifier) client_verifier)
        else Inr NoClientAuth) (\<lambda>auth.
     res_bind (err_or (rl_single_cert_error rl chain key) ()) (\<lambda>_.
     Inr \<lparr>sv_client_auth = auth, sv_cert_chain = chain, sv_key = key, sv_alpn_protocols = [''h2'', ''http/1.1'']\<rparr>))"

section \<open>The listener\<close>

text \<open>\<open>ca_certs[0]\<close> panics when the PEM text holds no certificate.\<close>

definition ca_root :: "byte list list \<Rightarrow> byte list anyio" where
  "ca_root ca_certs =
     (case ca_certs of [] \<Rightarrow> panic ''index out of bounds: the len is 0 but the index is 0'' | ca # _ \<Rightarrow> ret ca)"

definition tls_material :: "rustls \<Rightarrow> config \<Rightarrow> (byte list \<times> byte list list \<times> byte list) anyio" where
  "tls_material rl cfg =
     (case (if cfg_mtls_dev_certs cfg then None else cfg_tls_cert_path cfg) of
        None \<Rightarrow>
          bindE (liftE (generate_dev_certs (rl_rcgen rl))) (\<lambda>dev.
          bindE (liftE (collect_res (rl_parse_certs rl (ca_cert_pem dev)))) (\<lambda>ca_certs.
          bindE (liftE (collect_res (rl_parse_certs rl (server_cert_pem dev)))) (\<lambda>server_certs.
          bindE (liftE (rl_parse_key rl (server_key_pem dev))) (\<lambda>key.
          bindE (liftE (ok_or ''No private key in dev cert PEM'' key)) (\<lambda>key.
          bindE (ca_root ca_certs) (\<lambda>ca. ret (ca, server_certs, key)))))))
      | Some cert_path \<Rightarrow>
          bindE (liftE (ok_or ''TLS_KEY_PATH required when TLS_CERT_PATH is set'' (cfg_tls_key_path cfg))) (\<lambda>key_path.
          bindE (liftE (ok_or ''TLS_CA_CERT_PATH required when MTLS_ENABLED=true'' (cfg_tls_ca_cert_path cfg))) (\<lambda>ca_path.
          bindE (liftE (rl_read rl cert_path)) (\<lambda>cert_pem.
          bindE (liftE (rl_read rl key_path)) (\<lambda>key_pem.
          bindE (liftE (rl_read rl ca_path)) (\<lambda>ca_pem.
          bindE (liftE (collect_res (rl_parse_certs rl cert_pem))) (\<lambda>server_certs.
          bindE (liftE (rl_parse_key rl key_pem)) (\<lambda>key.
          bindE (liftE (ok_or (''No private key in '' @ key_path) key)) (\<lambda>key.
          bindE (liftE (collect_res (rl_parse_certs rl ca_pem))) (\<lambda>ca_certs.
          bindE (ca_root ca_certs) (\<lambda>ca. ret (ca, server_certs, key))))))))))))"

text \<open>The listener: its port, and under TLS its configuration and the files the watcher follows.\<close>

datatype listener = PlainHttp "16 word" | Tls "16 word" server_config "(string \<times> string) option"

definition open_listener :: "rustls \<Rightarrow> config \<Rightarrow> listener anyio" where
  "open_listener rl cfg =
     (if cfg_mtls_enabled cfg \<or> cfg_tls_cert_path cfg \<noteq> None
      then
        bindE (tls_material rl cfg) (\<lambda>(ca_der, cert_chain, key_der).
        bindE (liftE (build_server_config rl ca_der cert_chain key_der (cfg_mtls_enabled cfg) (cfg_mtls_required cfg))) (\<lambda>sc.
        ret (Tls (cfg_port cfg) sc
          (if cfg_mtls_dev_certs cfg then None
           else map_option (\<lambda>cert_p. (cert_p, case cfg_tls_key_path cfg of None \<Rightarrow> [] | Some k \<Rightarrow> k)) (cfg_tls_cert_path cfg)))))
      else ret (PlainHttp (cfg_port cfg)))"

text \<open>The whole of \<open>main\<close> up to the first accepted connection.\<close>

definition run_main ::
  "env \<Rightarrow> platform \<Rightarrow> rustls \<Rightarrow> env_vars \<Rightarrow> string option \<Rightarrow> (started \<times> listener option) anyio"
where
  "run_main E pf rl vars arg =
     bindE (main E pf vars arg) (\<lambda>s.
     case s of
       BackfillDone n \<Rightarrow> ret (s, None)
     | Serving st \<Rightarrow> bindE (open_listener rl (st_config st)) (\<lambda>l. ret (s, Some l)))"

section \<open>Hot reload\<close>

datatype watch_event = FileChanged | OtherEvent | EventError string

text \<open>
  The loop of the watcher thread over the events of its channel until it closes.
  \<open>reload n\<close> is \<open>RustlsConfig::reload_from_pem_file\<close> at the n-th event; a failed reload
  leaves the running configuration.
\<close>

fun watch_loop ::
  "(nat \<Rightarrow> string \<Rightarrow> string \<Rightarrow> string + server_config) \<Rightarrow> string \<Rightarrow> string \<Rightarrow> nat \<Rightarrow> watch_event list
     \<Rightarrow> server_config \<Rightarrow> server_config"
where
  "watch_loop reload cert_path key_path n [] sc = sc"
| "watch_loop reload cert_path key_path n (FileChanged # es) sc =
     watch_loop reload cert_path key_path (Suc n) es
       (case reload n cert_path key_path of Inr sc' \<Rightarrow> sc' | Inl e \<Rightarrow> sc)"
| "watch_loop reload cert_path key_path n (e # es) sc = watch_loop reload cert_path key_path (Suc n) es sc"

definition spawn_cert_watcher ::
  "string option \<Rightarrow> (string \<Rightarrow> string option) \<Rightarrow> (nat \<Rightarrow> string \<Rightarrow> string \<Rightarrow> string + server_config)
     \<Rightarrow> string \<Rightarrow> string \<Rightarrow> watch_event list \<Rightarrow> server_config \<Rightarrow> server_config"
where
  "spawn_cert_watcher create_error watch_error reload cert_path key_path events sc =
     (if create_error \<noteq> None \<or> watch_error cert_path \<noteq> None \<or> watch_error key_path \<noteq> None then sc
      else watch_loop reload cert_path key_path 0 events sc)"

text \<open>One tick of the expiry task: the level and text it logs, if any.\<close>

fun expiry_warning :: "cert_expiry_status \<Rightarrow> (string \<times> string) option" where
  "expiry_warning (ExpiringSoon days) = Some (''WARN'',
     ''CERT EXPIRY WARNING: server TLS certificate expires in '' @ show_int days
       @ '' day(s). Rotate certificate before clients are locked out.'')"
| "expiry_warning CertExpired = Some (''ERROR'',
     ''CERT EXPIRED: server TLS certificate has expired. Clients will be rejected. Rotate certificate immediately.'')"
| "expiry_warning CertOk = None"

definition expiry_tick :: "env \<Rightarrow> int \<Rightarrow> (string \<times> string) option io" where
  "expiry_tick E not_after = bindE (effect (env_clock E)) (\<lambda>now. ret (expiry_warning (check_cert_expiry now not_after)))"

section \<open>Facts\<close>

lemma err_or_Inr_iff [simp]: "err_or e x = Inr y \<longleftrightarrow> e = None \<and> y = x"
  by (cases e) auto

text \<open>The server and the client of the development certificates have the same issuer.\<close>

lemma dev_certs_issued:
  assumes "generate_dev_certs rg = Inr dev"
    and "\<And>p k ca ck cert. rg_signed_by rg p k ca ck = Inr cert \<Longrightarrow> issued (rg_cert_pem rg ca) (rg_cert_pem rg cert)"
  shows "issued (ca_cert_pem dev) (server_cert_pem dev) \<and> issued (ca_cert_pem dev) (client_cert_pem dev)"
  using assms by (auto simp: generate_dev_certs_def res_bind_Inr_iff)

lemma build_server_config_ok:
  assumes "build_server_config rl ca chain key enabled required = Inr sc"
  shows "sc = \<lparr>sv_client_auth = (if \<not> enabled then NoClientAuth else if required then RequiredClientAuth ca else OptionalClientAuth ca),
     sv_cert_chain = chain, sv_key = key, sv_alpn_protocols = [''h2'', ''http/1.1'']\<rparr>"
  using assms by (auto simp: build_server_config_def res_bind_Inr_iff Let_def split: if_splits)

lemma ca_root_ok: "ca_root cs w = (Inr ca, w') \<longleftrightarrow> (\<exists>cas. cs = ca # cas) \<and> w' = w"
  by (cases cs) (auto simp: ca_root_def io_simps)

text \<open>Where the certificates of the listener come from.\<close>

definition material_from :: "rustls \<Rightarrow> config \<Rightarrow> byte list \<times> byte list list \<times> byte list \<Rightarrow> bool" where
  "material_from rl cfg m \<longleftrightarrow> (\<exists>ca_pem cert_pem key_pem cas.
     (if cfg_mtls_dev_certs cfg \<or> cfg_tls_cert_path cfg = None 
      then \<exists>dev. generate_dev_certs (rl_rcgen rl) = Inr dev
        \<and> (ca_pem, cert_pem, key_pem) = (ca_cert_pem dev, server_cert_pem dev, server_key_pem dev)
      else \<exists>cert_path key_path ca_path.
        cfg_tls_cert_path cfg = Some cert_path \<and> cfg_tls_key_path cfg = Some key_path \<and> cfg_tls_ca_cert_path cfg = Some ca_path
        \<and> rl_read rl cert_path = Inr cert_pem \<and> rl_read rl key_path = Inr key_pem \<and> rl_read rl ca_path = Inr ca_pem)
     \<and> collect_res (rl_parse_certs rl ca_pem) = Inr (fst m # cas)
     \<and> collect_res (rl_parse_certs rl cert_pem) = Inr (fst (snd m))
     \<and> rl_parse_key rl key_pem = Inr (Some (snd (snd m))))"

lemma tls_material_ok:
  assumes "tls_material rl cfg w = (Inr m, w')"
  shows "material_from rl cfg m"
proof (cases "if cfg_mtls_dev_certs cfg then None else cfg_tls_cert_path cfg")
  case None
  then have "cfg_mtls_dev_certs cfg \<or> cfg_tls_cert_path cfg = None" by (auto split: if_splits)
  with None show ?thesis
    using assms
    by (auto simp: tls_material_def material_from_def bindE_Inr_iff liftE_Inr_iff io_simps ca_root_ok)
next
  case (Some p)
  then have "\<not> cfg_mtls_dev_certs cfg" "cfg_tls_cert_path cfg = Some p" by (auto split: if_splits)
  then show ?thesis
    using assms
    by (auto simp: tls_material_def material_from_def bindE_Inr_iff liftE_Inr_iff io_simps ca_root_ok)
qed

lemma open_listener_ok:
  assumes "open_listener rl cfg w = (Inr l, w')"
  shows "case l of
      PlainHttp p \<Rightarrow> p = cfg_port cfg \<and> \<not> cfg_mtls_enabled cfg \<and> cfg_tls_cert_path cfg = None
    | Tls p sc watched \<Rightarrow> p = cfg_port cfg \<and> (cfg_mtls_enabled cfg \<or> cfg_tls_cert_path cfg \<noteq> None)
        \<and> (\<exists>ca. material_from rl cfg (ca, sv_cert_chain sc, sv_key sc)
             \<and> sv_client_auth sc = (if \<not> cfg_mtls_enabled cfg then NoClientAuth
                  else if cfg_mtls_required cfg then RequiredClientAuth ca else OptionalClientAuth ca))
        \<and> sv_alpn_protocols sc = [''h2'', ''http/1.1'']"
  using assms
  by (auto simp: open_listener_def bindE_Inr_iff liftE_Inr_iff io_simps dest!: tls_material_ok build_server_config_ok
      split: if_splits)

text \<open>After any events the listener runs with its first configuration or with the last one that was reloaded.\<close>

lemma watch_loop_result:
  "watch_loop reload cert key n es sc = sc
   \<or> (\<exists>k. reload k cert key = Inr (watch_loop reload cert key n es sc))"
  by (induction reload cert key n es sc rule: watch_loop.induct) (auto split: sum.splits)

text \<open>
  \<open>reload_from_pem_file\<close> is given the chain and the key only, and builds a configuration
  that asks for no client certificate. One change of a certificate file therefore
  ends the client authentication of a server that requires it.
\<close>

lemma reload_drops_client_auth:
  assumes "\<And>n cert key sc. reload n cert key = Inr sc \<Longrightarrow> sv_client_auth sc = NoClientAuth"
    and "reload 0 cert key = Inr sc'" and "watch_error cert = None" and "watch_error key = None"
  shows "sv_client_auth (spawn_cert_watcher None watch_error reload cert key (FileChanged # es) sc) = NoClientAuth"
proof -
  have "sv_client_auth (watch_loop reload cert key n es sc) = NoClientAuth" if "sv_client_auth sc = NoClientAuth" for n sc
    using watch_loop_result [of reload cert key n es sc] that assms(1) by metis
  then show ?thesis using assms by (simp add: spawn_cert_watcher_def)
qed

text \<open>Plain TLS without client certificates still asks for the root file.\<close>

lemma plain_tls_needs_ca_path:
  assumes "cfg_tls_cert_path cfg = Some p" and "\<not> cfg_mtls_dev_certs cfg" and "cfg_tls_key_path cfg = Some k"
    and "cfg_tls_ca_cert_path cfg = None"
  shows "open_listener rl cfg w = (Inl (App ''TLS_CA_CERT_PATH required when MTLS_ENABLED=true''), w)"
  using assms by (simp add: open_listener_def tls_material_def ca_root_def bindE_def io_simps)

text \<open>A root file without a certificate stops the process with a panic.\<close>

lemma empty_ca_file_panics:
  assumes "rl_parse_certs rl ca = []" and "generate_dev_certs (rl_rcgen rl) = Inr dev"
    and "ca_cert_pem dev = ca" and "server_cert_pem dev = cert" and "server_key_pem dev = key"
    and "collect_res (rl_parse_certs rl cert) = Inr chain" and "rl_parse_key rl key = Inr (Some k)"
    and "cfg_mtls_dev_certs cfg" and "cfg_mtls_enabled cfg"
  shows "open_listener rl cfg w = (Inl (Panic ''index out of bounds: the len is 0 but the index is 0''), w)"
  using assms by (simp add: open_listener_def tls_material_def ca_root_def bindE_def io_simps)

section \<open>Properties\<close>

definition demo_rcgen :: rcgen where
  "demo_rcgen = \<lparr>rg_generate = (\<lambda>n. Inr [word_of_nat n]), rg_names_error = (\<lambda>_. None), rg_self_signed = (\<lambda>p k. Inr k),
     rg_signed_by = (\<lambda>p k c ck. Inr (k @ ck)), rg_cert_pem = (\<lambda>c. c), rg_key_pem = (\<lambda>k. k)\<rparr>"

definition demo_rustls :: rustls where
  "demo_rustls = \<lparr>rl_add_root_error = (\<lambda>_. None), rl_verifier_error = (\<lambda>_. None), rl_single_cert_error = (\<lambda>_ _. None),
     rl_parse_certs = (\<lambda>pem. [Inr pem]), rl_parse_key = (\<lambda>pem. Inr (Some pem)), rl_rcgen = demo_rcgen,
     rl_read = (\<lambda>_. Inl ''no file'')\<rparr>"

text \<open>C20: the listener is the configured one. A server that has started serves plain HTTP exactly when neither
  mutual TLS nor a certificate path is configured; otherwise it serves the configured certificate
  with its key (or development certificates), and asks for a client certificate under the root of
  the configured file exactly when mutual TLS is enabled, without exception exactly when it is
  required.\<close>

theorem listener_policy:
  assumes "run_main E pf rl vars None w = (Inr (Serving st, Some l), w')"
  shows "case l of
      PlainHttp p \<Rightarrow> p = cfg_port (st_config st) \<and> \<not> cfg_mtls_enabled (st_config st) \<and> cfg_tls_cert_path (st_config st) = None
    | Tls p sc watched \<Rightarrow> p = cfg_port (st_config st)
        \<and> (cfg_mtls_enabled (st_config st) \<or> cfg_tls_cert_path (st_config st) \<noteq> None)
        \<and> (\<exists>ca. material_from rl (st_config st) (ca, sv_cert_chain sc, sv_key sc)
             \<and> sv_client_auth sc = (if \<not> cfg_mtls_enabled (st_config st) then NoClientAuth
                  else if cfg_mtls_required (st_config st) then RequiredClientAuth ca else OptionalClientAuth ca))
        \<and> sv_alpn_protocols sc = [''h2'', ''http/1.1'']"
proof -
  obtain s w1 where "(case s of BackfillDone n \<Rightarrow> ret (s, None)
       | Serving st \<Rightarrow> bindE (open_listener rl (st_config st)) (\<lambda>l. ret (s, Some l))) w1 = (Inr (Serving st, Some l), w')"
    using assms by (auto simp: run_main_def bindE_Inr_iff)
  then obtain w1 w2 where "open_listener rl (st_config st) w1 = (Inr l, w2)"
    by (cases s) (auto simp: bindE_Inr_iff io_simps)
  then show ?thesis by (rule open_listener_ok)
qed

lemma main_config:
  assumes "main E pf vars None w = (Inr (Serving st), w')"
  shows "from_env (env_crates E) (pf_key_ok pf) (pf_parse_f64 pf) vars = Inr (st_config st)"
  using assms by (auto simp: main_def start_server_def bindE_Inr_iff liftE_Inr_iff io_simps)

lemma from_env_tls:
  assumes "from_env c key_ok parse_f64 vars = Inr cfg"
  shows "cfg_tls_cert_path cfg = vars ''TLS_CERT_PATH''" "cfg_mtls_enabled cfg = var_flag vars ''MTLS_ENABLED'' ''false''"
  using assms unfolding from_env_def by (auto simp: res_bind_Inr_iff Let_def split: if_splits)

lemma demo_listener:
  "\<exists>st w' p. run_main demo_env demo_platform demo_rustls demo_vars None demo_world = (Inr (Serving st, Some (PlainHttp p)), w')"
proof -
  obtain st w' where run: "main demo_env demo_platform demo_vars None demo_world = (Inr (Serving st), w')"
    using demo_main by blast
  note cfg = main_config [OF run, THEN from_env_tls(1)] main_config [OF run, THEN from_env_tls(2)]
  have "\<not> cfg_mtls_enabled (st_config st)" "cfg_tls_cert_path (st_config st) = None"
    unfolding cfg by (simp_all add: demo_vars_def var_flag_def var_or_def) code_simp
  then show ?thesis by (simp add: run_main_def run bindE_def open_listener_def io_simps)
qed

theorem listener_policy_witness:
  "\<exists>st w' p. run_main demo_env demo_platform demo_rustls demo_vars None demo_world = (Inr (Serving st, Some (PlainHttp p)), w')
     \<and> p = cfg_port (st_config st)"
proof -
  obtain st w' p where run: "run_main demo_env demo_platform demo_rustls demo_vars None demo_world
      = (Inr (Serving st, Some (PlainHttp p)), w')" using demo_listener by blast
  from listener_policy [OF run] run show ?thesis by auto
qed

end
