(* ===== verification/Irl_Lifecycle.thy ===== *)
theory Irl_Lifecycle
  imports Irl_Bind
begin

text \<open>
  The trace table against an abstract ledger. The ledger knows of each trace its
  reasoning hash and whether it is open, bound to a transaction, or lapsed; it has
  three operations. Every run of authorizations, bindings and expiry sweeps is a
  run of the ledger.
\<close>

section \<open>The abstract ledger\<close>

datatype phase = Open | Bound bool string | Lapsed

type_synonym ledger = "uuid \<Rightarrow> (string \<times> phase) option"

inductive ledger_step :: "ledger \<Rightarrow> ledger \<Rightarrow> bool" where
  ls_open: "s t = None \<Longrightarrow> ledger_step s (s(t \<mapsto> (h, Open)))"
| ls_bind: "s t = Some (h, Open) \<Longrightarrow> ledger_step s (s(t \<mapsto> (h, Bound matched tx)))"
| ls_lapse: "s t = Some (h, Open) \<Longrightarrow> ledger_step s (s(t \<mapsto> (h, Lapsed)))"

text \<open>What the ledger promises: an entry is never lost, keeps its hash, and is final once closed.\<close>

lemma ledger_step_final:
  assumes "ledger_step s s'" and "s t = Some (h, p)"
  shows "\<exists>p'. s' t = Some (h, p') \<and> (p \<noteq> Open \<longrightarrow> p' = p)"
  using assms by (cases rule: ledger_step.cases) auto

lemma ledger_run_final:
  assumes "ledger_step\<^sup>*\<^sup>* s s'" and "s t = Some (h, p)"
  shows "\<exists>p'. s' t = Some (h, p') \<and> (p \<noteq> Open \<longrightarrow> p' = p)"
  using assms
proof (induction rule: rtranclp_induct)
  case (step u v)
  then obtain p1 where p1: "u t = Some (h, p1)" "p \<noteq> Open \<longrightarrow> p1 = p" by auto
  obtain p2 where "v t = Some (h, p2)" "p1 \<noteq> Open \<longrightarrow> p2 = p1"
    using ledger_step_final [OF step.hyps(2) p1(1)] by auto
  then show ?case using p1(2) by auto
qed auto

section \<open>The table as a ledger\<close>

definition phase_of :: "trace_row \<Rightarrow> phase" where
  "phase_of r =
     (if tr_verification_status r = ''PENDING'' then Open
      else if tr_verification_status r = ''EXPIRED'' then Lapsed
      else Bound (tr_verification_status r = ''MATCHED'') (case tr_exchange_tx_id r of None \<Rightarrow> [] | Some tx \<Rightarrow> tx))"

definition entry :: "trace_row \<Rightarrow> uuid \<times> string \<times> phase" where
  "entry r = (tr_trace_id r, tr_reasoning_hash r, phase_of r)"

definition ledger_of :: "trace_row list \<Rightarrow> ledger" where
  "ledger_of rows = map_of (map entry rows)"

lemma ledger_of_find:
  "ledger_of rows t = map_option (\<lambda>r. (tr_reasoning_hash r, phase_of r)) (find (\<lambda>r. tr_trace_id r = t) rows)"
  by (induction rows) (auto simp: ledger_of_def entry_def)

lemma ledger_of_none: "ledger_of rows t = None \<longleftrightarrow> t \<notin> tr_trace_id ` set rows"
  by (auto simp: ledger_of_def map_of_eq_None_iff entry_def image_iff)

lemma ledger_of_update:
  assumes "tr_trace_id y = tr_trace_id x" and "tr_trace_id x \<notin> tr_trace_id ` set pre"
  shows "ledger_of (pre @ y # rest) = (ledger_of (pre @ x # rest))(tr_trace_id x \<mapsto> (tr_reasoning_hash y, phase_of y))"
proof -
  have "map_of (map entry pre) (tr_trace_id x) = None"
    using assms(2) ledger_of_none [of pre "tr_trace_id x"] by (simp add: ledger_of_def)
  then show ?thesis
    using assms(1) by (auto simp: ledger_of_def entry_def map_add_def fun_eq_iff split: option.split)
qed

text \<open>An open entry can be closed in one step, whatever the row says.\<close>

lemma ledger_close:
  assumes "s t = Some (h, Open)" shows "ledger_step\<^sup>*\<^sup>* s (s(t \<mapsto> (h, p)))"
proof (cases p)
  case Open
  then show ?thesis using assms by (simp add: fun_upd_idem)
next
  case (Bound b tx)
  then show ?thesis using ls_bind [of s t h b tx, OF assms] by auto
next
  case Lapsed
  then show ?thesis using ls_lapse [of s t h, OF assms] by auto
qed

lemma row_step_entry:
  assumes "row_step x y"
  shows "y = x \<or> tr_trace_id y = tr_trace_id x \<and> tr_reasoning_hash y = tr_reasoning_hash x \<and> phase_of x = Open"
  using assms
  by (auto simp: row_step_def phase_of_def sealed_def dest: arg_cong [where f = tr_trace_id]
      arg_cong [where f = tr_reasoning_hash])

lemma refine_rows:
  assumes "list_all2 row_step xs ys" and "distinct (map tr_trace_id (pre @ xs @ post))"
  shows "ledger_step\<^sup>*\<^sup>* (ledger_of (pre @ xs @ post)) (ledger_of (pre @ ys @ post))"
  using assms
proof (induction arbitrary: pre rule: list_all2_induct)
  case (Cons x xs y ys)
  have id: "tr_trace_id y = tr_trace_id x" using row_step_entry [OF Cons.hyps(1)] by auto
  have fresh: "tr_trace_id x \<notin> tr_trace_id ` set pre" using Cons.prems by auto
  let ?s = "ledger_of (pre @ x # xs @ post)"
  have "ledger_step\<^sup>*\<^sup>* ?s (ledger_of (pre @ y # xs @ post))"
  proof (cases "y = x")
    case False
    then have hash: "tr_reasoning_hash y = tr_reasoning_hash x" and p: "phase_of x = Open"
      using row_step_entry [OF Cons.hyps(1)] by auto
    have "?s (tr_trace_id x) = Some (tr_reasoning_hash x, Open)"
      using ledger_of_update [OF refl fresh, of "xs @ post"] p by (metis fun_upd_same)
    then show ?thesis
      using ledger_close [of ?s "tr_trace_id x" "tr_reasoning_hash x" "phase_of y"]
      by (simp add: ledger_of_update [OF id fresh, of "xs @ post"] hash)
  qed simp
  also have "ledger_step\<^sup>*\<^sup>* (ledger_of (pre @ y # xs @ post)) (ledger_of (pre @ y # ys @ post))"
    using Cons.IH [of "pre @ [y]"] Cons.prems id by simp
  finally show ?case by simp
qed simp

lemma refine_append:
  assumes "distinct (map tr_trace_id (rows @ new))"
  shows "ledger_step\<^sup>*\<^sup>* (ledger_of rows) (ledger_of (rows @ new))"
  using assms
proof (induction new rule: rev_induct)
  case (snoc r new)
  let ?s = "ledger_of (rows @ new)" and ?t = "tr_trace_id r"
  have none: "?s ?t = None" using snoc.prems by (auto simp: ledger_of_none)
  have "ledger_of (rows @ new @ [r]) = ?s(?t \<mapsto> (tr_reasoning_hash r, phase_of r))"
    using none by (auto simp: ledger_of_def entry_def map_add_def fun_eq_iff split: option.splits)
  moreover have "ledger_step\<^sup>*\<^sup>* (?s(?t \<mapsto> (tr_reasoning_hash r, Open))) (?s(?t \<mapsto> (tr_reasoning_hash r, phase_of r)))"
    using ledger_close [of "?s(?t \<mapsto> (tr_reasoning_hash r, Open))" ?t "tr_reasoning_hash r" "phase_of r"] by simp
  ultimately show ?case
    using snoc ls_open [of ?s ?t "tr_reasoning_hash r", OF none] by (metis (no_types, lifting) append_assoc
        butlast_append butlast_snoc distinct_append map_append rtranclp.rtrancl_into_rtrancl rtranclp_trans)
qed simp

section \<open>Properties\<close>

text \<open>C12: the trace table implements the ledger. Every run of authorizations, bindings and expiry sweeps from
  well formed rows is a run of the abstract ledger, whose only operations open an entry, bind an
  open one and let an open one lapse; and an entry that is bound to a transaction in the ledger is
  a row whose final proof is that of the entry's hash and transaction.\<close>

theorem table_refines_ledger:
  assumes "(serial_step E st)\<^sup>*\<^sup>* w w'" and "rows_ok E w"
  shows "ledger_step\<^sup>*\<^sup>* (ledger_of (d_traces (w_db w))) (ledger_of (d_traces (w_db w')))
    \<and> (\<forall>t h matched tx. ledger_of (d_traces (w_db w')) t = Some (h, Bound matched tx) \<longrightarrow>
         (\<exists>r. find_trace t (w_db w') = Some r \<and> tr_final_proof r = Some (compute_final_proof (env_crates E) h tx)))"
proof -
  have ok: "rows_ok E w'" and ev: "rows_evolve row_step (d_traces (w_db w)) (d_traces (w_db w'))"
    using serial_run_ok [OF assms] by simp_all
  obtain old new where rows: "d_traces (w_db w') = old @ new" and all: "list_all2 row_step (d_traces (w_db w)) old"
    using ev by (auto simp: rows_evolve_def)
  have "ledger_step\<^sup>*\<^sup>* (ledger_of (d_traces (w_db w))) (ledger_of old)"
    using refine_rows [OF all, of "[]" "[]"] assms(2) by (simp add: rows_ok_def trace_ids_def)
  also have "ledger_step\<^sup>*\<^sup>* (ledger_of old) (ledger_of (old @ new))"
    using ok by (intro refine_append) (simp add: rows_ok_def trace_ids_def rows)
  finally have run: "ledger_step\<^sup>*\<^sup>* (ledger_of (d_traces (w_db w))) (ledger_of (d_traces (w_db w')))"
    by (simp add: rows)
  have "\<exists>r. find_trace t (w_db w') = Some r \<and> tr_final_proof r = Some (compute_final_proof (env_crates E) h tx)"
    if bound: "ledger_of (d_traces (w_db w')) t = Some (h, Bound matched tx)" for t h matched tx
  proof -
    obtain r where r: "find_trace t (w_db w') = Some r" "tr_reasoning_hash r = h" "phase_of r = Bound matched tx"
      using bound by (auto simp: ledger_of_find find_trace_def)
    have "row_ok (env_crates E) r" using ok r(1) by (auto simp: rows_ok_def list_all_iff find_trace_def find_Some_iff)
    then show ?thesis using r by (auto simp: row_ok_def phase_of_def split: if_splits)
  qed
  then show ?thesis using run by blast
qed

theorem table_refines_ledger_witness:
  "\<exists>w'. serial_step demo_env demo_state demo_bind_world w'
     \<and> ledger_step\<^sup>*\<^sup>* (ledger_of [demo_row]) (ledger_of (d_traces (w_db w')))"
proof -
  obtain v w' where "bind_execution demo_env demo_state (demo_fill ''tx-1'') demo_bind_world = (Inr v, w')"
    using demo_bind_ok by blast
  then have step: "serial_step demo_env demo_state demo_bind_world w'" by (rule ss_bind)
  then have run: "(serial_step demo_env demo_state)\<^sup>*\<^sup>* demo_bind_world w'" by (rule r_into_rtranclp)
  have row: "d_traces (w_db demo_bind_world) = [demo_row]" by (simp add: demo_bind_world_def)
  with table_refines_ledger [OF run demo_rows_ok] step show ?thesis by auto
qed

end
