(* ===== verification/Irl_Position.thy ===== *)
theory Irl_Position
  imports Irl_Bind
begin

text \<open>
  The position ledger that \<open>src/routes/bind.rs\<close> keeps through \<open>db::upsert_position\<close>: which
  fills move which position, by how much, and what is left behind when the write of
  the position fails after the binding has been stored.
\<close>

section \<open>Looking up a position\<close>

definition position_of :: "uuid \<Rightarrow> string \<Rightarrow> string \<Rightarrow> string \<Rightarrow> database \<Rightarrow> position_row option" where
  "position_of a asset venue cur d = find (position_key a asset venue cur) (d_positions d)"

definition net_quantity :: "uuid \<Rightarrow> string \<Rightarrow> string \<Rightarrow> string \<Rightarrow> database \<Rightarrow> rat" where
  "net_quantity a asset venue cur d =
     (case position_of a asset venue cur d of None \<Rightarrow> 0 | Some p \<Rightarrow> po_net_quantity p)"

lemma position_key_other:
  "position_key a s v c p \<Longrightarrow> position_key a' s' v' c' p \<longleftrightarrow> (a', s', v', c') = (a, s, v, c)"
  by (auto simp: position_key_def)

lemma find_map_other:
  assumes "\<And>x. x \<in> set xs \<Longrightarrow> P (f x) \<longleftrightarrow> P x" and "\<And>x. x \<in> set xs \<Longrightarrow> P x \<Longrightarrow> f x = x"
  shows "find P (map f xs) = find P xs"
  using assms by (induction xs) auto

lemma find_append_new: "find P (xs @ [y]) = (case find P xs of None \<Rightarrow> if P y then Some y else None | Some x \<Rightarrow> Some x)"
  by (induction xs) auto

section \<open>One upsert\<close>

lemma upsert_position_cases:
  assumes "upsert_position E a asset venue cur delta price mlt t w = (out, w')"
  obtains (failed) e where "out = Inl (App (Database e))" "w_db w' = w_db w"
  | (new) now n p where "out = Inr ()" "position_of a asset venue cur (w_db w) = None"
      "new_position (env_crates E) now a asset venue cur delta n price mlt t = Some p"
      "w_db w' = (w_db w)\<lparr>d_positions := d_positions (w_db w) @ [p]\<rparr>"
  | (moved) now n p p' where "out = Inr ()" "position_of a asset venue cur (w_db w) = Some p"
      "update_position (env_crates E) now delta n price mlt t p = Some p'"
      "w_db w' = (w_db w)\<lparr>d_positions := map (\<lambda>q. if position_key a asset venue cur q then p' else q) (d_positions (w_db w))\<rparr>"
  using assms
  by (auto simp: upsert_position_def position_of_def sql_def Let_def split: option.splits)

text \<open>What the ledger holds after the fill: the position of the key moves by the delta, no other one moves.\<close>

definition position_moved ::
  "crates \<Rightarrow> uuid \<Rightarrow> string \<Rightarrow> string \<Rightarrow> string \<Rightarrow> f64 \<Rightarrow> uuid \<Rightarrow> database \<Rightarrow> database \<Rightarrow> bool"
where
  "position_moved c a asset venue cur delta t d d' \<longleftrightarrow>
     (\<exists>p'. position_of a asset venue cur d' = Some p' \<and> po_last_trace_id p' = Some t
        \<and> pg_numeric c 20 8 (case position_of a asset venue cur d of
             None \<Rightarrow> delta | Some p \<Rightarrow> f64_add (pg_float8 c (po_net_quantity p)) delta) = Some (po_net_quantity p'))
     \<and> (\<forall>a2 asset2 venue2 cur2. (a2, asset2, venue2, cur2) \<noteq> (a, asset, venue, cur) \<longrightarrow>
          position_of a2 asset2 venue2 cur2 d' = position_of a2 asset2 venue2 cur2 d)"

lemma find_replace:
  "find P xs = Some p \<Longrightarrow> P p' \<Longrightarrow> find P (map (\<lambda>q. if P q then p' else q) xs) = Some p'"
  by (induction xs) (auto split: if_splits)

lemma upsert_position_moves:
  assumes "upsert_position E a asset venue cur delta price mlt t w = (Inr (), w')"
  shows "position_moved (env_crates E) a asset venue cur delta t (w_db w) (w_db w')"
  using assms
proof (cases rule: upsert_position_cases)
  case (new now n p)
  then have p: "position_key a asset venue cur p" "po_last_trace_id p = Some t"
    "pg_numeric (env_crates E) 20 8 delta = Some (po_net_quantity p)"
    by (auto simp: new_position_def position_key_def split: option.splits if_splits)
  then show ?thesis
    using new(2,4) position_key_other [OF p(1)]
    by (auto simp: position_moved_def position_of_def find_append_new split: option.splits)
next
  case (moved now n p p')
  have key: "position_key a asset venue cur p" using moved(2) by (auto simp: position_of_def find_Some_iff)
  then have p': "position_key a asset venue cur p'" "po_last_trace_id p' = Some t"
    "pg_numeric (env_crates E) 20 8 (f64_add (pg_float8 (env_crates E) (po_net_quantity p)) delta) = Some (po_net_quantity p')"
    using moved(3) by (auto simp: update_position_def position_key_def split: option.splits)
  have "position_of a asset venue cur (w_db w') = Some p'"
    using moved(2,4) p'(1) by (simp add: position_of_def find_replace)
  moreover have "position_of a2 asset2 venue2 cur2 (w_db w') = position_of a2 asset2 venue2 cur2 (w_db w)"
    if "(a2, asset2, venue2, cur2) \<noteq> (a, asset, venue, cur)" for a2 asset2 venue2 cur2
  proof -
    have other: "\<not> position_key a2 asset2 venue2 cur2 x" if "position_key a asset venue cur x" for x
      using that \<open>(a2, asset2, venue2, cur2) \<noteq> (a, asset, venue, cur)\<close> position_key_other by blast
    have "find (position_key a2 asset2 venue2 cur2) (map (\<lambda>q. if position_key a asset venue cur q then p' else q) xs)
        = find (position_key a2 asset2 venue2 cur2) xs" for xs
      using other p'(1) by (intro find_map_other) auto
    then show ?thesis using moved(4) by (simp add: position_of_def)
  qed
  ultimately show ?thesis using p' moved(2) by (simp add: position_moved_def)
qed simp

section \<open>Bindings and positions\<close>

definition fill_delta :: "bind_execution_request \<Rightarrow> string \<Rightarrow> f64" where
  "fill_delta req action = quantity_delta action (case be_executed_quantity req of None \<Rightarrow> Finite 0 | Some q \<Rightarrow> q)"

text \<open>
  What a fill of an action means for the position, written out: a buying action adds
  the executed quantity, a selling one subtracts it, any other leaves the position.
\<close>

definition buying :: "string \<Rightarrow> bool" where
  "buying act \<longleftrightarrow> prefix ''long'' act \<or> prefix ''buy'' act \<or> sublist ''open_long'' act \<or> act = ''open''"

definition selling :: "string \<Rightarrow> bool" where
  "selling act \<longleftrightarrow> prefix ''short'' act \<or> prefix ''sell'' act \<or> sublist ''close_short'' act
     \<or> act \<in> {''close'', ''exit'', ''reverse''}"

definition signed_quantity :: "string \<Rightarrow> f64 \<Rightarrow> f64 \<Rightarrow> bool" where
  "signed_quantity action q delta \<longleftrightarrow>
     (let act = str_trim (to_ascii_lowercase action) in
      (buying act \<longrightarrow> delta = q)
      \<and> (\<not> buying act \<and> selling act \<longrightarrow>
           (case q of Finite x \<Rightarrow> delta = (if x = 0 then NegZero else Finite (- x)) | NegZero \<Rightarrow> delta = Finite 0
            | Infinite neg \<Rightarrow> delta = Infinite (\<not> neg) | NaN \<Rightarrow> delta = NaN))
      \<and> (\<not> buying act \<and> \<not> selling act \<longrightarrow> delta = Finite 0))"

lemma starts_with_prefix: "starts_with s pat \<longleftrightarrow> prefix pat s"
  by (auto simp: starts_with_def prefix_def) (metis append_take_drop_id)

lemma str_contains_sublist: "str_contains s pat \<longleftrightarrow> sublist pat s"
  by (induction s) (auto simp: starts_with_prefix sublist_Cons_right)

lemma quantity_delta_signed: "signed_quantity action q (quantity_delta action q)"
  by (cases q)
    (auto simp: signed_quantity_def quantity_delta_def buying_def selling_def Let_def starts_with_prefix
      str_contains_sublist)

lemma signed_quantity_unique: "signed_quantity action q d \<Longrightarrow> signed_quantity action q d' \<Longrightarrow> d = d'"
  by (auto simp: signed_quantity_def Let_def split: f64.splits if_splits)

text \<open>
  The keywords are not those of \<open>TradeAction::direction\<close>: a custom action that only
  contains ``long'' is a long order for the policy and moves no position.
\<close>

lemma custom_long_not_booked:
  "direction (Custom ''go_long'') = ''long'' \<and> quantity_delta ''go_long'' (Finite 5) = Finite 0"
  by code_simp

lemma bind_position_ok:
  assumes "bind_position E req i result w = (out, w')"
  shows "case (bi_agent_id i, out) of
      (Some a, Inr _) \<Rightarrow>
        if br_verification_status result = Matched \<and> \<not> f64_is_zero (fill_delta req (bi_action i))
        then position_moved (env_crates E) a (bi_asset i) (bi_venue_id i) (bi_currency i)
               (fill_delta req (bi_action i)) (be_trace_id req) (w_db w) (w_db w')
        else d_positions (w_db w') = d_positions (w_db w)
    | _ \<Rightarrow> d_positions (w_db w') = d_positions (w_db w)"
  using assms unfolding bind_position_def fill_delta_def [symmetric] Let_def
  by (auto simp: io_simps split: option.splits if_splits sum.splits
      elim: upsert_position_cases dest: upsert_position_moves)

lemma position_moved_cong:
  "d_positions d1 = d_positions d2 \<Longrightarrow> position_moved c a s v u delta t d1 d' = position_moved c a s v u delta t d2 d'"
  by (simp add: position_moved_def position_of_def)

lemma update_binding_positions: "update_binding E result req w = (out, w') \<Longrightarrow> d_positions (w_db w') = d_positions (w_db w)"
  by (auto simp: update_binding_def update_binding_stmt_def sql_def Let_def split: option.splits if_splits)

lemma bind_commit_parts:
  assumes "bind_commit E st req i w = (out, w')"
  obtains (early) e where "out = Inl e" "d_positions (w_db w') = d_positions (w_db w)"
  | (late) result w2 r w3 where "bind_result_of E st req i result" "d_positions (w_db w2) = d_positions (w_db w)"
      "bind_position E req i result w2 = (r, w3)" "\<And>v. out = Inr v \<Longrightarrow> r = Inr ()" "\<And>e. out = Inl e \<Longrightarrow> r = Inl e"
      "w_db w' = w_db w3"
proof -
  obtain result w1 where rec: "reconcile E (st_aliases st) (be_trace_id req) (bi_reasoning_hash i) req
      (bi_asset i) (bi_action i) (bi_quantity i) (cfg_bind_size_tolerance (st_config st)) w = (Inr result, w1)"
    and res: "bind_result_of E st req i result" and w1: "w_db w1 = w_db w"
    by (rule reconcile_result [of E "st_aliases st" "be_trace_id req" "bi_reasoning_hash i" req
          "bi_asset i" "bi_action i" "bi_quantity i" "cfg_bind_size_tolerance (st_config st)" w])
      (auto simp: bind_result_of_def)
  obtain u w2 where upd: "update_binding E result req w1 = (u, w2)" by force
  have w2: "d_positions (w_db w2) = d_positions (w_db w)" using update_binding_positions [OF upd] w1 by simp
  obtain r w3 where pos: "bind_position E req i result w2 = (r, w3)" by force
  show thesis
  proof (cases u)
    case (Inl e)
    then show thesis using early assms rec upd w2 by (auto simp: bind_commit_def bindE_def)
  next
    case (Inr x)
    then show thesis using late [OF res w2 pos] assms rec upd pos
      by (auto simp: bind_commit_def bindE_def io_simps split: sum.splits)
  qed
qed

lemma bind_failure_positions:
  assumes "bind_execution E st req w = (Inl e, w')"
  shows "d_positions (w_db w') = d_positions (w_db w)"
  using assms
proof (cases rule: bind_execution_cases)
  case (committed i w1)
  from committed(3) show ?thesis
  proof (cases rule: bind_commit_parts)
    case (late result w2 r w3)
    then show ?thesis using committed(2) bind_position_ok [OF late(3)] by (auto split: option.splits)
  qed (simp add: committed(2))
qed simp

text \<open>
  The binding is stored before the position is written. When that second statement
  fails, the client gets an error, the trace is MATCHED, the position has not moved,
  and a retry of the report is refused: the fill is never booked.
\<close>

definition demo_flaky_env :: env where
  "demo_flaky_env = demo_env\<lparr>env_db_fault := (\<lambda>n. if n = 2 then Some ''connection reset'' else None)\<rparr>"

definition demo_full_fill :: bind_execution_request where
  "demo_full_fill = (demo_fill ''tx-1'')\<lparr>be_executed_quantity := Some (Finite 1)\<rparr>"

lemma demo_flaky:
  "env_crates demo_flaky_env = demo_crates" "env_db_fault demo_flaky_env 0 = None"
  "env_db_fault demo_flaky_env (Suc 0) = None" "env_db_fault demo_flaky_env (Suc (Suc 0)) = Some ''connection reset''"
  "env_db_fault demo_flaky_env (Suc (Suc (Suc 0))) = None"
  by (simp_all add: demo_flaky_env_def demo_env_def)

lemma demo_full_agrees:
  "quantity_divergence demo_crates demo_full_fill (bi_quantity demo_intent) (cfg_bind_size_tolerance (st_config demo_state)) = None"
  by (simp add: quantity_divergence_def demo_full_fill_def demo_intent_def) code_simp

lemma demo_full_fields:
  "be_trace_id demo_full_fill = 7" "be_exchange_tx_id demo_full_fill = ''tx-1''" "be_execution_status demo_full_fill = Filled"
  "be_asset demo_full_fill = None" "be_executed_side demo_full_fill = None" "be_execution_price demo_full_fill = None"
  "be_executed_quantity demo_full_fill = Some (Finite 1)" "be_execution_time_ms demo_full_fill = Some 1000000"
  "bi_reasoning_hash demo_intent = ''rh''" "bi_action demo_intent = ''Long(1)''" "bi_agent_id demo_intent = Some 1"
  by (simp_all add: demo_full_fill_def demo_fill_def demo_intent_def)

lemma demo_delta: "quantity_delta ''Long(1)'' (Finite 1) = Finite 1"
  by code_simp

definition demo_bound_row :: trace_row where
  "demo_bound_row = demo_row\<lparr>tr_exchange_tx_id := Some ''tx-1'', tr_verification_status := ''MATCHED'',
     tr_execution_status := Some (show_execution_status Filled), tr_execution_price := None,
     tr_execution_time := Some 1000000000, tr_final_proof := Some (compute_final_proof demo_crates ''rh'' ''tx-1'')\<rparr>"

lemma demo_flaky_bind:
  "bind_execution demo_flaky_env demo_state demo_full_fill demo_bind_world =
     (Inl (App (Database ''connection reset'')),
      demo_bind_world\<lparr>w_tick := 3, w_db := (w_db demo_bind_world)\<lparr>d_traces := [demo_bound_row]\<rparr>\<rparr>)"
proof -
  have tick: "w_tick demo_bind_world = 0" and rows: "d_traces (w_db demo_bind_world) = [demo_row]"
    by (simp_all add: demo_bind_world_def demo_world_def)
  have find: "find_trace 7 (w_db demo_bind_world) = Some demo_row" by (simp add: find_trace_def rows demo_row_def)
  have "bind_check demo_flaky_env demo_full_fill demo_bind_world = (Inr demo_intent, demo_bind_world\<lparr>w_tick := 1\<rparr>)"
    by (simp add: bind_check_def get_intent_for_binding_def bindE_def sql_def Let_def demo_flaky tick find
        demo_full_fill_def demo_fill_def demo_intent_of_row io_simps) (simp add: demo_intent_def)
  moreover have "bind_commit demo_flaky_env demo_state demo_full_fill demo_intent (demo_bind_world\<lparr>w_tick := 1\<rparr>) =
     (Inl (App (Database ''connection reset'')),
      demo_bind_world\<lparr>w_tick := 3, w_db := (w_db demo_bind_world)\<lparr>d_traces := [demo_bound_row]\<rparr>\<rparr>)"
    using rows tick
    by (simp add: bind_commit_def reconcile_def demo_full_agrees demo_full_fields Let_def bindE_def demo_flaky
      io_simps timestamp_millis_def asset_divergence_def side_divergence_def demo_simps
      update_binding_def sql_def update_binding_stmt_def opt_numeric_def
      valid_statuses_def bind_position_def demo_delta upsert_position_def demo_bound_row_def bind_row_def
      demo_row_def)
  ultimately show ?thesis by (simp add: bind_execution_def bindE_def)
qed

lemma bind_closed_refused:
  assumes "env_db_fault E (w_tick w) = None" and "find_trace (be_trace_id req) (w_db w) = Some r"
    and "intent_of_row (env_crates E) r = Inr i" and "tr_verification_status r \<noteq> ''PENDING''"
  shows "bind_execution E st req w = (Inl (App (TraceAlreadyBound (uuid_to_string (env_crates E) (be_trace_id req))
     (tr_verification_status r))), w\<lparr>w_tick := Suc (w_tick w)\<rparr>)"
  using assms
  by (auto simp: bind_execution_def bind_check_def get_intent_for_binding_def bindE_def sql_def Let_def
      io_simps intent_of_row_def split: option.splits)

lemma fill_lost_after_fault:
  "\<exists>w1 w2. bind_execution demo_flaky_env demo_state demo_full_fill demo_bind_world = (Inl (App (Database ''connection reset'')), w1)
     \<and> map tr_verification_status (d_traces (w_db w1)) = [''MATCHED''] \<and> d_positions (w_db w1) = []
     \<and> bind_execution demo_flaky_env demo_state demo_full_fill w1 = (Inl (App (TraceAlreadyBound ''7'' ''MATCHED'')), w2)"
proof -
  let ?w1 = "demo_bind_world\<lparr>w_tick := 3, w_db := (w_db demo_bind_world)\<lparr>d_traces := [demo_bound_row]\<rparr>\<rparr>"
  have row: "tr_trace_id demo_bound_row = 7" "tr_verification_status demo_bound_row = ''MATCHED''"
    "be_trace_id demo_full_fill = 7"
    by (simp_all add: demo_bound_row_def demo_row_def demo_full_fill_def demo_fill_def)
  obtain i where "intent_of_row demo_crates demo_bound_row = Inr i"
    by (simp add: intent_of_row_def demo_bound_row_def demo_row_def)
  moreover have "show_int (uint (7 :: uuid)) = ''7''" by code_simp
  ultimately have "bind_execution demo_flaky_env demo_state demo_full_fill ?w1 =
      (Inl (App (TraceAlreadyBound ''7'' ''MATCHED'')), ?w1\<lparr>w_tick := 4\<rparr>)"
    using bind_closed_refused [of demo_flaky_env ?w1 demo_full_fill demo_bound_row]
    by (simp add: demo_flaky row find_trace_def demo_simps numeral_3_eq_3)
  moreover have "d_positions (w_db demo_bind_world) = []"
    by (simp add: demo_bind_world_def demo_db_def)
  ultimately show ?thesis using demo_flaky_bind row by auto
qed

section \<open>Properties\<close>

text \<open>C16: the position ledger follows the fills. When a report is bound, the position of the trace's agent,
  asset, venue and currency moves by exactly the signed executed quantity (in the precision of the
  column) if the report matches the intent, the trace belongs to an agent and the quantity is not
  zero; no other position moves, and in every other case no position moves at all. The signed
  quantity is the executed one for an action that, in lower case and trimmed, starts with long or
  buy, contains open_long or is open; its negation for one that starts with short or sell, contains
  close_short or is close, exit or reverse; zero for any other. A report without a quantity counts
  as zero.\<close>

theorem position_ledger_exact:
  assumes "bind_execution E st req w = (Inr v, w')"
  shows "\<exists>r qty delta. find_trace (be_trace_id req) (w_db w) = Some r \<and> tr_execution_quantity r = Some qty
    \<and> signed_quantity (tr_execution_action r)
        (case be_executed_quantity req of None \<Rightarrow> Finite 0 | Some q \<Rightarrow> q) delta
    \<and> (let matched = report_agrees (st_aliases st) req (tr_execution_asset r) (tr_execution_action r)
             (pg_float8 (env_crates E) qty) (cfg_bind_size_tolerance (st_config st));
           venue = (case tr_execution_venue_id r of None \<Rightarrow> ''UNKNOWN'' | Some x \<Rightarrow> x)
       in case tr_agent_id r of
            Some a \<Rightarrow>
              if matched \<and> \<not> f64_is_zero delta
              then position_moved (env_crates E) a (tr_execution_asset r) venue (tr_execution_notional_currency r)
                     delta (be_trace_id req) (w_db w) (w_db w')
              else d_positions (w_db w') = d_positions (w_db w)
          | None \<Rightarrow> d_positions (w_db w') = d_positions (w_db w))"
  using assms
proof (cases rule: bind_execution_cases)
  case (committed i w1)
  obtain r where r: "find_trace (be_trace_id req) (w_db w) = Some r" and i: "intent_of_row (env_crates E) r = Inr i"
    using bind_check_ok [OF committed(1)] by blast
  from committed(3) show ?thesis
  proof (cases rule: bind_commit_parts)
    case (late result w2 p w3)
    have same: "d_positions (w_db w2) = d_positions (w_db w)" using late(2) committed(2) by simp
    have "br_verification_status result = Matched \<longleftrightarrow>
        report_agrees (st_aliases st) req (bi_asset i) (bi_action i) (bi_quantity i) (cfg_bind_size_tolerance (st_config st))"
      using late(1) by (simp add: bind_result_of_def)
    then show ?thesis
      using r i bind_position_ok [OF late(3)] late(4,6) position_moved_cong [OF same] same
        quantity_delta_signed [of "tr_execution_action r"]
      by (intro exI [of _ r] exI [of _ "the (tr_execution_quantity r)"]
            exI [of _ "fill_delta req (tr_execution_action r)"])
        (auto simp: intent_of_row_def Let_def fill_delta_def split: option.splits if_splits)
  qed simp
qed simp

text \<open>A filled sell: the trace of the example with a short action.\<close>

definition demo_short_row :: trace_row where
  "demo_short_row = demo_row\<lparr>tr_execution_action := ''Short(1)''\<rparr>"

definition demo_short_world :: world where
  "demo_short_world = demo_bind_world\<lparr>w_db := (w_db demo_bind_world)\<lparr>d_traces := [demo_short_row]\<rparr>\<rparr>"

lemma demo_short_delta: "quantity_delta ''Short(1)'' (Finite 1) = Finite (- 1)"
  by code_simp

lemma demo_short_facts:
  "w_tick demo_short_world = 0" "d_traces (w_db demo_short_world) = [demo_short_row]"
  "d_positions (w_db demo_short_world) = []" "find_trace 7 (w_db demo_short_world) = Some demo_short_row"
  by (simp_all add: demo_short_world_def demo_bind_world_def demo_world_def demo_db_def find_trace_def
      demo_short_row_def demo_row_def)

lemma demo_short_intent: "intent_of_row demo_crates demo_short_row = Inr (demo_intent\<lparr>bi_action := ''Short(1)''\<rparr>)"
  by (simp add: intent_of_row_def demo_short_row_def demo_row_def demo_intent_def demo_simps)

lemma demo_short_bind:
  "\<exists>v w'. bind_execution demo_env demo_state demo_full_fill demo_short_world = (Inr v, w')"
proof -
  let ?i = "demo_intent\<lparr>bi_action := ''Short(1)''\<rparr>"
  have mlt: "f64_finite (bi_multiplier demo_intent)" by (simp add: demo_intent_def) code_simp
  have "bind_check demo_env demo_full_fill demo_short_world = (Inr ?i, demo_short_world\<lparr>w_tick := 1\<rparr>)"
    by (simp add: bind_check_def get_intent_for_binding_def bindE_def sql_def Let_def demo_simps demo_short_facts
        demo_full_fields demo_short_intent io_simps) (simp add: demo_intent_def)
  moreover have "\<exists>v w'. bind_commit demo_env demo_state demo_full_fill ?i (demo_short_world\<lparr>w_tick := 1\<rparr>) = (Inr v, w')"
    using demo_short_facts mlt
    by (simp add: bind_commit_def reconcile_def demo_full_agrees demo_full_fields Let_def bindE_def
      io_simps timestamp_millis_def asset_divergence_def side_divergence_def demo_simps
      update_binding_def sql_def update_binding_stmt_def opt_numeric_def new_position_def
      valid_statuses_def bind_position_def demo_short_delta upsert_position_def)
  ultimately show ?thesis by (simp add: bind_execution_def bindE_def)
qed

theorem position_ledger_exact_witness:
  "\<exists>v w'. bind_execution demo_env demo_state demo_full_fill demo_short_world = (Inr v, w')
     \<and> position_moved demo_crates 1 ''BTC-PERP'' ''XNAS'' ''USD'' (Finite (- 1)) 7 (w_db demo_short_world) (w_db w')"
proof -
  obtain v w' where run: "bind_execution demo_env demo_state demo_full_fill demo_short_world = (Inr v, w')"
    using demo_short_bind by blast
  have agrees: "report_agrees (st_aliases demo_state) demo_full_fill ''BTC-PERP'' ''Short(1)'' (pg_float8 demo_crates 1)
      (cfg_bind_size_tolerance (st_config demo_state))"
    by (simp add: report_agrees_def demo_full_fields) code_simp
  have delta: "delta = Finite (- 1)" if "signed_quantity ''Short(1)'' (Finite 1) delta" for delta
    using signed_quantity_unique [OF that quantity_delta_signed] by (simp add: demo_short_delta)
  from position_ledger_exact [OF run] run agrees show ?thesis
    by (auto simp: demo_full_fields demo_short_facts demo_short_row_def demo_row_def demo_simps Let_def dest!: delta)
qed

end
