(* ===== verification/Irl_Monitor.thy ===== *)
theory Irl_Monitor
  imports Irl_Bind
begin

text \<open>
  What the counters of \<open>src/metrics.rs\<close> say of the trace table. The counters are in
  memory and the traces in the database, so their agreement is a matter of the order
  in which the handlers store and count.
\<close>

definition tally :: "(trace_row \<Rightarrow> string) \<Rightarrow> string \<Rightarrow> world \<Rightarrow> nat" where
  "tally column v w = count_list (map column (d_traces (w_db w))) v"

abbreviation outcomes :: "string \<Rightarrow> world \<Rightarrow> nat" where
  "outcomes l w \<equiv> authorize_total (w_metrics w) l"

abbreviation bindings :: "string \<Rightarrow> world \<Rightarrow> nat" where
  "bindings l w \<equiv> bind_total (w_metrics w) l"

definition outcome_labels :: "string list" where
  "outcome_labels = [''authorized'', ''shadow_blocked'', ''policy_blocked'']"

section \<open>Counting of authorizations\<close>

text \<open>
  Between two states: the accepted orders counted are the ALLOWED and SHADOW_HALTED
  rows stored; a refusal is counted even when its HALTED row could not be stored; a
  latency sample belongs to each counted outcome; nothing else is counted.
\<close>

definition outcomes_counted :: "world \<Rightarrow> world \<Rightarrow> bool" where
  "outcomes_counted w w' \<longleftrightarrow>
     outcomes ''authorized'' w' + tally tr_policy_result ''ALLOWED'' w
       = outcomes ''authorized'' w + tally tr_policy_result ''ALLOWED'' w'
     \<and> outcomes ''shadow_blocked'' w' + tally tr_policy_result ''SHADOW_HALTED'' w
       = outcomes ''shadow_blocked'' w + tally tr_policy_result ''SHADOW_HALTED'' w'
     \<and> outcomes ''policy_blocked'' w + tally tr_policy_result ''HALTED'' w'
       \<le> outcomes ''policy_blocked'' w' + tally tr_policy_result ''HALTED'' w
     \<and> authorize_duration_ms (w_metrics w') + sum_list (map (\<lambda>l. outcomes l w) outcome_labels)
       = authorize_duration_ms (w_metrics w) + sum_list (map (\<lambda>l. outcomes l w') outcome_labels)
     \<and> (\<forall>l. l \<notin> set outcome_labels \<longrightarrow> outcomes l w' = outcomes l w)
     \<and> agent_count (w_metrics w') = agent_count (w_metrics w)"

lemma tally_tick [simp]: "tally col v (w\<lparr>w_tick := n\<rparr>) = tally col v w"
  by (simp add: tally_def)

interpretation oc: frame outcomes_counted
  by unfold_locales (auto simp: outcomes_counted_def)

lemma counted_same:
  "map tr_policy_result (d_traces (w_db w')) = map tr_policy_result (d_traces (w_db w)) \<Longrightarrow>
     authorize_total (w_metrics w') = authorize_total (w_metrics w) \<Longrightarrow>
     authorize_duration_ms (w_metrics w') = authorize_duration_ms (w_metrics w) \<Longrightarrow>
     agent_count (w_metrics w') = agent_count (w_metrics w) \<Longrightarrow> outcomes_counted w w'"
  by (simp add: outcomes_counted_def tally_def)

lemma same_rows_counted: "keeps same_rows m \<Longrightarrow> keeps outcomes_counted m"
  by (auto simp: keeps_def same_rows_def intro!: counted_same)

lemma keeps_insert_metrics:
  "keeps same_metrics (insert_trace E snap h dec trace aid kp pk)"
  "keeps same_metrics (insert_trace_atomic E snap h dec trace aid ck kp pk)"
  unfolding insert_trace_def insert_trace_atomic_def advisory_lock_def
  by (intro sm.keeps_intros sm.keeps_sql keeps_encrypt_stored [THEN only_tick_same_metrics]
      keeps_portfolio_check [THEN only_tick_same_metrics]; simp add: same_metrics_def)+

text \<open>A row stored and its outcome counted, on the two paths that store one.\<close>

lemma tally_append:
  "d_traces (w_db w') = d_traces (w_db w) @ rs \<Longrightarrow> tally col v w' = tally col v w + count_list (map col rs) v"
  by (simp add: tally_def)

lemma row_counted:
  assumes "d_traces (w_db w') = d_traces (w_db w) @ rs"
    and "authorize_total (w_metrics w') = counter_inc l (authorize_total (w_metrics w))"
    and "authorize_duration_ms (w_metrics w') = Suc (authorize_duration_ms (w_metrics w))"
    and "agent_count (w_metrics w') = agent_count (w_metrics w)"
    and "l = ''authorized'' \<and> map tr_policy_result rs = [''ALLOWED'']
      \<or> l = ''shadow_blocked'' \<and> map tr_policy_result rs = [''SHADOW_HALTED'']
      \<or> l = ''policy_blocked'' \<and> map tr_policy_result rs \<in> {[''HALTED''], []}"
  shows "outcomes_counted w w'"
  unfolding outcomes_counted_def tally_append [OF assms(1)]
  using assms(2-5) by (elim disjE conjE) (auto simp: outcome_labels_def)

lemma persist_metrics:
  assumes "persist_stage E st req mta snap profile drift d shadow w = (out, w')"
  shows "w_metrics w' = (case out of Inl _ \<Rightarrow> w_metrics w
    | Inr _ \<Rightarrow> count_authorize (if shadow then ''shadow_blocked'' else ''authorized'') (w_metrics w))"
proof (cases "seal (env_crates E) snap")
  case (Inl e)
  then show ?thesis using assms by (auto simp: persist_stage_def Let_def bindE_def io_simps)
next
  case (Inr h)
  let ?ins = "insert_trace_atomic E snap h d (build_trace (env_crates E) snap mta drift d h (st_config st)
    (ar_agent_id req) (ar_regulatory req)) (Some (ar_agent_id req)) (portfolio_cap req mta profile shadow)
    (st_key_provider st) (Some (ms_pubkey_fingerprint mta))"
  obtain r w1 where run: "?ins w = (r, w1)" by force
  then have "w_metrics w1 = w_metrics w" using keepsD [OF keeps_insert_metrics(2)] by (auto simp: same_metrics_def)
  then show ?thesis using assms Inr run
    by (cases r) (auto simp: persist_stage_def Let_def bindE_liftE_Inr bindE_def io_simps)
qed

lemma persist_counted:
  assumes run: "persist_stage E st req mta snap profile drift d shadow w = (out, w')"
    and "pd_result d = (if shadow then ShadowHalted else Allowed)"
  shows "outcomes_counted w w'"
proof (cases out)
  case (Inl e)
  then show ?thesis using persist_stage_error persist_metrics [OF run] run by (intro counted_same) auto
next
  case (Inr v)
  obtain h r where "d_traces (w_db w') = d_traces (w_db w) @ [r]" "tr_policy_result r = show_policy_result (pd_result d)"
    using persist_stage_ok run Inr by metis
  then show ?thesis using persist_metrics [OF run] Inr assms(2)
    by (intro row_counted [of w' w "[r]" "if shadow then ''shadow_blocked'' else ''authorized''"]) auto
qed

lemma insert_trace_rows:
  assumes "insert_trace E snap h dec trace aid kp pk w = (out, w')"
  shows "\<exists>rs. d_traces (w_db w') = d_traces (w_db w) @ rs
    \<and> map tr_policy_result rs = (case out of Inl _ \<Rightarrow> [] | Inr _ \<Rightarrow> [show_policy_result (pd_result dec)])"
proof (cases out)
  case (Inl e)
  then show ?thesis using insert_trace_error assms by auto
next
  case (Inr u)
  then obtain stored vt tt row where row: "new_trace_row (env_crates E) snap vt tt h dec stored aid pk = Some row"
    and "insert_trace_row (Some row) (w_db w) = Inr (w_db w')"
    using assms by (auto elim!: insert_trace_ok)
  then show ?thesis using new_trace_row_fields [OF row] Inr by (auto simp: insert_trace_row_ok)
qed

lemma policy_counted:
  assumes run: "policy_stage E st req mta snap profile drift w = (out, w')"
  shows "outcomes_counted w w'"
proof (cases "enforce (env_crates E) mta (request_action req) (ar_notional req) (ap_max_notional profile)
      (ar_reduce_only req)")
  case (Inr d)
  then show ?thesis using run oc.R_refl by (auto simp: policy_stage_def Let_def io_simps)
next
  case (Inl e)
  let ?ev = "evaluate (env_crates E) mta (request_action req) (ar_notional req) (ap_max_notional profile) (ar_reduce_only req)"
  let ?w1 = "w\<lparr>w_metrics := count_blocked (ms_regime_label mta) (error_code e) (w_metrics w)\<rparr>"
  show ?thesis
  proof (cases "w_shadow w \<or> (\<exists>err. seal (env_crates E) snap = Inl err)")
    case True
    then have "w' = ?w1" using run Inl by (auto simp: policy_stage_def Let_def bindE_def io_simps split: if_splits)
    then show ?thesis by (intro counted_same) auto
  next
    case False
    then obtain h where h: "seal (env_crates E) snap = Inr h" by (cases "seal (env_crates E) snap") auto
    let ?ins = "insert_trace E snap h ?ev (build_trace (env_crates E) snap mta drift ?ev h (st_config st)
      (ar_agent_id req) (ar_regulatory req)) (Some (ar_agent_id req)) (st_key_provider st)
      (Some (ms_pubkey_fingerprint mta))"
    obtain r w2 where ins: "?ins ?w1 = (r, w2)" by force
    have m2: "w_metrics w2 = w_metrics ?w1" using keepsD [OF keeps_insert_metrics(1) ins] by (simp add: same_metrics_def)
    have w': "w' = w2\<lparr>w_metrics := count_authorize ''policy_blocked'' (w_metrics w2)\<rparr> \<or> w' = w2 \<and> (\<exists>p. r = Inl p)"
      using run Inl False h ins
      by (auto simp: policy_stage_def Let_def bindE_def attempt_def io_simps split: sum.splits failure.splits)
    have "\<exists>rs. d_traces (w_db w2) = d_traces (w_db w) @ rs \<and> map tr_policy_result rs \<in> {[''HALTED''], []}
        \<and> (\<forall>p. r = Inl p \<longrightarrow> rs = [])"
      using insert_trace_rows [OF ins] enforce_Inl_evaluate [OF Inl] by (auto split: sum.splits)
    then obtain rs where rs: "d_traces (w_db w2) = d_traces (w_db w) @ rs" "map tr_policy_result rs \<in> {[''HALTED''], []}"
        "\<And>p. r = Inl p \<Longrightarrow> rs = []" by metis
    from w' show ?thesis
    proof
      assume "w' = w2\<lparr>w_metrics := count_authorize ''policy_blocked'' (w_metrics w2)\<rparr>"
      then show ?thesis using rs m2 by (intro row_counted [of w' w rs "''policy_blocked''"]) auto
    next
      assume "w' = w2 \<and> (\<exists>p. r = Inl p)"
      then show ?thesis using rs m2 by (intro counted_same) auto
    qed
  qed
qed

lemma policy_persist_counted:
  "keeps outcomes_counted (bindE (policy_stage E st req mta snap profile drift) (\<lambda>(d, shadow).
     persist_stage E st req mta snap profile drift d shadow))"
  unfolding keeps_def
proof
  fix w
  obtain out w1 where pol: "policy_stage E st req mta snap profile drift w = (out, w1)" by force
  show "outcomes_counted w (snd (bindE (policy_stage E st req mta snap profile drift) (\<lambda>(d, shadow).
     persist_stage E st req mta snap profile drift d shadow) w))"
  proof (cases out)
    case (Inl e)
    then show ?thesis using pol policy_counted [OF pol] by (simp add: bindE_def)
  next
    case (Inr x)
    then obtain d shadow where x: "out = Inr (d, shadow)" by (cases x) auto
    obtain out2 w2 where per: "persist_stage E st req mta snap profile drift d shadow w1 = (out2, w2)" by force
    have "pd_result d = (if shadow then ShadowHalted else Allowed)"
      using policy_stage_ok [of E st req mta snap profile drift w d shadow w1] pol x by (auto split: if_splits)
    then have "outcomes_counted w1 w2" by (rule persist_counted [OF per])
    then show ?thesis using pol x per policy_counted [OF pol] oc.R_trans by (simp add: bindE_def)
  qed
qed

lemma keeps_authorize_counted: "keeps outcomes_counted (authorize E st cert req)"
  unfolding authorize_def
  by (intro oc.keeps_intros stage_frames [THEN same_rows_counted] policy_persist_counted)

section \<open>Counting of bindings\<close>

text \<open>
  A divergent binding is counted when it is stored. A matched one moves the position
  between the two, so a fault there leaves a MATCHED row that is not counted.
\<close>

definition bindings_counted :: "world \<Rightarrow> world \<Rightarrow> bool" where
  "bindings_counted w w' \<longleftrightarrow>
     bindings ''divergent'' w' + tally tr_verification_status ''DIVERGENT'' w
       = bindings ''divergent'' w + tally tr_verification_status ''DIVERGENT'' w'
     \<and> bindings ''matched'' w' + tally tr_verification_status ''MATCHED'' w
       \<le> bindings ''matched'' w + tally tr_verification_status ''MATCHED'' w'
     \<and> (\<forall>l. l \<notin> {''matched'', ''divergent''} \<longrightarrow> bindings l w' = bindings l w)"

interpretation bc: frame bindings_counted
  by unfold_locales (auto simp: bindings_counted_def)

lemma tally_unbound:
  "traces_grow w w' \<Longrightarrow> v \<noteq> ''PENDING'' \<Longrightarrow> tally tr_verification_status v w' = tally tr_verification_status v w"
  by (auto simp: traces_grow_def tally_def list_all_iff unbound_def count_list_0_iff)

lemma count_map_same:
  "(\<And>x. x \<in> set xs \<Longrightarrow> (f x = v) = (g x = v)) \<Longrightarrow> count_list (map f xs) v = count_list (map g xs) v"
  by (induction xs) auto

lemma tally_expired:
  "d_traces (w_db w') = map (expire_row c now secs) (d_traces (w_db w)) \<Longrightarrow> v \<notin> {''PENDING'', ''EXPIRED''} \<Longrightarrow>
     tally tr_verification_status v w' = tally tr_verification_status v w"
  by (auto simp: tally_def comp_def expire_row_def intro!: count_map_same)

text \<open>Ids being unique, a binding changes the status of one row.\<close>

lemma tally_bound:
  assumes "distinct (trace_ids w)" and "r \<in> set (d_traces (w_db w))" and "tr_verification_status r \<noteq> v"
    and rows: "d_traces (w_db w') = map (\<lambda>x. if tr_trace_id x = tr_trace_id r then f x else x) (d_traces (w_db w))"
  shows "tally tr_verification_status v w'
    = tally tr_verification_status v w + (if tr_verification_status (f r) = v then 1 else 0)"
proof -
  obtain xs ys where split: "d_traces (w_db w) = xs @ r # ys" using assms(2) by (meson split_list)
  then have "tr_trace_id r \<notin> tr_trace_id ` (set xs \<union> set ys)" using assms(1) by (auto simp: trace_ids_def)
  then have other: "tr_trace_id x \<noteq> tr_trace_id r" if "x \<in> set xs \<union> set ys" for x using that by (metis imageI)
  have "map (\<lambda>x. if tr_trace_id x = tr_trace_id r then f x else x) zs = zs" if "set zs \<subseteq> set xs \<union> set ys" for zs
    using that other by (intro map_idI) auto
  then show ?thesis using assms(3) rows split by (simp add: tally_def)
qed

lemma keeps_check_metrics: "keeps same_metrics (bind_check E req)"
  unfolding bind_check_def get_intent_for_binding_def
  by (intro sm.keeps_intros sm.keeps_sql) (simp add: same_metrics_def)

lemma commit_counted:
  assumes "bind_commit E st req i w = (out, w')" and ids: "distinct (trace_ids w)"
    and r: "find_trace (be_trace_id req) (w_db w) = Some r" "tr_verification_status r = ''PENDING''"
  shows "outcomes_counted w w' \<and> bindings_counted w w'"
  using assms(1)
proof (cases rule: bind_commit_cases)
  case (failed e)
  then show ?thesis by (auto simp: bindings_counted_def tally_def intro!: counted_same)
next
  case (written result price)
  have id: "be_trace_id req = tr_trace_id r" and mem: "r \<in> set (d_traces (w_db w))" using find_trace_in [OF r(1)] by auto
  have t: "tally tr_verification_status v w' = tally tr_verification_status v w
      + (if show_verification_status (br_verification_status result) = v then 1 else 0)" if "v \<noteq> ''PENDING''" for v
    using tally_bound [OF ids mem _ written(3) [unfolded id], of v] r(2) that by (simp add: bind_row_def)
  have status: "br_verification_status result \<in> {Matched, Divergent}"
    using written(1) by (auto simp: bind_result_of_def)
  have "map tr_policy_result (d_traces (w_db w')) = map tr_policy_result (d_traces (w_db w))"
    by (simp add: written(3) bind_row_def)
  then have "outcomes_counted w w'" using written(5) by (intro counted_same) (auto split: sum.splits)
  moreover have "bindings_counted w w'"
    using status written(5,6) by (cases out) (auto simp: bindings_counted_def t bind_label_def)
  ultimately show ?thesis ..
qed

lemma bind_counted:
  assumes "bind_execution E st req w = (out, w')" and ids: "distinct (trace_ids w)"
  shows "outcomes_counted w w' \<and> bindings_counted w w'"
proof -
  obtain c w1 where chk: "bind_check E req w = (c, w1)" by force
  have m: "w_metrics w1 = w_metrics w" using keepsD [OF keeps_check_metrics chk] by (simp add: same_metrics_def)
  have db: "w_db w1 = w_db w" using bind_check_db chk by blast
  have one: "outcomes_counted w w1" "bindings_counted w w1"
    using m db by (auto simp: bindings_counted_def tally_def intro!: counted_same)
  show ?thesis
  proof (cases c)
    case (Inl e)
    then show ?thesis using assms(1) chk one by (simp add: bind_execution_def bindE_def)
  next
    case (Inr i)
    then have run: "bind_commit E st req i w1 = (out, w')" using assms(1) chk by (simp add: bind_execution_def bindE_def)
    obtain r where "find_trace (be_trace_id req) (w_db w) = Some r" "tr_verification_status r = ''PENDING''"
      using bind_check_ok chk Inr by metis
    then have "outcomes_counted w1 w' \<and> bindings_counted w1 w'"
      using commit_counted [OF run] ids db by (simp add: trace_ids_def)
    then show ?thesis using one oc.R_trans bc.R_trans by blast
  qed
qed

lemma expire_counted:
  assumes "expire_pending E secs w = (out, w')"
  shows "outcomes_counted w w' \<and> bindings_counted w w'"
proof -
  have "keeps same_metrics (expire_pending E secs)"
    unfolding expire_pending_def by (intro sm.keeps_sql) (simp add: same_metrics_def)
  from keepsD [OF this assms] have m: "w_metrics w' = w_metrics w" by (simp add: same_metrics_def)
  have p: "map tr_policy_result (d_traces (w_db w')) = map tr_policy_result (d_traces (w_db w))"
    using expire_pending_rows [OF assms] by (auto simp: expire_row_def)
  have "tally tr_verification_status v w' = tally tr_verification_status v w" if "v \<in> {''MATCHED'', ''DIVERGENT''}" for v
    using expire_pending_rows [OF assms]
  proof
    assume "d_traces (w_db w') = d_traces (w_db w)"
    then show ?thesis by (simp add: tally_def)
  next
    assume "d_traces (w_db w') = map (expire_row (env_crates E) (env_clock E (w_tick w)) secs) (d_traces (w_db w))"
    then show ?thesis by (rule tally_expired) (use that in auto)
  qed
  then have "bindings_counted w w'" using m by (simp add: bindings_counted_def)
  moreover have "outcomes_counted w w'" by (rule counted_same) (simp_all add: m p)
  ultimately show ?thesis by simp
qed

definition same_bindings :: "world \<Rightarrow> world \<Rightarrow> bool" where
  "same_bindings w w' \<longleftrightarrow> bind_total (w_metrics w') = bind_total (w_metrics w)"

interpretation sb: frame same_bindings
  by unfold_locales (auto simp: same_bindings_def)

lemma keeps_same_bindings:
  "keeps same_rows m \<Longrightarrow> keeps same_bindings m" "keeps same_metrics n \<Longrightarrow> keeps same_bindings n"
  "keeps same_bindings (count_metric (count_authorize l))" "keeps same_bindings (count_metric (count_blocked g k))"
  by (simp_all add: keeps_def same_rows_def same_metrics_def same_bindings_def io_simps)

lemma authorize_bindings:
  assumes "authorize E st cert req w = (out, w')"
  shows "bindings_counted w w'"
proof -
  have "keeps same_bindings (authorize E st cert req)"
    unfolding authorize_def policy_stage_def persist_stage_def Let_def
    by (intro sb.keeps_intros keeps_same_bindings(3,4) stage_frames [THEN keeps_same_bindings(1)]
        keeps_insert_metrics [THEN keeps_same_bindings(2)])
  from keepsD [OF this assms] show ?thesis
    using tally_unbound [OF keepsD [OF keeps_authorize assms]] by (simp add: same_bindings_def bindings_counted_def)
qed

section \<open>Properties\<close>

lemma serial_step_counted:
  "serial_step E st w w' \<Longrightarrow> rows_ok E w \<Longrightarrow> outcomes_counted w w' \<and> bindings_counted w w'"
  by (induction rule: serial_step.induct)
    (auto dest: keepsD [OF keeps_authorize_counted] authorize_bindings bind_counted expire_counted simp: rows_ok_def)

lemma serial_run_counted:
  "(serial_step E st)\<^sup>*\<^sup>* w w' \<Longrightarrow> rows_ok E w \<Longrightarrow> outcomes_counted w w' \<and> bindings_counted w w'"
proof (induction rule: rtranclp_induct)
  case (step u v)
  then show ?case
    using serial_step_counted [OF step.hyps(2)] serial_run_ok [OF step.hyps(1)] oc.R_trans bc.R_trans by blast
qed (simp add: oc.R_refl bc.R_refl)

text \<open>C21: the metrics agree with the trace table. From a new process over well formed rows, after any run of
  authorizations, bindings and expiry sweeps, the count of authorized orders is the number of
  ALLOWED rows added since the start, that of shadow-blocked orders the number of SHADOW_HALTED
  rows and that of divergent bindings the number of rows that became DIVERGENT; refusals are counted
  even when their HALTED row was lost, matched bindings only when their position was written as
  well; each outcome of an authorization has its latency sample; no other label is ever
  counted, and the gauge of agents is never set.\<close>

theorem metrics_agree:
  assumes "(serial_step E st)\<^sup>*\<^sup>* w w'" and "rows_ok E w" and "w_metrics w = metrics_init"
  shows "tally tr_policy_result ''ALLOWED'' w' = tally tr_policy_result ''ALLOWED'' w + outcomes ''authorized'' w'
    \<and> tally tr_policy_result ''SHADOW_HALTED'' w'
        = tally tr_policy_result ''SHADOW_HALTED'' w + outcomes ''shadow_blocked'' w'
    \<and> tally tr_policy_result ''HALTED'' w' \<le> tally tr_policy_result ''HALTED'' w + outcomes ''policy_blocked'' w'
    \<and> tally tr_verification_status ''DIVERGENT'' w'
        = tally tr_verification_status ''DIVERGENT'' w + bindings ''divergent'' w'
    \<and> tally tr_verification_status ''MATCHED'' w'
        \<ge> tally tr_verification_status ''MATCHED'' w + bindings ''matched'' w'
    \<and> authorize_duration_ms (w_metrics w') = sum_list (map (\<lambda>l. outcomes l w') outcome_labels)
    \<and> (\<forall>l. l \<notin> set outcome_labels \<longrightarrow> outcomes l w' = 0)
    \<and> (\<forall>l. l \<notin> {''matched'', ''divergent''} \<longrightarrow> bindings l w' = 0)
    \<and> agent_count (w_metrics w') = (\<lambda>_. 0)"
  using serial_run_counted [OF assms(1,2)] assms(3)
  by (auto simp: outcomes_counted_def bindings_counted_def metrics_init_def outcome_labels_def)

theorem metrics_agree_witness:
  "\<exists>w'. serial_step demo_env demo_state demo_bind_world w'
     \<and> tally tr_policy_result ''ALLOWED'' w' = tally tr_policy_result ''ALLOWED'' demo_bind_world + outcomes ''authorized'' w'"
proof -
  obtain v w' where "bind_execution demo_env demo_state (demo_fill ''tx-1'') demo_bind_world = (Inr v, w')"
    using demo_bind_ok by blast
  then have step: "serial_step demo_env demo_state demo_bind_world w'" by (rule ss_bind)
  then have run: "(serial_step demo_env demo_state)\<^sup>*\<^sup>* demo_bind_world w'" by (rule r_into_rtranclp)
  have "w_metrics demo_bind_world = metrics_init" by (simp add: demo_bind_world_def demo_world_def)
  with metrics_agree [OF run demo_rows_ok] step show ?thesis by blast
qed

end
