(* ===== verification/Irl_Api.thy ===== *)
theory Irl_Api
  imports Irl_Router
begin

text \<open>
  The route table of \<open>build_router\<close> (\<open>src/lib.rs\<close>) with the matching of paths, and the
  OpenAPI document of \<open>src/openapi.rs\<close> as data, so that what the document promises can be
  compared with what the router serves.
\<close>

section \<open>Routes\<close>

datatype http_method = GET | POST | PATCH | DELETE

datatype gate = Open_Gate | Bearer_Gate | Owner_Gate

record route =
  ro_method :: http_method
  ro_path :: string
  ro_handler :: string

definition public_routes :: "route list" where
  "public_routes =
     [\<lparr>ro_method = GET, ro_path = ''/'', ro_handler = ''landing''\<rparr>,
      \<lparr>ro_method = GET, ro_path = ''/irl/health'', ro_handler = ''health''\<rparr>,
      \<lparr>ro_method = GET, ro_path = ''/metrics'', ro_handler = ''metrics_handler''\<rparr>]"

definition protected_routes :: "route list" where
  "protected_routes =
     [\<lparr>ro_method = POST, ro_path = ''/irl/authorize'', ro_handler = ''authorize''\<rparr>,
      \<lparr>ro_method = POST, ro_path = ''/irl/bind-execution'', ro_handler = ''bind_execution''\<rparr>,
      \<lparr>ro_method = GET, ro_path = ''/irl/trace/:trace_id'', ro_handler = ''get_trace''\<rparr>,
      \<lparr>ro_method = GET, ro_path = ''/irl/pending'', ro_handler = ''get_pending''\<rparr>,
      \<lparr>ro_method = GET, ro_path = ''/irl/orphans'', ro_handler = ''get_orphans''\<rparr>,
      \<lparr>ro_method = POST, ro_path = ''/irl/agents'', ro_handler = ''register_agent''\<rparr>,
      \<lparr>ro_method = GET, ro_path = ''/irl/agents'', ro_handler = ''list_agents''\<rparr>,
      \<lparr>ro_method = GET, ro_path = ''/irl/agents/:id'', ro_handler = ''get_agent''\<rparr>,
      \<lparr>ro_method = PATCH, ro_path = ''/irl/agents/:id/status'', ro_handler = ''update_agent_status''\<rparr>,
      \<lparr>ro_method = GET, ro_path = ''/irl/shadow-violations'', ro_handler = ''get_shadow_violations''\<rparr>,
      \<lparr>ro_method = GET, ro_path = ''/irl/traces'', ro_handler = ''list_traces''\<rparr>]"

definition admin_routes :: "route list" where
  "admin_routes =
     [\<lparr>ro_method = GET, ro_path = ''/irl/admin/shadow-mode'', ro_handler = ''shadow_mode_get''\<rparr>,
      \<lparr>ro_method = POST, ro_path = ''/irl/admin/shadow-mode'', ro_handler = ''shadow_mode_set''\<rparr>,
      \<lparr>ro_method = GET, ro_path = ''/irl/admin/audit-log'', ro_handler = ''audit_log_query''\<rparr>,
      \<lparr>ro_method = POST, ro_path = ''/irl/admin/gdpr-erase/:agent_id'', ro_handler = ''gdpr_erase_handler''\<rparr>,
      \<lparr>ro_method = POST, ro_path = ''/irl/admin/tokens'', ro_handler = ''token_issue''\<rparr>,
      \<lparr>ro_method = DELETE, ro_path = ''/irl/admin/tokens/:token_id'', ro_handler = ''token_revoke''\<rparr>]"

definition gated_routes :: "(gate \<times> route) list" where
  "gated_routes =
     map (Pair Open_Gate) public_routes @ map (Pair Bearer_Gate) protected_routes @ map (Pair Owner_Gate) admin_routes"

text \<open>
  Matching of a path: a segment \<open>:name\<close> of the pattern takes any segment that is not
  empty. A path that no pattern matches is not found; when only the method differs, it is
  not allowed.
\<close>

definition is_param :: "string \<Rightarrow> bool" where
  "is_param seg \<longleftrightarrow> starts_with seg '':''"

definition segment_matches :: "string \<Rightarrow> string \<Rightarrow> bool" where
  "segment_matches pat seg \<longleftrightarrow> (if is_param pat then seg \<noteq> [] else seg = pat)"

definition path_matches :: "string \<Rightarrow> string \<Rightarrow> bool" where
  "path_matches pat path \<longleftrightarrow> list_all2 segment_matches (str_split (CHR ''/'') pat) (str_split (CHR ''/'') path)"

definition find_route :: "http_method \<Rightarrow> string \<Rightarrow> nat + gate \<times> route" where
  "find_route m path =
     (case filter (\<lambda>(g, r). path_matches (ro_path r) path) gated_routes of
        [] \<Rightarrow> Inl 404
      | rs \<Rightarrow> (case find (\<lambda>(g, r). ro_method r = m) rs of None \<Rightarrow> Inl 405 | Some gr \<Rightarrow> Inr gr))"

text \<open>The route a call of the model arrives on.\<close>

fun endpoint :: "api_call \<Rightarrow> http_method \<times> string" where
  "endpoint (CallAuthorize _) = (POST, ''/irl/authorize'')"
| "endpoint (CallBindExecution _) = (POST, ''/irl/bind-execution'')"
| "endpoint (CallGetTrace _) = (GET, ''/irl/trace/:trace_id'')"
| "endpoint (CallGetPending _) = (GET, ''/irl/pending'')"
| "endpoint CallGetOrphans = (GET, ''/irl/orphans'')"
| "endpoint (CallRegisterAgent _) = (POST, ''/irl/agents'')"
| "endpoint CallListAgents = (GET, ''/irl/agents'')"
| "endpoint (CallGetAgent _) = (GET, ''/irl/agents/:id'')"
| "endpoint (CallUpdateAgentStatus _ _) = (PATCH, ''/irl/agents/:id/status'')"
| "endpoint CallGetShadowViolations = (GET, ''/irl/shadow-violations'')"
| "endpoint (CallListTraces _ _ _ _ _) = (GET, ''/irl/traces'')"
| "endpoint CallShadowModeGet = (GET, ''/irl/admin/shadow-mode'')"
| "endpoint (CallShadowModeSet _ _) = (POST, ''/irl/admin/shadow-mode'')"
| "endpoint (CallAuditLog _) = (GET, ''/irl/admin/audit-log'')"
| "endpoint (CallGdprErase _) = (POST, ''/irl/admin/gdpr-erase/:agent_id'')"
| "endpoint (CallTokenIssue _) = (POST, ''/irl/admin/tokens'')"
| "endpoint (CallTokenRevoke _) = (DELETE, ''/irl/admin/tokens/:token_id'')"
| "endpoint CallHealth = (GET, ''/irl/health'')"

definition call_gate :: "api_call \<Rightarrow> gate" where
  "call_gate call = (if is_public call then Open_Gate else if is_admin call then Owner_Gate else Bearer_Gate)"

section \<open>The OpenAPI document\<close>

datatype param_place = InPath | InQuery

record operation =
  doc_method :: http_method
  doc_path :: string
  doc_tag :: string
  doc_params :: "(string \<times> param_place) list"
  doc_body :: "string option"
  doc_responses :: "(nat \<times> string option) list"
  doc_secured :: bool

definition doc_authorize :: operation where
  "doc_authorize =
     \<lparr>doc_method = POST, doc_path = ''/irl/authorize'', doc_tag = ''Core'',
      doc_params = [],
      doc_body = Some ''AuthorizeRequest'',
      doc_responses = [(200, Some ''AuthorizeResponse''), (403, None), (422, None)],
      doc_secured = True\<rparr>"

definition doc_bind_execution :: operation where
  "doc_bind_execution =
     \<lparr>doc_method = POST, doc_path = ''/irl/bind-execution'', doc_tag = ''Core'',
      doc_params = [],
      doc_body = Some ''BindExecutionRequest'',
      doc_responses = [(200, Some ''BindExecutionResult''), (404, None), (409, None), (422, None)],
      doc_secured = True\<rparr>"

definition doc_get_trace :: operation where
  "doc_get_trace =
     \<lparr>doc_method = GET, doc_path = ''/irl/trace/{trace_id}'', doc_tag = ''Traces'',
      doc_params = [(''trace_id'', InPath)],
      doc_body = None, doc_responses = [(200, Some ''ReasoningTrace''), (404, None)], doc_secured = True\<rparr>"

definition doc_list_traces :: operation where
  "doc_list_traces =
     \<lparr>doc_method = GET, doc_path = ''/irl/traces'', doc_tag = ''Traces'',
      doc_params = [(''agent_id'', InQuery), (''from'', InQuery), (''to'', InQuery),
        (''status'', InQuery), (''limit'', InQuery)],
      doc_body = None, doc_responses = [(200, Some ''TraceListResponse'')], doc_secured = True\<rparr>"

definition doc_health :: operation where
  "doc_health =
     \<lparr>doc_method = GET, doc_path = ''/irl/health'', doc_tag = ''Operations'',
      doc_params = [],
      doc_body = None, doc_responses = [(200, Some ''HealthResponse''), (503, None)], doc_secured = False\<rparr>"

definition doc_get_pending :: operation where
  "doc_get_pending =
     \<lparr>doc_method = GET, doc_path = ''/irl/pending'', doc_tag = ''Traces'',
      doc_params = [(''age_seconds'', InQuery)],
      doc_body = None, doc_responses = [(200, Some ''TraceListResponse'')], doc_secured = True\<rparr>"

definition doc_get_orphans :: operation where
  "doc_get_orphans =
     \<lparr>doc_method = GET, doc_path = ''/irl/orphans'', doc_tag = ''Traces'',
      doc_params = [],
      doc_body = None, doc_responses = [(200, Some ''TraceListResponse'')], doc_secured = True\<rparr>"

definition doc_get_shadow_violations :: operation where
  "doc_get_shadow_violations =
     \<lparr>doc_method = GET, doc_path = ''/irl/shadow-violations'', doc_tag = ''Operations'',
      doc_params = [],
      doc_body = None, doc_responses = [(200, Some ''TraceListResponse'')], doc_secured = True\<rparr>"

definition doc_shadow_mode_get :: operation where
  "doc_shadow_mode_get =
     \<lparr>doc_method = GET, doc_path = ''/irl/admin/shadow-mode'', doc_tag = ''Admin'',
      doc_params = [],
      doc_body = None, doc_responses = [(200, None)], doc_secured = True\<rparr>"

definition doc_shadow_mode_set :: operation where
  "doc_shadow_mode_set =
     \<lparr>doc_method = POST, doc_path = ''/irl/admin/shadow-mode'', doc_tag = ''Admin'',
      doc_params = [],
      doc_body = Some ''ShadowModeRequest'', doc_responses = [(200, None)], doc_secured = True\<rparr>"

definition doc_audit_log_query :: operation where
  "doc_audit_log_query =
     \<lparr>doc_method = GET, doc_path = ''/irl/admin/audit-log'', doc_tag = ''Admin'',
      doc_params = [(''action'', InQuery), (''target_id'', InQuery), (''from'', InQuery), (''to'', InQuery),
        (''before_id'', InQuery), (''limit'', InQuery)],
      doc_body = None, doc_responses = [(200, None)], doc_secured = True\<rparr>"

definition doc_gdpr_erase_handler :: operation where
  "doc_gdpr_erase_handler =
     \<lparr>doc_method = POST, doc_path = ''/irl/admin/gdpr-erase/{agent_id}'', doc_tag = ''Admin'',
      doc_params = [(''agent_id'', InPath)],
      doc_body = None, doc_responses = [(200, None), (412, None)], doc_secured = True\<rparr>"

definition doc_token_issue :: operation where
  "doc_token_issue =
     \<lparr>doc_method = POST, doc_path = ''/irl/admin/tokens'', doc_tag = ''Admin'',
      doc_params = [],
      doc_body = Some ''TokenIssueRequest'', doc_responses = [(200, None)], doc_secured = True\<rparr>"

definition doc_token_revoke :: operation where
  "doc_token_revoke =
     \<lparr>doc_method = DELETE, doc_path = ''/irl/admin/tokens/{token_id}'', doc_tag = ''Admin'',
      doc_params = [(''token_id'', InPath)],
      doc_body = None, doc_responses = [(200, None), (404, None)], doc_secured = True\<rparr>"

definition api_doc :: "operation list" where
  "api_doc =
     [doc_authorize, doc_bind_execution, doc_get_trace, doc_list_traces, doc_health, doc_get_pending,
      doc_get_orphans, doc_get_shadow_violations, doc_shadow_mode_get, doc_shadow_mode_set,
      doc_audit_log_query, doc_gdpr_erase_handler, doc_token_issue, doc_token_revoke]"

text \<open>
  The schemas of the bodies: the fields with their JSON type and whether they are
  required. An optional field of the struct is not required. \<open>BindExecutionResult\<close> and
  \<open>ReasoningTrace\<close> are the structs of \<open>src/binding.rs\<close> and \<open>src/snapshot.rs\<close>, which the
  document refers to.
\<close>

datatype field_type = TString | TBool | TInteger | TArray | TObject

fun has_type :: "field_type \<Rightarrow> json \<Rightarrow> bool" where
  "has_type TString (JStr _) = True"
| "has_type TBool (JBool _) = True"
| "has_type TInteger (JInt _) = True"
| "has_type TArray (JArr _) = True"
| "has_type TObject (JObj _) = True"
| "has_type _ _ = False"

definition bind_execution_result_schema :: "(string \<times> field_type \<times> bool) list" where
  "bind_execution_result_schema =
     [(''trace_id'', TString, True), (''final_proof'', TString, True), (''verification_status'', TString, True),
      (''execution_status'', TString, True), (''execution_time'', TString, True),
      (''divergence_reason'', TString, False)]"

definition reasoning_trace_schema :: "(string \<times> field_type \<times> bool) list" where
  "reasoning_trace_schema =
     [(''trace_id'', TString, True), (''version'', TString, True), (''bitemporal'', TObject, True),
      (''mta'', TObject, True), (''agent'', TObject, True), (''execution'', TObject, True),
      (''heartbeat'', TObject, True), (''policy'', TObject, True), (''integrity'', TObject, True),
      (''regulatory'', TObject, False)]"

definition schema_fields :: "(string \<times> (string \<times> field_type \<times> bool) list) list" where
  "schema_fields =
     [(''AuthorizeResponse'', [(''trace_id'', TString, True), (''reasoning_hash'', TString, True),
        (''authorized'', TBool, True), (''shadow_blocked'', TBool, True)]),
      (''BindExecutionResult'', bind_execution_result_schema),
      (''ReasoningTrace'', reasoning_trace_schema),
      (''TraceListResponse'', [(''count'', TInteger, True), (''traces'', TArray, True)]),
      (''HealthResponse'', [(''status'', TString, True), (''db_ok'', TBool, True),
        (''cert_expiry_status'', TString, False)]),
      (''ShadowModeRequest'', [(''enabled'', TBool, True), (''reason'', TString, False)]),
      (''TokenIssueRequest'', [(''client_name'', TString, True)])]"

text \<open>\<open>{name}\<close> of the document is \<open>:name\<close> of the router.\<close>

definition axum_segment :: "string \<Rightarrow> string" where
  "axum_segment seg = (if starts_with seg ''{'' then '':'' @ butlast (tl seg) else seg)"

definition axum_path :: "string \<Rightarrow> string" where
  "axum_path path = str_join ''/'' (map axum_segment (str_split (CHR ''/'') path))"

definition documented :: "http_method \<times> string \<Rightarrow> operation option" where
  "documented ep = find (\<lambda>op. (doc_method op, axum_path (doc_path op)) = ep) api_doc"

section \<open>Routing\<close>

text \<open>Two patterns that match a common path agree on every segment neither leaves open.\<close>

definition segments_overlap :: "string \<Rightarrow> string \<Rightarrow> bool" where
  "segments_overlap p q \<longleftrightarrow> is_param p \<or> is_param q \<or> p = q"

definition paths_overlap :: "string \<Rightarrow> string \<Rightarrow> bool" where
  "paths_overlap p q \<longleftrightarrow> list_all2 segments_overlap (str_split (CHR ''/'') p) (str_split (CHR ''/'') q)"

lemma segments_both:
  "list_all2 segment_matches ps xs \<Longrightarrow> list_all2 segment_matches qs xs \<Longrightarrow> list_all2 segments_overlap ps qs"
  by (induction arbitrary: qs rule: list_all2_induct)
    (auto simp: list_all2_Cons2 segment_matches_def segments_overlap_def split: if_splits)

lemma paths_both: "path_matches p x \<Longrightarrow> path_matches q x \<Longrightarrow> paths_overlap p q"
  unfolding path_matches_def paths_overlap_def by (rule segments_both)

lemma routes_disjoint:
  "list_all (\<lambda>(g, r). list_all (\<lambda>(g', r'). paths_overlap (ro_path r) (ro_path r') \<longrightarrow> ro_method r = ro_method r'
     \<longrightarrow> (g, r) = (g', r')) gated_routes) gated_routes"
  by code_simp

lemma find_route_unique:
  assumes "(g, r) \<in> set gated_routes" and "path_matches (ro_path r) path"
  shows "find_route (ro_method r) path = Inr (g, r)"
proof -
  let ?rs = "filter (\<lambda>(g, r). path_matches (ro_path r) path) gated_routes"
  have mem: "(g, r) \<in> set ?rs" using assms by simp
  have only: "x = (g, r)" if "x \<in> set ?rs" "ro_method (snd x) = ro_method r" for x
  proof -
    obtain g' r' where x: "x = (g', r')" by force
    then have "paths_overlap (ro_path r) (ro_path r')" using that(1) assms(2) paths_both by auto
    then show ?thesis using routes_disjoint assms(1) that x by (fastforce simp: list_all_iff)
  qed
  obtain y where y: "find (\<lambda>(g, r'). ro_method r' = ro_method r) ?rs = Some y"
    using mem by (cases "find (\<lambda>(g, r'). ro_method r' = ro_method r) ?rs") (auto simp: find_None_iff)
  then have "y \<in> set ?rs" "ro_method (snd y) = ro_method r"
    by (metis (no_types, lifting) find_Some_iff nth_mem, auto simp: find_Some_iff case_prod_beta)
  then have "y = (g, r)" by (rule only)
  then show ?thesis using mem y unfolding find_route_def by (cases ?rs) auto
qed

section \<open>Responses\<close>

lemma documented_endpoints:
  "documented (POST, ''/irl/authorize'') = Some doc_authorize"
  "documented (POST, ''/irl/bind-execution'') = Some doc_bind_execution"
  "documented (GET, ''/irl/trace/:trace_id'') = Some doc_get_trace"
  "documented (GET, ''/irl/pending'') = Some doc_get_pending"
  "documented (GET, ''/irl/orphans'') = Some doc_get_orphans"
  "documented (POST, ''/irl/agents'') = None"
  "documented (GET, ''/irl/agents'') = None"
  "documented (GET, ''/irl/agents/:id'') = None"
  "documented (PATCH, ''/irl/agents/:id/status'') = None"
  "documented (GET, ''/irl/shadow-violations'') = Some doc_get_shadow_violations"
  "documented (GET, ''/irl/traces'') = Some doc_list_traces"
  "documented (GET, ''/irl/admin/shadow-mode'') = Some doc_shadow_mode_get"
  "documented (POST, ''/irl/admin/shadow-mode'') = Some doc_shadow_mode_set"
  "documented (GET, ''/irl/admin/audit-log'') = Some doc_audit_log_query"
  "documented (POST, ''/irl/admin/gdpr-erase/:agent_id'') = Some doc_gdpr_erase_handler"
  "documented (POST, ''/irl/admin/tokens'') = Some doc_token_issue"
  "documented (DELETE, ''/irl/admin/tokens/:token_id'') = Some doc_token_revoke"
  "documented (GET, ''/irl/health'') = Some doc_health"
  by code_simp+

lemmas doc_defs = doc_authorize_def doc_bind_execution_def doc_get_trace_def doc_list_traces_def doc_health_def
  doc_get_pending_def doc_get_orphans_def doc_get_shadow_violations_def doc_shadow_mode_get_def
  doc_shadow_mode_set_def doc_audit_log_query_def doc_gdpr_erase_handler_def doc_token_issue_def
  doc_token_revoke_def

text \<open>The statuses of a success.\<close>

lemma dispatch_success:
  "dispatch E st cert who call w = (Inr (status, body), w') \<Longrightarrow>
     status = (case call of CallRegisterAgent _ \<Rightarrow> 201 | CallTokenIssue _ \<Rightarrow> 201 | _ \<Rightarrow> 200)"
  by (cases call) (auto simp: ok_json_def bindE_Inr_iff io_simps route_register_agent_def token_issue_def Let_def
      split: if_splits)

text \<open>
  A body conforms to a schema, up to the fields \<open>ex\<close>: it is an object, its fields are fields of
  the schema with their types, and the required ones are there.
\<close>

definition body_conforms :: "string list \<Rightarrow> string option \<Rightarrow> json \<Rightarrow> bool" where
  "body_conforms ex schema body \<longleftrightarrow>
     (case schema of
        None \<Rightarrow> True
      | Some name \<Rightarrow> (case map_of schema_fields name of
            None \<Rightarrow> False
          | Some fs \<Rightarrow> has_type TObject body
              \<and> list_all (\<lambda>(k, ty, required). k \<notin> set ex \<longrightarrow>
                   (case json_get body k of None \<Rightarrow> \<not> required | Some v \<Rightarrow> has_type ty v)) fs
              \<and> (\<forall>k. json_get body k \<noteq> None \<longrightarrow> k \<in> fst ` set fs)))"

lemma conforms_none: "body_conforms ex None body"
  by (simp add: body_conforms_def)

lemma json_obj_object: "has_type TObject (json_obj kvs)"
  by (simp add: json_obj_def)

lemma conforms_trace_list: "body_conforms [] (Some ''TraceListResponse'') (count_traces ts)"
  by (auto simp: body_conforms_def schema_fields_def count_traces_def json_get_obj json_obj_object)

lemma conforms_authorize:
  assumes "authorize E st cert req w = (Inr v, w')"
  shows "body_conforms [] (Some ''AuthorizeResponse'') v"
proof -
  obtain t h s where "v = json_obj [(''trace_id'', JStr t), (''reasoning_hash'', JStr h), (''authorized'', JBool True),
      (''shadow_blocked'', JBool s)]"
    using assms by (auto simp: authorize_def persist_stage_def Let_def bindE_Inr_iff io_simps)
  then show ?thesis by (auto simp: body_conforms_def schema_fields_def json_get_obj json_obj_object)
qed

lemma conforms_bind:
  assumes "bind_execution E st req w = (Inr v, w')"
  shows "body_conforms [] (Some ''BindExecutionResult'') v"
proof -
  obtain result where "v = bind_response (env_crates E) result"
    using assms by (auto simp: bind_execution_def bind_commit_def Let_def bindE_Inr_iff io_simps)
  then show ?thesis
    by (auto simp: body_conforms_def schema_fields_def bind_execution_result_schema_def bind_response_def
        json_get_obj json_obj_object split: option.splits)
qed

text \<open>What an insertion stores has the fields of a trace, and reading it back keeps them.\<close>

lemma conforms_trace_value: "body_conforms [] (Some ''ReasoningTrace'') (trace_value c t)"
  by (cases "rt_regulatory t")
    (auto simp: body_conforms_def schema_fields_def reasoning_trace_schema_def trace_value_def json_get_obj
      json_obj_object bitemporal_value_def mta_block_value_def agent_block_value_def execution_block_value_def
      heartbeat_block_value_def policy_block_value_def integrity_value_def regulatory_value_def
      split: option.splits)

lemma json_get_overlay:
  "json_get (overlay_binding v p s) k =
     (case json_get v k of
        Some (JObj m) \<Rightarrow> Some (JObj (if k = ''integrity''
          then obj_insert ''verification_status'' (JStr s) (obj_insert ''final_proof'' (json_opt_str p) m) else m))
      | x \<Rightarrow> x)"
  by (cases v) (auto simp: overlay_binding_def split: option.splits json.splits)

lemma conforms_overlay:
  assumes "body_conforms [] (Some ''ReasoningTrace'') v"
  shows "body_conforms [] (Some ''ReasoningTrace'') (overlay_binding v p s)"
proof -
  have "has_type TObject (overlay_binding v p s) = has_type TObject v"
    by (cases v) (auto simp: overlay_binding_def split: option.splits json.splits)
  moreover have "(json_get (overlay_binding v p s) k = None) = (json_get v k = None)" for k
    by (auto simp: json_get_overlay split: option.splits json.splits)
  moreover have "(case json_get (overlay_binding v p s) k of None \<Rightarrow> \<not> required | Some x \<Rightarrow> has_type ty x)
      = (case json_get v k of None \<Rightarrow> \<not> required | Some x \<Rightarrow> has_type ty x)" for k ty required
    by (cases ty) (auto simp: json_get_overlay split: option.splits json.splits)
  ultimately show ?thesis using assms by (simp add: body_conforms_def schema_fields_def)
qed

lemma get_trace_body:
  assumes "get_trace E st t w = (Inr body, w')"
  obtains r v u u' p s where "r \<in> set (d_traces (w_db w'))" "tr_trace_id r = t" "body = overlay_binding v p s"
    "decrypt_if_needed E (tr_trace_json r) (tr_trace_nonce r) (tr_encrypted_dek r) (tr_key_version r)
       (tr_encryption_version r) (st_key_provider st) u = (Inr v, u')"
proof -
  obtain r v where r: "find_trace t (w_db w) = Some r"
    and dec: "decrypt_if_needed E (tr_trace_json r) (tr_trace_nonce r) (tr_encrypted_dek r) (tr_key_version r)
       (tr_encryption_version r) (st_key_provider st) (w\<lparr>w_tick := Suc (w_tick w)\<rparr>) = (Inr v, w')"
    and body: "body = overlay_binding v (tr_final_proof r) (tr_verification_status r)"
    using assms
    by (auto simp: get_trace_def get_trace_json_def bindE_Inr_iff sql_read_ok_iff io_simps split: option.splits)
  have "w_db w' = w_db w" using keepsD [OF keeps_decrypt_if_needed dec] by (auto simp: only_tick_def)
  moreover have "r \<in> set (d_traces (w_db w))" "tr_trace_id r = t"
    using r by (auto simp: find_trace_def find_Some_iff)
  ultimately show thesis using that dec body by metis
qed

lemma list_fields:
  "get_pending E st age w = (Inr v, w') \<Longrightarrow> \<exists>ts. v = count_traces ts"
  "get_orphans E st w = (Inr v, w') \<Longrightarrow> \<exists>ts. v = count_traces ts"
  "route_get_shadow_violations E st w = (Inr v, w') \<Longrightarrow> \<exists>ts. v = count_traces ts"
  "route_list_traces E a from_ms to_ms status limit w = (Inr v, w') \<Longrightarrow> \<exists>ts. v = count_traces ts"
  by (auto simp: get_pending_def get_orphans_def route_get_shadow_violations_def route_list_traces_def
      bindE_Inr_iff io_simps)

text \<open>The health check answers with 200 whenever it answers and never reports on the database.\<close>

lemma health_fields:
  assumes "health E st w = (r, w')"
  shows "\<exists>v. r = Inr v \<and> json_get v ''status'' = Some (JStr ''ok'') \<and> json_get v ''db_ok'' = None"
  using assms
  by (cases "cfg_mtls_enabled (st_config st)"; cases "st_cert_expiry_not_after st")
    (auto simp: health_def bindE_def io_simps json_get_obj)

text \<open>Apart from the missing flag, only a certificate about to expire deviates: its status is an object.\<close>

lemma health_conforms:
  assumes "health E st w = (Inr v, w')"
  shows "body_conforms [''db_ok''] (Some ''HealthResponse'') v
    \<or> (\<exists>warning. json_get v ''cert_expiry_status'' = Some (json_obj [(''warning'', JStr warning)]))
      \<and> body_conforms [''db_ok'', ''cert_expiry_status''] (Some ''HealthResponse'') v"
  using assms
  by (cases "cfg_mtls_enabled (st_config st)"; cases "st_cert_expiry_not_after st")
    (auto simp: health_def bindE_def io_simps json_get_obj body_conforms_def schema_fields_def json_obj_object
      split: cert_expiry_status.splits)

text \<open>
  Two promised errors the code never gives: an erasure without key provider and the
  revocation of an unknown token are internal errors.
\<close>

lemma gdpr_without_provider:
  assumes "st_key_provider st = None"
  shows "\<exists>m w'. gdpr_erase_handler E st who a w = (Inl (App (Encryption m)), w')
    \<and> fst (into_response c (Encryption m)) = 500"
  using assms by (auto simp: gdpr_erase_handler_def bindE_def io_simps into_response_def Let_def)

lemma unknown_token_is_internal:
  assumes "length token_id = 12" and "env_db_fault E (w_tick w) = None"
    and "\<not> list_ex (\<lambda>t. take 12 (to_token_hash t) = token_id \<and> to_status t = ''active'') (d_tokens (w_db w))"
  shows "\<exists>m w'. token_revoke E who token_id w = (Inl (App (Serialization m)), w')
    \<and> fst (into_response c (Serialization m)) = 500"
proof -
  have "find (\<lambda>t. take 12 (to_token_hash t) = token_id \<and> to_status t = ''active'') (d_tokens (w_db w)) = None"
    using assms(3) by (auto simp: find_None_iff list_ex_iff)
  then show ?thesis
    using assms(1,2) by (simp add: token_revoke_def bindE_def sql_read_def sql_def Let_def io_simps into_response_def)
qed

section \<open>Properties\<close>

lemma call_routed:
  "\<exists>h. (call_gate call, \<lparr>ro_method = fst (endpoint call), ro_path = snd (endpoint call), ro_handler = h\<rparr>) \<in> set gated_routes"
  by (cases call) (auto simp: call_gate_def is_public_def gated_routes_def public_routes_def protected_routes_def
      admin_routes_def)

text \<open>C22: the API is served as documented. A request that succeeds came in on a route of the table behind the
  gate of its call. Unless it is one of the four agent calls, which the OpenAPI document leaves out, its
  operation is in the document, is marked as secured exactly when a bearer token was demanded and
  tagged Admin exactly when an owner was; the status is a documented one, except for
  the 201 of an issued token; and a body with a documented schema is an object with the required
  fields, no others than the schema's, and their JSON types. Two bodies deviate: the health check
  lacks the database flag, and its certificate status is an object when the certificate is about to
  expire. The body of a trace is the stored value of that trace, in the schema if that value
  is; the value the engine stores for a trace is.\<close>

theorem served_as_documented:
  assumes "handle_request E parse st rq w = (Inr (status, body), w')"
  shows "(\<exists>h. (call_gate (rq_call rq), \<lparr>ro_method = fst (endpoint (rq_call rq)), ro_path = snd (endpoint (rq_call rq)),
        ro_handler = h\<rparr>) \<in> set gated_routes)
    \<and> (case documented (endpoint (rq_call rq)) of
        None \<Rightarrow> (case rq_call rq of CallRegisterAgent _ \<Rightarrow> True | CallListAgents \<Rightarrow> True | CallGetAgent _ \<Rightarrow> True
          | CallUpdateAgentStatus _ _ \<Rightarrow> True | _ \<Rightarrow> False)
      | Some op \<Rightarrow> doc_secured op = (call_gate (rq_call rq) \<noteq> Open_Gate)
          \<and> (doc_tag op = ''Admin'') = (call_gate (rq_call rq) = Owner_Gate)
          \<and> (case map_of (doc_responses op) status of
               None \<Rightarrow> \<exists>n. rq_call rq = CallTokenIssue n \<and> status = 201
             | Some schema \<Rightarrow>
                 (case rq_call rq of
                    CallHealth \<Rightarrow> body_conforms [''db_ok''] schema body
                      \<or> (\<exists>warning. json_get body ''cert_expiry_status'' = Some (json_obj [(''warning'', JStr warning)]))
                        \<and> body_conforms [''db_ok'', ''cert_expiry_status''] schema body
                  | CallGetTrace t \<Rightarrow> (\<exists>r v u u'. r \<in> set (d_traces (w_db w')) \<and> tr_trace_id r = t
                      \<and> decrypt_if_needed E (tr_trace_json r) (tr_trace_nonce r) (tr_encrypted_dek r) (tr_key_version r)
                          (tr_encryption_version r) (st_key_provider st) u = (Inr v, u')
                      \<and> (body_conforms [] schema v \<longrightarrow> body_conforms [] schema body)
                      \<and> (\<forall>c trace. body_conforms [] schema (trace_value c trace)))
                  | _ \<Rightarrow> body_conforms [] schema body)))"
proof (intro conjI call_routed)
  obtain cert who u where run: "dispatch E st cert who (rq_call rq) u = (Inr (status, body), w')"
    using assms by (auto simp: handle_request_def Let_def bindE_Inr_iff split: if_splits)
  have status: "status = (case rq_call rq of CallRegisterAgent _ \<Rightarrow> 201 | CallTokenIssue _ \<Rightarrow> 201 | _ \<Rightarrow> 200)"
    using dispatch_success [OF run] .
  have trace: "\<exists>r v u u'. r \<in> set (d_traces (w_db w')) \<and> tr_trace_id r = t
      \<and> decrypt_if_needed E (tr_trace_json r) (tr_trace_nonce r) (tr_encrypted_dek r) (tr_key_version r)
          (tr_encryption_version r) (st_key_provider st) u = (Inr v, u')
      \<and> (body_conforms [] (Some ''ReasoningTrace'') v \<longrightarrow> body_conforms [] (Some ''ReasoningTrace'') body)"
    if "get_trace E st t x = (Inr body, w')" for t x
    using get_trace_body [OF that] conforms_overlay by metis
  show "case documented (endpoint (rq_call rq)) of
        None \<Rightarrow> (case rq_call rq of CallRegisterAgent _ \<Rightarrow> True | CallListAgents \<Rightarrow> True | CallGetAgent _ \<Rightarrow> True
          | CallUpdateAgentStatus _ _ \<Rightarrow> True | _ \<Rightarrow> False)
      | Some op \<Rightarrow> doc_secured op = (call_gate (rq_call rq) \<noteq> Open_Gate)
          \<and> (doc_tag op = ''Admin'') = (call_gate (rq_call rq) = Owner_Gate)
          \<and> (case map_of (doc_responses op) status of
               None \<Rightarrow> \<exists>n. rq_call rq = CallTokenIssue n \<and> status = 201
             | Some schema \<Rightarrow>
                 (case rq_call rq of
                    CallHealth \<Rightarrow> body_conforms [''db_ok''] schema body
                      \<or> (\<exists>warning. json_get body ''cert_expiry_status'' = Some (json_obj [(''warning'', JStr warning)]))
                        \<and> body_conforms [''db_ok'', ''cert_expiry_status''] schema body
                  | CallGetTrace t \<Rightarrow> (\<exists>r v u u'. r \<in> set (d_traces (w_db w')) \<and> tr_trace_id r = t
                      \<and> decrypt_if_needed E (tr_trace_json r) (tr_trace_nonce r) (tr_encrypted_dek r) (tr_key_version r)
                          (tr_encryption_version r) (st_key_provider st) u = (Inr v, u')
                      \<and> (body_conforms [] schema v \<longrightarrow> body_conforms [] schema body)
                      \<and> (\<forall>c trace. body_conforms [] schema (trace_value c trace)))
                  | _ \<Rightarrow> body_conforms [] schema body))"
    using status run
    by (cases "rq_call rq")
      (auto simp: documented_endpoints doc_defs call_gate_def is_public_def ok_json_def bindE_Inr_iff io_simps
        conforms_authorize conforms_bind conforms_trace_list conforms_none conforms_trace_value
        dest!: list_fields health_conforms trace)
qed

definition demo_bind_token_world :: world where
  "demo_bind_token_world = demo_bind_world\<lparr>w_token_cache := w_token_cache demo_admin_world\<rparr>"

lemma demo_served_bind:
  "\<exists>body w'. handle_request demo_env (\<lambda>der. None) demo_state
      (demo_http_request (Some ''Bearer t'') (CallBindExecution (demo_fill ''tx-1''))) demo_bind_token_world
    = (Inr (200, body), w')"
proof -
  define rq where "rq = demo_http_request (Some ''Bearer t'') (CallBindExecution (demo_fill ''tx-1''))"
  obtain who w1 where auth: "require_bearer demo_env (cfg_rate_limit_per_second (st_config demo_state))
      (rq_authorization rq) (rq_connect_info rq) demo_bind_token_world = (Inr who, w1)"
    and w1: "d_traces (w_db w1) = [demo_row]"
    by (simp add: rq_def demo_http_request_def require_bearer_def demo_bearer is_valid_def rate_check_def rate_step_def
        bump_last_used_def bindE_def attempt_def sql_def io_simps demo_bind_token_world_def demo_admin_world_def
        demo_bind_world_def demo_world_def demo_db_def demo_simps demo_state_def demo_config_def Let_def)
  obtain v w2 where "bind_commit demo_env demo_state (demo_fill ''tx-1'') demo_intent (w1\<lparr>w_tick := Suc (w_tick w1)\<rparr>) = (Inr v, w2)"
    using demo_commit [of "w1\<lparr>w_tick := Suc (w_tick w1)\<rparr>" demo_row "''tx-1''"] w1 by (auto simp: demo_row_def)
  then have "bind_execution demo_env demo_state (demo_fill ''tx-1'') w1 = (Inr v, w2)"
    by (simp add: bind_execution_def bindE_def demo_check [OF w1])
  then have "handle_request demo_env (\<lambda>der. None) demo_state rq demo_bind_token_world = (Inr (200, v), w2)"
    using auth
    by (simp add: handle_request_def rq_def demo_http_request_def is_public_def whenE_def ok_json_def bindE_def io_simps Let_def)
  then show ?thesis unfolding rq_def by blast
qed

theorem served_as_documented_witness:
  "\<exists>body w'. handle_request demo_env (\<lambda>der. None) demo_state
       (demo_http_request (Some ''Bearer t'') (CallBindExecution (demo_fill ''tx-1''))) demo_bind_token_world
       = (Inr (200, body), w')
     \<and> documented (endpoint (CallBindExecution (demo_fill ''tx-1''))) = Some doc_bind_execution
     \<and> doc_secured doc_bind_execution \<and> body_conforms [] (Some ''BindExecutionResult'') body"
proof -
  obtain body w' where run: "handle_request demo_env (\<lambda>der. None) demo_state
       (demo_http_request (Some ''Bearer t'') (CallBindExecution (demo_fill ''tx-1''))) demo_bind_token_world
       = (Inr (200, body), w')"
    using demo_served_bind by blast
  with served_as_documented [OF run] show ?thesis
    by (simp add: demo_http_request_def documented_endpoints call_gate_def is_public_def doc_bind_execution_def)
qed

end
