(* ===== verification/Irl_Faults.thy ===== *)
theory Irl_Faults
  imports Irl_Admin
begin

text \<open>
  What faults and races leave behind: the check and the commit of a heartbeat
  (\<open>HeartbeatValidator::validate\<close>) as two steps of concurrent requests, and a token
  whose revocation is stored but not taken over by the cache
  (\<open>routes/tokens.rs\<close>, \<open>token_manager.rs\<close>).
\<close>

section \<open>Heartbeats in concurrent requests\<close>

text \<open>
  \<open>validate\<close> reads the last sequence, releases the map, and inserts the new sequence
  later: other requests can run between the two. The split is exact.
\<close>

definition validate_check :: "env \<Rightarrow> heartbeat_validator \<Rightarrow> signed_heartbeat \<Rightarrow> uuid \<Rightarrow> unit io" where
  "validate_check E hv hb agent =
     bindE (liftE (heartbeat_verify_signature (env_crates E) hv hb)) (\<lambda>_.
     bindE (gets (\<lambda>w. last_sequence w agent)) (\<lambda>lst.
     if hb_sequence_id hb \<le> lst then fail (Heartbeat (StaleSequence (hb_sequence_id hb) lst)) else ret ()))"

definition validate_commit ::
  "env \<Rightarrow> heartbeat_validator \<Rightarrow> signed_heartbeat \<Rightarrow> uuid \<Rightarrow> config \<Rightarrow> bool \<Rightarrow> int io"
where
  "validate_commit E hv hb agent cfg with_pool =
     bindE (now_ms E cfg) (\<lambda>current_ms.
     let drift = i64_wrap (current_ms - u64_as_i64 (hb_timestamp_ms hb)) in
     if drift_too_large drift (hv_max_drift_ms hv)
     then fail (Heartbeat (LatencyThresholdExceeded (word_of_int \<bar>drift\<bar>) (hv_max_drift_ms hv)))
     else
     bindE (modify (\<lambda>w. w\<lparr>w_sequences := (w_sequences w)(agent \<mapsto> hb_sequence_id hb)\<rparr>)) (\<lambda>_.
     bindE (if with_pool
            then attempt (sql E (\<lambda>now d. Inr ((), d\<lparr>d_heartbeats :=
                    heartbeat_upsert agent (u64_as_i64 (hb_sequence_id hb)) (d_heartbeats d)\<rparr>)))
            else ret (Inr ())) (\<lambda>_.
     ret drift)))"

lemma validate_split:
  "validate E hv hb a cfg p w = bindE (validate_check E hv hb a) (\<lambda>_. validate_commit E hv hb a cfg p) w"
  by (simp add: validate_def validate_check_def validate_commit_def bindE_def io_simps liftE_def split: sum.split)

text \<open>
  Requests that passed the check and have not committed yet, and the heartbeats
  accepted so far, oldest first.
\<close>

type_synonym racing = "world \<times> (signed_heartbeat \<times> uuid) list \<times> (signed_heartbeat \<times> uuid) list"

inductive race_step :: "env \<Rightarrow> heartbeat_validator \<Rightarrow> config \<Rightarrow> bool \<Rightarrow> racing \<Rightarrow> racing \<Rightarrow> bool"
  for E hv cfg p
where
  rs_check: "validate_check E hv hb a w = (Inr (), w') \<Longrightarrow>
    race_step E hv cfg p (w, S, L) (w', (hb, a) # S, L)"
| rs_refuse: "validate_check E hv hb a w = (Inl e, w') \<Longrightarrow> race_step E hv cfg p (w, S, L) (w', S, L)"
| rs_accept: "(hb, a) \<in> set S \<Longrightarrow> validate_commit E hv hb a cfg p w = (Inr d, w') \<Longrightarrow>
    race_step E hv cfg p (w, S, L) (w', remove1 (hb, a) S, L @ [(hb, a)])"
| rs_late: "(hb, a) \<in> set S \<Longrightarrow> validate_commit E hv hb a cfg p w = (Inl e, w') \<Longrightarrow>
    race_step E hv cfg p (w, S, L) (w', remove1 (hb, a) S, L)"

lemma check_ok_iff:
  "validate_check E hv hb a w = (Inr (), w') \<longleftrightarrow>
     heartbeat_verify_signature (env_crates E) hv hb = Inr () \<and> last_sequence w a < hb_sequence_id hb \<and> w' = w"
  by (auto simp: validate_check_def bindE_Inr_iff liftE_Inr_iff io_simps)

lemma commit_ok:
  assumes "\<not> drift_too_large (i64_wrap (env_clock E (w_tick w) div 1000 - u64_as_i64 (hb_timestamp_ms hb))) (hv_max_drift_ms hv)"
  shows "\<exists>d w'. validate_commit E hv hb a cfg p w = (Inr d, w')"
  using assms
  by (cases "cfg_time_source cfg") (auto simp: validate_commit_def now_ms_def utc_now_ms_def ntp_attested_ms_def
      bindE_def io_simps attempt_def sql_def Let_def split: option.splits)

text \<open>
  While the clock keeps a heartbeat fresh, two requests that carry the same one are
  both accepted when both check before either commits: a replay.
\<close>

lemma replay_accepted_in_race:
  assumes "heartbeat_verify_signature (env_crates E) hv hb = Inr ()" and "last_sequence w a < hb_sequence_id hb"
    and "\<And>n. \<not> drift_too_large (i64_wrap (env_clock E n div 1000 - u64_as_i64 (hb_timestamp_ms hb))) (hv_max_drift_ms hv)"
  shows "\<exists>w'. (race_step E hv cfg p)\<^sup>*\<^sup>* (w, [], []) (w', [], [(hb, a), (hb, a)])"
proof -
  let ?step = "race_step E hv cfg p"
  have check: "validate_check E hv hb a w = (Inr (), w)" using assms by (simp add: check_ok_iff)
  obtain d1 w1 where c1: "validate_commit E hv hb a cfg p w = (Inr d1, w1)" using commit_ok assms(3) by blast
  obtain d2 w2 where c2: "validate_commit E hv hb a cfg p w1 = (Inr d2, w2)" using commit_ok assms(3) by blast
  have "?step (w, [], []) (w, [(hb, a)], [])" using rs_check [OF check] .
  moreover have "?step (w, [(hb, a)], []) (w, [(hb, a), (hb, a)], [])" using rs_check [OF check] .
  moreover have "?step (w, [(hb, a), (hb, a)], []) (w1, [(hb, a)], [(hb, a)])"
    using rs_accept [OF _ c1, where S = "[(hb, a), (hb, a)]" and L = "[]"] by simp
  moreover have "?step (w1, [(hb, a)], [(hb, a)]) (w2, [], [(hb, a), (hb, a)])"
    using rs_accept [OF _ c2, where S = "[(hb, a)]" and L = "[(hb, a)]"] by simp
  ultimately show ?thesis by (meson converse_rtranclp_into_rtranclp rtranclp.rtrancl_refl)
qed

section \<open>A revocation the cache does not see\<close>

text \<open>
  The statement that revokes a token and the refresh of the cache are separate. When
  the second fails the token is revoked in the table and still valid in memory, and
  the same revocation cannot be repeated: there is no active row any more.
\<close>

lemma revoke_without_refresh:
  assumes "env_db_fault E (w_tick w) = None" and "env_db_fault E (Suc (w_tick w)) = None"
    and "env_db_fault E (Suc (Suc (w_tick w))) = Some msg"
    and "length token_id = 12"
    and "find (\<lambda>t. take 12 (to_token_hash t) = token_id \<and> to_status t = ''active'') (d_tokens (w_db w)) = Some t"
  shows "\<exists>w'. token_revoke E who token_id w = (Inl (App (Database msg)), w')
    \<and> w_token_cache w' = w_token_cache w
    \<and> (\<forall>t' \<in> set (d_tokens (w_db w')). to_token_hash t' = to_token_hash t \<longrightarrow> to_status t' = ''revoked'')"
  using assms
  by (auto simp: token_revoke_def revoke_token_def refresh_cache_def bindE_def sql_read_def sql_def Let_def)

end
