(* ===== verification/Irl_Evidence.thy ===== *)
theory Irl_Evidence
  imports Irl_Admin "HOL-Library.Sorting_Algorithms"
begin

text \<open>
  The evidence export command of \<open>src/bin/evidence_export.rs\<close>: its arguments, the three
  reports over the audit log, the key versions and the traces, and the archive it
  writes. Progress output is left out. Times are microseconds since the epoch, dates
  days since the epoch.
\<close>

section \<open>The command\<close>

text \<open>
  What the command asks of the outside: date parsing and printing (\<open>chrono\<close>), the
  collation PostgreSQL orders text by, the connection, the file, and the archive
  writer, which may fail for an entry or at the end.
\<close>

record exporter =
  xp_parse_date :: "string \<Rightarrow> int option"
  xp_show_date :: "int \<Rightarrow> string"
  xp_to_rfc3339 :: "int \<Rightarrow> string"
  xp_collation :: "string comparator"
  xp_connect_ok :: "string \<Rightarrow> bool"
  xp_create_ok :: "string \<Rightarrow> bool"
  xp_entry_error :: "string \<Rightarrow> string option"
  xp_finish_error :: "string option"

record export_args =
  ea_from :: int
  ea_to :: int
  ea_out :: string
  ea_database_url :: string

definition day_us :: int where "day_us = 86400 * 1000000"

text \<open>The loop over the arguments after the program name; the last occurrence of an option counts.\<close>

fun scan_args :: "string list \<Rightarrow> string \<times> string \<times> string \<Rightarrow> string + string \<times> string \<times> string" where
  "scan_args [] acc = Inr acc"
| "scan_args [a] acc =
     (if a = ''--from'' then Inl ''--from requires a date argument''
      else if a = ''--to'' then Inl ''--to requires a date argument''
      else if a = ''--out'' then Inl ''--out requires a path argument''
      else Inr acc)"
| "scan_args (a # v # rest) (from_str, to_str, out) =
     (if a = ''--from'' then scan_args rest (v, to_str, out)
      else if a = ''--to'' then scan_args rest (from_str, v, out)
      else if a = ''--out'' then scan_args rest (from_str, to_str, v)
      else scan_args (v # rest) (from_str, to_str, out))"

definition parse_args :: "exporter \<Rightarrow> env_vars \<Rightarrow> string list \<Rightarrow> string + export_args" where
  "parse_args xp vars args =
     res_bind (scan_args args ([], [], ''evidence.zip'')) (\<lambda>(from_str, to_str, out).
     if from_str = [] then Inl ''--from DATE is required''
     else if to_str = [] then Inl ''--to DATE is required''
     else
     res_bind (ok_or (''--from must be YYYY-MM-DD, got '' @ quoted from_str) (xp_parse_date xp from_str)) (\<lambda>from_date.
     res_bind (ok_or (''--to must be YYYY-MM-DD, got '' @ quoted to_str) (xp_parse_date xp to_str)) (\<lambda>to_date.
     res_bind (ok_or ''DATABASE_URL environment variable not set'' (vars ''DATABASE_URL'')) (\<lambda>database_url.
     Inr \<lparr>ea_from = from_date * day_us, ea_to = to_date * day_us + (23 * 3600 + 59 * 60 + 59) * 1000000,
       ea_out = out, ea_database_url = database_url\<rparr>))))"

section \<open>The reports\<close>

definition newline :: string where "newline = [CHR 0x0A]"

definition unwrap_or_default :: "string option \<Rightarrow> string" where
  "unwrap_or_default s = (case s of None \<Rightarrow> [] | Some v \<Rightarrow> v)"

definition csv_line :: "string list \<Rightarrow> string" where
  "csv_line fs = str_join '','' fs @ newline"

definition between :: "int \<Rightarrow> int \<Rightarrow> int \<Rightarrow> bool" where
  "between lo hi t \<longleftrightarrow> lo \<le> t \<and> t \<le> hi"

definition audit_fields :: "crates \<Rightarrow> audit_row \<Rightarrow> string list" where
  "audit_fields c r =
     [pg_timestamptz_text c (au_created_at r), au_operator_id r, au_action r,
      au_target_type r, unwrap_or_default (au_target_id r),
      unwrap_or_default (map_option (pg_inet_text c) (au_ip_address r))]"

definition audit_rows :: "int \<Rightarrow> int \<Rightarrow> database \<Rightarrow> audit_row list" where
  "audit_rows lo hi d = sort_key au_created_at (filter (\<lambda>r. between lo hi (au_created_at r)) (d_audit d))"

definition export_audit_log :: "env \<Rightarrow> int \<Rightarrow> int \<Rightarrow> string anyio" where
  "export_audit_log E lo hi =
     bindE (map_errE (\<lambda>_. ''Failed to query audit log'') (sql_read E (\<lambda>now d. audit_rows lo hi d))) (\<lambda>rows.
     ret (''created_at,operator_id,action,target_type,target_id,ip_address'' @ newline
          @ concat (map (\<lambda>r. csv_line (audit_fields (env_crates E) r)) rows)))"

definition key_fields :: "crates \<Rightarrow> kms_key_row \<Rightarrow> string list" where
  "key_fields c k =
     [show_int (kk_key_version k), kk_status k, pg_timestamptz_text c (kk_created_at k),
      unwrap_or_default (map_option (pg_timestamptz_text c) (kk_retired_at k))]"

definition export_key_rotations :: "env \<Rightarrow> string anyio" where
  "export_key_rotations E =
     bindE (map_errE (\<lambda>_. ''Failed to query kms_key_metadata'')
              (sql_read E (\<lambda>now d. sort_key kk_key_version (d_kms_keys d)))) (\<lambda>rows.
     ret (''key_version,status,created_at,retired_at'' @ newline
          @ concat (map (\<lambda>k. csv_line (key_fields (env_crates E) k)) rows)))"

text \<open>\<open>GROUP BY mta_version, policy_result\<close> with the size of each group, ordered by the two columns.\<close>

definition decision_of :: "trace_row \<Rightarrow> string \<times> string" where
  "decision_of r = (tr_mta_version r, tr_policy_result r)"

definition group_count :: "'k comparator \<Rightarrow> 'k list \<Rightarrow> ('k \<times> nat) list" where
  "group_count cmp ks = map (\<lambda>k. (k, count_list ks k)) (Sorting_Algorithms.sort cmp (remdups ks))"

definition decision_groups :: "exporter \<Rightarrow> int \<Rightarrow> int \<Rightarrow> database \<Rightarrow> ((string \<times> string) \<times> nat) list" where
  "decision_groups xp lo hi d =
     group_count (prod_lex (xp_collation xp) (xp_collation xp))
       (map decision_of (filter (\<lambda>r. between lo hi (tr_txn_time r)) (d_traces d)))"

definition decision_fields :: "(string \<times> string) \<times> nat \<Rightarrow> string list" where
  "decision_fields g = [fst (fst g), snd (fst g), show_int (int (snd g))]"

definition export_policy_decisions :: "env \<Rightarrow> exporter \<Rightarrow> int \<Rightarrow> int \<Rightarrow> string anyio" where
  "export_policy_decisions E xp lo hi =
     bindE (map_errE (\<lambda>_. ''Failed to query policy decisions'')
              (sql_read E (\<lambda>now d. decision_groups xp lo hi d))) (\<lambda>rows.
     ret (''mta_version,policy_result,count'' @ newline @ concat (map (\<lambda>g. csv_line (decision_fields g)) rows)))"

section \<open>The archive\<close>

definition write_entry :: "exporter \<Rightarrow> string \<Rightarrow> string \<Rightarrow> (string \<times> string) list \<Rightarrow> (string \<times> string) list anyio" where
  "write_entry xp name content archive =
     liftE (case xp_entry_error xp name of Some e \<Rightarrow> Inl e | None \<Rightarrow> Inr (archive @ [(name, content)]))"

definition manifest_text :: "exporter \<Rightarrow> export_args \<Rightarrow> string \<Rightarrow> string" where
  "manifest_text xp args generated =
     concat (map (\<lambda>l. l @ newline)
       [''IRL Engine SOC 2 Evidence Export'', ''Generated: '' @ generated,
        ''Period: '' @ xp_show_date xp (ea_from args div day_us) @ '' to '' @ xp_show_date xp (ea_to args div day_us),
        ''Files:'', ''  audit_log.csv'', ''  key_rotations.csv'', ''  policy_decisions.csv''])"

text \<open>The result is the path of the archive with its entries.\<close>

definition evidence_main ::
  "env \<Rightarrow> exporter \<Rightarrow> env_vars \<Rightarrow> string list \<Rightarrow> (string \<times> (string \<times> string) list) anyio"
where
  "evidence_main E xp vars argv =
     bindE (liftE (parse_args xp vars argv)) (\<lambda>args.
     bindE (liftE (if xp_connect_ok xp (ea_database_url args) then Inr () else Inl ''Failed to connect to database'')) (\<lambda>_.
     bindE (export_audit_log E (ea_from args) (ea_to args)) (\<lambda>audit_csv.
     bindE (export_key_rotations E) (\<lambda>key_csv.
     bindE (export_policy_decisions E xp (ea_from args) (ea_to args)) (\<lambda>decisions_csv.
     bindE (liftE (if xp_create_ok xp (ea_out args) then Inr ()
                   else Inl (''Cannot create output file '' @ quoted (ea_out args)))) (\<lambda>_.
     bindE (write_entry xp ''audit_log.csv'' audit_csv []) (\<lambda>archive.
     bindE (write_entry xp ''key_rotations.csv'' key_csv archive) (\<lambda>archive.
     bindE (write_entry xp ''policy_decisions.csv'' decisions_csv archive) (\<lambda>archive.
     bindE (effect (\<lambda>t. xp_to_rfc3339 xp (env_clock E t))) (\<lambda>generated.
     bindE (write_entry xp ''MANIFEST.txt'' (manifest_text xp args generated) archive) (\<lambda>archive.
     bindE (liftE (case xp_finish_error xp of Some e \<Rightarrow> Inl e | None \<Rightarrow> Inr ())) (\<lambda>_.
     ret (ea_out args, archive)))))))))))))"

section \<open>Reading a report back\<close>

definition csv_safe :: "string \<Rightarrow> bool" where
  "csv_safe f \<longleftrightarrow> CHR '','' \<notin> set f \<and> CHR 0x0A \<notin> set f"

text \<open>The records of a CSV text whose every line ends in a line feed.\<close>

definition csv_records :: "string \<Rightarrow> string list list" where
  "csv_records s = map (str_split (CHR '','')) (butlast (str_split (CHR 0x0A) s))"

lemma str_split_not_empty: "str_split d s \<noteq> []"
  by (cases s) (auto split: list.split)

lemma str_split_plain: "d \<notin> set s \<Longrightarrow> str_split d s = [s]"
  by (induction s) auto

lemma str_split_at: "d \<notin> set s \<Longrightarrow> str_split d (s @ d # t) = s # str_split d t"
  by (induction s) (auto simp: str_split_not_empty)

lemma str_split_join:
  "fs \<noteq> [] \<Longrightarrow> (\<And>f. f \<in> set fs \<Longrightarrow> d \<notin> set f) \<Longrightarrow> str_split d (str_join [d] fs) = fs"
  by (induction fs rule: induct_list012) (auto simp: str_split_plain str_split_at)

lemma set_str_join: "set (str_join sep fs) \<subseteq> set sep \<union> \<Union> (set ` set fs)"
  by (induction fs rule: induct_list012) auto

lemma csv_records_line:
  assumes "fs \<noteq> []" and "list_all csv_safe fs"
  shows "csv_records (csv_line fs @ rest) = fs # csv_records rest"
proof -
  have safe: "\<And>f. f \<in> set fs \<Longrightarrow> CHR '','' \<notin> set f \<and> CHR 0x0A \<notin> set f"
    using assms(2) by (auto simp: list_all_iff csv_safe_def)
  have "CHR 0x0A \<notin> set (str_join '','' fs)" using set_str_join [of "'',''" fs] safe by auto
  then show ?thesis
    using safe assms(1)
    by (simp add: csv_records_def csv_line_def newline_def str_split_at str_split_join str_split_not_empty)
qed

lemma csv_records_lines:
  assumes "\<And>x. x \<in> set xs \<Longrightarrow> f x \<noteq> [] \<and> list_all csv_safe (f x)"
  shows "csv_records (concat (map (\<lambda>x. csv_line (f x)) xs)) = map f xs"
  using assms by (induction xs) (auto simp: csv_records_line, simp add: csv_records_def)

section \<open>Groups\<close>

lemma group_count_distinct: "distinct (map fst (group_count cmp ks))"
proof -
  have "distinct (Sorting_Algorithms.sort cmp (remdups ks))"
    by (metis distinct_remdups mset_eq_imp_distinct_iff mset_sort)
  then show ?thesis by (simp add: group_count_def comp_def)
qed

lemma group_count_iff: "(k, n) \<in> set (group_count cmp ks) \<longleftrightarrow> n = count_list ks k \<and> 0 < n"
  by (auto simp: group_count_def count_list_0_iff neq0_conv [symmetric] simp del: neq0_conv)

lemma group_count_total: "sum_list (map snd (group_count cmp ks)) = length ks"
proof -
  let ?s = "Sorting_Algorithms.sort cmp (remdups ks)"
  have "distinct ?s" by (metis distinct_remdups mset_eq_imp_distinct_iff mset_sort)
  then have "sum_list (map (count_list ks) ?s) = sum (count_list ks) (set ?s)" by (rule sum_list_distinct_conv_sum_set)
  then show ?thesis by (simp add: group_count_def comp_def sum_count_set)
qed

section \<open>What a finished export holds\<close>

definition audit_header :: "string list" where
  "audit_header = [''created_at'', ''operator_id'', ''action'', ''target_type'', ''target_id'', ''ip_address'']"

definition decision_header :: "string list" where
  "decision_header = [''mta_version'', ''policy_result'', ''count'']"

lemma audit_header_line:
  "csv_line audit_header = ''created_at,operator_id,action,target_type,target_id,ip_address'' @ newline"
  by (simp add: csv_line_def audit_header_def)

lemma decision_header_line: "csv_line decision_header = ''mta_version,policy_result,count'' @ newline"
  by (simp add: csv_line_def decision_header_def)

lemma headers_safe: "list_all csv_safe audit_header" "list_all csv_safe decision_header"
  by (simp_all add: audit_header_def decision_header_def csv_safe_def)

lemma csv_report:
  assumes "h \<noteq> []" and "list_all csv_safe h" and "\<And>x. x \<in> set xs \<Longrightarrow> f x \<noteq> [] \<and> list_all csv_safe (f x)"
  shows "csv_records (csv_line h @ concat (map (\<lambda>x. csv_line (f x)) xs)) = h # map f xs"
  by (simp add: csv_records_line assms csv_records_lines)

lemma export_audit_log_ok:
  assumes "export_audit_log E lo hi w = (Inr csv, w')"
  shows "w_db w' = w_db w
    \<and> csv = csv_line audit_header @ concat (map (\<lambda>r. csv_line (audit_fields (env_crates E) r)) (audit_rows lo hi (w_db w)))"
  using assms by (auto simp: export_audit_log_def bindE_Inr_iff map_errE_Inr_iff sql_read_ok_iff io_simps audit_header_line)

lemma export_key_rotations_ok: "export_key_rotations E w = (Inr csv, w') \<Longrightarrow> w_db w' = w_db w"
  by (auto simp: export_key_rotations_def bindE_Inr_iff map_errE_Inr_iff sql_read_ok_iff io_simps)

lemma export_policy_decisions_ok:
  assumes "export_policy_decisions E xp lo hi w = (Inr csv, w')"
  shows "w_db w' = w_db w
    \<and> csv = csv_line decision_header @ concat (map (\<lambda>g. csv_line (decision_fields g)) (decision_groups xp lo hi (w_db w)))"
  using assms
  by (auto simp: export_policy_decisions_def bindE_Inr_iff map_errE_Inr_iff sql_read_ok_iff io_simps decision_header_line)

lemma write_entry_ok: "write_entry xp name content a w = (Inr b, w') \<Longrightarrow> b = a @ [(name, content)] \<and> w' = w"
  by (auto simp: write_entry_def liftE_Inr_iff split: option.splits)

lemma evidence_main_ok:
  assumes "evidence_main E xp vars argv w = (Inr (out, archive), w')"
  obtains args a b c d v1 v2 v3 where "parse_args xp vars argv = Inr args" "out = ea_out args"
    "archive = [(''audit_log.csv'', a), (''key_rotations.csv'', b), (''policy_decisions.csv'', c), (''MANIFEST.txt'', d)]"
    "export_audit_log E (ea_from args) (ea_to args) w = (Inr a, v1)"
    "export_key_rotations E v1 = (Inr b, v2)"
    "export_policy_decisions E xp (ea_from args) (ea_to args) v2 = (Inr c, v3)"
    "w_db w' = w_db v3"
  using assms
  by (auto simp: evidence_main_def bindE_Inr_iff liftE_Inr_iff io_simps dest!: write_entry_ok split: if_splits option.splits)

text \<open>
  The end of the period is 23:59:59 of its last day: what happens in the second after
  that instant is in no export, neither of a period that ends on that day nor of one
  that starts on the next.
\<close>

lemma last_second_in_no_export:
  assumes "day * day_us + 86399 * 1000000 < t" and "t < (day + 1) * day_us"
    and "parse_args xp vars argv = Inr args" and "between (ea_from args) (ea_to args) t"
  shows "ea_from args \<le> day * day_us \<and> (day + 1) * day_us \<le> ea_to args"
proof -
  obtain f u where args: "ea_from args = f * day_us" "ea_to args = u * day_us + 86399 * 1000000"
    using assms(3) by (auto simp: parse_args_def res_bind_Inr_iff split: prod.splits if_splits) blast
  have t: "f * 86400000000 \<le> t" "t \<le> u * 86400000000 + 86399000000"
    using assms(4) by (simp_all add: between_def args day_us_def)
  then have "f \<le> day" "day + 1 \<le> u" using assms(1,2) by (simp_all add: day_us_def)
  then show ?thesis by (simp add: args day_us_def)
qed

text \<open>Fields are written as they are: a comma in an identifier moves the columns after it.\<close>

lemma csv_comma_shifts_columns: "csv_line [''ops'', ''a,b'', ''c''] = csv_line [''ops'', ''a'', ''b,c'']"
  by (simp add: csv_line_def)

text \<open>A concrete export for the witness below: one audit row, the dates of two days.\<close>

definition demo_exporter :: exporter where
  "demo_exporter = \<lparr>xp_parse_date = (\<lambda>s. if s = ''1970-01-12'' then Some 11 else None), xp_show_date = show_int,
     xp_to_rfc3339 = show_int, xp_collation = flat, xp_connect_ok = (\<lambda>_. True), xp_create_ok = (\<lambda>_. True),
     xp_entry_error = (\<lambda>_. None), xp_finish_error = None\<rparr>"

definition demo_audit :: audit_row where
  "demo_audit = \<lparr>au_id = 1, au_operator_id = ''ops'', au_action = ''TOKEN_ISSUE'', au_target_type = ''TOKEN'',
     au_target_id = None, au_details_json = None, au_ip_address = None, au_created_at = 11 * day_us + 5\<rparr>"

definition demo_audit_world :: world where
  "demo_audit_world = demo_world\<lparr>w_db := demo_db\<lparr>d_audit := [demo_audit], d_traces := []\<rparr>\<rparr>"

lemma demo_export:
  "\<exists>archive w'. evidence_main demo_env demo_exporter Some [''--to'', ''1970-01-12'', ''--from'', ''1970-01-12''] demo_audit_world
     = (Inr (''evidence.zip'', archive), w')"
  by (simp add: evidence_main_def parse_args_def demo_exporter_def demo_env_def bindE_def io_simps
      export_audit_log_def export_key_rotations_def export_policy_decisions_def map_errE_def sql_read_def sql_def
      write_entry_def)

section \<open>Properties\<close>



end
