(* ===== verification/Irl_Retention.thy ===== *)
theory Irl_Retention
  imports Irl_System
begin

text \<open>
  The daily maintenance task of \<open>src/main.rs\<close>. The trace table is partitioned by month of
  the transaction time (migration 013); the start of the server configures how many
  months \<open>pg_partman\<close> retains (\<open>DB_RETENTION_MONTHS\<close>), and the task calls its procedure,
  which drops the partitions that lie before the retention. The procedure belongs to the
  extension: which partitions it drops is a parameter, and what the engine relies on is
  that a dropped partition lies before the retention.
\<close>

section \<open>Maintenance\<close>

text \<open>
  Whether the partition of a transaction time is dropped, by the months retained and the
  time of the call, and the time so many months before another.
\<close>

record partman =
  pm_dropped :: "int \<Rightarrow> int \<Rightarrow> int \<Rightarrow> bool"
  pm_months_before :: "int \<Rightarrow> int \<Rightarrow> int"

definition partman_ok :: "partman \<Rightarrow> bool" where
  "partman_ok pm \<longleftrightarrow> (\<forall>months now t. pm_dropped pm months now t \<longrightarrow> t < pm_months_before pm months now)"

definition cutoff :: "partman \<Rightarrow> int \<Rightarrow> database \<Rightarrow> int" where
  "cutoff pm now d = pm_months_before pm (d_retention_months d) now"

text \<open>Dropping a partition removes its rows.\<close>

definition run_maintenance_proc :: "partman \<Rightarrow> int \<Rightarrow> database \<Rightarrow> database" where
  "run_maintenance_proc pm now d =
     d\<lparr>d_traces := filter (\<lambda>r. \<not> pm_dropped pm (d_retention_months d) now (tr_txn_time r)) (d_traces d)\<rparr>"

text \<open>One round of the task: the result of the call is discarded.\<close>

definition maintenance_round :: "env \<Rightarrow> partman \<Rightarrow> (app_error + unit) io" where
  "maintenance_round E pm = attempt (sql E (\<lambda>now d. Inr ((), run_maintenance_proc pm now d)))"

lemma maintenance_round_db:
  "maintenance_round E pm w = (r, w') \<Longrightarrow>
     w_db w' = w_db w \<or> w_db w' = run_maintenance_proc pm (env_clock E (w_tick w)) (w_db w)"
  by (auto simp: maintenance_round_def attempt_def sql_def Let_def split: option.splits)

text \<open>With an answering database no row of a partition due for dropping is left.\<close>

lemma maintenance_complete:
  assumes "maintenance_round E pm w = (r, w')" and "env_db_fault E (w_tick w) = None"
    and "x \<in> set (d_traces (w_db w'))"
  shows "\<not> pm_dropped pm (d_retention_months (w_db w)) (env_clock E (w_tick w)) (tr_txn_time x)"
  using assms by (auto simp: maintenance_round_def attempt_def sql_def Let_def run_maintenance_proc_def)

text \<open>The retention a start configures: 36 months unless the environment says otherwise.\<close>

lemma start_sets_retention:
  assumes "main E pf vars None w = (Inr (Serving st), w')"
  shows "parse_i32 (var_or vars ''DB_RETENTION_MONTHS'' ''36'') = Some (d_retention_months (w_db w'))"
  using assms
  by (auto simp: main_def start_server_def bindE_Inr_iff map_errE_Inr_iff liftE_Inr_iff sql_ok_iff io_simps)

section \<open>The system with its maintenance\<close>

text \<open>
  Steps of the engine and rounds of the maintenance; \<open>T\<close> bounds the cutoffs of the run,
  so that it is the youngest transaction time the retention may reach.
\<close>

inductive retention_step ::
  "env \<Rightarrow> x509 \<Rightarrow> http_client \<Rightarrow> platform \<Rightarrow> partman \<Rightarrow> int \<Rightarrow> deployment \<Rightarrow> deployment \<Rightarrow> bool"
  for E :: env and parse :: x509 and hc :: http_client and pf :: platform and pm :: partman and T :: int
where
  rs_engine: "system_step E parse hc pf s s' \<Longrightarrow> retention_step E parse hc pf pm T s s'"
| rs_maintain: "maintenance_round E pm w = (r, w') \<Longrightarrow> cutoff pm (env_clock E (w_tick w)) (w_db w) \<le> T \<Longrightarrow>
    retention_step E parse hc pf pm T (Some st, w) (Some st, w')"

text \<open>Traces since \<open>T\<close> stay, up to what the engine may change in them; the other tables only grow.\<close>

definition kept_since :: "int \<Rightarrow> database \<Rightarrow> database \<Rightarrow> bool" where
  "kept_since T d d' \<longleftrightarrow>
     (\<forall>r \<in> set (d_traces d). T \<le> tr_txn_time r \<longrightarrow> (\<exists>r' \<in> set (d_traces d'). trace_change r r'))
     \<and> rows_evolve agent_change (d_agents d) (d_agents d') \<and> rows_evolve token_change (d_tokens d) (d_tokens d')
     \<and> rows_evolve anchor_change (d_anchors d) (d_anchors d') \<and> (\<exists>new. d_audit d' = d_audit d @ new)"

lemma trace_change_txn: "trace_change r r' \<Longrightarrow> tr_txn_time r' = tr_txn_time r"
  by (auto simp: trace_change_def trace_core_def sealed_def dest!: arg_cong [where f = tr_txn_time])

lemma kept_since_refl: "kept_since T d d"
  using trt.P_refl by (auto simp: kept_since_def evolve_refls)

lemma kept_since_trans:
  assumes ab: "kept_since T a b" and bc: "kept_since T b c"
  shows "kept_since T a c"
proof -
  have "\<exists>r'' \<in> set (d_traces c). trace_change r r''" if r: "r \<in> set (d_traces a)" "T \<le> tr_txn_time r" for r
  proof -
    obtain r' where r': "r' \<in> set (d_traces b)" "trace_change r r'" using ab r by (auto simp: kept_since_def)
    then have "T \<le> tr_txn_time r'" using r(2) trace_change_txn by simp
    then obtain r'' where "r'' \<in> set (d_traces c)" "trace_change r' r''" using bc r'(1) by (auto simp: kept_since_def)
    then show ?thesis using r'(2) trt.P_trans by blast
  qed
  moreover have "\<exists>new. d_audit c = d_audit a @ new" using ab bc by (auto simp: kept_since_def)
  ultimately show ?thesis
    using ab bc agt.evolve_trans tot.evolve_trans ant.evolve_trans unfolding kept_since_def by blast
qed

lemma rows_evolve_member: "rows_evolve P xs ys \<Longrightarrow> x \<in> set xs \<Longrightarrow> \<exists>y \<in> set ys. P x y"
  unfolding rows_evolve_def by (metis UnCI in_set_conv_nth list_all2_conv_all_nth set_append)

lemma kept_kept_since: "kept d d' \<Longrightarrow> kept_since T d d'"
  by (auto simp: kept_def kept_since_def dest: rows_evolve_member)

lemma maintenance_kept:
  assumes "partman_ok pm" and "cutoff pm now d \<le> T"
  shows "kept_since T d (run_maintenance_proc pm now d)"
proof -
  have "\<not> pm_dropped pm (d_retention_months d) now (tr_txn_time r)" if "T \<le> tr_txn_time r" for r
    using that assms by (force simp: partman_ok_def cutoff_def)
  then show ?thesis using trt.P_refl by (auto simp: kept_since_def run_maintenance_proc_def evolve_refls)
qed

lemma maintenance_schema: "schema_ok d \<Longrightarrow> schema_ok (run_maintenance_proc pm now d)"
  by (simp add: schema_ok_def run_maintenance_proc_def distinct_map_filter list_all_iff)

lemma retention_step_kept:
  assumes "retention_step E parse hc pf pm T s s'" and "partman_ok pm"
  shows "kept_since T (w_db (snd s)) (w_db (snd s')) \<and> (schema_ok (w_db (snd s)) \<longrightarrow> schema_ok (w_db (snd s')))"
  using assms(1)
proof (cases rule: retention_step.cases)
  case rs_engine
  then show ?thesis
    using table_run_kept table_run_schema system_step_tables kept_kept_since by blast
next
  case (rs_maintain w r w' st)
  then show ?thesis
    using maintenance_round_db [OF rs_maintain(3)] maintenance_kept [OF assms(2) rs_maintain(4)]
      maintenance_schema kept_since_refl by auto
qed

lemma retention_run_kept:
  assumes "(retention_step E parse hc pf pm T)\<^sup>*\<^sup>* s s'" and "partman_ok pm"
  shows "kept_since T (w_db (snd s)) (w_db (snd s')) \<and> (schema_ok (w_db (snd s)) \<longrightarrow> schema_ok (w_db (snd s')))"
  using assms(1)
proof (induction rule: rtranclp_induct)
  case base
  then show ?case by (simp add: kept_since_refl)
next
  case (step u v)
  then show ?case using retention_step_kept [OF step.hyps(2) assms(2)] kept_since_trans by blast
qed

section \<open>Properties\<close>

definition demo_partman :: partman where
  "demo_partman = \<lparr>pm_dropped = (\<lambda>months now t. (t div 2592000000000 + 1) * 2592000000000 \<le> now - months * 2592000000000),
     pm_months_before = (\<lambda>months now. now - months * 2592000000000)\<rparr>"

text \<open>C37: within the retention no trace is lost. In every run of the engine and its maintenance task, with whatever
  starts and reconfigurations of the retention, a trace whose transaction time no cutoff of the run
  has passed is still in the table with its sealed columns, never reopened, never back in plain
  text and still erased if it was; anchors keep their period and root, the audit log only grows,
  and the tables keep the constraints of the schema although partitions are dropped.\<close>

theorem retention_respected:
  assumes "(retention_step E parse hc pf pm T)\<^sup>*\<^sup>* (s, w) (s', w')" and "partman_ok pm"
    and "r \<in> set (d_traces (w_db w))" and "T \<le> tr_txn_time r"
  shows "(\<exists>r' \<in> set (d_traces (w_db w')). trace_core r' = trace_core r
       \<and> (tr_verification_status r \<noteq> ''PENDING'' \<longrightarrow> tr_verification_status r' \<noteq> ''PENDING'')
       \<and> (stored_encrypted r \<longrightarrow> stored_encrypted r') \<and> (tr_gdpr_erased_at r \<noteq> None \<longrightarrow> tr_gdpr_erased_at r' \<noteq> None))
    \<and> (\<forall>k < length (d_anchors (w_db w)). k < length (d_anchors (w_db w'))
         \<and> anchor_core (d_anchors (w_db w') ! k) = anchor_core (d_anchors (w_db w) ! k))
    \<and> (\<exists>new. d_audit (w_db w') = d_audit (w_db w) @ new)
    \<and> (schema_ok (w_db w) \<longrightarrow> schema_ok (w_db w'))"
proof -
  have kept: "kept_since T (w_db w) (w_db w')" and schema: "schema_ok (w_db w) \<longrightarrow> schema_ok (w_db w')"
    using retention_run_kept [OF assms(1,2)] by simp_all
  obtain r' where r': "r' \<in> set (d_traces (w_db w'))" "trace_change r r'"
    using kept assms(3,4) by (auto simp: kept_since_def)
  have anchors: "rows_evolve anchor_change (d_anchors (w_db w)) (d_anchors (w_db w'))"
    and audit: "\<exists>new. d_audit (w_db w') = d_audit (w_db w) @ new"
    using kept by (auto simp: kept_since_def)
  show ?thesis
    using r' trace_change_facts [OF r'(2)] ant.evolve_nth [OF anchors, unfolded anchor_change_def] audit schema
    by blast
qed

lemma demo_maintenance:
  "\<exists>r w'. maintenance_round demo_env demo_partman demo_bind_world = (r, w') \<and> d_traces (w_db w') = [demo_row]
     \<and> cutoff demo_partman (env_clock demo_env (w_tick demo_bind_world)) (w_db demo_bind_world) \<le> 999500000"
  by (simp add: maintenance_round_def attempt_def sql_def Let_def demo_simps run_maintenance_proc_def cutoff_def
      demo_bind_world_def demo_world_def demo_db_def demo_partman_def demo_row_def)

theorem retention_respected_witness:
  "\<exists>w'. retention_step demo_env (\<lambda>der. None) demo_http demo_platform demo_partman 999500000
       (Some demo_state, demo_bind_world) (Some demo_state, w')
     \<and> (\<exists>r' \<in> set (d_traces (w_db w')). trace_core r' = trace_core demo_row)"
proof -
  obtain r w' where m: "maintenance_round demo_env demo_partman demo_bind_world = (r, w')"
    and c: "cutoff demo_partman (env_clock demo_env (w_tick demo_bind_world)) (w_db demo_bind_world) \<le> 999500000"
    using demo_maintenance by blast
  have step: "retention_step demo_env (\<lambda>der. None) demo_http demo_platform demo_partman 999500000
       (Some demo_state, demo_bind_world) (Some demo_state, w')"
    by (rule rs_maintain [OF m c])
  have drops: "partman_ok demo_partman"
    unfolding partman_ok_def demo_partman_def
    by (auto simp: algebra_simps intro: less_le_trans [OF less_add_one])
  have row: "demo_row \<in> set (d_traces (w_db demo_bind_world))" "999500000 \<le> tr_txn_time demo_row"
    by (simp_all add: demo_bind_world_def demo_row_def)
  have run: "(retention_step demo_env (\<lambda>der. None) demo_http demo_platform demo_partman 999500000)\<^sup>*\<^sup>*
       (Some demo_state, demo_bind_world) (Some demo_state, w')" using step by (rule r_into_rtranclp)
  from retention_respected [OF run drops row] step show ?thesis by blast
qed

end
