(* ===== verification/Irl_Tests.thy ===== *)
theory Irl_Tests
  imports Irl_Merkle Irl_Gdpr Irl_Admin
begin

text \<open>
  The unit tests of the pure components, as the sources state them: policy, asset
  aliases, reconciliation, seal, Merkle root, agent registry, audit actions, erasure
  of personal fields and certificate expiry. A test is a boolean over the model, with
  the crates, the clock and the drawn identifiers as arguments, so that it is proved for
  all of them and not for one run. Tests that compare a value with itself are left out.
  The lemmas named \<open>..._tests_hold\<close> are a regression suite of the model: they evaluate it on
  the inputs of the repository's own tests and claim nothing beyond them.
\<close>

section \<open>Assertions\<close>

text \<open>\<open>result.unwrap()\<close> followed by assertions on the value.\<close>

definition ok_with :: "'e + 'a \<Rightarrow> ('a \<Rightarrow> bool) \<Rightarrow> bool" where
  "ok_with r P = (case r of Inl _ \<Rightarrow> False | Inr x \<Rightarrow> P x)"

text \<open>\<open>matches!(result, Err(pattern))\<close>.\<close>

definition err_with :: "'e + 'a \<Rightarrow> ('e \<Rightarrow> bool) \<Rightarrow> bool" where
  "err_with r P = (case r of Inl e \<Rightarrow> P e | Inr _ \<Rightarrow> False)"

fun is_policy :: "app_error \<Rightarrow> bool" where
  "is_policy (Policy _) = True"
| "is_policy _ = False"

text \<open>\<open>value[key]\<close> of a JSON value: \<open>Null\<close> where the key is missing.\<close>

definition json_index :: "json \<Rightarrow> string \<Rightarrow> json" where
  "json_index v k = (case json_get v k of None \<Rightarrow> JNull | Some x \<Rightarrow> x)"

section \<open>Policy\<close>

definition mock_mta :: "int \<Rightarrow> u8 \<Rightarrow> string \<Rightarrow> f64 \<Rightarrow> f64 \<Rightarrow> string list \<Rightarrow> mta_state" where
  "mock_mta now regime_id regime_label risk_level max_notional_scale allowed_sides =
     \<lparr>ms_regime_id = regime_id, ms_regime_label = regime_label, ms_risk_level = risk_level,
      ms_max_notional_scale = max_notional_scale, ms_allowed_sides = allowed_sides,
      ms_version = ''test-v1'', ms_hash = ''0xmockhash'', ms_broadcast_time = now - 50,
      ms_pubkey_fingerprint = replicate 64 (CHR ''a''), ms_signal_mode = ''mock''\<rparr>"

definition fully_open :: "int \<Rightarrow> mta_state" where
  "fully_open now = mock_mta now 0 ''expansion'' (Finite 1) (Finite 1) [''long'', ''short'', ''neutral'']"

definition short_only :: "int \<Rightarrow> mta_state" where
  "short_only now =
     mock_mta now 2 ''tightening'' (f64_round False (3 / 10)) (Finite (1 / 4)) [''short'', ''neutral'']"

definition locked :: "int \<Rightarrow> mta_state" where
  "locked now = mock_mta now 3 ''risk_off'' (Finite 0) (Finite 0) [''neutral'']"

definition CAP :: f64 where
  "CAP = Finite 1000000"

definition allowed_side_passes :: "crates \<Rightarrow> int \<Rightarrow> bool" where
  "allowed_side_passes c now =
     (let mta = fully_open now in
      is_ok (enforce c mta (Long (Finite 1)) (Finite 100000) CAP False)
      \<and> is_ok (enforce c mta (Short (Finite 1)) (Finite 100000) CAP False)
      \<and> is_ok (enforce c mta Neutral (Finite 0) CAP False))"

definition blocked_side_returns_error :: "crates \<Rightarrow> int \<Rightarrow> bool" where
  "blocked_side_returns_error c now =
     (let mta = short_only now in
      \<not> is_ok (enforce c mta (Long (Finite 1)) (Finite 50000) CAP False)
      \<and> is_ok (enforce c mta (Short (Finite 1)) (Finite 50000) CAP False)
      \<and> is_ok (enforce c mta Neutral (Finite 0) CAP False))"

definition notional_within_scaled_cap_passes :: "crates \<Rightarrow> int \<Rightarrow> bool" where
  "notional_within_scaled_cap_passes c now =
     is_ok (enforce c (short_only now) (Short (Finite 1)) (Finite 250000) CAP False)"

definition notional_exceeds_scaled_cap_returns_error :: "crates \<Rightarrow> int \<Rightarrow> bool" where
  "notional_exceeds_scaled_cap_returns_error c now =
     (\<not> is_ok (enforce c (short_only now) (Short (Finite 1)) (Finite 250001) CAP False))"

definition zero_scale_blocks_all_nonzero_notional :: "crates \<Rightarrow> int \<Rightarrow> bool" where
  "zero_scale_blocks_all_nonzero_notional c now =
     (let mta = locked now in
      \<not> is_ok (enforce c mta Neutral (Finite 1) CAP False)
      \<and> is_ok (enforce c mta Neutral (Finite 0) CAP False))"

definition empty_allowed_sides_blocks_all :: "crates \<Rightarrow> int \<Rightarrow> bool" where
  "empty_allowed_sides_blocks_all c now =
     (let mta = mock_mta now 99 ''blackout'' (Finite 0) (Finite 0) [] in
      \<not> is_ok (enforce c mta (Long (Finite 1)) (Finite 0) CAP False)
      \<and> \<not> is_ok (enforce c mta (Short (Finite 1)) (Finite 0) CAP False)
      \<and> \<not> is_ok (enforce c mta Neutral (Finite 0) CAP False))"

definition evaluate_returns_halted_without_error :: "crates \<Rightarrow> int \<Rightarrow> bool" where
  "evaluate_returns_halted_without_error c now =
     (let decision = evaluate c (short_only now) (Long (Finite 1)) (Finite 50000) CAP False in
      pd_result decision = Halted \<and> pd_policy_id decision = POLICY_ID)"

definition enforce_returns_error_on_halt :: "crates \<Rightarrow> int \<Rightarrow> bool" where
  "enforce_returns_error_on_halt c now =
     err_with (enforce c (short_only now) (Long (Finite 1)) (Finite 50000) CAP False) is_policy"

definition constraint_hash_differs_across_regimes :: "crates \<Rightarrow> int \<Rightarrow> bool" where
  "constraint_hash_differs_across_regimes c now =
     (constraint_hash c (fully_open now) \<noteq> constraint_hash c (locked now))"

definition reduce_only_bypasses_direction_check :: "crates \<Rightarrow> int \<Rightarrow> bool" where
  "reduce_only_bypasses_direction_check c now =
     (let mta = locked now in
      is_ok (enforce c mta (Long (Finite 1)) (Finite 0) CAP True)
      \<and> is_ok (enforce c mta (Short (Finite 1)) (Finite 0) CAP True)
      \<and> \<not> is_ok (enforce c mta (Long (Finite 1)) (Finite 1) CAP True))"

definition reduce_only_with_nonzero_cap_passes_notional :: "crates \<Rightarrow> int \<Rightarrow> bool" where
  "reduce_only_with_nonzero_cap_passes_notional c now =
     (let mta = fully_open now in
      is_ok (enforce c mta (Long (Finite 1)) CAP CAP True)
      \<and> \<not> is_ok (enforce c mta (Long (Finite 1)) (f64_add CAP (Finite 1)) CAP True))"

definition case_insensitive_side_matching :: "crates \<Rightarrow> int \<Rightarrow> bool" where
  "case_insensitive_side_matching c now =
     (let mta = mock_mta now 0 ''custom'' (Finite 1) (Finite 1) [''Long'', ''SHORT'', ''Neutral''] in
      is_ok (enforce c mta (Long (Finite 1)) (Finite 0) CAP False)
      \<and> is_ok (enforce c mta (Short (Finite 1)) (Finite 0) CAP False))"

text \<open>The byte string a constraint hash digests.\<close>

definition constraint_input :: "mta_state \<Rightarrow> byte list" where
  "constraint_input mta =
     concat ([[ms_regime_id mta], as_bytes ''|'', as_bytes (ms_version mta), as_bytes ''|'',
       u64_to_le_bytes (f64_to_bits (ms_risk_level mta)), as_bytes ''|'',
       u64_to_le_bytes (f64_to_bits (ms_max_notional_scale mta)), as_bytes ''|'']
      @ concat (map (\<lambda>side. [as_bytes side, as_bytes '','']) (ms_allowed_sides mta)))"

lemma constraint_hash_input: "constraint_hash c mta = hex_encode c (sha256 c (constraint_input mta))"
  by (simp add: constraint_hash_def constraint_input_def sha256_hex_of_def)

lemma test_caps:
  "f64_mul CAP (Finite 1) = Finite 1000000" "f64_mul CAP (Finite (1 / 4)) = Finite 250000"
  "f64_mul CAP (Finite 0) = Finite 0" "f64_add CAP (Finite 1) = Finite 1000001"
  "f64_less (Finite 1000000) CAP = False"
  by code_simp+

lemma lower_sides:
  "to_ascii_lowercase ''long'' = ''long''" "to_ascii_lowercase ''short'' = ''short''"
  "to_ascii_lowercase ''neutral'' = ''neutral''" "to_ascii_lowercase ''Long'' = ''long''"
  "to_ascii_lowercase ''SHORT'' = ''short''" "to_ascii_lowercase ''Neutral'' = ''neutral''"
  by code_simp+

lemma enforce_is_ok:
  "is_ok (enforce c mta a n cap ro) \<longleftrightarrow>
     (ro \<or> side_open mta a) \<and> \<not> f64_less (f64_mul cap (ms_max_notional_scale mta)) n"
  by (auto simp: enforce_def check_constraints_eq)

lemmas policy_test_simps =
  Let_def enforce_is_ok side_open_def lower_sides fully_open_def short_only_def locked_def
  mock_mta_def test_caps

lemma policy_tests_hold:
  "allowed_side_passes c now" "blocked_side_returns_error c now" "notional_within_scaled_cap_passes c now"
  "notional_exceeds_scaled_cap_returns_error c now" "zero_scale_blocks_all_nonzero_notional c now"
  "empty_allowed_sides_blocks_all c now" "evaluate_returns_halted_without_error c now"
  "enforce_returns_error_on_halt c now" "reduce_only_bypasses_direction_check c now"
  "reduce_only_with_nonzero_cap_passes_notional c now" "case_insensitive_side_matching c now"
  subgoal by (simp add: allowed_side_passes_def policy_test_simps)
  subgoal by (simp add: blocked_side_returns_error_def policy_test_simps)
  subgoal by (simp add: notional_within_scaled_cap_passes_def policy_test_simps)
  subgoal by (simp add: notional_exceeds_scaled_cap_returns_error_def policy_test_simps)
  subgoal by (simp add: zero_scale_blocks_all_nonzero_notional_def policy_test_simps)
  subgoal by (simp add: empty_allowed_sides_blocks_all_def policy_test_simps)
  subgoal by (simp add: evaluate_returns_halted_without_error_def evaluate_def check_constraints_eq policy_test_simps)
  subgoal by (simp add: enforce_returns_error_on_halt_def err_with_def enforce_def check_constraints_eq policy_test_simps)
  subgoal by (simp add: reduce_only_bypasses_direction_check_def policy_test_simps)
  subgoal by (simp add: reduce_only_with_nonzero_cap_passes_notional_def policy_test_simps)
  subgoal by (simp add: case_insensitive_side_matching_def policy_test_simps)
  done

text \<open>Digests of two inputs that do not collide have different hex texts.\<close>

lemma digests_differ:
  assumes "inj (hex_encode c)" and "inj_on (sha256 c) {x, y}" and "x \<noteq> y"
  shows "hex_encode c (sha256 c x) \<noteq> hex_encode c (sha256 c y)"
  using assms(3) injD [OF assms(1)] inj_onD [OF assms(2), of x y] by blast

lemma constraint_input_hd: "hd (constraint_input mta) = ms_regime_id mta"
  by (simp add: constraint_input_def)

lemma constraint_hash_differs:
  assumes "inj (hex_encode c)" and "inj_on (sha256 c) {constraint_input (fully_open now), constraint_input (locked now)}"
  shows "constraint_hash_differs_across_regimes c now"
  unfolding constraint_hash_differs_across_regimes_def constraint_hash_input
proof (rule digests_differ [OF assms])
  have "ms_regime_id (fully_open now) \<noteq> ms_regime_id (locked now)"
    by (simp add: fully_open_def locked_def mock_mta_def)
  then show "constraint_input (fully_open now) \<noteq> constraint_input (locked now)"
    using constraint_input_hd by metis
qed

section \<open>Asset aliases\<close>

text \<open>No test sets the alias map.\<close>

definition no_aliases :: alias_map where
  "no_aliases = (\<lambda>_. None)"

definition exact_match_passes :: bool where
  "exact_match_passes = assets_match no_aliases ''BTC-PERP'' ''BTC-PERP''"

definition different_symbols_fail :: bool where
  "different_symbols_fail = (\<not> assets_match no_aliases ''BTC-PERP'' ''ETH-PERP'')"

definition canonicalize_unknown_returns_input :: bool where
  "canonicalize_unknown_returns_input = (canonicalize no_aliases ''UNKNOWN-XYZ'' = ''UNKNOWN-XYZ'')"

lemma asset_tests_hold: exact_match_passes different_symbols_fail canonicalize_unknown_returns_input
  by code_simp+

section \<open>Reconciliation\<close>

definition DEFAULT_SIZE_TOLERANCE :: f64 where
  "DEFAULT_SIZE_TOLERANCE = f64_round False (1 / 10000)"

definition make_req :: "uuid \<Rightarrow> string \<Rightarrow> bind_execution_request" where
  "make_req trace_id exchange_tx_id =
     \<lparr>be_trace_id = trace_id, be_exchange_tx_id = exchange_tx_id, be_execution_status = Filled,
      be_asset = Some ''BTC-PERP'', be_executed_quantity = Some (Finite (3 / 2)),
      be_execution_price = Some (Finite (269801 / 4)), be_executed_side = None, be_execution_time_ms = None\<rparr>"

text \<open>The call every test makes, for an authorized quantity of 1.5.\<close>

definition reconciled ::
  "env \<Rightarrow> world \<Rightarrow> uuid \<Rightarrow> bind_execution_request \<Rightarrow> string \<Rightarrow> string \<Rightarrow> (bind_execution_result \<Rightarrow> bool) \<Rightarrow> bool"
where
  "reconciled E w tid req intent_asset intent_action =
     ok_with (fst (reconcile E no_aliases tid ''0xhash'' req intent_asset intent_action (Finite (3 / 2))
       DEFAULT_SIZE_TOLERANCE w))"

definition reason_contains :: "bind_execution_result \<Rightarrow> string \<Rightarrow> bool" where
  "reason_contains result text =
     (case br_divergence_reason result of None \<Rightarrow> False | Some reason \<Rightarrow> str_contains reason text)"

definition matched_when_asset_and_quantity_match :: "env \<Rightarrow> world \<Rightarrow> uuid \<Rightarrow> uuid \<Rightarrow> bool" where
  "matched_when_asset_and_quantity_match E w tid rid =
     reconciled E w tid (make_req rid ''exch-0x123'') ''BTC-PERP'' ''Short(1.5)'' (\<lambda>result.
       br_verification_status result = Matched \<and> br_divergence_reason result = None)"

definition divergent_on_asset_mismatch :: "env \<Rightarrow> world \<Rightarrow> uuid \<Rightarrow> uuid \<Rightarrow> bool" where
  "divergent_on_asset_mismatch E w tid rid =
     reconciled E w tid (make_req rid ''exch-0x456'') ''ETH-PERP'' ''Short(1.5)'' (\<lambda>result.
       br_verification_status result = Divergent \<and> reason_contains result ''Asset mismatch'')"

definition divergent_on_quantity_outside_tolerance :: "env \<Rightarrow> world \<Rightarrow> uuid \<Rightarrow> uuid \<Rightarrow> bool" where
  "divergent_on_quantity_outside_tolerance E w tid rid =
     reconciled E w tid ((make_req rid ''exch-0x789'')\<lparr>be_executed_quantity := Some (Finite 2)\<rparr>)
       ''BTC-PERP'' ''Short(1.5)'' (\<lambda>result. br_verification_status result = Divergent)"

definition final_proof_changes_with_different_tx :: "env \<Rightarrow> world \<Rightarrow> uuid \<Rightarrow> uuid \<Rightarrow> uuid \<Rightarrow> bool" where
  "final_proof_changes_with_different_tx E w tid rid1 rid2 =
     reconciled E w tid (make_req rid1 ''tx-1'') ''BTC-PERP'' ''Short'' (\<lambda>r1.
     reconciled E w tid (make_req rid2 ''tx-2'') ''BTC-PERP'' ''Short'' (\<lambda>r2.
       br_final_proof r1 \<noteq> br_final_proof r2))"

definition divergent_on_side_mismatch :: "env \<Rightarrow> world \<Rightarrow> uuid \<Rightarrow> uuid \<Rightarrow> bool" where
  "divergent_on_side_mismatch E w tid rid =
     reconciled E w tid ((make_req rid ''exch-0xside'')\<lparr>be_executed_side := Some ''short''\<rparr>)
       ''BTC-PERP'' ''Long(1.5)'' (\<lambda>result.
       br_verification_status result = Divergent \<and> reason_contains result ''Side mismatch'')"

definition matched_when_side_matches :: "env \<Rightarrow> world \<Rightarrow> uuid \<Rightarrow> uuid \<Rightarrow> bool" where
  "matched_when_side_matches E w tid rid =
     reconciled E w tid ((make_req rid ''exch-0xmatch'')\<lparr>be_executed_side := Some ''Long''\<rparr>)
       ''BTC-PERP'' ''Long(1.5)'' (\<lambda>result. br_verification_status result = Matched)"

definition side_check_skipped_when_not_provided :: "env \<Rightarrow> world \<Rightarrow> uuid \<Rightarrow> uuid \<Rightarrow> bool" where
  "side_check_skipped_when_not_provided E w tid rid =
     reconciled E w tid (make_req rid ''exch-0xnoside'') ''BTC-PERP'' ''Long(1.5)'' (\<lambda>result.
       br_verification_status result = Matched)"

lemma test_quantities:
  "quantity_divergence c (make_req rid tx) (Finite (3 / 2)) DEFAULT_SIZE_TOLERANCE = None"
  "quantity_divergence c ((make_req rid tx)\<lparr>be_executed_side := s\<rparr>) (Finite (3 / 2)) DEFAULT_SIZE_TOLERANCE = None"
  "quantity_divergence c ((make_req rid tx)\<lparr>be_executed_quantity := Some (Finite 2)\<rparr>) (Finite (3 / 2))
     DEFAULT_SIZE_TOLERANCE \<noteq> None"
proof -
  have "f64_abs (f64_sub (Finite (3 / 2)) (Finite (3 / 2))) = Finite 0"
    "f64_less (f64_mul (Finite (3 / 2)) DEFAULT_SIZE_TOLERANCE) (Finite 0) = False"
    "f64_less (f64_mul (Finite (3 / 2)) DEFAULT_SIZE_TOLERANCE) (f64_abs (f64_sub (Finite (3 / 2)) (Finite 2)))"
    by code_simp+
  then show "quantity_divergence c (make_req rid tx) (Finite (3 / 2)) DEFAULT_SIZE_TOLERANCE = None"
    "quantity_divergence c ((make_req rid tx)\<lparr>be_executed_side := s\<rparr>) (Finite (3 / 2)) DEFAULT_SIZE_TOLERANCE = None"
    "quantity_divergence c ((make_req rid tx)\<lparr>be_executed_quantity := Some (Finite 2)\<rparr>) (Finite (3 / 2))
       DEFAULT_SIZE_TOLERANCE \<noteq> None"
    by (simp_all add: quantity_divergence_def make_req_def Let_def)
qed

lemma test_sides:
  "side_divergence (make_req rid tx) action = None"
  "side_divergence ((make_req rid tx)\<lparr>be_executed_quantity := q\<rparr>) action = None"
  "side_divergence ((make_req rid tx)\<lparr>be_executed_side := Some ''Long''\<rparr>) ''Long(1.5)'' = None"
  "side_divergence ((make_req rid tx)\<lparr>be_executed_side := Some ''short''\<rparr>) ''Long(1.5)''
     = Some ''Side mismatch: authorized long, executed short''"
  by code_simp+

lemma test_assets:
  "asset_divergence no_aliases (make_req rid tx) ''BTC-PERP'' = None"
  "asset_divergence no_aliases ((make_req rid tx)\<lparr>be_executed_side := s\<rparr>) ''BTC-PERP'' = None"
  "asset_divergence no_aliases ((make_req rid tx)\<lparr>be_executed_quantity := q\<rparr>) ''BTC-PERP'' = None"
  "asset_divergence no_aliases (make_req rid tx) ''ETH-PERP''
     = Some ''Asset mismatch: authorized ETH-PERP, executed BTC-PERP''"
  by code_simp+

text \<open>The three checks decide, whatever the clock says.\<close>

lemma reconciled_eq:
  assumes "be_execution_time_ms req = None"
  shows "reconciled E w tid req asset action P = P
    \<lparr>br_trace_id = tid, br_final_proof = compute_final_proof (env_crates E) ''0xhash'' (be_exchange_tx_id req),
     br_verification_status =
       (if asset_divergence no_aliases req asset = None \<and> side_divergence req action = None
          \<and> quantity_divergence (env_crates E) req (Finite (3 / 2)) DEFAULT_SIZE_TOLERANCE = None
        then Matched else Divergent),
     br_execution_status = show_execution_status (be_execution_status req), br_execution_time = env_clock E (w_tick w),
     br_divergence_reason =
       (case asset_divergence no_aliases req asset of Some r \<Rightarrow> Some r | None \<Rightarrow>
          (case side_divergence req action of Some r \<Rightarrow> Some r | None \<Rightarrow>
             quantity_divergence (env_crates E) req (Finite (3 / 2)) DEFAULT_SIZE_TOLERANCE))\<rparr>"
  using assms
  by (simp add: reconciled_def ok_with_def reconcile_def Let_def bindE_def utc_now_us_def io_simps split: option.splits)

lemma make_req_time:
  "be_execution_time_ms (make_req rid tx) = None" "be_exchange_tx_id (make_req rid tx) = tx"
  by (simp_all add: make_req_def)

lemmas reconcile_test_simps = reconciled_eq make_req_time test_quantities test_sides test_assets

lemma reconcile_tests_hold:
  "matched_when_asset_and_quantity_match E w tid rid" "divergent_on_asset_mismatch E w tid rid"
  "divergent_on_quantity_outside_tolerance E w tid rid" "divergent_on_side_mismatch E w tid rid"
  "matched_when_side_matches E w tid rid" "side_check_skipped_when_not_provided E w tid rid"
  subgoal by (simp add: matched_when_asset_and_quantity_match_def reconcile_test_simps)
  subgoal by (simp add: divergent_on_asset_mismatch_def reason_contains_def reconcile_test_simps, code_simp)
  subgoal by (simp add: divergent_on_quantity_outside_tolerance_def reconcile_test_simps)
  subgoal by (simp add: divergent_on_side_mismatch_def reason_contains_def reconcile_test_simps, code_simp)
  subgoal by (simp add: matched_when_side_matches_def reconcile_test_simps)
  subgoal by (simp add: side_check_skipped_when_not_provided_def reconcile_test_simps)
  done

text \<open>The byte string a final proof digests.\<close>

definition proof_input :: "string \<Rightarrow> string \<Rightarrow> byte list" where
  "proof_input reasoning_hash exchange_tx_id = as_bytes (reasoning_hash @ ''||'' @ exchange_tx_id)"

lemma final_proof_input: "compute_final_proof c h x = hex_encode c (sha256 c (proof_input h x))"
  by (simp add: compute_final_proof_def sha256_hex_of_def proof_input_def as_bytes_def)

lemma proof_input_inj: "proof_input h x = proof_input h y \<longleftrightarrow> x = y"
  by (simp add: proof_input_def as_bytes_inj)

lemma final_proof_changes:
  assumes "inj (hex_encode (env_crates E))"
    and "inj_on (sha256 (env_crates E)) {proof_input ''0xhash'' ''tx-1'', proof_input ''0xhash'' ''tx-2''}"
  shows "final_proof_changes_with_different_tx E w tid rid1 rid2"
proof -
  have "proof_input ''0xhash'' ''tx-1'' \<noteq> proof_input ''0xhash'' ''tx-2''" by (simp add: proof_input_inj)
  then show ?thesis
    using digests_differ [OF assms]
    by (simp add: final_proof_changes_with_different_tx_def reconcile_test_simps final_proof_input)
qed

section \<open>Seal\<close>

definition make_snapshot :: "uuid \<Rightarrow> int \<Rightarrow> int \<Rightarrow> cognitive_snapshot" where
  "make_snapshot trace_id valid_time txn_time =
     \<lparr>cs_trace_id = trace_id, cs_mta_regime_id = 2, cs_mta_version = ''hmm-v3.1'',
      cs_mta_hash = ''0xabc'', cs_latent_fingerprint = ''0xdef'', cs_feature_schema_id = ''schema-test'',
      cs_execution =
        \<lparr>ei_action = Short (Finite (3 / 2)), ei_asset = ''BTC-PERP'', ei_order_type = Market,
         ei_venue_id = ''XNAS'', ei_quantity = Finite (3 / 2), ei_notional = Finite 100000,
         ei_notional_currency = ''USD'', ei_multiplier = Finite 1, ei_limit_price = None,
         ei_stop_price = None, ei_client_order_id = ''order-1''\<rparr>,
      cs_valid_time = valid_time, cs_txn_time = txn_time,
      cs_heartbeat =
        \<lparr>hb_sequence_id = 1, hb_timestamp_ms = i64_as_u64 valid_time, hb_regime_id = 2,
         hb_mta_ref = ''0xmockref'', hb_signature = []\<rparr>\<rparr>"

definition bitemporal_valid :: "uuid \<Rightarrow> bool" where
  "bitemporal_valid tid = is_ok (verify_bitemporal (make_snapshot tid 1000 1001))"

definition bitemporal_rejects_equal_timestamps :: "uuid \<Rightarrow> bool" where
  "bitemporal_rejects_equal_timestamps tid =
     (verify_bitemporal (make_snapshot tid 1000 1000) = Inl BiTemporalViolation)"

definition bitemporal_rejects_future_valid_time :: "uuid \<Rightarrow> bool" where
  "bitemporal_rejects_future_valid_time tid =
     (verify_bitemporal (make_snapshot tid 2000 1000) = Inl BiTemporalViolation)"

definition seal_changes_on_mutation :: "crates \<Rightarrow> uuid \<Rightarrow> bool" where
  "seal_changes_on_mutation c tid =
     (let snap = make_snapshot tid 1000 1001 in
      ok_with (seal c snap) (\<lambda>h1.
      ok_with (seal c (snap\<lparr>cs_mta_regime_id := 3\<rparr>)) (\<lambda>h2. h1 \<noteq> h2)))"

definition final_proof_is_unique :: "crates \<Rightarrow> bool" where
  "final_proof_is_unique c =
     (compute_final_proof c ''0xabc'' ''exch-123'' \<noteq> compute_final_proof c ''0xabc'' ''exch-456'')"

lemma bitemporal_tests_hold:
  "bitemporal_valid tid" "bitemporal_rejects_equal_timestamps tid" "bitemporal_rejects_future_valid_time tid"
  by (simp_all add: bitemporal_valid_def bitemporal_rejects_equal_timestamps_def
      bitemporal_rejects_future_valid_time_def verify_bitemporal_def make_snapshot_def)

lemma final_proof_unique:
  assumes "inj (hex_encode c)"
    and "inj_on (sha256 c) {proof_input ''0xabc'' ''exch-123'', proof_input ''0xabc'' ''exch-456''}"
  shows "final_proof_is_unique c"
  unfolding final_proof_is_unique_def final_proof_input
  by (rule digests_differ [OF assms]) (simp add: proof_input_inj)

text \<open>The byte strings the seals of the test digest.\<close>

definition sealed_inputs :: "crates \<Rightarrow> uuid \<Rightarrow> byte list set" where
  "sealed_inputs c tid =
     {as_bytes t | t s. s \<in> {make_snapshot tid 1000 1001, (make_snapshot tid 1000 1001)\<lparr>cs_mta_regime_id := 3\<rparr>}
        \<and> canonicalize_json c (snapshot_value c s) = Inr t}"

lemma make_snapshot_intent: "intent_ok (cs_execution (make_snapshot tid v t))"
proof -
  have "f64_ok (Finite (3 / 2))" "f64_ok (Finite 100000)" "f64_ok (Finite 1)" by code_simp+
  then show ?thesis by (simp add: make_snapshot_def intent_ok_def)
qed

lemma seal_changes:
  assumes "json_tokens c" and "\<And>v. \<exists>t. json_to_string c v = Inr t" and "inj (b64_encode c)"
    and "inj (uuid_to_string c)" and "inj (hex_encode c)" and "inj_on (sha256 c) (sealed_inputs c tid)"
  shows "seal_changes_on_mutation c tid"
proof -
  define s1 s2 where s1: "s1 = make_snapshot tid 1000 1001" and s2: "s2 = s1\<lparr>cs_mta_regime_id := 3\<rparr>"
  obtain t1 t2 where t1: "canonicalize_json c (snapshot_value c s1) = Inr t1"
    and t2: "canonicalize_json c (snapshot_value c s2) = Inr t2"
    using canonicalize_total [OF assms(2)] by metis
  have ok: "intent_ok (cs_execution s1)" "intent_ok (cs_execution s2)"
    by (simp_all add: s1 s2 make_snapshot_intent)
  have "s1 \<noteq> s2" by (simp add: s1 s2 make_snapshot_def)
  have "t1 \<noteq> t2"
  proof
    assume "t1 = t2"
    then have "snapshot_value c s1 = snapshot_value c s2"
      using canonicalize_unique [OF assms(1) snapshot_value_wf [OF ok(1)] snapshot_value_wf [OF ok(2)] t1 t2, of "[]" "[]"]
      by (simp add: at_separator_def)
    then show False using snapshot_value_inj [OF _ assms(3,4) ok] \<open>s1 \<noteq> s2\<close> by simp
  qed
  moreover have "inj_on (sha256 c) {as_bytes t1, as_bytes t2}"
    by (rule inj_on_subset [OF assms(6)]) (use t1 t2 in \<open>auto simp: sealed_inputs_def s1 s2\<close>)
  ultimately have "hex_encode c (sha256 c (as_bytes t1)) \<noteq> hex_encode c (sha256 c (as_bytes t2))"
    by (intro digests_differ [OF assms(5)]) (simp_all add: as_bytes_inj)
  then show ?thesis
    using t1 t2 by (simp add: seal_changes_on_mutation_def seal_def ok_with_def Let_def s1 s2)
qed

section \<open>Merkle root\<close>

definition hex32 :: "crates \<Rightarrow> byte \<Rightarrow> string" where
  "hex32 c b = hex_encode c (replicate 32 b)"

definition empty_input_returns_zero_root :: "crates \<Rightarrow> bool" where
  "empty_input_returns_zero_root c = (compute_merkle_root c [] = replicate 32 0)"

definition single_leaf_returns_itself :: "crates \<Rightarrow> bool" where
  "single_leaf_returns_itself c =
     (let leaf = hex32 c 0xAB; root = compute_merkle_root c [leaf] in hex_encode c root = leaf)"

definition two_leaves_hash_of_concatenation :: "crates \<Rightarrow> bool" where
  "two_leaves_hash_of_concatenation c =
     (let a = hex32 c 0x01; b = hex32 c 0x02; root = compute_merkle_root c [a, b];
          expected = sha256 c (replicate 32 0x01 @ replicate 32 0x02)
      in root = expected)"

definition odd_leaf_count_duplicates_last :: "crates \<Rightarrow> bool" where
  "odd_leaf_count_duplicates_last c =
     (let root = compute_merkle_root c [hex32 c 0xAA, hex32 c 0xBB, hex32 c 0xCC];
          ab = sha256 c (replicate 32 0xAA @ replicate 32 0xBB);
          cc = sha256 c (replicate 32 0xCC @ replicate 32 0xCC);
          expected = sha256 c (ab @ cc)
      in root = expected)"

definition malformed_leaf_hashed_as_bytes :: "crates \<Rightarrow> bool" where
  "malformed_leaf_hashed_as_bytes c =
     (let bad = ''not-a-hex-hash''; root = compute_merkle_root c [bad] in root = sha256 c (as_bytes bad))"

text \<open>Hex decoding reads what encoding wrote, and a text of hex digits in pairs but no other.\<close>

definition hex_ok :: "crates \<Rightarrow> bool" where
  "hex_ok c \<longleftrightarrow>
     (\<forall>bs. hex_decode c (hex_encode c bs) = Some bs)
     \<and> (\<forall>s bs. hex_decode c s = Some bs \<longrightarrow> set s \<subseteq> set ''0123456789abcdefABCDEF'')
     \<and> (\<forall>s. set s \<subseteq> set ''0123456789abcdefABCDEF'' \<and> even (length s) \<longrightarrow>
          (\<exists>bs. hex_decode c s = Some bs \<and> 2 * length bs = length s))"

lemma hex_ok_inj: "hex_ok c \<Longrightarrow> inj (hex_encode c)"
  unfolding hex_ok_def by (metis injI option.inject)

lemma hex_ok_decode:
  "hex_ok c \<Longrightarrow> set s \<subseteq> set ''0123456789abcdefABCDEF'' \<Longrightarrow> even (length s) \<Longrightarrow>
     \<exists>bs. hex_decode c s = Some bs \<and> 2 * length bs = length s"
  by (simp add: hex_ok_def)

lemma merkle_leaf_hex32: "hex_ok c \<Longrightarrow> merkle_leaf c (hex32 c b) = replicate 32 b"
  by (simp add: merkle_leaf_def hex32_def hex_ok_def)

lemma merkle_loop_one: "merkle_loop c [n] = n"
  and merkle_loop_two: "merkle_loop c [n, m] = sha256 c (n @ m)"
  and merkle_loop_three: "merkle_loop c [n, m, k] = sha256 c (sha256 c (n @ m) @ sha256 c (k @ k))"
  by (simp_all add: merkle_loop.simps [of c "[_]"] merkle_loop.simps [of c "[_, _]"]
      merkle_loop.simps [of c "[_, _, _]"] merkle_level_def)

lemma merkle_tests_hold:
  assumes "hex_ok c"
  shows "empty_input_returns_zero_root c" "single_leaf_returns_itself c" "two_leaves_hash_of_concatenation c"
    "odd_leaf_count_duplicates_last c" "malformed_leaf_hashed_as_bytes c"
proof -
  have "hex_decode c ''not-a-hex-hash'' = None"
  proof (cases "hex_decode c ''not-a-hex-hash''")
    case (Some bs)
    then have "set ''not-a-hex-hash'' \<subseteq> set ''0123456789abcdefABCDEF''" using assms unfolding hex_ok_def by blast
    then show ?thesis by simp
  qed
  then have "merkle_leaf c ''not-a-hex-hash'' = sha256 c (as_bytes ''not-a-hex-hash'')"
    by (simp add: merkle_leaf_def)
  then show "empty_input_returns_zero_root c" "single_leaf_returns_itself c" "two_leaves_hash_of_concatenation c"
    "odd_leaf_count_duplicates_last c" "malformed_leaf_hashed_as_bytes c"
    by (simp_all only: empty_input_returns_zero_root_def single_leaf_returns_itself_def
        two_leaves_hash_of_concatenation_def odd_leaf_count_duplicates_last_def malformed_leaf_hashed_as_bytes_def
        Let_def compute_merkle_root_def list.map merkle_leaf_hex32 [OF assms] merkle_loop_one merkle_loop_two
        merkle_loop_three hex32_def [symmetric] list.distinct if_False if_True refl)
qed

section \<open>Agent registry\<close>

definition make_profile :: "uuid \<Rightarrow> string list option \<Rightarrow> agent_profile" where
  "make_profile aid allowed_mta_pubkeys =
     \<lparr>ap_agent_id = aid, ap_name = ''test-agent'', ap_model_hash_hex = replicate 64 (CHR ''a''),
      ap_policy_module_id = ''default'', ap_allowed_regimes = None, ap_max_notional = Finite 1000000,
      ap_max_leverage = Finite 4, ap_allowed_venues = None, ap_status = ''Active'',
      ap_allowed_mta_pubkeys = allowed_mta_pubkeys\<rparr>"

definition check_mta :: "agent_profile \<Rightarrow> string \<Rightarrow> unit res" where
  "check_mta profile fingerprint =
     (case ap_allowed_mta_pubkeys profile of
        None \<Rightarrow> Inr ()
      | Some allowed_keys \<Rightarrow>
          if \<not> list_ex (\<lambda>k. k = fingerprint) allowed_keys
          then Inl (Policy (MtaPubkeyUnauthorized fingerprint)) else Inr ())"

text \<open>The tests run their own copy of the check; it is the last check of the code they stand for.\<close>

lemma check_agent_last:
  "check_agent c p h g f =
     res_bind (check_agent c (p\<lparr>ap_allowed_mta_pubkeys := None\<rparr>) h g f) (\<lambda>_. res_bind (check_mta p f) (\<lambda>_. Inr p))"
proof (cases "hex_decode c (ap_model_hash_hex p)")
  case None
  then show ?thesis by (simp add: check_agent_def)
next
  case (Some hash)
  then show ?thesis by (simp add: check_agent_def check_mta_def split: option.splits)
qed

definition none_allowed_mta_pubkeys_accepts_any_fingerprint :: "uuid \<Rightarrow> bool" where
  "none_allowed_mta_pubkeys_accepts_any_fingerprint aid =
     is_ok (check_mta (make_profile aid None) ''any_fingerprint_at_all'')"

definition matching_fingerprint_in_allowed_set_passes :: "uuid \<Rightarrow> bool" where
  "matching_fingerprint_in_allowed_set_passes aid =
     (let fp = concat (replicate 10 ''aabbcc'') @ ''aabb'' in
      is_ok (check_mta (make_profile aid (Some [fp, ''other_key''])) fp))"

definition fingerprint_not_in_allowed_set_is_rejected :: "uuid \<Rightarrow> bool" where
  "fingerprint_not_in_allowed_set_is_rejected aid =
     (check_mta (make_profile aid (Some [''allowed_key_fingerprint''])) ''unauthorized_key''
        = Inl (Policy (MtaPubkeyUnauthorized ''unauthorized_key'')))"

definition empty_allowed_set_rejects_all_fingerprints :: "uuid \<Rightarrow> bool" where
  "empty_allowed_set_rejects_all_fingerprints aid =
     (\<not> is_ok (check_mta (make_profile aid (Some [])) ''any_key''))"

definition single_key_allowlist_is_accepted_for_matching_key :: "uuid \<Rightarrow> bool" where
  "single_key_allowlist_is_accepted_for_matching_key aid =
     (let fp = concat (replicate 4 ''0123456789abcdef'') in
      is_ok (check_mta (make_profile aid (Some [fp])) fp))"

lemma registry_tests_hold:
  "none_allowed_mta_pubkeys_accepts_any_fingerprint aid" "matching_fingerprint_in_allowed_set_passes aid"
  "fingerprint_not_in_allowed_set_is_rejected aid" "empty_allowed_set_rejects_all_fingerprints aid"
  "single_key_allowlist_is_accepted_for_matching_key aid"
  by (simp_all add: none_allowed_mta_pubkeys_accepts_any_fingerprint_def
      matching_fingerprint_in_allowed_set_passes_def fingerprint_not_in_allowed_set_is_rejected_def
      empty_allowed_set_rejects_all_fingerprints_def single_key_allowlist_is_accepted_for_matching_key_def
      check_mta_def make_profile_def Let_def)

section \<open>Audit actions\<close>

definition audit_actions_as_str :: bool where
  "audit_actions_as_str =
     (audit_action_as_str AgentRegister = ''AGENT_REGISTER'' \<and> audit_action_as_str AgentSuspend = ''AGENT_SUSPEND''
      \<and> audit_action_as_str AgentActivate = ''AGENT_ACTIVATE''
      \<and> audit_action_as_str AgentStatusChange = ''AGENT_STATUS_CHANGE''
      \<and> audit_action_as_str TokenIssue = ''TOKEN_ISSUE'' \<and> audit_action_as_str TokenRevoke = ''TOKEN_REVOKE''
      \<and> audit_action_as_str ShadowModeChange = ''SHADOW_MODE_CHANGE''
      \<and> audit_action_as_str GdprErasure = ''GDPR_ERASURE'')"

definition audit_action_target_type :: bool where
  "audit_action_target_type =
     (target_type AgentRegister = ''AGENT'' \<and> target_type AgentSuspend = ''AGENT''
      \<and> target_type AgentActivate = ''AGENT'' \<and> target_type AgentStatusChange = ''AGENT''
      \<and> target_type TokenIssue = ''TOKEN'' \<and> target_type TokenRevoke = ''TOKEN''
      \<and> target_type ShadowModeChange = ''SHADOW_MODE'' \<and> target_type GdprErasure = ''AGENT'')"

lemma audit_tests_hold: audit_actions_as_str audit_action_target_type
  by (simp_all add: audit_actions_as_str_def audit_action_target_type_def)

section \<open>Erasure of personal fields\<close>

definition sample_trace_json :: json where
  "sample_trace_json = json_obj
     [(''agent'', json_obj
        [(''agent_id'', JStr ''550e8400-e29b-41d4-a716-446655440000''), (''latent_fingerprint'', JStr ''aabbccdd''),
         (''feature_schema_id'', JStr ''schema-v1''), (''model_id'', JStr ''gpt-4'')]),
      (''execution'', json_obj
        [(''client_order_id'', JStr ''ord-12345''), (''venue_id'', JStr ''XNAS''), (''asset'', JStr ''BTC-PERP''),
         (''action'', JStr ''Long''), (''notional'', JFloat (Finite 50000))]),
      (''integrity'', json_obj [(''reasoning_hash'', JStr ''deadbeef1234567890abcdef'')]),
      (''mta'', json_obj [(''regime_id'', JInt 1), (''regime_version'', JStr ''v1'')]),
      (''bitemporal'', json_obj [(''valid_time'', JInt 1234567890000), (''txn_time'', JInt 1234567890100)])]"

definition test_null_pii_fields_basic :: bool where
  "test_null_pii_fields_basic =
     (let v = null_pii_fields sample_trace_json; field = (\<lambda>a b. json_index (json_index v a) b) in
      field ''agent'' ''agent_id'' = JNull \<and> field ''agent'' ''latent_fingerprint'' = JNull
      \<and> field ''agent'' ''feature_schema_id'' = JNull \<and> field ''execution'' ''client_order_id'' = JNull
      \<and> field ''execution'' ''venue_id'' = JNull
      \<and> field ''integrity'' ''reasoning_hash'' = JStr ''deadbeef1234567890abcdef''
      \<and> field ''mta'' ''regime_id'' = JInt 1 \<and> field ''bitemporal'' ''valid_time'' = JInt 1234567890000
      \<and> field ''execution'' ''asset'' = JStr ''BTC-PERP'' \<and> field ''execution'' ''action'' = JStr ''Long''
      \<and> field ''execution'' ''notional'' = JFloat (Finite 50000) \<and> field ''agent'' ''model_id'' = JStr ''gpt-4'')"

definition test_null_pii_fields_idempotent :: bool where
  "test_null_pii_fields_idempotent =
     (let json1 = null_pii_fields sample_trace_json;
          json2 = null_pii_fields (null_pii_fields sample_trace_json)
      in json1 = json2)"

definition test_null_pii_fields_missing_keys :: bool where
  "test_null_pii_fields_missing_keys =
     (let v = null_pii_fields (json_obj [(''execution'', json_obj [(''asset'', JStr ''ETH-PERP'')])]) in
      json_index (json_index v ''execution'') ''client_order_id'' = JNull
      \<and> json_index (json_index v ''execution'') ''venue_id'' = JNull \<and> json_get v ''agent'' = None)"

lemma erasure_tests_hold:
  test_null_pii_fields_basic test_null_pii_fields_idempotent test_null_pii_fields_missing_keys
  by code_simp+

section \<open>Certificate expiry\<close>

text \<open>The test reads the clock at \<open>t0\<close> and the code under test at \<open>t1\<close>.\<close>

definition cert_expiry_ok_when_more_than_14_days :: "int \<Rightarrow> int \<Rightarrow> bool" where
  "cert_expiry_ok_when_more_than_14_days t0 t1 =
     (check_cert_expiry t1 (t0 + 20 * 86400 * 1000000) = CertOk)"

definition cert_expiry_expiring_soon_within_14_days :: "int \<Rightarrow> int \<Rightarrow> bool" where
  "cert_expiry_expiring_soon_within_14_days t0 t1 =
     (case check_cert_expiry t1 (t0 + 5 * 86400 * 1000000) of ExpiringSoon d \<Rightarrow> d \<le> 5 | _ \<Rightarrow> False)"

definition cert_expiry_expired_when_in_past :: "int \<Rightarrow> int \<Rightarrow> bool" where
  "cert_expiry_expired_when_in_past t0 t1 = (check_cert_expiry t1 (t0 - 1000000) = CertExpired)"

lemma expiry_tests_hold:
  assumes "t0 \<le> t1" and "t1 \<le> t0 + 1000000"
  shows "cert_expiry_ok_when_more_than_14_days t0 t1" "cert_expiry_expiring_soon_within_14_days t0 t1"
    "cert_expiry_expired_when_in_past t0 t1"
  using assms
  by (auto simp: cert_expiry_ok_when_more_than_14_days_def cert_expiry_expiring_soon_within_14_days_def
      cert_expiry_expired_when_in_past_def check_cert_expiry_def Let_def)

section \<open>The laws of the crates together\<close>

text \<open>Everything the tests digest.\<close>

definition tested_inputs :: "crates \<Rightarrow> int \<Rightarrow> uuid \<Rightarrow> byte list set" where
  "tested_inputs c now tid =
     {constraint_input (fully_open now), constraint_input (locked now), proof_input ''0xhash'' ''tx-1'',
      proof_input ''0xhash'' ''tx-2'', proof_input ''0xabc'' ''exch-123'', proof_input ''0xabc'' ''exch-456''}
     \<union> sealed_inputs c tid"

text \<open>
  Crates in which everything the lemmas above assume holds at once: hex text that decodes
  to what was encoded, unique JSON tokens, injective encodings and no collision among the
  inputs the tests digest.
\<close>

definition exact_env :: env where
  "exact_env = demo_env\<lparr>env_crates := demo_crates\<lparr>sha256 := \<lambda>bs. bs\<rparr>\<rparr>"

lemma char_nibble_digit: "char_nibble ch \<noteq> None \<longleftrightarrow> ch \<in> set ''0123456789abcdefABCDEF''"
  by (simp add: char_nibble_def map_of_eq_None_iff)

lemma demo_hex_digits: "demo_hex_decode s = Some bs \<Longrightarrow> set s \<subseteq> set ''0123456789abcdefABCDEF''"
  using char_nibble_digit
  by (induction s arbitrary: bs rule: demo_hex_decode.induct) (fastforce split: option.splits)+

lemma demo_hex_pairs:
  "set s \<subseteq> set ''0123456789abcdefABCDEF'' \<Longrightarrow> even (length s) \<Longrightarrow>
     \<exists>bs. demo_hex_decode s = Some bs \<and> 2 * length bs = length s"
proof (induction s rule: demo_hex_decode.induct)
  case (3 h l s)
  obtain bs where bs: "demo_hex_decode s = Some bs" "2 * length bs = length s" using 3 by auto
  have "h \<in> set ''0123456789abcdefABCDEF''" "l \<in> set ''0123456789abcdefABCDEF''" using 3(2) by simp_all
  then obtain a b where "char_nibble h = Some a" "char_nibble l = Some b"
    using char_nibble_digit by (metis not_None_eq)
  then show ?case using bs by simp
qed simp_all

lemma exact_hex: "hex_ok (env_crates exact_env)"
proof -
  have "hex_encode (env_crates exact_env) = demo_hex_encode" "hex_decode (env_crates exact_env) = demo_hex_decode"
    by (simp_all add: exact_env_def demo_crates_def)
  then show ?thesis unfolding hex_ok_def using demo_hex_roundtrip demo_hex_digits demo_hex_pairs by auto
qed

lemma unit_test_laws_satisfiable:
  "hex_ok (env_crates exact_env)" "json_tokens (env_crates exact_env)"
  "\<exists>t. json_to_string (env_crates exact_env) v = Inr t" "inj (b64_encode (env_crates exact_env))"
  "inj (uuid_to_string (env_crates exact_env))"
  "inj_on (sha256 (env_crates exact_env)) (tested_inputs (env_crates exact_env) now tid)"
proof -
  have "json_to_string (env_crates exact_env) = json_to_string demo_crates" by (simp add: exact_env_def)
  then show "json_tokens (env_crates exact_env)" by (rule demo_json_tokens)
  show "hex_ok (env_crates exact_env)" by (rule exact_hex)
  show "\<exists>t. json_to_string (env_crates exact_env) v = Inr t"
    by (simp add: exact_env_def demo_crates_def)
  show "inj (b64_encode (env_crates exact_env))" by (simp add: exact_env_def demo_crates_def demo_hex_inj)
  show "inj (uuid_to_string (env_crates exact_env))"
    by (simp add: exact_env_def demo_crates_def inj_def word_uint_eq_iff)
  show "inj_on (sha256 (env_crates exact_env)) (tested_inputs (env_crates exact_env) now tid)"
    by (simp add: exact_env_def inj_on_def)
qed

end
