(* ===== verification/Irl_Tests_Io.thy ===== *)
theory Irl_Tests_Io
  imports Irl_Tests Irl_Tls
begin

text \<open>
  The tests of the components with effects: trace encryption, key providers, the database
  module, the heartbeat validator, the rate limiter, the regime clients and the TLS
  configuration. What a test needs of a service it calls is a named law: a database that
  answers, an authenticated cipher that accepts its inputs, a clock that stays within the
  drift the test assumes. Tests whose only content is a property of the cipher or of the
  entropy source (a wrong key, a flipped byte, two nonces) are left out.
\<close>

section \<open>Running a test\<close>

text \<open>The assertions of a test are the boolean it returns; an error or a panic fails it.\<close>

definition test_run :: "(world \<Rightarrow> ('e + bool) \<times> world) \<Rightarrow> world \<Rightarrow> bool" where
  "test_run m w = ok_with (fst (m w)) (\<lambda>b. b)"

definition is_string :: "json \<Rightarrow> bool" where
  "is_string v = (case v of JStr _ \<Rightarrow> True | _ \<Rightarrow> False)"

fun is_encryption :: "app_error failure \<Rightarrow> bool" where
  "is_encryption (App (Encryption _)) = True"
| "is_encryption _ = False"

fun encryption_contains :: "string \<Rightarrow> app_error failure \<Rightarrow> bool" where
  "encryption_contains text (App (Encryption msg)) = str_contains msg text"
| "encryption_contains text _ = False"

text \<open>
  The cipher accepts a key of 32 and a nonce of 12 bytes, appends a tag of 16 bytes and
  decrypts what it encrypted; base64 gives every text back and none but the empty one an
  empty form.
\<close>

definition cipher_ok :: "env \<Rightarrow> bool" where
  "cipher_ok E \<longleftrightarrow>
     crypto_ok E
     \<and> (\<forall>key nonce pt. length key = 32 \<and> length nonce = 12 \<longrightarrow>
          (\<exists>ct. aes_encrypt (env_crates E) key nonce pt = Some ct \<and> length ct = length pt + 16))
     \<and> (\<forall>bs. bs \<noteq> [] \<longrightarrow> b64_encode (env_crates E) bs \<noteq> [])"

lemma encrypt_trace_total:
  assumes "cipher_ok E" and "length dek = 32"
  obtains blob where "encrypt_trace E pt dek w = (Inr blob, w\<lparr>w_tick := Suc (w_tick w)\<rparr>)"
    and "length (bl_ciphertext blob) = length pt + 16" and "length (bl_nonce blob) = 12"
proof -
  let ?n = "env_entropy E (w_tick w) 12"
  have n: "length ?n = 12" using assms(1) by (simp add: cipher_ok_def crypto_ok_def)
  then obtain ct where ct: "aes_encrypt (env_crates E) dek ?n pt = Some ct" "length ct = length pt + 16"
    using assms unfolding cipher_ok_def by blast
  have "encrypt_trace E pt dek w = (Inr \<lparr>bl_ciphertext = ct, bl_nonce = ?n\<rparr>, w\<lparr>w_tick := Suc (w_tick w)\<rparr>)"
    using ct n assms(2) by (simp add: encrypt_trace_ok)
  then show thesis using that n ct(2) by force
qed

section \<open>Trace encryption\<close>

definition test_dek :: "byte list" where
  "test_dek = replicate 32 0x42"

definition test_encrypt_returns_ciphertext_with_auth_tag :: "env \<Rightarrow> world \<Rightarrow> bool" where
  "test_encrypt_returns_ciphertext_with_auth_tag E =
     (let plaintext = as_bytes ''hello world, this is a test payload'' in
      test_run (bindE (encrypt_trace E plaintext test_dek) (\<lambda>blob.
        ret (length (bl_ciphertext blob) = length plaintext + 16 \<and> length (bl_nonce blob) = 12))))"

definition test_roundtrip_encrypt_decrypt :: "env \<Rightarrow> world \<Rightarrow> bool" where
  "test_roundtrip_encrypt_decrypt E =
     (let plaintext = as_bytes ''round-trip test payload 12345'' in
      test_run (bindE (encrypt_trace E plaintext test_dek) (\<lambda>blob.
        bindE (decrypt_trace E (bl_ciphertext blob) (bl_nonce blob) test_dek) (\<lambda>recovered.
        ret (recovered = plaintext)))))"

definition test_wrap_ciphertext_for_jsonb_structure :: "crates \<Rightarrow> bool" where
  "test_wrap_ciphertext_for_jsonb_structure c =
     (let wrapped = wrap_ciphertext_for_jsonb c (as_bytes ''some raw ciphertext bytes'') in
      json_index wrapped ''v'' = JInt 1
      \<and> (case json_index wrapped ''data'' of JStr data \<Rightarrow> data \<noteq> [] | _ \<Rightarrow> False))"

definition test_jsonb_wrapper_roundtrip :: "crates \<Rightarrow> bool" where
  "test_jsonb_wrapper_roundtrip c =
     (let original = as_bytes ''raw ciphertext for jsonb test 0123456789'' in
      ok_with (extract_ciphertext_from_jsonb c (wrap_ciphertext_for_jsonb c original)) (\<lambda>recovered.
        recovered = original))"

definition test_extract_ciphertext_missing_fields :: "crates \<Rightarrow> bool" where
  "test_extract_ciphertext_missing_fields c =
     (\<not> is_ok (extract_ciphertext_from_jsonb c (json_obj [(''v'', JInt 1)]))
      \<and> \<not> is_ok (extract_ciphertext_from_jsonb c (json_obj [(''v'', JInt 2), (''data'', JStr ''aGVsbG8='')]))
      \<and> \<not> is_ok (extract_ciphertext_from_jsonb c (json_obj [(''data'', JStr ''aGVsbG8='')])))"

lemma encryption_tests_hold:
  assumes "cipher_ok E"
  shows "test_encrypt_returns_ciphertext_with_auth_tag E w" "test_roundtrip_encrypt_decrypt E w"
    "test_wrap_ciphertext_for_jsonb_structure (env_crates E)" "test_jsonb_wrapper_roundtrip (env_crates E)"
    "test_extract_ciphertext_missing_fields (env_crates E)"
proof -
  have dek: "length test_dek = 32" by (simp add: test_dek_def)
  have crypto: "crypto_ok E" using assms by (simp add: cipher_ok_def)
  show "test_encrypt_returns_ciphertext_with_auth_tag E w"
    by (rule encrypt_trace_total [OF assms dek, of "as_bytes ''hello world, this is a test payload''" w])
      (simp add: test_encrypt_returns_ciphertext_with_auth_tag_def test_run_def ok_with_def Let_def bindE_Inr io_simps)
  show "test_roundtrip_encrypt_decrypt E w"
  proof (rule encrypt_trace_total [OF assms dek, of "as_bytes ''round-trip test payload 12345''" w])
    fix blob
    assume enc: "encrypt_trace E (as_bytes ''round-trip test payload 12345'') test_dek w
      = (Inr blob, w\<lparr>w_tick := Suc (w_tick w)\<rparr>)"
    show ?thesis
      using decrypt_encrypt_trace [OF crypto enc]
      by (simp add: test_roundtrip_encrypt_decrypt_def test_run_def ok_with_def Let_def enc bindE_def io_simps)
  qed
  show "test_wrap_ciphertext_for_jsonb_structure (env_crates E)"
    using assms
    by (simp add: test_wrap_ciphertext_for_jsonb_structure_def wrap_ciphertext_for_jsonb_def json_index_def json_get_obj
        cipher_ok_def as_bytes_def)
  show "test_jsonb_wrapper_roundtrip (env_crates E)"
    by (simp add: test_jsonb_wrapper_roundtrip_def ok_with_def Let_def extract_wrap [OF crypto])
  show "test_extract_ciphertext_missing_fields (env_crates E)"
    by (simp add: test_extract_ciphertext_missing_fields_def extract_ciphertext_from_jsonb_def json_get_obj
        i64_min_def i64_max_def)
qed

section \<open>Key providers\<close>

definition test_kms_key :: string where
  "test_kms_key = ''0102030405060708090a0b0c0d0e0f101112131415161718191a1b1c1d1e1f20''"

definition setup_local_provider :: "crates \<Rightarrow> string + key_provider" where
  "setup_local_provider c = local_dev_new c [''LOCAL_KMS_KEY'' \<mapsto> test_kms_key] 1"

definition test_local_dev_generate_dek_returns_32_byte_plaintext :: "env \<Rightarrow> world \<Rightarrow> bool" where
  "test_local_dev_generate_dek_returns_32_byte_plaintext E =
     test_run (bindE (liftE (setup_local_provider (env_crates E))) (\<lambda>provider.
       bindE (generate_dek E provider) (\<lambda>(plaintext, encrypted, version).
       ret (length plaintext = 32 \<and> encrypted \<noteq> [] \<and> version = 1))))"

definition test_local_dev_roundtrip :: "env \<Rightarrow> world \<Rightarrow> bool" where
  "test_local_dev_roundtrip E =
     test_run (bindE (liftE (setup_local_provider (env_crates E))) (\<lambda>provider.
       bindE (generate_dek E provider) (\<lambda>(plaintext, encrypted, version).
       bindE (decrypt_dek E provider encrypted 1) (\<lambda>recovered.
       ret (plaintext = recovered)))))"

definition test_local_dev_fails_in_production :: "crates \<Rightarrow> bool" where
  "test_local_dev_fails_in_production c =
     err_with (local_dev_new c [''ENVIRONMENT'' \<mapsto> ''production'', ''LOCAL_KMS_KEY'' \<mapsto> test_kms_key] 1)
       (\<lambda>e. str_contains e ''production'')"

definition test_local_dev_fails_with_wrong_key_length :: "crates \<Rightarrow> bool" where
  "test_local_dev_fails_with_wrong_key_length c =
     (\<not> is_ok (local_dev_new c [''LOCAL_KMS_KEY'' \<mapsto> ''deadbeef''] 1))"

lemma lower_production: "to_ascii_lowercase ''production'' = ''production''" "to_ascii_lowercase [] = []"
  by code_simp+

lemma setup_local_provider_ok:
  assumes "hex_ok c"
  obtains key where "setup_local_provider c = Inr (LocalDev key 1)" and "length key = 32"
proof -
  have "set test_kms_key \<subseteq> set ''0123456789abcdefABCDEF''" "length test_kms_key = 64"
    by (simp_all add: test_kms_key_def)
  then obtain key where "hex_decode c test_kms_key = Some key" "2 * length key = 64"
    using hex_ok_decode [OF assms, of test_kms_key] by auto
  then show thesis using that by (simp add: setup_local_provider_def local_dev_new_def lower_production)
qed

lemma local_generate_total:
  assumes "cipher_ok E" and "length key = 32"
  obtains dek enc w' where "local_generate_dek E key v w = (Inr (dek, enc, v), w')" and "length dek = 32" and "enc \<noteq> []"
proof -
  define w1 where "w1 = w\<lparr>w_tick := Suc (w_tick w)\<rparr>"
  obtain blob where blob: "encrypt_trace E (env_entropy E (w_tick w) 32) key w1 = (Inr blob, w1\<lparr>w_tick := Suc (w_tick w1)\<rparr>)"
    and n: "length (bl_nonce blob) = 12"
    using encrypt_trace_total [OF assms] by metis
  have "local_generate_dek E key v w
      = (Inr (env_entropy E (w_tick w) 32, bl_nonce blob @ bl_ciphertext blob, v), w1\<lparr>w_tick := Suc (w_tick w1)\<rparr>)"
    using blob by (simp add: local_generate_dek_def bindE_def io_simps with_context_def map_errE_def w1_def)
  moreover have "bl_nonce blob @ bl_ciphertext blob \<noteq> []" using n by auto
  ultimately show thesis using that assms(1) by (simp add: cipher_ok_def crypto_ok_def)
qed

lemma kms_tests_hold:
  assumes "cipher_ok E" and "hex_ok (env_crates E)"
  shows "test_local_dev_generate_dek_returns_32_byte_plaintext E w" "test_local_dev_roundtrip E w"
    "test_local_dev_fails_in_production (env_crates E)" "test_local_dev_fails_with_wrong_key_length (env_crates E)"
proof -
  obtain key where key: "setup_local_provider (env_crates E) = Inr (LocalDev key 1)" "length key = 32"
    using setup_local_provider_ok [OF assms(2)] .
  obtain dek enc w' where gen: "local_generate_dek E key 1 w = (Inr (dek, enc, 1), w')" "length dek = 32" "enc \<noteq> []"
    using local_generate_total [OF assms(1) key(2)] .
  have crypto: "crypto_ok E" using assms(1) by (simp add: cipher_ok_def)
  show "test_local_dev_generate_dek_returns_32_byte_plaintext E w"
    using gen by (simp add: test_local_dev_generate_dek_returns_32_byte_plaintext_def test_run_def ok_with_def key
        bindE_def io_simps)
  show "test_local_dev_roundtrip E w"
    using gen local_decrypt_generate [OF crypto gen(1)]
    by (simp add: test_local_dev_roundtrip_def test_run_def ok_with_def key bindE_def io_simps)
  show "test_local_dev_fails_in_production (env_crates E)"
    by (simp add: test_local_dev_fails_in_production_def local_dev_new_def lower_production err_with_def, code_simp)
  obtain bs where "hex_decode (env_crates E) ''deadbeef'' = Some bs" "2 * length bs = 8"
    using hex_ok_decode [OF assms(2), of "''deadbeef''"] by auto
  then show "test_local_dev_fails_with_wrong_key_length (env_crates E)"
    by (simp add: test_local_dev_fails_with_wrong_key_length_def local_dev_new_def lower_production)
qed

section \<open>Heartbeat validator\<close>

definition make_cfg :: "byte list \<Rightarrow> config" where
  "make_cfg pubkey =
     \<lparr>cfg_database_url = [], cfg_mta_mode = ModeMock, cfg_mta_url = [], cfg_mta_pubkey = pubkey,
      cfg_irl_api_tokens = [''tok''], cfg_time_source = System, cfg_max_heartbeat_drift_ms = 200,
      cfg_layer2_enabled = True, cfg_bind_size_tolerance = f64_round False (1 / 10000),
      cfg_trace_expiry_ms = 3600000, cfg_port = 4000, cfg_shadow_mode = False, cfg_metrics_enabled = True,
      cfg_rate_limit_per_second = 100, cfg_max_body_bytes = 1048576, cfg_kms_provider = KmsNone,
      cfg_kms_key_id = None, cfg_kms_key_version = 1, cfg_mtls_enabled = False, cfg_mtls_required = False,
      cfg_tls_cert_path = None, cfg_tls_key_path = None, cfg_tls_ca_cert_path = None, cfg_mtls_dev_certs = False\<rparr>"

text \<open>The signing key is its signing function.\<close>

definition make_heartbeat :: "(byte list \<Rightarrow> byte list) \<Rightarrow> u64 \<Rightarrow> u64 \<Rightarrow> signed_heartbeat" where
  "make_heartbeat sign seq timestamp_ms =
     (let hb = \<lparr>hb_sequence_id = seq, hb_timestamp_ms = timestamp_ms, hb_regime_id = 2, hb_mta_ref = ''0xmockref'',
                hb_signature = []\<rparr>
      in hb\<lparr>hb_signature := sign (signed_payload hb)\<rparr>)"

text \<open>The map of the validator is part of the world.\<close>

definition new_for_test :: "config \<Rightarrow> heartbeat_validator io" where
  "new_for_test cfg =
     bindE (modify (\<lambda>w. w\<lparr>w_sequences := \<lambda>_. None\<rparr>)) (\<lambda>_.
     ret \<lparr>hv_max_drift_ms = cfg_max_heartbeat_drift_ms cfg, hv_pubkey = cfg_mta_pubkey cfg\<rparr>)"

fun is_stale :: "app_error failure \<Rightarrow> bool" where
  "is_stale (App (Heartbeat (StaleSequence _ _))) = True"
| "is_stale _ = False"

fun is_late :: "app_error failure \<Rightarrow> bool" where
  "is_late (App (Heartbeat (LatencyThresholdExceeded _ _))) = True"
| "is_late _ = False"

text \<open>The outcome of a call as a value, for the assertions on it.\<close>

definition outcome :: "'a io \<Rightarrow> (app_error failure + 'a) io" where
  "outcome m w = (Inr (fst (m w)), snd (m w))"

definition valid_heartbeat_accepted :: "env \<Rightarrow> (byte list \<Rightarrow> byte list) \<Rightarrow> byte list \<Rightarrow> int \<Rightarrow> world \<Rightarrow> bool" where
  "valid_heartbeat_accepted E sign pubkey now =
     (let cfg = make_cfg pubkey in
      test_run (bindE (new_for_test cfg) (\<lambda>validator.
        bindE (outcome (validate E validator (make_heartbeat sign 1 (i64_as_u64 now)) 0 cfg False)) (\<lambda>result.
        ret (is_ok result)))))"

definition stale_sequence_rejected :: "env \<Rightarrow> (byte list \<Rightarrow> byte list) \<Rightarrow> byte list \<Rightarrow> int \<Rightarrow> world \<Rightarrow> bool" where
  "stale_sequence_rejected E sign pubkey now =
     (let cfg = make_cfg pubkey in
      test_run (bindE (new_for_test cfg) (\<lambda>validator.
        bindE (validate E validator (make_heartbeat sign 5 (i64_as_u64 now)) 0 cfg False) (\<lambda>_.
        bindE (outcome (validate E validator (make_heartbeat sign 3 (i64_as_u64 now)) 0 cfg False)) (\<lambda>result.
        ret (err_with result is_stale))))))"

definition drift_exceeded_rejected :: "env \<Rightarrow> (byte list \<Rightarrow> byte list) \<Rightarrow> byte list \<Rightarrow> int \<Rightarrow> world \<Rightarrow> bool" where
  "drift_exceeded_rejected E sign pubkey now =
     (let cfg = make_cfg pubkey; old = i64_as_u64 (now - 5000) in
      test_run (bindE (new_for_test cfg) (\<lambda>validator.
        bindE (outcome (validate E validator (make_heartbeat sign 1 old) 0 cfg False)) (\<lambda>result.
        ret (err_with result is_late)))))"

definition invalid_signature_rejected :: "env \<Rightarrow> (byte list \<Rightarrow> byte list) \<Rightarrow> byte list \<Rightarrow> int \<Rightarrow> world \<Rightarrow> bool" where
  "invalid_signature_rejected E sign wrong_key now =
     (let cfg = make_cfg wrong_key in
      test_run (bindE (new_for_test cfg) (\<lambda>validator.
        bindE (outcome (validate E validator (make_heartbeat sign 1 (i64_as_u64 now)) 0 cfg False)) (\<lambda>result.
        ret (result = Inl (App (Heartbeat InvalidSignature)))))))"

definition per_agent_sequences_are_independent ::
  "env \<Rightarrow> (byte list \<Rightarrow> byte list) \<Rightarrow> byte list \<Rightarrow> int \<Rightarrow> uuid \<Rightarrow> uuid \<Rightarrow> world \<Rightarrow> bool"
where
  "per_agent_sequences_are_independent E sign pubkey now agent_a agent_b =
     (let cfg = make_cfg pubkey; ts = i64_as_u64 now in
      test_run (bindE (new_for_test cfg) (\<lambda>validator.
        bindE (validate E validator (make_heartbeat sign 10 ts) agent_a cfg False) (\<lambda>_.
        bindE (outcome (validate E validator (make_heartbeat sign 5 ts) agent_b cfg False)) (\<lambda>fresh.
        bindE (outcome (validate E validator (make_heartbeat sign 5 ts) agent_a cfg False)) (\<lambda>stale.
        ret (is_ok fresh \<and> err_with stale is_stale)))))))"

text \<open>
  Signatures of the key verify under its public key and under no other; the clock of a
  test run stays within the drift its configuration allows.
\<close>

definition signer_ok :: "crates \<Rightarrow> (byte list \<Rightarrow> byte list) \<Rightarrow> byte list \<Rightarrow> byte list \<Rightarrow> bool" where
  "signer_ok c sign pubkey wrong_key \<longleftrightarrow>
     (\<forall>m. length (sign m) = 64 \<and> ed25519_verify c pubkey m (sign m) \<and> \<not> ed25519_verify c wrong_key m (sign m))"

definition clock_near :: "env \<Rightarrow> int \<Rightarrow> bool" where
  "clock_near E now \<longleftrightarrow>
     5000 \<le> now \<and> now < 2 ^ 62 \<and> (\<forall>t. now \<le> env_clock E t div 1000 \<and> env_clock E t div 1000 \<le> now + 200)"

lemma make_heartbeat_fields:
  "hb_sequence_id (make_heartbeat sign seq ts) = seq" "hb_timestamp_ms (make_heartbeat sign seq ts) = ts"
  "signed_payload (make_heartbeat sign seq ts) = signed_payload \<lparr>hb_sequence_id = seq, hb_timestamp_ms = ts,
     hb_regime_id = 2, hb_mta_ref = ''0xmockref'', hb_signature = []\<rparr>"
  "hb_signature (make_heartbeat sign seq ts) = sign (signed_payload (make_heartbeat sign seq ts))"
  by (simp_all add: make_heartbeat_def signed_payload_def Let_def)

lemma made_heartbeat_verifies:
  assumes "signer_ok c sign pubkey wrong"
  shows "heartbeat_verify_signature c \<lparr>hv_max_drift_ms = d, hv_pubkey = pubkey\<rparr> (make_heartbeat sign seq ts) = Inr ()"
    and "heartbeat_verify_signature c \<lparr>hv_max_drift_ms = d, hv_pubkey = wrong\<rparr> (make_heartbeat sign seq ts)
      = Inl (Heartbeat InvalidSignature)"
  using assms by (simp_all add: heartbeat_verify_signature_def make_heartbeat_fields(4) signer_ok_def)

lemma small_i64:
  assumes "0 \<le> i" and "i < 2 ^ 63"
  shows "u64_as_i64 (i64_as_u64 i) = i"
  using assms i64_wrap_id [of i] by (simp add: u64_as_i64_def i64_as_u64_def i64_wrap_def i64_min_def i64_max_def)

lemma test_drift:
  assumes "clock_near E now"
  shows "\<not> drift_too_large (i64_wrap (env_clock E t div 1000 - u64_as_i64 (i64_as_u64 now))) 200"
    and "drift_too_large (i64_wrap (env_clock E t div 1000 - u64_as_i64 (i64_as_u64 (now - 5000)))) 200"
proof -
  define cur where "cur = env_clock E t div 1000"
  have b: "5000 \<le> now" "now < 2 ^ 62" "now \<le> cur" "cur \<le> now + 200" using assms by (auto simp: clock_near_def cur_def)
  have wrap: "i64_wrap (cur - now) = cur - now" "i64_wrap (cur - (now - 5000)) = cur - (now - 5000)"
    using b by (simp_all add: i64_wrap_id i64_min_def i64_max_def)
  have "uint (i64_as_u64 i) = i" if "0 \<le> i" "i < 2 ^ 63" for i
    using that by (simp add: i64_as_u64_def uint_word_of_int)
  then have "uint (i64_as_u64 (cur - now)) = cur - now" "uint (i64_as_u64 (cur - (now - 5000))) = cur - (now - 5000)"
    using b by simp_all
  then show "\<not> drift_too_large (i64_wrap (env_clock E t div 1000 - u64_as_i64 (i64_as_u64 now))) 200"
    "drift_too_large (i64_wrap (env_clock E t div 1000 - u64_as_i64 (i64_as_u64 (now - 5000)))) 200"
    using b wrap by (simp_all add: small_i64 drift_too_large_def word_less_def flip: cur_def)
qed

lemma heartbeat_tests_hold:
  assumes signer: "signer_ok (env_crates E) sign pubkey wrong_key" and clock: "clock_near E now" and "agent_a \<noteq> agent_b"
  shows "valid_heartbeat_accepted E sign pubkey now w" "stale_sequence_rejected E sign pubkey now w"
    "drift_exceeded_rejected E sign pubkey now w" "invalid_signature_rejected E sign wrong_key now w"
    "per_agent_sequences_are_independent E sign pubkey now agent_a agent_b w"
proof -
  note run = test_run_def bindE_def new_for_test_def outcome_def io_simps validate_cases Let_def ok_with_def err_with_def
    make_heartbeat_fields(1,2) made_heartbeat_verifies [OF signer] test_drift [OF clock] last_sequence_def
  have cfg: "cfg_max_heartbeat_drift_ms (make_cfg k) = 200" "cfg_mta_pubkey (make_cfg k) = k" for k
    by (simp_all add: make_cfg_def)
  show "valid_heartbeat_accepted E sign pubkey now w" by (simp add: valid_heartbeat_accepted_def run cfg)
  show "stale_sequence_rejected E sign pubkey now w" by (simp add: stale_sequence_rejected_def run cfg)
  show "drift_exceeded_rejected E sign pubkey now w" by (simp add: drift_exceeded_rejected_def run cfg)
  show "invalid_signature_rejected E sign wrong_key now w" by (simp add: invalid_signature_rejected_def run cfg)
  show "per_agent_sequences_are_independent E sign pubkey now agent_a agent_b w"
    using assms(3) by (simp add: per_agent_sequences_are_independent_def run cfg)
qed

section \<open>Rate limiter\<close>

text \<open>Successive calls of \<open>check\<close> on a new limiter, and whether each is accepted.\<close>

fun rate_checks :: "env \<Rightarrow> u32 \<Rightarrow> string list \<Rightarrow> world \<Rightarrow> bool list" where
  "rate_checks E mx [] w = []"
| "rate_checks E mx (token # tokens) w =
     (let (r, w') = rate_check E mx token w in is_ok r # rate_checks E mx tokens w')"

definition new_limiter :: "world \<Rightarrow> world" where
  "new_limiter w = w\<lparr>w_counters := \<lambda>_. None\<rparr>"

definition allows_requests_within_limit :: "env \<Rightarrow> world \<Rightarrow> bool" where
  "allows_requests_within_limit E w \<longleftrightarrow>
     rate_checks E 10 (replicate 10 ''token-a'') (new_limiter w) = replicate 10 True"

definition blocks_after_limit_exceeded :: "env \<Rightarrow> world \<Rightarrow> bool" where
  "blocks_after_limit_exceeded E w \<longleftrightarrow>
     rate_checks E 3 [''token-a'', ''token-a'', ''token-a'', ''token-a''] (new_limiter w) = [True, True, True, False]"

definition limits_are_per_token :: "env \<Rightarrow> world \<Rightarrow> bool" where
  "limits_are_per_token E w \<longleftrightarrow>
     rate_checks E 2 [''token-a'', ''token-a'', ''token-a'', ''token-b''] (new_limiter w) = [True, True, False, True]"

definition disabled_when_limit_is_zero :: "env \<Rightarrow> world \<Rightarrow> bool" where
  "disabled_when_limit_is_zero E w \<longleftrightarrow>
     rate_checks E 0 (replicate 1000 ''token-a'') (new_limiter w) = replicate 1000 True"

lemma rate_checks_disabled: "rate_checks E 0 (replicate n token) w = replicate n True"
  by (induction n arbitrary: w) (simp_all add: rate_check_def io_simps)

lemma rate_check_second:
  assumes "\<forall>t. epoch_secs (env_clock E t) = sec" and "mx \<noteq> 0"
  shows "rate_check E mx token w =
    (let (r, counters) = rate_step mx (token, sec) (w_counters w)
     in (case r of Inl e \<Rightarrow> Inl (App e) | Inr x \<Rightarrow> Inr x, w\<lparr>w_tick := Suc (w_tick w), w_counters := counters\<rparr>))"
  using assms by (simp add: rate_check_def bindE_def io_simps Let_def liftE_def split: prod.splits sum.splits)

lemma replicate_ten: "replicate 10 x = [x, x, x, x, x, x, x, x, x, x]"
  by (simp add: numeral_eq_Suc)

lemma rate_tests_hold:
  assumes "\<forall>t. epoch_secs (env_clock E t) = sec"
  shows "allows_requests_within_limit E w" "blocks_after_limit_exceeded E w" "limits_are_per_token E w"
    "disabled_when_limit_is_zero E w"
proof -
  note run = rate_check_second [OF assms] rate_step_def Let_def new_limiter_def
  show "allows_requests_within_limit E w"
    unfolding allows_requests_within_limit_def replicate_ten by (simp add: run)
  show "blocks_after_limit_exceeded E w" by (simp add: blocks_after_limit_exceeded_def run)
  show "limits_are_per_token E w" by (simp add: limits_are_per_token_def run)
  show "disabled_when_limit_is_zero E w" unfolding disabled_when_limit_is_zero_def by (rule rate_checks_disabled)
qed

section \<open>Regime clients\<close>

text \<open>The client a firm brings of its own.\<close>

definition firm_internal_mta :: "env \<Rightarrow> u8 \<Rightarrow> string \<Rightarrow> mta_state io" where
  "firm_internal_mta E regime_id regime_label =
     bindE (utc_now_ms E) (\<lambda>now.
     ret \<lparr>ms_regime_id = regime_id, ms_regime_label = regime_label, ms_risk_level = f64_round False (3 / 10),
          ms_max_notional_scale = Finite (1 / 4), ms_allowed_sides = [''short'', ''neutral''],
          ms_version = ''firm-internal-v1'', ms_hash = replicate 64 (CHR ''a''), ms_broadcast_time = now - 100,
          ms_pubkey_fingerprint = replicate 64 (CHR ''f''), ms_signal_mode = ''live''\<rparr>)"

text \<open>It meets the contract the authorization relies on, as the clients of the engine do.\<close>

interpretation firm: mta_client_contract "firm_internal_mta E regime_id regime_label" "\<lambda>_. True" for E regime_id regime_label
  by unfold_locales
    (auto simp: firm_internal_mta_def utc_now_ms_def bindE_def io_simps mta_state_ok_def)

definition custom_mta_client_satisfies_trait :: "env \<Rightarrow> world \<Rightarrow> bool" where
  "custom_mta_client_satisfies_trait E =
     test_run (bindE (firm_internal_mta E 7 ''bear-squeeze'') (\<lambda>state.
       ret (ms_regime_id state = 7 \<and> ms_regime_label state = ''bear-squeeze'' \<and> ms_version state = ''firm-internal-v1''
            \<and> ms_allowed_sides state = [''short'', ''neutral''])))"

definition mock_mta_client_returns_expansion :: "env \<Rightarrow> world \<Rightarrow> bool" where
  "mock_mta_client_returns_expansion E =
     test_run (bindE (fetch_verified E MockMta) (\<lambda>state.
       ret (ms_regime_id state = 0 \<and> ms_regime_label state = ''expansion'' \<and> ms_risk_level state = Finite 1
            \<and> ms_max_notional_scale state = Finite 1 \<and> ''long'' \<in> set (ms_allowed_sides state))))"

definition arc_dyn_dispatch_works :: "env \<Rightarrow> world \<Rightarrow> bool" where
  "arc_dyn_dispatch_works E =
     test_run (bindE (firm_internal_mta E 42 ''defensive'') (\<lambda>state.
       ret (ms_regime_id state = 42 \<and> ms_max_notional_scale state = Finite (1 / 4))))"

definition mta_state_includes_pubkey_fingerprint :: "env \<Rightarrow> world \<Rightarrow> bool" where
  "mta_state_includes_pubkey_fingerprint E =
     test_run (bindE (fetch_verified E MockMta) (\<lambda>state.
       ret (ms_pubkey_fingerprint state \<noteq> [] \<and> length (ms_pubkey_fingerprint state) = 64)))"

definition firm_mta_pubkey_fingerprint_is_populated :: "env \<Rightarrow> world \<Rightarrow> bool" where
  "firm_mta_pubkey_fingerprint_is_populated E =
     test_run (bindE (firm_internal_mta E 1 ''test'') (\<lambda>state.
       ret (length (ms_pubkey_fingerprint state) = 64 \<and> ms_pubkey_fingerprint state \<noteq> replicate 64 (CHR ''0''))))"

lemma client_tests_hold:
  "custom_mta_client_satisfies_trait E w" "mock_mta_client_returns_expansion E w" "arc_dyn_dispatch_works E w"
  "mta_state_includes_pubkey_fingerprint E w" "firm_mta_pubkey_fingerprint_is_populated E w"
  by (simp_all add: custom_mta_client_satisfies_trait_def mock_mta_client_returns_expansion_def
      arc_dyn_dispatch_works_def mta_state_includes_pubkey_fingerprint_def firm_mta_pubkey_fingerprint_is_populated_def
      test_run_def ok_with_def bindE_def firm_internal_mta_def fetch_verified_mock_def utc_now_ms_def io_simps)

section \<open>Clock\<close>

definition make_time_cfg :: "time_source \<Rightarrow> config" where
  "make_time_cfg source = (make_cfg (replicate 32 0))\<lparr>cfg_irl_api_tokens := [], cfg_time_source := source\<rparr>"

text \<open>\<open>sys\<close> is the reading, in milliseconds, the test takes of the system clock itself.\<close>

definition system_time_is_recent :: "env \<Rightarrow> int \<Rightarrow> world \<Rightarrow> bool" where
  "system_time_is_recent E sys =
     test_run (bindE (now_ms E (make_time_cfg System)) (\<lambda>t. ret (\<bar>t - sys\<bar> < 1000)))"

definition time_is_monotonically_increasing :: "env \<Rightarrow> world \<Rightarrow> bool" where
  "time_is_monotonically_increasing E =
     (let cfg = make_time_cfg System in
      test_run (bindE (now_ms E cfg) (\<lambda>t1. bindE (now_ms E cfg) (\<lambda>t2. ret (t1 \<le> t2)))))"

lemma clock_tests_hold:
  assumes "clock_near E sys" and "mono (env_clock E)"
  shows "system_time_is_recent E sys w" "time_is_monotonically_increasing E w"
proof -
  have near: "sys \<le> env_clock E t div 1000" "env_clock E t div 1000 \<le> sys + 200" for t
    using assms(1) by (simp_all add: clock_near_def)
  have "env_clock E t \<le> env_clock E (Suc t)" for t using monoD [OF assms(2), of t "Suc t"] by simp
  then have later: "env_clock E t div 1000 \<le> env_clock E (Suc t) div 1000" for t by (simp add: zdiv_mono1)
  have src: "cfg_time_source (make_time_cfg System) = System" by (simp add: make_time_cfg_def)
  show "time_is_monotonically_increasing E w"
    by (simp add: time_is_monotonically_increasing_def test_run_def ok_with_def bindE_def now_ms_def src utc_now_ms_def
        io_simps Let_def later)
  have "\<bar>env_clock E (w_tick w) div 1000 - sys\<bar> < 1000" using near [of "w_tick w"] by linarith
  then show "system_time_is_recent E sys w"
    by (simp add: system_time_is_recent_def test_run_def ok_with_def bindE_def now_ms_def src utc_now_ms_def io_simps)
qed

section \<open>TLS configuration\<close>

definition build_server_config_alpn :: "rustls \<Rightarrow> byte list \<Rightarrow> byte list list \<Rightarrow> byte list \<Rightarrow> bool \<Rightarrow> bool \<Rightarrow> bool" where
  "build_server_config_alpn rl ca_der cert_chain key mtls_enabled mtls_required =
     ok_with (build_server_config rl ca_der cert_chain key mtls_enabled mtls_required) (\<lambda>cfg.
       sv_alpn_protocols cfg = [''h2'', ''http/1.1''])"

definition build_server_config_tls_disabled :: "rustls \<Rightarrow> byte list \<Rightarrow> byte list list \<Rightarrow> byte list \<Rightarrow> bool" where
  "build_server_config_tls_disabled rl ca_der cert_chain key = build_server_config_alpn rl ca_der cert_chain key False False"

definition build_server_config_mtls_optional :: "rustls \<Rightarrow> byte list \<Rightarrow> byte list list \<Rightarrow> byte list \<Rightarrow> bool" where
  "build_server_config_mtls_optional rl ca_der cert_chain key = build_server_config_alpn rl ca_der cert_chain key True False"

definition build_server_config_mtls_required :: "rustls \<Rightarrow> byte list \<Rightarrow> byte list list \<Rightarrow> byte list \<Rightarrow> bool" where
  "build_server_config_mtls_required rl ca_der cert_chain key = build_server_config_alpn rl ca_der cert_chain key True True"

text \<open>\<open>rustls\<close> accepts the generated authority, the verifiers built on it, and the chain with its key.\<close>

definition material_ok :: "rustls \<Rightarrow> byte list \<Rightarrow> byte list list \<Rightarrow> byte list \<Rightarrow> bool" where
  "material_ok rl ca_der cert_chain key \<longleftrightarrow>
     rl_add_root_error rl ca_der = None \<and> rl_verifier_error rl (OptionalClientAuth ca_der) = None
     \<and> rl_verifier_error rl (RequiredClientAuth ca_der) = None \<and> rl_single_cert_error rl cert_chain key = None"

lemma tls_tests_hold:
  assumes "material_ok rl ca_der cert_chain key"
  shows "build_server_config_tls_disabled rl ca_der cert_chain key" "build_server_config_mtls_optional rl ca_der cert_chain key"
    "build_server_config_mtls_required rl ca_der cert_chain key"
  using assms
  by (simp_all add: build_server_config_tls_disabled_def build_server_config_mtls_optional_def
      build_server_config_mtls_required_def build_server_config_alpn_def build_server_config_def material_ok_def
      ok_with_def Let_def)

end
