(* ===== verification/Irl_Tests_Db.thy ===== *)
theory Irl_Tests_Db
  imports Irl_Tests_Io Irl_Backfill
begin

text \<open>
  The tests of \<open>src/db.rs\<close>, the integration tests among them: a trace inserted with and
  without a key provider, the columns it leaves, and what reading it gives back. The
  lemmas belong to the regression suite of \<open>Irl_Tests\<close>.
\<close>

section \<open>Reading stored forms\<close>

definition test_decrypt_if_needed_plaintext_passthrough :: "env \<Rightarrow> world \<Rightarrow> bool" where
  "test_decrypt_if_needed_plaintext_passthrough E =
     (let original = json_obj [(''foo'', JStr ''bar''), (''num'', JInt 42)] in
      test_run (bindE (decrypt_if_needed E original None None None 0 None) (\<lambda>result. ret (result = original))))"

definition test_decrypt_if_needed_v1_no_provider_returns_error :: "env \<Rightarrow> world \<Rightarrow> bool" where
  "test_decrypt_if_needed_v1_no_provider_returns_error E w =
     (let wrapped = json_obj [(''v'', JInt 1), (''data'', JStr ''dGVzdA=='')] in
      err_with (fst (decrypt_if_needed E wrapped (Some (replicate 12 0)) (Some (replicate 48 0)) (Some 1) 1 None w))
        (encryption_contains ''no key_provider configured''))"

definition test_decrypt_if_needed_unknown_version_returns_error :: "env \<Rightarrow> world \<Rightarrow> bool" where
  "test_decrypt_if_needed_unknown_version_returns_error E w =
     err_with (fst (decrypt_if_needed E (json_obj []) None None None 99 None w))
       (encryption_contains ''unknown encryption_version'')"

text \<open>\<open>expect\<close> of the key provider, whose error has its own type.\<close>

definition local_kms :: "env \<Rightarrow> key_provider io" where
  "local_kms E = liftE (res_map_err Encryption (setup_local_provider (env_crates E)))"

definition sample_original :: json where
  "sample_original = json_obj
     [(''trace_id'', JStr ''11111111-1111-1111-1111-111111111111''), (''version'', JStr ''1.0.0''),
      (''execution'', json_obj [(''asset'', JStr ''BTC''), (''quantity'', JFloat (Finite 1))])]"

definition test_encrypt_decrypt_roundtrip_no_db :: "env \<Rightarrow> world \<Rightarrow> bool" where
  "test_encrypt_decrypt_roundtrip_no_db E =
     test_run (bindE (local_kms E) (\<lambda>provider.
       bindE (liftE (res_map_err Serialization (json_to_vec (env_crates E) sample_original))) (\<lambda>plaintext_bytes.
       bindE (map_errE Encryption (generate_dek E provider)) (\<lambda>(dek, enc_dek, kv).
       bindE (map_errE Encryption (encrypt_trace E plaintext_bytes dek)) (\<lambda>blob.
       let wrapped = wrap_ciphertext_for_jsonb (env_crates E) (bl_ciphertext blob); nonce = bl_nonce blob in
       bindE (decrypt_if_needed E wrapped (Some nonce) (Some enc_dek) (Some kv) 1 (Some provider)) (\<lambda>decrypted.
       ret (decrypted = sample_original)))))))"

text \<open>What \<open>insert_trace_atomic\<close> stores under a local key, and that it is read back.\<close>

definition json_store_ok :: "crates \<Rightarrow> json \<Rightarrow> bool" where
  "json_store_ok c v \<longleftrightarrow> (\<exists>bs. json_to_vec c v = Inr bs \<and> json_from_slice c bs = Inr v)"

lemma json_store_roundtrip: "json_store_ok c v \<Longrightarrow> json_roundtrip c v"
  by (auto simp: json_store_ok_def json_roundtrip_def)

lemma encrypt_stored_total:
  assumes "cipher_ok E" and "length key = 32" and "json_store_ok (env_crates E) v"
  obtains blob :: encrypted_blob and enc w' where "encrypt_stored E (Some (LocalDev key 1)) v w =
      (Inr (wrap_ciphertext_for_jsonb (env_crates E) (bl_ciphertext blob), Some (bl_nonce blob), Some enc, Some 1, 1), w')"
    and "length (bl_nonce blob) = 12"
proof -
  obtain pt where pt: "json_to_vec (env_crates E) v = Inr pt" using assms(3) by (auto simp: json_store_ok_def)
  obtain dek enc w1 where gen: "local_generate_dek E key 1 w = (Inr (dek, enc, 1), w1)" "length dek = 32"
    using local_generate_total [OF assms(1,2)] .
  obtain blob where blob: "encrypt_trace E pt dek w1 = (Inr blob, w1\<lparr>w_tick := Suc (w_tick w1)\<rparr>)"
      "length (bl_nonce blob) = 12"
    using encrypt_trace_total [OF assms(1) gen(2)] .
  have "generate_dek E (LocalDev key 1) w = (Inr (dek, enc, 1), w1)" by (simp add: gen(1))
  then show thesis using that encrypt_stored_intro [OF pt _ blob(1)] blob(2) by blast
qed

lemma local_kms_ok:
  assumes "hex_ok (env_crates E)"
  shows "\<exists>key. local_kms E = ret (LocalDev key 1) \<and> length key = 32"
proof -
  obtain key where "setup_local_provider (env_crates E) = Inr (LocalDev key 1)" "length key = 32"
    using setup_local_provider_ok [OF assms] .
  then show ?thesis by (auto simp: local_kms_def io_simps fun_eq_iff)
qed

lemma decrypt_tests_hold:
  "test_decrypt_if_needed_plaintext_passthrough E w" "test_decrypt_if_needed_v1_no_provider_returns_error E w"
  "test_decrypt_if_needed_unknown_version_returns_error E w"
proof -
  show "test_decrypt_if_needed_plaintext_passthrough E w"
    by (simp add: test_decrypt_if_needed_plaintext_passthrough_def test_run_def ok_with_def Let_def decrypt_if_needed_def
        io_simps)
  have messages: "str_contains ''encryption_version=1 but no key_provider configured'' ''no key_provider configured''"
    "str_contains (''unknown encryption_version: '' @ show_int 99) ''unknown encryption_version''" by code_simp+
  show "test_decrypt_if_needed_v1_no_provider_returns_error E w"
    by (simp add: test_decrypt_if_needed_v1_no_provider_returns_error_def err_with_def Let_def decrypt_if_needed_def
        bindE_def io_simps messages del: str_contains.simps)
  show "test_decrypt_if_needed_unknown_version_returns_error E w"
    using messages(2) by (simp add: test_decrypt_if_needed_unknown_version_returns_error_def err_with_def
        decrypt_if_needed_def io_simps del: str_contains.simps)
qed

lemma roundtrip_no_db_holds:
  assumes "cipher_ok E" and "hex_ok (env_crates E)" and "json_store_ok (env_crates E) sample_original"
  shows "test_encrypt_decrypt_roundtrip_no_db E w"
proof -
  obtain key where kms: "local_kms E = ret (LocalDev key 1)" and key: "length key = 32"
    using local_kms_ok [OF assms(2)] by blast
  obtain pt where pt: "json_to_vec (env_crates E) sample_original = Inr pt" using assms(3) by (auto simp: json_store_ok_def)
  obtain dek enc w1 where gen: "local_generate_dek E key 1 w = (Inr (dek, enc, 1), w1)" "length dek = 32"
    using local_generate_total [OF assms(1) key] .
  obtain blob where blob: "encrypt_trace E pt dek w1 = (Inr blob, w1\<lparr>w_tick := Suc (w_tick w1)\<rparr>)"
    using encrypt_trace_total [OF assms(1) gen(2)] .
  have crypto: "crypto_ok E" using assms(1) by (simp add: cipher_ok_def)
  have "decrypt_if_needed E (wrap_ciphertext_for_jsonb (env_crates E) (bl_ciphertext blob)) (Some (bl_nonce blob))
      (Some enc) (Some 1) 1 (Some (LocalDev key 1)) u = (Inr sample_original, u)" for u
  proof (rule stored_form_readable [OF crypto json_store_roundtrip [OF assms(3)]])
    show "encrypt_stored E (Some (LocalDev key 1)) sample_original w
        = (Inr (wrap_ciphertext_for_jsonb (env_crates E) (bl_ciphertext blob), Some (bl_nonce blob), Some enc, Some 1, 1),
           w1\<lparr>w_tick := Suc (w_tick w1)\<rparr>)"
      by (rule encrypt_stored_intro [OF pt _ blob]) (simp add: gen(1))
  qed simp
  then show ?thesis
    by (simp add: test_encrypt_decrypt_roundtrip_no_db_def test_run_def ok_with_def bindE_def kms pt gen(1) blob
        map_errE_def io_simps Let_def)
qed

section \<open>Inserted traces\<close>

text \<open>The successive readings of the clock a test takes are \<open>tm 0, tm 1, \<dots>\<close>, in microseconds.\<close>

definition make_db_snapshot :: "uuid \<Rightarrow> (nat \<Rightarrow> int) \<Rightarrow> cognitive_snapshot" where
  "make_db_snapshot trace_id tm =
     \<lparr>cs_trace_id = trace_id, cs_mta_regime_id = 1, cs_mta_version = ''1.0'', cs_mta_hash = ''abc123'',
      cs_latent_fingerprint = ''fp'', cs_feature_schema_id = ''fs'',
      cs_execution =
        \<lparr>ei_action = Long (Finite 1), ei_asset = ''BTC'', ei_order_type = Market, ei_venue_id = ''venue1'',
         ei_quantity = Finite 1, ei_notional = Finite 100, ei_notional_currency = ''USD'',
         ei_multiplier = Finite 1, ei_limit_price = None, ei_stop_price = None, ei_client_order_id = ''test-order''\<rparr>,
      cs_valid_time = tm 0 div 1000 - 1000, cs_txn_time = tm 1 div 1000,
      cs_heartbeat =
        \<lparr>hb_sequence_id = 1, hb_timestamp_ms = i64_as_u64 (tm 2 div 1000), hb_regime_id = 1,
         hb_mta_ref = ''ref'', hb_signature = []\<rparr>\<rparr>"

definition make_decision :: policy_decision where
  "make_decision =
     \<lparr>pd_result = Allowed, pd_policy_id = ''IrlConstraintPolicy'', pd_policy_version = ''1.0'', pd_policy_hash = ''hash''\<rparr>"

definition make_trace ::
  "crates \<Rightarrow> uuid \<Rightarrow> (nat \<Rightarrow> int) \<Rightarrow> cognitive_snapshot \<Rightarrow> policy_decision \<Rightarrow> string \<Rightarrow> reasoning_trace"
where
  "make_trace c aid tm snap decision reasoning_hash =
     \<lparr>rt_trace_id = cs_trace_id snap, rt_version = ''1.0.0'',
      rt_bitemporal = \<lparr>bt_valid_time = tm 3, bt_txn_time = tm 4, bt_time_source = ''monotonic''\<rparr>,
      rt_mta =
        \<lparr>mb_regime_id = cs_mta_regime_id snap, mb_regime_label = ''test'', mb_risk_level = Finite 1,
         mb_max_notional_scale = Finite 1, mb_allowed_sides = [], mb_version = cs_mta_version snap,
         mb_hash = cs_mta_hash snap, mb_signature_valid = True\<rparr>,
      rt_agent =
        \<lparr>ab_agent_id = aid, ab_latent_fingerprint = cs_latent_fingerprint snap,
         ab_feature_schema_id = cs_feature_schema_id snap\<rparr>,
      rt_execution =
        (let ex = cs_execution snap in
         \<lparr>eb_action = show_trade_action c (ei_action ex), eb_asset = ei_asset ex,
          eb_order_type = show_order_type (ei_order_type ex), eb_venue_id = ei_venue_id ex,
          eb_quantity = ei_quantity ex, eb_notional = ei_notional ex,
          eb_notional_currency = ei_notional_currency ex, eb_multiplier = ei_multiplier ex,
          eb_limit_price = ei_limit_price ex, eb_stop_price = ei_stop_price ex,
          eb_client_order_id = ei_client_order_id ex\<rparr>),
      rt_heartbeat =
        \<lparr>hbb_sequence_id = hb_sequence_id (cs_heartbeat snap), hbb_signature_valid = True, hbb_drift_ms = 0\<rparr>,
      rt_policy =
        \<lparr>pb_id = pd_policy_id decision, pb_version = pd_policy_version decision,
         pb_hash = pd_policy_hash decision, pb_result = show_policy_result (pd_result decision)\<rparr>,
      rt_integrity =
        \<lparr>ib_reasoning_hash = reasoning_hash, ib_final_proof = None, ib_verification_status = ''PENDING'',
         ib_execution_status = None\<rparr>,
      rt_regulatory = None\<rparr>"

text \<open>The insertion every test begins with, the row it leaves, and the clean-up.\<close>

definition insert_test_trace :: "env \<Rightarrow> uuid \<Rightarrow> uuid \<Rightarrow> (nat \<Rightarrow> int) \<Rightarrow> string \<Rightarrow> key_provider option \<Rightarrow> unit io" where
  "insert_test_trace E tid aid tm reasoning_hash kp =
     (let snap = make_db_snapshot tid tm; decision = make_decision;
          trace = make_trace (env_crates E) aid tm snap decision reasoning_hash
      in insert_trace_atomic E snap reasoning_hash decision trace None None kp None)"

definition fetch_row :: "env \<Rightarrow> uuid \<Rightarrow> (trace_row \<Rightarrow> bool) \<Rightarrow> bool io" where
  "fetch_row E tid asserts =
     bindE (sql_read E (\<lambda>now d. find_trace tid d)) (\<lambda>row.
     ret (case row of None \<Rightarrow> False | Some r \<Rightarrow> asserts r))"

definition delete_test_trace :: "env \<Rightarrow> uuid \<Rightarrow> bool \<Rightarrow> bool io" where
  "delete_test_trace E tid asserted =
     bindE (attempt (sql E (\<lambda>now d. Inr ((), d\<lparr>d_traces := filter (\<lambda>r. tr_trace_id r \<noteq> tid) (d_traces d)\<rparr>)))) (\<lambda>_.
     ret asserted)"

definition test_insert_encrypted_trace_writes_version_1 :: "env \<Rightarrow> uuid \<Rightarrow> uuid \<Rightarrow> (nat \<Rightarrow> int) \<Rightarrow> world \<Rightarrow> bool" where
  "test_insert_encrypted_trace_writes_version_1 E tid aid tm =
     test_run (bindE (local_kms E) (\<lambda>provider.
       bindE (insert_test_trace E tid aid tm ''deadbeef1234567890abcdef'' (Some provider)) (\<lambda>_.
       bindE (fetch_row E tid (\<lambda>r.
         tr_encryption_version r = 1 \<and> tr_encrypted_dek r \<noteq> None \<and> tr_key_version r \<noteq> None
         \<and> tr_reasoning_hash r = ''deadbeef1234567890abcdef''
         \<and> (case tr_trace_nonce r of None \<Rightarrow> False | Some nonce \<Rightarrow> length nonce = 12)
         \<and> json_index (tr_trace_json r) ''v'' = JInt 1 \<and> is_string (json_index (tr_trace_json r) ''data''))) (\<lambda>ok.
       delete_test_trace E tid ok))))"

definition test_insert_plaintext_trace_writes_version_0 :: "env \<Rightarrow> uuid \<Rightarrow> uuid \<Rightarrow> (nat \<Rightarrow> int) \<Rightarrow> world \<Rightarrow> bool" where
  "test_insert_plaintext_trace_writes_version_0 E tid aid tm =
     test_run (bindE (insert_test_trace E tid aid tm ''plaintext_test_hash_abcdef'' None) (\<lambda>_.
       bindE (fetch_row E tid (\<lambda>r.
         tr_encryption_version r = 0 \<and> tr_trace_nonce r = None \<and> tr_encrypted_dek r = None)) (\<lambda>ok.
       delete_test_trace E tid ok)))"

definition test_reasoning_hash_identical_encrypted_vs_plaintext ::
  "env \<Rightarrow> uuid \<Rightarrow> uuid \<Rightarrow> uuid \<Rightarrow> uuid \<Rightarrow> (nat \<Rightarrow> int) \<Rightarrow> (nat \<Rightarrow> int) \<Rightarrow> world \<Rightarrow> bool"
where
  "test_reasoning_hash_identical_encrypted_vs_plaintext E tid tid' aid aid' tm tm' =
     (let reasoning_hash = ''consistent_hash_for_both_rows'' in
      test_run (bindE (local_kms E) (\<lambda>provider.
        bindE (insert_test_trace E tid aid tm reasoning_hash (Some provider)) (\<lambda>_.
        bindE (insert_test_trace E tid' aid' tm' reasoning_hash None) (\<lambda>_.
        bindE (sql_read E (\<lambda>now d. find_trace tid d)) (\<lambda>enc_hash.
        bindE (sql_read E (\<lambda>now d. find_trace tid' d)) (\<lambda>plain_hash.
        bindE (delete_test_trace E tid
          (map_option tr_reasoning_hash enc_hash = Some reasoning_hash
           \<and> map_option tr_reasoning_hash plain_hash = Some reasoning_hash)) (\<lambda>ok.
        delete_test_trace E tid' ok))))))))"

definition test_get_trace_json_decrypts_encrypted_row :: "env \<Rightarrow> uuid \<Rightarrow> uuid \<Rightarrow> (nat \<Rightarrow> int) \<Rightarrow> world \<Rightarrow> bool" where
  "test_get_trace_json_decrypts_encrypted_row E tid aid tm =
     test_run (bindE (local_kms E) (\<lambda>provider.
       bindE (insert_test_trace E tid aid tm ''get_trace_json_test_hash'' (Some provider)) (\<lambda>_.
       bindE (get_trace_json E tid (Some provider)) (\<lambda>returned.
       delete_test_trace E tid
         (json_index (json_index returned ''execution'') ''asset'' = JStr ''BTC''
          \<and> json_index (json_index returned ''integrity'') ''reasoning_hash'' = JStr ''get_trace_json_test_hash'')))))"

definition test_get_trace_json_plaintext_passthrough :: "env \<Rightarrow> uuid \<Rightarrow> uuid \<Rightarrow> (nat \<Rightarrow> int) \<Rightarrow> world \<Rightarrow> bool" where
  "test_get_trace_json_plaintext_passthrough E tid aid tm =
     test_run (bindE (insert_test_trace E tid aid tm ''plaintext_get_trace_hash'' None) (\<lambda>_.
       bindE (get_trace_json E tid None) (\<lambda>returned.
       delete_test_trace E tid (json_index (json_index returned ''execution'') ''asset'' = JStr ''BTC''))))"

definition test_get_trace_json_encrypted_no_provider_returns_error ::
  "env \<Rightarrow> uuid \<Rightarrow> uuid \<Rightarrow> (nat \<Rightarrow> int) \<Rightarrow> world \<Rightarrow> bool"
where
  "test_get_trace_json_encrypted_no_provider_returns_error E tid aid tm =
     test_run (bindE (local_kms E) (\<lambda>provider.
       bindE (insert_test_trace E tid aid tm ''enc_no_provider_test'' (Some provider)) (\<lambda>_.
       bindE (\<lambda>w. (Inr (fst (get_trace_json E tid None w)), snd (get_trace_json E tid None w))) (\<lambda>result.
       delete_test_trace E tid (err_with result is_encryption)))))"

section \<open>The inserted row\<close>

text \<open>
  The database answers, the identifier is fresh, the clock does not run back between two
  readings, and the test's times and amounts fit their columns and JSON gives them back.
\<close>

definition encrypted_hashes :: "string list" where
  "encrypted_hashes =
     [''deadbeef1234567890abcdef'', ''consistent_hash_for_both_rows'', ''get_trace_json_test_hash'', ''enc_no_provider_test'']"

definition db_ready :: "env \<Rightarrow> uuid \<Rightarrow> (nat \<Rightarrow> int) \<Rightarrow> uuid \<Rightarrow> bool" where
  "db_ready E aid tm tid \<longleftrightarrow>
     (\<forall>t. env_db_fault E t = None) \<and> tm 0 \<le> tm 1
     \<and> millis_in_range (env_crates E) (tm 0 div 1000 - 1000) \<and> millis_in_range (env_crates E) (tm 1 div 1000)
     \<and> pg_numeric (env_crates E) 20 8 (Finite 1) \<noteq> None \<and> pg_numeric (env_crates E) 20 8 (Finite 100) \<noteq> None
     \<and> pg_numeric (env_crates E) 10 6 (Finite 1) \<noteq> None
     \<and> (\<forall>h \<in> set encrypted_hashes. json_store_ok (env_crates E) (trace_value (env_crates E)
            (make_trace (env_crates E) aid tm (make_db_snapshot tid tm) make_decision h)))"

lemma sql_up: "\<forall>t. env_db_fault E t = None \<Longrightarrow>
    sql E q w = (case q (env_clock E (w_tick w)) (w_db w) of
      Inl msg \<Rightarrow> (Inl (App (Database msg)), w\<lparr>w_tick := Suc (w_tick w)\<rparr>)
    | Inr (x, d) \<Rightarrow> (Inr x, w\<lparr>w_tick := Suc (w_tick w), w_db := d\<rparr>))"
  by (simp add: sql_def Let_def split: sum.splits prod.splits)

lemma new_test_row:
  assumes "db_ready E aid tm tid"
  shows "\<exists>r. new_trace_row (env_crates E) (make_db_snapshot tid tm) vt tt h make_decision stored None None = Some r"
  using assms by (auto simp: db_ready_def new_trace_row_def make_db_snapshot_def opt_numeric_def Let_def)

lemma test_times:
  assumes "db_ready E aid tm tid"
  shows "snapshot_times (env_crates E) (make_db_snapshot tid tm)
      = Inr ((tm 0 div 1000 - 1000) * 1000, (tm 1 div 1000) * 1000)"
    and "(tm 0 div 1000 - 1000) * 1000 < (tm 1 div 1000) * 1000"
proof -
  have "tm 0 div 1000 \<le> tm 1 div 1000" using assms by (simp add: db_ready_def zdiv_mono1)
  then show "(tm 0 div 1000 - 1000) * 1000 < (tm 1 div 1000) * 1000" by simp
  show "snapshot_times (env_crates E) (make_db_snapshot tid tm)
      = Inr ((tm 0 div 1000 - 1000) * 1000, (tm 1 div 1000) * 1000)"
    using assms by (simp add: db_ready_def snapshot_times_def timestamp_millis_def make_db_snapshot_def)
qed

lemma insert_test_trace_ok:
  assumes ready: "db_ready E aid tm tid" and fresh: "find_trace tid (w_db w) = None"
    and stored: "encrypt_stored E kp (trace_value (env_crates E)
        (make_trace (env_crates E) aid tm (make_db_snapshot tid tm) make_decision h)) (w\<lparr>w_tick := Suc (w_tick w)\<rparr>)
      = (Inr (j, n, dk, kv, ev), w1)"
  obtains r w' where "insert_test_trace E tid aid tm h kp w = (Inr (), w')"
    and "w_db w' = (w_db w)\<lparr>d_traces := d_traces (w_db w) @ [r]\<rparr>"
    and "tr_trace_id r = tid" and "tr_reasoning_hash r = h" and "tr_final_proof r = None"
    and "tr_verification_status r = ''PENDING''"
    and "(tr_trace_json r, tr_trace_nonce r, tr_encrypted_dek r, tr_key_version r, tr_encryption_version r) = (j, n, dk, kv, ev)"
proof -
  let ?snap = "make_db_snapshot tid tm"
  define vt tt where "vt = (tm 0 div 1000 - 1000) * 1000" and "tt = (tm 1 div 1000) * 1000"
  note times = test_times [OF ready, folded vt_def tt_def]
  obtain r where r: "new_trace_row (env_crates E) ?snap vt tt h make_decision (j, n, dk, kv, ev) None None = Some r"
    using new_test_row [OF ready] by blast
  note f = new_trace_row_fields [OF r]
  have id: "tr_trace_id r = tid" using f(1) by (simp add: make_db_snapshot_def)
  have db: "w_db w1 = w_db w" using keepsD [OF keeps_encrypt_stored stored] by (auto simp: only_tick_def)
  have "\<not> (tr_trace_id s = tr_trace_id r \<and> tr_txn_time s = tr_txn_time r)" if "s \<in> set (d_traces (w_db w))" for s
    using fresh that id by (auto simp: find_trace_def find_None_iff)
  moreover have "tr_policy_result r = ''ALLOWED''" using f(6) by (simp add: make_decision_def)
  ultimately have ins: "insert_trace_row (Some r) (w_db w1) = Inr ((w_db w)\<lparr>d_traces := d_traces (w_db w) @ [r]\<rparr>)"
    using f(7,8) times(2) by (simp add: insert_trace_row_ok db)
  have up: "\<forall>t. env_db_fault E t = None" using ready by (simp add: db_ready_def)
  have "\<exists>w'. insert_test_trace E tid aid tm h kp w = (Inr (), w')
      \<and> w_db w' = (w_db w)\<lparr>d_traces := d_traces (w_db w) @ [r]\<rparr>"
    by (simp add: insert_test_trace_def insert_trace_atomic_def Let_def bindE_def sql_read_def sql_up [OF up]
        portfolio_check_def stored times(1) r ins io_simps)
  then show thesis using that id f(3,4,5,15) by metis
qed

lemma hashes:
  "''deadbeef1234567890abcdef'' \<in> set encrypted_hashes" "''consistent_hash_for_both_rows'' \<in> set encrypted_hashes"
  "''get_trace_json_test_hash'' \<in> set encrypted_hashes" "''enc_no_provider_test'' \<in> set encrypted_hashes"
  by (simp_all add: encrypted_hashes_def)

lemma insert_plain_ok:
  assumes "db_ready E aid tm tid" and "find_trace tid (w_db w) = None"
  obtains r w' where "insert_test_trace E tid aid tm h None w = (Inr (), w')"
    and "w_db w' = (w_db w)\<lparr>d_traces := d_traces (w_db w) @ [r]\<rparr>"
    and "tr_trace_id r = tid" and "tr_reasoning_hash r = h" and "tr_final_proof r = None"
    and "tr_verification_status r = ''PENDING''" and "tr_trace_nonce r = None" and "tr_encrypted_dek r = None"
    and "tr_encryption_version r = 0"
    and "tr_trace_json r = trace_value (env_crates E)
          (make_trace (env_crates E) aid tm (make_db_snapshot tid tm) make_decision h)"
proof -
  have "encrypt_stored E None v w1 = (Inr (v, None, None, None, 0), w1)" for v w1
    by (simp add: encrypt_stored_def io_simps)
  note stored = this
  obtain r w' where "insert_test_trace E tid aid tm h None w = (Inr (), w')"
      "w_db w' = (w_db w)\<lparr>d_traces := d_traces (w_db w) @ [r]\<rparr>" "tr_trace_id r = tid" "tr_reasoning_hash r = h"
      "tr_final_proof r = None" "tr_verification_status r = ''PENDING''"
      "(tr_trace_json r, tr_trace_nonce r, tr_encrypted_dek r, tr_key_version r, tr_encryption_version r) =
        (trace_value (env_crates E) (make_trace (env_crates E) aid tm (make_db_snapshot tid tm) make_decision h),
         None, None, None, 0)"
    using insert_test_trace_ok [OF assms stored] .
  then show thesis using that by simp
qed

lemma insert_encrypted_ok:
  assumes "cipher_ok E" and "length key = 32" and "db_ready E aid tm tid" and "find_trace tid (w_db w) = None"
    and "h \<in> set encrypted_hashes"
  obtains r w' nonce dk ct where "insert_test_trace E tid aid tm h (Some (LocalDev key 1)) w = (Inr (), w')"
    and "w_db w' = (w_db w)\<lparr>d_traces := d_traces (w_db w) @ [r]\<rparr>"
    and "tr_trace_id r = tid" and "tr_reasoning_hash r = h" and "tr_final_proof r = None"
    and "tr_verification_status r = ''PENDING''" and "tr_trace_nonce r = Some nonce" and "length nonce = 12"
    and "tr_encrypted_dek r = Some dk" and "tr_key_version r = Some 1" and "tr_encryption_version r = 1"
    and "tr_trace_json r = wrap_ciphertext_for_jsonb (env_crates E) ct"
    and "\<And>u. decrypt_if_needed E (tr_trace_json r) (tr_trace_nonce r) (tr_encrypted_dek r) (tr_key_version r)
          (tr_encryption_version r) (Some (LocalDev key 1)) u
        = (Inr (trace_value (env_crates E) (make_trace (env_crates E) aid tm (make_db_snapshot tid tm) make_decision h)), u)"
proof -
  let ?v = "trace_value (env_crates E) (make_trace (env_crates E) aid tm (make_db_snapshot tid tm) make_decision h)"
  have json: "json_store_ok (env_crates E) ?v" using assms(3,5) by (simp add: db_ready_def)
  have crypto: "crypto_ok E" using assms(1) by (simp add: cipher_ok_def)
  obtain blob :: encrypted_blob and dk w1 where
    st: "encrypt_stored E (Some (LocalDev key 1)) ?v (w\<lparr>w_tick := Suc (w_tick w)\<rparr>) =
      (Inr (wrap_ciphertext_for_jsonb (env_crates E) (bl_ciphertext blob), Some (bl_nonce blob), Some dk, Some 1, 1), w1)"
    and n: "length (bl_nonce blob) = 12"
    using encrypt_stored_total [OF assms(1,2) json] .
  obtain r w' where ins: "insert_test_trace E tid aid tm h (Some (LocalDev key 1)) w = (Inr (), w')"
      "w_db w' = (w_db w)\<lparr>d_traces := d_traces (w_db w) @ [r]\<rparr>" "tr_trace_id r = tid" "tr_reasoning_hash r = h"
      "tr_final_proof r = None" "tr_verification_status r = ''PENDING''"
    and cols: "(tr_trace_json r, tr_trace_nonce r, tr_encrypted_dek r, tr_key_version r, tr_encryption_version r)
      = (wrap_ciphertext_for_jsonb (env_crates E) (bl_ciphertext blob), Some (bl_nonce blob), Some dk, Some 1, 1)"
    using insert_test_trace_ok [OF assms(3,4) st] .
  have "decrypt_if_needed E (tr_trace_json r) (tr_trace_nonce r) (tr_encrypted_dek r) (tr_key_version r)
      (tr_encryption_version r) (Some (LocalDev key 1)) u = (Inr ?v, u)" for u
    using stored_form_readable [OF crypto json_store_roundtrip [OF json] _ st, of key 1] cols by simp
  then show thesis using that ins cols n by simp
qed

lemma test_run_bind:
  "test_run (bindE m f) w = (case m w of (Inl e, w') \<Rightarrow> False | (Inr x, w') \<Rightarrow> test_run (f x) w')"
  by (simp add: test_run_def bindE_def ok_with_def split: prod.splits sum.splits)

lemma test_run_delete: "test_run (delete_test_trace E tid ok) w = ok"
  by (simp add: test_run_def delete_test_trace_def bindE_def attempt_def sql_def Let_def ok_with_def io_simps
      split: option.splits)

lemma test_row:
  assumes "\<forall>t. env_db_fault E t = None" and "find_trace tid d = None" and "tr_trace_id r = tid"
    and "w_db w = d\<lparr>d_traces := d_traces d @ [r]\<rparr>"
  shows "sql_read E (\<lambda>now d. find_trace tid d) w = (Inr (Some r), w\<lparr>w_tick := Suc (w_tick w)\<rparr>)"
  using assms find_trace_append_fresh [OF assms(2,3)] by (simp add: sql_read_ok_iff)

lemma fetch_row_ok:
  assumes "\<forall>t. env_db_fault E t = None" and "find_trace tid d = None" and "tr_trace_id r = tid"
    and "w_db w = d\<lparr>d_traces := d_traces d @ [r]\<rparr>"
  shows "fetch_row E tid asserts w = (Inr (asserts r), w\<lparr>w_tick := Suc (w_tick w)\<rparr>)"
  using test_row [OF assms] by (simp add: fetch_row_def bindE_def io_simps)

lemma get_trace_ok:
  assumes "\<forall>t. env_db_fault E t = None" and "find_trace tid d = None" and "tr_trace_id r = tid"
    and "w_db w = d\<lparr>d_traces := d_traces d @ [r]\<rparr>" and "tr_final_proof r = None"
    and "tr_verification_status r = ''PENDING''"
    and "\<And>u. decrypt_if_needed E (tr_trace_json r) (tr_trace_nonce r) (tr_encrypted_dek r) (tr_key_version r)
          (tr_encryption_version r) kp u
        = (Inr (trace_value (env_crates E) (make_trace (env_crates E) aid tm snap dec h)), u)"
  shows "get_trace_json E tid kp w = (Inr (trace_value (env_crates E) (make_trace (env_crates E) aid tm snap dec h)),
    w\<lparr>w_tick := Suc (w_tick w)\<rparr>)"
proof -
  have "overlay_binding (trace_value c (make_trace c' aid tm snap dec h)) None ''PENDING''
      = trace_value c (make_trace c' aid tm snap dec h)" for c c'
    by (rule overlay_unbound) (simp_all add: make_trace_def)
  then show ?thesis using test_row [OF assms(1-4)] assms(5-7) by (simp add: get_trace_json_def bindE_def io_simps)
qed

lemma test_trace_fields:
  "json_index (json_index (trace_value c (make_trace c aid tm (make_db_snapshot tid tm) dec h)) ''execution'') ''asset''
     = JStr ''BTC''"
  "json_index (json_index (trace_value c (make_trace c aid tm (make_db_snapshot tid tm) dec h)) ''integrity'') ''reasoning_hash''
     = JStr h"
  by (simp_all add: json_index_def trace_value_def json_get_obj execution_block_value_def integrity_value_def
      make_trace_def make_db_snapshot_def)

lemma insert_tests_hold:
  assumes "cipher_ok E" and "hex_ok (env_crates E)" and "db_ready E aid tm tid" and "find_trace tid (w_db w) = None"
  shows "test_insert_encrypted_trace_writes_version_1 E tid aid tm w"
    "test_insert_plaintext_trace_writes_version_0 E tid aid tm w"
proof -
  have up: "\<forall>t. env_db_fault E t = None" using assms(3) by (simp add: db_ready_def)
  obtain key where kms: "local_kms E = ret (LocalDev key 1)" and key: "length key = 32"
    using local_kms_ok [OF assms(2)] by blast
  show "test_insert_encrypted_trace_writes_version_1 E tid aid tm w"
  proof (rule insert_encrypted_ok [OF assms(1) key assms(3,4) hashes(1)])
    fix r w' nonce dk ct
    assume run: "insert_test_trace E tid aid tm ''deadbeef1234567890abcdef'' (Some (LocalDev key 1)) w = (Inr (), w')"
      and db: "w_db w' = (w_db w)\<lparr>d_traces := d_traces (w_db w) @ [r]\<rparr>" and tid: "tr_trace_id r = tid"
      and cols: "tr_reasoning_hash r = ''deadbeef1234567890abcdef''" "tr_trace_nonce r = Some nonce" "length nonce = 12"
        "tr_encrypted_dek r = Some dk" "tr_key_version r = Some 1" "tr_encryption_version r = 1"
        "tr_trace_json r = wrap_ciphertext_for_jsonb (env_crates E) ct"
    show ?thesis
      unfolding test_insert_encrypted_trace_writes_version_1_def kms bindE_ret
      by (simp add: test_run_bind run fetch_row_ok [OF up assms(4) tid db] test_run_delete cols
          wrap_ciphertext_for_jsonb_def json_index_def json_get_obj is_string_def)
  qed
  show "test_insert_plaintext_trace_writes_version_0 E tid aid tm w"
  proof (rule insert_plain_ok [OF assms(3,4), of "''plaintext_test_hash_abcdef''"])
    fix r w'
    assume run: "insert_test_trace E tid aid tm ''plaintext_test_hash_abcdef'' None w = (Inr (), w')"
      and db: "w_db w' = (w_db w)\<lparr>d_traces := d_traces (w_db w) @ [r]\<rparr>" and tid: "tr_trace_id r = tid"
      and cols: "tr_trace_nonce r = None" "tr_encrypted_dek r = None" "tr_encryption_version r = 0"
    show ?thesis
      unfolding test_insert_plaintext_trace_writes_version_0_def
      by (simp add: test_run_bind run fetch_row_ok [OF up assms(4) tid db] test_run_delete cols)
  qed
qed

lemma read_tests_hold:
  assumes "cipher_ok E" and "hex_ok (env_crates E)" and "db_ready E aid tm tid" and "find_trace tid (w_db w) = None"
  shows "test_get_trace_json_decrypts_encrypted_row E tid aid tm w"
    "test_get_trace_json_plaintext_passthrough E tid aid tm w"
    "test_get_trace_json_encrypted_no_provider_returns_error E tid aid tm w"
proof -
  have up: "\<forall>t. env_db_fault E t = None" using assms(3) by (simp add: db_ready_def)
  obtain key where kms: "local_kms E = ret (LocalDev key 1)" and key: "length key = 32"
    using local_kms_ok [OF assms(2)] by blast
  show "test_get_trace_json_decrypts_encrypted_row E tid aid tm w"
  proof (rule insert_encrypted_ok [OF assms(1) key assms(3,4) hashes(3)])
    fix r w'
    assume run: "insert_test_trace E tid aid tm ''get_trace_json_test_hash'' (Some (LocalDev key 1)) w = (Inr (), w')"
      and row: "w_db w' = (w_db w)\<lparr>d_traces := d_traces (w_db w) @ [r]\<rparr>" "tr_trace_id r = tid" "tr_final_proof r = None"
        "tr_verification_status r = ''PENDING''"
      and dec: "\<And>u. decrypt_if_needed E (tr_trace_json r) (tr_trace_nonce r) (tr_encrypted_dek r) (tr_key_version r)
          (tr_encryption_version r) (Some (LocalDev key 1)) u = (Inr (trace_value (env_crates E)
          (make_trace (env_crates E) aid tm (make_db_snapshot tid tm) make_decision ''get_trace_json_test_hash'')), u)"
    show ?thesis
      unfolding test_get_trace_json_decrypts_encrypted_row_def kms bindE_ret
      by (simp add: test_run_bind run get_trace_ok [OF up assms(4) row(2,1,3,4) dec] test_run_delete test_trace_fields)
  qed
  show "test_get_trace_json_plaintext_passthrough E tid aid tm w"
  proof (rule insert_plain_ok [OF assms(3,4), of "''plaintext_get_trace_hash''"])
    fix r w'
    assume run: "insert_test_trace E tid aid tm ''plaintext_get_trace_hash'' None w = (Inr (), w')"
      and row: "w_db w' = (w_db w)\<lparr>d_traces := d_traces (w_db w) @ [r]\<rparr>" "tr_trace_id r = tid" "tr_final_proof r = None"
        "tr_verification_status r = ''PENDING''" and cols: "tr_encryption_version r = 0"
        "tr_trace_json r = trace_value (env_crates E)
          (make_trace (env_crates E) aid tm (make_db_snapshot tid tm) make_decision ''plaintext_get_trace_hash'')"
    have dec: "decrypt_if_needed E (tr_trace_json r) (tr_trace_nonce r) (tr_encrypted_dek r) (tr_key_version r)
        (tr_encryption_version r) None u = (Inr (trace_value (env_crates E)
        (make_trace (env_crates E) aid tm (make_db_snapshot tid tm) make_decision ''plaintext_get_trace_hash'')), u)" for u
      by (simp add: decrypt_if_needed_def cols io_simps)
    show ?thesis
      unfolding test_get_trace_json_plaintext_passthrough_def
      by (simp add: test_run_bind run get_trace_ok [OF up assms(4) row(2,1,3,4) dec] test_run_delete test_trace_fields)
  qed
  show "test_get_trace_json_encrypted_no_provider_returns_error E tid aid tm w"
  proof (rule insert_encrypted_ok [OF assms(1) key assms(3,4) hashes(4)])
    fix r w'
    assume run: "insert_test_trace E tid aid tm ''enc_no_provider_test'' (Some (LocalDev key 1)) w = (Inr (), w')"
      and row: "w_db w' = (w_db w)\<lparr>d_traces := d_traces (w_db w) @ [r]\<rparr>" "tr_trace_id r = tid"
      and ver: "tr_encryption_version r = 1"
    have "err_with (fst (get_trace_json E tid None w')) is_encryption"
      using test_row [OF up assms(4) row(2,1)]
      by (simp add: get_trace_json_def bindE_def decrypt_if_needed_def ver err_with_def io_simps)
    then show ?thesis
      unfolding test_get_trace_json_encrypted_no_provider_returns_error_def kms bindE_ret
      by (simp add: test_run_bind run test_run_delete)
  qed
qed

lemma find_trace_append_later:
  assumes "find_trace t d = Some r"
  shows "find_trace t (d\<lparr>d_traces := d_traces d @ rows\<rparr>) = Some r"
proof -
  have "find P (xs @ rows) = Some r" if "find P xs = Some r" for P xs
    using that by (induction xs) auto
  then show ?thesis using assms by (simp add: find_trace_def)
qed

lemma same_hash_holds:
  assumes "cipher_ok E" and "hex_ok (env_crates E)" and "db_ready E aid tm tid" and "db_ready E aid' tm' tid'"
    and "find_trace tid (w_db w) = None" and "find_trace tid' (w_db w) = None" and "tid \<noteq> tid'"
  shows "test_reasoning_hash_identical_encrypted_vs_plaintext E tid tid' aid aid' tm tm' w"
proof -
  have up: "\<forall>t. env_db_fault E t = None" using assms(3) by (simp add: db_ready_def)
  obtain key where kms: "local_kms E = ret (LocalDev key 1)" and key: "length key = 32"
    using local_kms_ok [OF assms(2)] by blast
  let ?h = "''consistent_hash_for_both_rows''"
  obtain r w' where run: "insert_test_trace E tid aid tm ?h (Some (LocalDev key 1)) w = (Inr (), w')"
    and db: "w_db w' = (w_db w)\<lparr>d_traces := d_traces (w_db w) @ [r]\<rparr>" and r: "tr_trace_id r = tid" "tr_reasoning_hash r = ?h"
    by (rule insert_encrypted_ok [OF assms(1) key assms(3,5) hashes(2)])
  have "find_trace tid' (w_db w') = None"
    using assms(6,7) r by (auto simp: db find_trace_def find_None_iff)
  then obtain r' w'' where run': "insert_test_trace E tid' aid' tm' ?h None w' = (Inr (), w'')"
    and db': "w_db w'' = (w_db w')\<lparr>d_traces := d_traces (w_db w') @ [r']\<rparr>"
    and r': "tr_trace_id r' = tid'" "tr_reasoning_hash r' = ?h"
    using insert_plain_ok [OF assms(4)] by metis
  have "find_trace tid' (w_db w'') = Some r'"
    unfolding db' by (rule find_trace_append_fresh [OF \<open>find_trace tid' (w_db w') = None\<close> r'(1)])
  moreover have "find_trace tid (w_db w'') = Some r"
    unfolding db' using find_trace_append_fresh [OF assms(5) r(1)] by (intro find_trace_append_later) (simp add: db)
  ultimately have "sql_read E (\<lambda>now d. find_trace tid d) w'' = (Inr (Some r), w''\<lparr>w_tick := Suc (w_tick w'')\<rparr>)"
    "sql_read E (\<lambda>now d. find_trace tid' d) (w''\<lparr>w_tick := n\<rparr>) = (Inr (Some r'), w''\<lparr>w_tick := Suc n\<rparr>)" for n
    using up by (simp_all add: sql_read_ok_iff)
  moreover have "delete_test_trace E tid ok u = (Inr ok, snd (delete_test_trace E tid ok u))" for ok u
    by (simp add: delete_test_trace_def bindE_def attempt_def sql_def Let_def io_simps split: option.splits)
  ultimately show ?thesis
    unfolding test_reasoning_hash_identical_encrypted_vs_plaintext_def kms bindE_ret Let_def
    by (simp add: test_run_bind run run' r r' test_run_delete split: prod.splits) (simp add: prod_eq_iff test_run_delete)
qed

section \<open>Backfill\<close>

definition backfill_plaintext :: json where
  "backfill_plaintext = json_obj [(''step'', JStr ''test''), (''value'', JInt 42)]"

definition backfill_original :: json where
  "backfill_original = json_obj [(''agent'', JStr ''test-agent''), (''decision'', JStr ''AUTHORIZE'')]"

definition test_encrypt_one_row_produces_valid_jsonb_wrapper :: "env \<Rightarrow> world \<Rightarrow> bool" where
  "test_encrypt_one_row_produces_valid_jsonb_wrapper E =
     test_run (bindE (liftE (setup_local_provider (env_crates E))) (\<lambda>kms.
       bindE (generate_dek E kms) (\<lambda>(dek, enc_dek, kv).
       bindE (liftE (json_to_vec (env_crates E) backfill_plaintext)) (\<lambda>bytes.
       bindE (encrypt_trace E bytes dek) (\<lambda>blob.
       let wrapped = wrap_ciphertext_for_jsonb (env_crates E) (bl_ciphertext blob) in
       ret (json_index wrapped ''v'' = JInt 1 \<and> is_string (json_index wrapped ''data'')))))))"

definition test_encrypt_decrypt_roundtrip :: "env \<Rightarrow> world \<Rightarrow> bool" where
  "test_encrypt_decrypt_roundtrip E =
     test_run (bindE (liftE (setup_local_provider (env_crates E))) (\<lambda>kms.
       bindE (generate_dek E kms) (\<lambda>(dek, enc_dek, kv).
       bindE (liftE (json_to_vec (env_crates E) backfill_original)) (\<lambda>plaintext_bytes.
       bindE (encrypt_trace E plaintext_bytes dek) (\<lambda>blob.
       let wrapped = wrap_ciphertext_for_jsonb (env_crates E) (bl_ciphertext blob); nonce_bytes = bl_nonce blob in
       bindE (decrypt_dek E kms enc_dek kv) (\<lambda>dek2.
       bindE (liftE (extract_ciphertext_from_jsonb (env_crates E) wrapped)) (\<lambda>ciphertext.
       bindE (decrypt_trace E ciphertext nonce_bytes dek2) (\<lambda>decrypted_bytes.
       bindE (liftE (json_from_slice (env_crates E) decrypted_bytes)) (\<lambda>recovered.
       ret (backfill_original = recovered))))))))))"

lemma backfill_tests_hold:
  assumes "cipher_ok E" and "hex_ok (env_crates E)" and "json_store_ok (env_crates E) backfill_plaintext"
    and "json_store_ok (env_crates E) backfill_original"
  shows "test_encrypt_one_row_produces_valid_jsonb_wrapper E w" "test_encrypt_decrypt_roundtrip E w"
proof -
  obtain key where key: "setup_local_provider (env_crates E) = Inr (LocalDev key 1)" "length key = 32"
    using setup_local_provider_ok [OF assms(2)] .
  obtain dek enc w1 where gen: "local_generate_dek E key 1 w = (Inr (dek, enc, 1), w1)" "length dek = 32"
    using local_generate_total [OF assms(1) key(2)] .
  have crypto: "crypto_ok E" using assms(1) by (simp add: cipher_ok_def)
  obtain pt1 where pt1: "json_to_vec (env_crates E) backfill_plaintext = Inr pt1"
    using assms(3) by (auto simp: json_store_ok_def)
  obtain pt2 where pt2: "json_to_vec (env_crates E) backfill_original = Inr pt2"
      "json_from_slice (env_crates E) pt2 = Inr backfill_original"
    using assms(4) by (auto simp: json_store_ok_def)
  obtain b1 where b1: "encrypt_trace E pt1 dek w1 = (Inr b1, w1\<lparr>w_tick := Suc (w_tick w1)\<rparr>)"
    using encrypt_trace_total [OF assms(1) gen(2)] .
  obtain b2 where b2: "encrypt_trace E pt2 dek w1 = (Inr b2, w1\<lparr>w_tick := Suc (w_tick w1)\<rparr>)"
    using encrypt_trace_total [OF assms(1) gen(2)] .
  note run = test_run_def ok_with_def key(1) bindE_def io_simps gen(1) Let_def
  show "test_encrypt_one_row_produces_valid_jsonb_wrapper E w"
    by (simp add: test_encrypt_one_row_produces_valid_jsonb_wrapper_def run pt1 b1 wrap_ciphertext_for_jsonb_def
        json_index_def json_get_obj is_string_def)
  show "test_encrypt_decrypt_roundtrip E w"
    using local_decrypt_generate [OF crypto gen(1)] decrypt_encrypt_trace [OF crypto b2]
    by (simp add: test_encrypt_decrypt_roundtrip_def run pt2 b2 extract_wrap [OF crypto])
qed

section \<open>The laws of the services together\<close>

text \<open>
  Services for which the assumptions hold: JSON texts are positions in the list of the
  values the tests store, a signature carries the message's first 64 bytes, and the clock stands.
\<close>

definition stood_at :: "nat \<Rightarrow> int" where
  "stood_at t = 1000000000000"

definition stored_values :: "json list" where
  "stored_values =
     [sample_original, backfill_plaintext, backfill_original]
     @ concat (map (\<lambda>tid. map (\<lambda>h. trace_value demo_crates
         (make_trace demo_crates 9 stood_at (make_db_snapshot tid stood_at) make_decision h)) encrypted_hashes) [7, 8])"

definition test_sign :: "byte list \<Rightarrow> byte list" where
  "test_sign m = take 64 (m @ replicate 64 0)"

definition test_crates :: crates where
  "test_crates = demo_crates\<lparr>
     json_to_vec := \<lambda>v. Inr (replicate (length (takeWhile (\<lambda>x. x \<noteq> v) stored_values)) 0),
     json_from_slice := \<lambda>bs. Inr (stored_values ! length bs),
     ed25519_verify := \<lambda>key m sig. key = replicate 32 1 \<and> sig = test_sign m\<rparr>"

definition test_env :: env where
  "test_env = demo_env\<lparr>env_crates := test_crates, env_clock := stood_at\<rparr>"

lemma nth_takeWhile: "v \<in> set xs \<Longrightarrow> xs ! length (takeWhile (\<lambda>x. x \<noteq> v) xs) = v"
  by (induction xs) auto

lemma test_json: "v \<in> set stored_values \<Longrightarrow> json_store_ok (env_crates test_env) v"
  by (simp add: json_store_ok_def test_env_def test_crates_def nth_takeWhile)

lemma test_trace_value:
  "trace_value (env_crates test_env) (make_trace (env_crates test_env) aid tm snap dec h)
     = trace_value demo_crates (make_trace demo_crates aid tm snap dec h)"
proof -
  have "show_trade_action (env_crates test_env) a = show_trade_action demo_crates a" for a
    by (cases a) (simp_all add: test_env_def test_crates_def)
  then have "make_trace (env_crates test_env) aid tm snap dec h = make_trace demo_crates aid tm snap dec h"
    by (simp add: make_trace_def)
  then show ?thesis
    by (simp add: trace_value_def bitemporal_value_def agent_block_value_def test_env_def test_crates_def)
qed

lemma test_ready: "tid \<in> {7, 8} \<Longrightarrow> db_ready test_env 9 stood_at tid"
proof -
  assume tid: "tid \<in> {7, 8}"
  have "json_store_ok (env_crates test_env) (trace_value (env_crates test_env)
      (make_trace (env_crates test_env) 9 stood_at (make_db_snapshot tid stood_at) make_decision h))"
    if "h \<in> set encrypted_hashes" for h
    unfolding test_trace_value by (rule test_json) (use tid that in \<open>auto simp: stored_values_def\<close>)
  then show ?thesis
    by (simp add: db_ready_def stood_at_def) (simp add: test_env_def test_crates_def demo_simps demo_crates_def)
qed

lemma test_hex: "hex_ok (env_crates test_env)"
proof -
  have "hex_encode (env_crates test_env) = demo_hex_encode" "hex_decode (env_crates test_env) = demo_hex_decode"
    by (simp_all add: test_env_def test_crates_def demo_crates_def)
  then show ?thesis unfolding hex_ok_def using demo_hex_roundtrip demo_hex_digits demo_hex_pairs by auto
qed

lemma test_cipher: "cipher_ok test_env"
proof -
  have "crypto_ok test_env"
    by (auto simp: crypto_ok_def test_env_def test_crates_def demo_env_def demo_crates_def demo_hex_roundtrip)
  then show ?thesis
    by (simp add: cipher_ok_def) (simp add: test_env_def test_crates_def demo_crates_def demo_hex_encode_def)
qed

lemma service_test_laws_satisfiable:
  "cipher_ok test_env" "hex_ok (env_crates test_env)"
  "\<forall>v \<in> {sample_original, backfill_plaintext, backfill_original}. json_store_ok (env_crates test_env) v"
  "signer_ok (env_crates test_env) test_sign (replicate 32 1) []"
  "clock_near test_env 1000000000" "mono (env_clock test_env)"
  "\<forall>t. epoch_secs (env_clock test_env t) = epoch_secs 1000000000000"
  "db_ready test_env 9 stood_at 7" "db_ready test_env 9 stood_at 8"
  "material_ok demo_rustls [] [] []"
proof -
  show "cipher_ok test_env" "hex_ok (env_crates test_env)" by (rule test_cipher, rule test_hex)
  show "\<forall>v \<in> {sample_original, backfill_plaintext, backfill_original}. json_store_ok (env_crates test_env) v"
    by (simp add: test_json stored_values_def)
  show "signer_ok (env_crates test_env) test_sign (replicate 32 1) []"
    by (auto simp: signer_ok_def test_env_def test_crates_def test_sign_def min_def)
  show "clock_near test_env 1000000000" "mono (env_clock test_env)"
    "\<forall>t. epoch_secs (env_clock test_env t) = epoch_secs 1000000000000"
    by (simp_all add: clock_near_def test_env_def stood_at_def mono_def)
  show "material_ok demo_rustls [] [] []" by (simp add: material_ok_def demo_rustls_def)
  show "db_ready test_env 9 stood_at 7" "db_ready test_env 9 stood_at 8" by (simp_all add: test_ready)
qed

end
