(* ===== verification/Irl_Integration.thy ===== *)
theory Irl_Integration
  imports Irl_Tests_Io Irl_Router
begin

text \<open>
  What the router answers to the requests of \<open>tests/integration.rs\<close> that never reach the
  engine behind it, or whose expectation the code does not meet: the test application holds
  one token of the environment, which the token manager stores with the role of a client.
\<close>

section \<open>The test application\<close>

definition TEST_TOKEN :: string where
  "TEST_TOKEN = ''integration-test-token''"

definition integration_cfg :: "string \<Rightarrow> config" where
  "integration_cfg db_url = (make_cfg (replicate 32 0))
     \<lparr>cfg_database_url := db_url, cfg_irl_api_tokens := [TEST_TOKEN], cfg_layer2_enabled := False,
      cfg_rate_limit_per_second := 0\<rparr>"

definition build_test_app :: "env \<Rightarrow> string \<Rightarrow> key_provider option \<Rightarrow> app_state io" where
  "build_test_app E db_url kp =
     (let cfg = integration_cfg db_url in
      bindE (heartbeat_validator_new E cfg) (\<lambda>validator.
      bindE (shadow_new E False) (\<lambda>_.
      bindE (token_manager_new E (cfg_irl_api_tokens cfg)) (\<lambda>_.
      ret \<lparr>st_config = cfg, st_has_readonly = False, st_validator = validator, st_mta_client = MockMta,
           st_key_provider = kp, st_cert_expiry_not_after = None, st_aliases = no_aliases\<rparr>))))"

definition test_request :: "string option \<Rightarrow> api_call \<Rightarrow> http_request" where
  "test_request authorization call =
     \<lparr>rq_authorization = authorization, rq_peer_cert = [], rq_connect_info = None, rq_call = call\<rparr>"

definition auth_header :: "string option" where
  "auth_header = Some (''Bearer '' @ TEST_TOKEN)"

definition status_is :: "nat \<Rightarrow> (nat \<times> json) option \<times> world \<Rightarrow> bool" where
  "status_is s r = (case fst r of None \<Rightarrow> False | Some (t, body) \<Rightarrow> t = s)"

definition health_returns_ok :: "env \<Rightarrow> x509 \<Rightarrow> app_state \<Rightarrow> world \<Rightarrow> bool" where
  "health_returns_ok E parse st w = status_is 200 (serve E parse st (test_request None CallHealth) w)"

definition unauthorized_request_is_rejected :: "env \<Rightarrow> x509 \<Rightarrow> app_state \<Rightarrow> world \<Rightarrow> bool" where
  "unauthorized_request_is_rejected E parse st w = status_is 401 (serve E parse st (test_request None CallListAgents) w)"

definition audit_log_endpoint_requires_auth :: "env \<Rightarrow> x509 \<Rightarrow> app_state \<Rightarrow> audit_log_query \<Rightarrow> world \<Rightarrow> bool" where
  "audit_log_endpoint_requires_auth E parse st q w =
     status_is 401 (serve E parse st (test_request None (CallAuditLog q)) w)"

definition shadow_mode_get_returns_current_state :: "env \<Rightarrow> x509 \<Rightarrow> app_state \<Rightarrow> world \<Rightarrow> bool" where
  "shadow_mode_get_returns_current_state E parse st w =
     (let r = serve E parse st (test_request auth_header CallShadowModeGet) w in status_is 200 r \<or> status_is 403 r)"

section \<open>Answers\<close>

lemma test_bearer: "extract_bearer auth_header = Inr TEST_TOKEN" "extract_bearer None = Inl Unauthorized"
  by (simp_all add: auth_header_def TEST_TOKEN_def extract_bearer_def header_to_str_def strip_prefix_def starts_with_def)

lemma public_tests_hold:
  assumes "\<not> cfg_mtls_enabled (st_config st)"
  shows "health_returns_ok E parse st w" "unauthorized_request_is_rejected E parse st w"
    "audit_log_endpoint_requires_auth E parse st q w"
  using assms
  by (simp_all add: health_returns_ok_def unauthorized_request_is_rejected_def audit_log_endpoint_requires_auth_def
      status_is_def serve_def handle_request_def test_request_def is_public_def Let_def bindE_def require_bearer_def
      test_bearer io_simps ok_json_def health_def into_response_def)

text \<open>On a protected route a client of the admin routes is turned away, whatever it asks for.\<close>

lemma client_is_forbidden:
  assumes "is_admin call" and "is_valid (env_crates E) w TEST_TOKEN" and "cfg_rate_limit_per_second (st_config st) = 0"
    and "token_role (env_crates E) (w_db w) TEST_TOKEN \<noteq> Some ''owner''"
  shows "fst (serve E parse st (test_request auth_header call) w) = Some (into_response (env_crates E) Forbidden)"
proof -
  obtain who w1 where b: "require_bearer E 0 auth_header None w = (Inr who, w1)"
  proof -
    obtain w1 where "bump_last_used E TEST_TOKEN w = (Inr (), w1)" using bump_ok by blast
    then show thesis using that assms(2) by (simp add: require_bearer_def bindE_def test_bearer io_simps rate_check_def)
  qed
  have "unstamped (w_db w1) = unstamped (w_db w)" using keepsD [OF keeps_require_bearer b] by (simp add: untouched_def)
  then have "token_role (env_crates E) (w_db w1) TEST_TOKEN \<noteq> Some ''owner''" using assms(4) token_role_untouched by metis
  then have "fst (require_owner E auth_header w1) = Inl (App Forbidden)"
    by (auto simp: require_owner_def get_token_role_def token_role_def bindE_def test_bearer io_simps attempt_def sql_read_def
        sql_def Let_def split: option.splits)
  then obtain w2 where "require_owner E auth_header w1 = (Inl (App Forbidden), w2)" by (metis prod.collapse)
  moreover have "\<not> is_public call" using assms(1) by (auto simp: is_public_def)
  ultimately show ?thesis
    using assms(1,3) b by (simp add: serve_def handle_request_def test_request_def Let_def bindE_def io_simps)
qed

text \<open>The application holds its token as a client, unless the table already knew it.\<close>

lemma keeps_tokens_before: "keeps (\<lambda>w w'. d_tokens (w_db w') = d_tokens (w_db w)) (heartbeat_validator_new E cfg)"
  "keeps (\<lambda>w w'. d_tokens (w_db w') = d_tokens (w_db w)) (shadow_new E b)"
  by (auto simp: keeps_def heartbeat_validator_new_def shadow_new_def bindE_def attempt_def sql_read_def sql_def Let_def
      io_simps split: option.splits)

lemma find_last: "\<forall>x \<in> set xs. \<not> P x \<Longrightarrow> P r \<Longrightarrow> find P (xs @ [r]) = Some r"
  by (induction xs) auto

lemma test_app_is_client:
  assumes "build_test_app E db_url kp w = (Inr st, w')"
    and "sha256_hex (env_crates E) TEST_TOKEN \<notin> to_token_hash ` set (d_tokens (w_db w))"
  shows "token_role (env_crates E) (w_db w') TEST_TOKEN = Some ''client'' \<and> is_valid (env_crates E) w' TEST_TOKEN
    \<and> cfg_rate_limit_per_second (st_config st) = 0 \<and> \<not> cfg_mtls_enabled (st_config st)"
proof -
  let ?h = "sha256_hex (env_crates E) TEST_TOKEN"
  obtain v u1 u2 where 1: "heartbeat_validator_new E (integration_cfg db_url) w = (Inr v, u1)"
    and 2: "shadow_new E False u1 = (Inr (), u2)" and 3: "token_manager_new E [TEST_TOKEN] u2 = (Inr (), w')"
    and st: "st_config st = integration_cfg db_url"
    using assms(1) by (auto simp: build_test_app_def Let_def bindE_Inr_iff io_simps integration_cfg_def)
  have same: "d_tokens (w_db u2) = d_tokens (w_db w)"
    using keepsD [OF keeps_tokens_before(1) 1] keepsD [OF keeps_tokens_before(2) 2] by simp
  have fresh: "\<not> list_ex (\<lambda>t. to_token_hash t = ?h) (d_tokens (w_db w))"
    using assms(2) by (metis (mono_tags, lifting) image_eqI list_ex_iff)
  define r where "r = \<lparr>to_token_id = env_uuid E (w_tick u2), to_token_hash = ?h, to_client_name = ''env-loaded'',
    to_created_at = env_clock E (Suc (w_tick u2)), to_last_used_at = None, to_status = ''active'', to_source = ''env'',
    to_role = ''client''\<rparr>"
  have r: "to_token_hash r = ?h" "to_status r = ''active''" "to_role r = ''client''" by (simp_all add: r_def)
  have toks: "d_tokens (w_db w') = d_tokens (w_db w) @ [r]" and cache: "w_token_cache w' = active_hashes (w_db w')"
    using 3 fresh same
    by (auto simp: token_manager_new_def sync_token_def refresh_cache_def bindE_Inr_iff io_simps sql_ok_iff sql_read_ok_iff
        insert_env_token_def r_def)
  have "find (\<lambda>t. to_token_hash t = ?h \<and> to_status t = ''active'') (d_tokens (w_db w) @ [r]) = Some r"
    using fresh r by (intro find_last) (auto simp: list_ex_iff)
  then show ?thesis using r toks cache st
    by (auto simp: token_role_def is_valid_def active_hashes_def integration_cfg_def make_cfg_def)
qed

text \<open>
  The erasure tests expect 200, and 500 without a key provider; the application they build
  answers 403 to either, and so the requests of the last two tests find no erased trace and no audit row.
\<close>

lemma gdpr_tests_forbidden:
  assumes "build_test_app E db_url kp w = (Inr st, w')"
    and "sha256_hex (env_crates E) TEST_TOKEN \<notin> to_token_hash ` set (d_tokens (w_db w))"
  shows "status_is 403 (serve E parse st (test_request auth_header (CallGdprErase agent_id)) w')"
proof -
  have "fst (serve E parse st (test_request auth_header (CallGdprErase agent_id)) w')
      = Some (into_response (env_crates E) Forbidden)"
    using test_app_is_client [OF assms] by (intro client_is_forbidden) simp_all
  then show ?thesis by (simp add: status_is_def into_response_def)
qed

lemma shadow_mode_test_holds:
  assumes "build_test_app E db_url kp w = (Inr st, w')"
    and "sha256_hex (env_crates E) TEST_TOKEN \<notin> to_token_hash ` set (d_tokens (w_db w))"
  shows "shadow_mode_get_returns_current_state E parse st w'"
proof -
  have "fst (serve E parse st (test_request auth_header CallShadowModeGet) w') = Some (into_response (env_crates E) Forbidden)"
    using test_app_is_client [OF assms] by (intro client_is_forbidden) simp_all
  then show ?thesis by (simp add: shadow_mode_get_returns_current_state_def status_is_def into_response_def Let_def)
qed

text \<open>
  The audit test counts the rows with the action \<open>agent.register\<close>. No request writes one, a
  registration included, so the count is zero where it was.
\<close>

definition audit_count :: "string \<Rightarrow> world \<Rightarrow> nat" where
  "audit_count action w = length (filter (\<lambda>r. au_action r = action) (d_audit (w_db w)))"

lemma no_dotted_action: "audit_action_as_str act \<noteq> ''agent.register''"
  by (cases act) simp_all

lemma audit_test_counts_nothing:
  assumes "serve E parse st rq w = (resp, w')"
  shows "audit_count ''agent.register'' w' = audit_count ''agent.register'' w"
proof -
  obtain res where run: "handle_request E parse st rq w = (res, w')"
    using assms by (auto simp: serve_def split: prod.splits sum.splits failure.splits)
  show ?thesis
    using handle_audit [OF run] no_dotted_action
    by (cases res) (auto simp: audit_count_def split: option.splits)
qed

end
