(* ===== verification/Spec2Isabelle.thy ===== *)
theory Spec2Isabelle
  imports Irl_System Irl_Tls Irl_Lifecycle Irl_Position Irl_Monitor Irl_Api Irl_Faults Irl_Evidence
    Irl_Retention Irl_Tests_Db Irl_Integration
begin

text \<open>
  The IRL engine, an authorization gateway for trading agents, as a library of theories.

  \<^bold>\<open>The program.\<close> An agent asks \<open>POST /irl/authorize\<close> before it trades. The engine validates the
  agent's signed heartbeat, fetches the signed market regime of the Market Truth Anchor, checks the
  agent against the registry and the order against the policy of the regime, seals a snapshot of
  the decision (canonical JSON under SHA-256) and stores it as a PENDING trace under the portfolio
  cap of the agent. The venue's report is bound to the trace by \<open>POST /irl/bind-execution\<close>, which
  reconciles report and intent and moves the position ledger; a worker expires stale traces, another
  anchors the seals of a period in a Merkle root with an OpenTimestamps receipt. Traces can be stored
  encrypted under envelope keys. Operators manage agents, tokens, the shadow mode and erasure
  requests through audited routes behind bearer tokens and a rate limiter.

  \<^bold>\<open>How the code is modelled.\<close> Structs are records, enums datatypes, \<open>u64\<close> and its kin words, SQL
  \<open>NUMERIC\<close> rationals, \<open>f64\<close> a datatype of rationals with IEEE rounding, infinities and NaN
  (\<open>Irl_Float\<close>), Rust strings lists of UTF-8 bytes. The tables of the migrations are lists of rows
  in a record \<open>database\<close>; the database, the caches of \<open>AppState\<close>, the metrics and a counter of effects
  form the record \<open>world\<close>. A handler is a function from worlds to a result (an \<open>AppError\<close>, a panic or a value)
  and the next world; \<open>?\<close> is \<open>bindE\<close>. The outside world (clocks, entropy, network, key services,
  faults of the database) answers as a function of the counter, so a statement that holds for every
  \<open>env\<close> holds for every sequence of answers. Code of third-party crates (SHA-256, Ed25519, AES-GCM,
  base64, serde, X.509, float display and PostgreSQL's numeric casts) is the record \<open>crates\<close> or a
  parameter; what a theorem needs of it is a named hypothesis with a concrete instance.

  \<^bold>\<open>Theories.\<close>
  \<^item> \<open>Irl_Prelude\<close>, \<open>Irl_Float\<close>, \<open>Irl_Text\<close>, \<open>Irl_Externals\<close>: integers and bytes, results, binary64
    arithmetic, the string functions used, JSON and the crates.
  \<^item> \<open>Irl_Errors\<close> (\<open>errors.rs\<close>), \<open>Irl_Snapshot\<close> (\<open>snapshot.rs\<close>), \<open>Irl_Seal\<close> (\<open>seal.rs\<close>), \<open>Irl_Policy\<close>
    (\<open>policy.rs\<close>): the pure core. The canonical text determines the snapshot, an order passes exactly
    under the stated conditions, and rounding never lets an order above the agent cap pass.
  \<^item> \<open>Irl_World\<close> (\<open>config.rs\<close> types, \<open>time.rs\<close>, migrations): state, effects, and the locale \<open>frame\<close>
    for what a computation leaves unchanged, interpreted for each frame the proofs use.
  \<^item> \<open>Irl_Encryption\<close> (\<open>encryption.rs\<close>, \<open>kms.rs\<close>): the locale \<open>envelope_keys\<close> is the contract of a
    key provider; it is interpreted on the three providers of the code.
  \<^item> \<open>Irl_Binding\<close> (\<open>asset.rs\<close>, \<open>binding.rs\<close>), \<open>Irl_Db\<close> (\<open>db.rs\<close>): reconciliation and the statements on
    traces and positions: atomicity of the capped insertion, storage round trip.
  \<^item> \<open>Irl_Mta\<close> (\<open>mta.rs\<close>), \<open>Irl_Registry\<close> (\<open>registry.rs\<close>), \<open>Irl_Heartbeat\<close> (\<open>heartbeat.rs\<close>): regimes
    are authentic, carry the constraints of their number and are fresh, an agent is admitted exactly
    by its row, accepted heartbeat sequences increase and survive a restart whose load succeeds.
  \<^item> \<open>Irl_Authorize\<close> (\<open>routes/authorize.rs\<close>): the handler in its stages, and what success and refusal
    mean end to end.
  \<^item> \<open>Irl_Bind\<close> (\<open>routes/bind.rs\<close>, \<open>verifier.rs\<close>): binding and expiry; the requests as a step
    relation, serial and with the reads and writes of concurrent bindings interleaved.
  \<^item> \<open>Irl_Metrics\<close> (\<open>metrics.rs\<close>, its endpoint and the landing page), \<open>Irl_Monitor\<close>: the Prometheus counters,
    updated by the handlers, and their agreement with the trace table.
  \<^item> \<open>Irl_Lifecycle\<close>: the trace table as a refinement of an abstract ledger that only opens entries,
    binds open ones and lets open ones lapse.
  \<^item> \<open>Irl_Merkle\<close> (\<open>merkle.rs\<close>): the loop against the tree defined from the top, binding of the root,
    anchoring and receipt cycles.
  \<^item> \<open>Irl_Auth\<close> (\<open>rate_limit.rs\<close>, \<open>token_manager.rs\<close>, \<open>auth.rs\<close>, \<open>middleware/client_cert.rs\<close>),
    \<open>Irl_Admin\<close> (\<open>audit.rs\<close>, \<open>shadow_mode.rs\<close>, \<open>tls/expiry.rs\<close>, the management and query routes).
  \<^item> \<open>Irl_Rewrite\<close>: the locale \<open>keyed_rewrite\<close> for jobs that rewrite rows by key, interpreted on
    \<open>Irl_Gdpr\<close> (\<open>gdpr.rs\<close> and its handler) and \<open>Irl_Backfill\<close> (\<open>backfill.rs\<close>).
  \<^item> \<open>Irl_Router\<close> (\<open>build_router\<close> of \<open>lib.rs\<close>): every JSON route behind its middleware: the
    authentication gate and the completeness of the audit log.
  \<^item> \<open>Irl_Api\<close> (the routes of \<open>lib.rs\<close>, \<open>openapi.rs\<close>): the route table, matching of paths, the OpenAPI document
    with its schemas as data and how far the server keeps it.
  \<^item> \<open>Irl_Start\<close> (\<open>Config::from_env\<close>, \<open>main.rs\<close>): configuration, subcommand, and what a restart
    restores.
  \<^item> \<open>Irl_Tls\<close> (\<open>tls/config.rs\<close>, \<open>tls/cert_watch.rs\<close>, \<open>tls/dev_certs.rs\<close>, the listener of \<open>main.rs\<close>): certificates, client
    policy and hot reload.
  \<^item> \<open>Irl_Position\<close> (the position ledger of \<open>routes/bind.rs\<close> and \<open>db.rs\<close>): which fills move which
    position, and what a fault between the two statements leaves behind.
  \<^item> \<open>Irl_Faults\<close>: heartbeats in concurrent requests and a revocation whose cache refresh fails.
  \<^item> \<open>Irl_Tables\<close>, \<open>Irl_System\<close>: the database as an abstract transition system of keyed tables (locale
    \<open>keyed_table\<close>, interpreted on eight tables), and the engine, requests, workers other than the
    partition maintenance, starts and subcommands, as a refinement of it. The constraints of the
    migrations and the permanence of what is recorded are invariants of every such run.
  \<^item> \<open>Irl_Evidence\<close> (\<open>bin/evidence_export.rs\<close>): the audit, key and decision reports of a period; the
    reports read back as the rows they were made from and count each trace once.
  \<^item> \<open>Irl_Retention\<close> (the daily maintenance task of \<open>main.rs\<close>): the engine together with the partition
    maintenance of \<open>pg_partman\<close>, and what stays of a trace within the configured retention.
  \<^item> \<open>Irl_Tests\<close>, \<open>Irl_Tests_Io\<close>, \<open>Irl_Tests_Db\<close> (the test modules of the sources): each unit and
    integration test as a boolean over the model, proved for all clocks, identifiers and crates that
    do what the test takes for granted. These lemmas are a regression suite: they pin the model to
    the expectations the authors wrote down, at the inputs they chose; the client a test brings of
    its own interprets the contract of the regime clients.
  \<^item> \<open>Irl_Integration\<close> (\<open>tests/integration.rs\<close>): the test application, the requests the router decides by
    itself, and two expectations of the integration tests that the code does not meet.

  \<^bold>\<open>Bounds and fuel.\<close> The Merkle loop is a terminating function of the number of nodes. The batch
  loops of the erasure and of the backfill carry fuel, one more than there are rows; running out of
  it is a value of its own, and the theorems on both jobs show that it is never returned. Row
  counts and offsets are natural numbers: \<open>i64\<close> counters wrap beyond any table. The number of leaves
  of an anchor is cast to \<open>i32\<close> as in the source.

  \<^bold>\<open>Assumptions.\<close> Requests run one after the other, except in \<open>Irl_Bind\<close>. A statement is atomic and
  either fails without effect or commits; a commit whose answer is lost is not covered. The order in
  which the erasure and the anchoring scan rows of equal time is the server's, for each query anew
  (\<open>scan_order\<close>); the other queries read rows with equal sort keys in insertion order. A JSONB column
  gives back the value stored: PostgreSQL's normalisation of number literals is not modelled. Reads that may go to a replica read the primary tables. Tasks spawned to run in the background run
  at once. Requests are those whose path, query and body the extractors accept.

  \<^bold>\<open>Not modelled.\<close> Log output, latency values, the text of the built-in landing page and the Swagger
  user interface, the limit on body size, row locks between sessions, and the ZIP format of the
  evidence archive. Which partitions \<open>pg_partman\<close> drops is a parameter; \<open>Irl_System\<close> is the engine without
  its maintenance, so its statements on the permanence of traces are those of \<open>Irl_Retention\<close> for the
  traces the retention has not reached. Of the tests, those are left out that compare a value with
  itself, that test an atomic boolean or an inline copy of a match, or whose content is a property of the
  cipher, the entropy source or a certificate library.
\<close>

end
